(* ===== verification/Prelude.thy ===== *)
theory Prelude
  imports Main "HOL-Library.Word"
begin

text \<open>
  Shared vocabulary of the development: machine integers as words, byte slices with Rust's
  bounds rules, results with early return and panics, machine arithmetic in both build
  profiles, and the little-endian byte codec that every wire format of the program is made of.
\<close>

unbundle bit_operations_syntax

type_synonym u8 = "8 word"
type_synonym u16 = "16 word"
type_synonym u32 = "32 word"
type_synonym u64 = "64 word"
type_synonym u128 = "128 word"
type_synonym usize = "64 word"
type_synonym bytes = "u8 list"

text \<open>
  A \<open>[u8; 32]\<close> array is a 256-bit word: byte \<open>i\<close> of the array is bits \<open>8 i .. 8 i + 7\<close>, so the
  array's 32 bytes are \<open>le_bytes 32\<close> of the word and every word is exactly one array.
\<close>

type_synonym bytes32 = "256 word"
type_synonym pubkey = "256 word"

named_theorems res_simps \<open>what a successful or failing step of the result monad says\<close>
named_theorems slice_simps \<open>reading and writing ranges of a byte slice\<close>
named_theorems codec_simps \<open>byte codecs: lengths and round trips\<close>

subsection \<open>Results\<close>

text \<open>
  The errors a run can end with. \<open>program_error\<close> is the error enum of the Solana SDK (its
  constructors are the interface the handlers return through); a Rust panic is a separate
  outcome, because the source distinguishes \<open>unwrap\<close> and slice indexing from \<open>?\<close>.
\<close>

datatype program_error =
    Custom u32 | InvalidArgument | InvalidInstructionData | InvalidAccountData
  | AccountDataTooSmall | InsufficientFunds | IncorrectProgramId | MissingRequiredSignature
  | AccountAlreadyInitialized | UninitializedAccount | NotEnoughAccountKeys
  | AccountBorrowFailed | MaxSeedLengthExceeded | InvalidSeeds

datatype failure = Panic | Error program_error

type_synonym 'a res = "failure + 'a"

definition bind_res :: "'e + 'a \<Rightarrow> ('a \<Rightarrow> 'e + 'b) \<Rightarrow> 'e + 'b" where
  "bind_res m f = (case m of Inl e \<Rightarrow> Inl e | Inr x \<Rightarrow> f x)"

text \<open>\<open>e?\<close> on a library result, \<open>e.unwrap()\<close> on it, and \<open>opt.ok_or(err)?\<close>.\<close>

definition try_err :: "program_error + 'a \<Rightarrow> 'a res" where
  "try_err m = (case m of Inl e \<Rightarrow> Inl (Error e) | Inr x \<Rightarrow> Inr x)"

definition unwrap_res :: "'e + 'a \<Rightarrow> 'a res" where
  "unwrap_res m = (case m of Inl e \<Rightarrow> Inl Panic | Inr x \<Rightarrow> Inr x)"

definition ok_or :: "'a option \<Rightarrow> 'e \<Rightarrow> 'e + 'a" where
  "ok_or v e = (case v of None \<Rightarrow> Inl e | Some x \<Rightarrow> Inr x)"

lemma bind_res_simps [simp]:
  "bind_res (Inr x) f = f x"
  "bind_res (Inl e) f = Inl e"
  by (simp_all add: bind_res_def)

lemma bind_res_cong [fundef_cong]:
  "m = m' \<Longrightarrow> (\<And>x. m' = Inr x \<Longrightarrow> f x = g x) \<Longrightarrow> bind_res m f = bind_res m' g"
  by (auto simp: bind_res_def split: sum.splits)

lemma bind_res_Inr [res_simps]:
  "bind_res m f = Inr y \<longleftrightarrow> (\<exists>x. m = Inr x \<and> f x = Inr y)"
  by (cases m) auto

lemma bind_res_Inl:
  "bind_res m f = Inl e \<longleftrightarrow> m = Inl e \<or> (\<exists>x. m = Inr x \<and> f x = Inl e)"
  by (cases m) auto

lemma bind_res_assoc: "bind_res (bind_res m f) g = bind_res m (\<lambda>x. bind_res (f x) g)"
  by (cases m) auto

lemma if_Inl_Inr [res_simps]:
  "(if b then Inl e else k) = Inr y \<longleftrightarrow> \<not> b \<and> k = Inr y"
  by auto

lemma try_err_simps [simp]:
  "try_err (Inr x) = Inr x"
  "try_err (Inl e) = Inl (Error e)"
  by (simp_all add: try_err_def)

lemma unwrap_res_simps [simp]:
  "unwrap_res (Inr x) = Inr x"
  "unwrap_res (Inl e) = Inl Panic"
  by (simp_all add: unwrap_res_def)

lemma ok_or_simps [simp]:
  "ok_or (Some x) e = Inr x"
  "ok_or None e = Inl e"
  by (simp_all add: ok_or_def)

lemma try_err_Inr [res_simps]: "try_err m = Inr y \<longleftrightarrow> m = Inr y"
  by (cases m) auto

lemma unwrap_res_Inr [res_simps]: "unwrap_res m = Inr y \<longleftrightarrow> m = Inr y"
  by (cases m) auto

lemma ok_or_Inr [res_simps]: "ok_or v e = Inr y \<longleftrightarrow> v = Some y"
  by (cases v) auto

lemma if_False_Inl_Inr [res_simps]:
  "(if b then k else Inl e) = Inr y \<longleftrightarrow> b \<and> k = Inr y"
  by auto

subsection \<open>Machine arithmetic\<close>

text \<open>
  Unsigned \<open>+\<close>, \<open>-\<close>, \<open>*\<close> of Rust: exact when the result fits, otherwise a panic in a build with
  overflow checks (debug and test profiles, \<open>oc = True\<close>) and wrap-around in a release build
  (\<open>oc = False\<close>, the profile of the deployed program). Division panics on a zero divisor in
  both profiles.
\<close>

definition add_w :: "bool \<Rightarrow> 'a::len word \<Rightarrow> 'a word \<Rightarrow> 'a word res" where
  "add_w oc a b = (if oc \<and> 2 ^ LENGTH('a) \<le> unat a + unat b then Inl Panic else Inr (a + b))"

definition mul_w :: "bool \<Rightarrow> 'a::len word \<Rightarrow> 'a word \<Rightarrow> 'a word res" where
  "mul_w oc a b = (if oc \<and> 2 ^ LENGTH('a) \<le> unat a * unat b then Inl Panic else Inr (a * b))"

definition sub_w :: "bool \<Rightarrow> 'a::len word \<Rightarrow> 'a word \<Rightarrow> 'a word res" where
  "sub_w oc a b = (if oc \<and> a < b then Inl Panic else Inr (a - b))"

definition div_w :: "'a::len word \<Rightarrow> 'a word \<Rightarrow> 'a word res" where
  "div_w a b = (if b = 0 then Inl Panic else Inr (a div b))"

lemma add_w_fits [simp]:
  "unat (a :: 'a::len word) + unat b < 2 ^ LENGTH('a) \<Longrightarrow> add_w oc a b = Inr (a + b)"
  by (simp add: add_w_def)

lemma mul_w_fits [simp]:
  "unat (a :: 'a::len word) * unat b < 2 ^ LENGTH('a) \<Longrightarrow> mul_w oc a b = Inr (a * b)"
  by (simp add: mul_w_def)

lemma sub_w_fits [simp]: "b \<le> a \<Longrightarrow> sub_w oc a b = Inr (a - b)"
  by (simp add: sub_w_def not_less)

lemma div_w_nonzero [simp]: "b \<noteq> 0 \<Longrightarrow> div_w a b = Inr (a div b)"
  by (simp add: div_w_def)

lemma div_w_zero [simp]: "div_w a 0 = Inl Panic"
  by (simp add: div_w_def)

lemma unat_mul_fits:
  "unat (a :: 'a::len word) * unat b < 2 ^ LENGTH('a) \<Longrightarrow> unat (a * b) = unat a * unat b"
  by (simp add: unat_word_ariths)

lemma unat_add_fits:
  "unat (a :: 'a::len word) + unat b < 2 ^ LENGTH('a) \<Longrightarrow> unat (a + b) = unat a + unat b"
  by (simp add: unat_word_ariths)

text \<open>Widening a word keeps its value, narrowing it (\<open>as u64\<close>) keeps it modulo the width.\<close>

lemma unat_ucast_up [simp]: "LENGTH('a) \<le> LENGTH('b) \<Longrightarrow>
    unat (ucast (a :: 'a::len word) :: 'b::len word) = unat a"
  by (simp add: unsigned_ucast_eq take_bit_nat_eq_self_iff)
     (metis order_less_le_trans power_increasing_iff rel_simps(49) semiring_norm(76) unsigned_less)

lemma unat_ucast_down: "unat (ucast (a :: 'a::len word) :: 'b::len word) = unat a mod 2 ^ LENGTH('b)"
  by (simp add: unsigned_ucast_eq take_bit_eq_mod)

end
