(* ===== verification/Bytes.thy ===== *)
theory Bytes
  imports Prelude
begin

text \<open>
  Byte slices as Rust has them (checked \<open>get\<close>, panicking indexing, \<open>copy_from_slice\<close>) and the
  little-endian codec \<open>to_le_bytes\<close>/\<open>from_le_bytes\<close> of the integer types and of 32-byte arrays.
  The interface \<open>fixed_codec\<close> states what a fixed-width codec promises its users; it is
  interpreted on every codec the program reads or writes.
\<close>

subsection \<open>Ranges of a slice\<close>

definition slice_get :: "'a list \<Rightarrow> nat \<Rightarrow> nat \<Rightarrow> 'a list option" where
  "slice_get xs i j = (if i \<le> j \<and> j \<le> length xs then Some (take (j - i) (drop i xs)) else None)"

definition slice_idx :: "'a list \<Rightarrow> nat \<Rightarrow> nat \<Rightarrow> 'a list res" where
  "slice_idx xs i j = ok_or (slice_get xs i j) Panic"

definition slice_from :: "'a list \<Rightarrow> nat \<Rightarrow> 'a list res" where
  "slice_from xs i = (if i \<le> length xs then Inr (drop i xs) else Inl Panic)"

text \<open>\<open>xs[i..j].copy_from_slice(ys)\<close>: both the range and the lengths are checked.\<close>

definition copy_into :: "'a list \<Rightarrow> nat \<Rightarrow> nat \<Rightarrow> 'a list \<Rightarrow> 'a list res" where
  "copy_into xs i j ys =
     (if i \<le> j \<and> j \<le> length xs \<and> length ys = j - i
      then Inr (take i xs @ ys @ drop j xs) else Inl Panic)"

text \<open>A write \<open>f\<close> into the tail \<open>&mut xs[i..]\<close> and into the range \<open>&mut xs[i..j]\<close>.\<close>

definition in_tail :: "'a list \<Rightarrow> nat \<Rightarrow> ('a list \<Rightarrow> 'a list res) \<Rightarrow> 'a list res" where
  "in_tail xs i f =
     bind_res (slice_from xs i) (\<lambda>t. bind_res (f t) (\<lambda>t'. Inr (take i xs @ t')))"

definition in_range :: "'a list \<Rightarrow> nat \<Rightarrow> nat \<Rightarrow> ('a list \<Rightarrow> 'a list res) \<Rightarrow> 'a list res" where
  "in_range xs i j f =
     bind_res (slice_idx xs i j) (\<lambda>t. bind_res (f t) (\<lambda>t'. Inr (take i xs @ t' @ drop j xs)))"

lemma slice_get_Some [slice_simps]:
  "slice_get xs i j = Some ys \<longleftrightarrow> i \<le> j \<and> j \<le> length xs \<and> ys = take (j - i) (drop i xs)"
  by (auto simp: slice_get_def)

lemma slice_get_None: "slice_get xs i j = None \<longleftrightarrow> \<not> (i \<le> j \<and> j \<le> length xs)"
  by (simp add: slice_get_def)

lemma length_slice_get: "slice_get xs i j = Some ys \<Longrightarrow> length ys = j - i"
  by (auto simp: slice_get_def split: if_splits)

lemma slice_get_full [slice_simps]: "j = length xs \<Longrightarrow> slice_get xs 0 j = Some xs"
  by (simp add: slice_get_def)

lemma slice_get_skip [slice_simps]:
  "length xs \<le> i \<Longrightarrow> i \<le> j \<Longrightarrow>
    slice_get (xs @ ys) i j = slice_get ys (i - length xs) (j - length xs)"
  by (auto simp: slice_get_def)

lemma slice_get_Cons [slice_simps]:
  "0 < i \<Longrightarrow> i \<le> j \<Longrightarrow> slice_get (x # xs) i j = slice_get xs (i - 1) (j - 1)"
  by (cases i; cases j) (auto simp: slice_get_def)

lemma slice_get_prefix [slice_simps]:
  "j \<le> length xs \<Longrightarrow> slice_get (xs @ ys) i j = slice_get xs i j"
  by (auto simp: slice_get_def)

lemma slice_get_ok: "i \<le> j \<Longrightarrow> j \<le> length xs \<Longrightarrow> slice_get xs i j = Some (take (j - i) (drop i xs))"
  by (simp add: slice_get_def)

lemma slice_idx_ok: "i \<le> j \<Longrightarrow> j \<le> length xs \<Longrightarrow> slice_idx xs i j = Inr (take (j - i) (drop i xs))"
  by (simp add: slice_idx_def slice_get_def)

lemma slice_idx_panic: "\<not> (i \<le> j \<and> j \<le> length xs) \<Longrightarrow> slice_idx xs i j = Inl Panic"
  by (auto simp: slice_idx_def slice_get_def)

lemma slice_idx_Inr [res_simps]:
  "slice_idx xs i j = Inr ys \<longleftrightarrow> i \<le> j \<and> j \<le> length xs \<and> ys = take (j - i) (drop i xs)"
  by (auto simp: slice_idx_def res_simps slice_simps)

lemma slice_from_Inr [res_simps]:
  "slice_from xs i = Inr ys \<longleftrightarrow> i \<le> length xs \<and> ys = drop i xs"
  by (auto simp: slice_from_def)

lemma copy_into_Inr [res_simps]:
  "copy_into xs i j ys = Inr zs \<longleftrightarrow>
    i \<le> j \<and> j \<le> length xs \<and> length ys = j - i \<and> zs = take i xs @ ys @ drop j xs"
  by (auto simp: copy_into_def)

lemma in_tail_Inr [res_simps]:
  "in_tail xs i f = Inr zs \<longleftrightarrow>
    i \<le> length xs \<and> (\<exists>t'. f (drop i xs) = Inr t' \<and> zs = take i xs @ t')"
  by (auto simp: in_tail_def res_simps)

lemma in_range_Inr [res_simps]:
  "in_range xs i j f = Inr zs \<longleftrightarrow> i \<le> j \<and> j \<le> length xs \<and>
    (\<exists>t'. f (take (j - i) (drop i xs)) = Inr t' \<and> zs = take i xs @ t' @ drop j xs)"
  by (auto simp: in_range_def res_simps)

subsection \<open>Little-endian integers\<close>

primrec le_bytes :: "nat \<Rightarrow> 'a::len word \<Rightarrow> bytes" where
  "le_bytes 0 w = []"
| "le_bytes (Suc n) w = ucast w # le_bytes n (drop_bit 8 w)"

primrec from_le :: "bytes \<Rightarrow> 'a::len word" where
  "from_le [] = 0"
| "from_le (b # bs) = ucast b OR push_bit 8 (from_le bs)"

lemma length_le_bytes [simp, codec_simps]: "length (le_bytes n w) = n"
  by (induction n arbitrary: w) auto

lemma bit_from_le:
  "bit (from_le bs :: 'a::len word) k \<longleftrightarrow>
    k < LENGTH('a) \<and> k div 8 < length bs \<and> bit (bs ! (k div 8)) (k mod 8)"
proof (induction bs arbitrary: k)
  case Nil
  then show ?case by simp
next
  case (Cons b bs)
  show ?case
  proof (cases "k < 8")
    case True
    then show ?thesis by (auto simp: bit_simps)
  next
    case False
    then have "\<not> bit b k" by (auto dest: bit_imp_le_length)
    moreover have "k div 8 = Suc ((k - 8) div 8)" "k mod 8 = (k - 8) mod 8"
      using False by (simp_all add: le_div_geq le_mod_geq)
    ultimately show ?thesis using False Cons.IH[of "k - 8"]
      by (auto simp: bit_simps)
  qed
qed

lemma nth_le_bytes: "i < n \<Longrightarrow> le_bytes n w ! i = ucast (drop_bit (8 * i) w)"
proof (induction n arbitrary: i w)
  case (Suc n)
  then show ?case by (cases i) (simp_all add: drop_bit_drop_bit add.commute)
qed simp

lemma from_le_bytes:
  assumes "LENGTH('a) \<le> 8 * n"
  shows "from_le (le_bytes n w) = (w :: 'a::len word)"
proof (rule bit_word_eqI)
  fix k assume k: "k < LENGTH('a)"
  with assms have "k div 8 < n" by linarith
  with k show "bit (from_le (le_bytes n w) :: 'a word) k = bit w k"
    by (simp add: bit_from_le nth_le_bytes bit_simps)
qed

lemma le_bytes_from_le:
  assumes "length bs = n" "8 * n \<le> LENGTH('a)"
  shows "le_bytes n (from_le bs :: 'a::len word) = bs"
proof (rule nth_equalityI)
  fix i assume "i < length (le_bytes n (from_le bs :: 'a word))"
  then have i: "i < n" by simp
  show "le_bytes n (from_le bs :: 'a word) ! i = bs ! i"
  proof (rule bit_word_eqI)
    fix k assume k: "k < LENGTH(8)"
    then have "(8 * i + k) div 8 = i" "(8 * i + k) mod 8 = k" by simp_all
    moreover have "8 * i + k < LENGTH('a)" using i k assms(2) by simp
    ultimately show "bit (le_bytes n (from_le bs :: 'a word) ! i) k = bit (bs ! i) k"
      using i k assms(1) by (simp add: nth_le_bytes bit_simps bit_from_le)
  qed
qed (simp add: assms)

subsection \<open>What a fixed-width codec promises\<close>

locale fixed_codec =
  fixes enc :: "'v \<Rightarrow> bytes" and dec :: "bytes \<Rightarrow> 'v" and n :: nat
  assumes length_enc: "length (enc v) = n"
    and dec_enc: "dec (enc v) = v"
    and enc_dec: "length bs = n \<Longrightarrow> enc (dec bs) = bs"
begin

lemma enc_inject: "enc u = enc v \<longleftrightarrow> u = v"
  by (metis dec_enc)

text \<open>Reading back a field from anywhere inside a larger buffer.\<close>

lemma read_back: "length pre = i \<Longrightarrow>
    map_option dec (slice_get (pre @ enc v @ post) i (i + n)) = Some v"
  by (simp add: slice_get_def length_enc dec_enc)

text \<open>What was read is what re-encoding writes: a field has one encoding.\<close>

lemma read_canonical: "slice_get bs i (i + n) = Some s \<Longrightarrow> enc (dec s) = s"
  by (drule length_slice_get) (simp add: enc_dec)

text \<open>Sequences of fields: the concatenation determines the values.\<close>

lemma length_concat_enc: "length (concat (map enc vs)) = n * length vs"
  by (induction vs) (simp_all add: length_enc)

lemma nth_concat_enc:
  "i < length vs \<Longrightarrow> slice_get (concat (map enc vs)) (n * i) (n * i + n) = Some (enc (vs ! i))"
proof (induction vs arbitrary: i)
  case (Cons v vs)
  show ?case
  proof (cases i)
    case 0
    then show ?thesis by (simp add: slice_get_def length_enc)
  next
    case (Suc k)
    with Cons.prems have "k < length vs" by simp
    with Cons.IH[of k] Suc show ?thesis
      by (simp add: slice_simps length_enc)
  qed
qed simp

lemma read_nth: "i < length vs \<Longrightarrow>
    map_option dec (slice_get (concat (map enc vs) @ post) (n * i) (n * i + n)) = Some (vs ! i)"
proof -
  assume i: "i < length vs"
  then have "n * i + n \<le> n * length vs" by (metis Suc_leI mult_Suc_right mult_le_mono2 add.commute)
  then have "slice_get (concat (map enc vs) @ post) (n * i) (n * i + n)
      = slice_get (concat (map enc vs)) (n * i) (n * i + n)"
    by (simp add: slice_get_prefix length_concat_enc)
  then show ?thesis using nth_concat_enc[OF i] by (simp add: dec_enc)
qed

lemma concat_enc_inject:
  "concat (map enc us) = concat (map enc vs) \<Longrightarrow> length us = length vs \<Longrightarrow> us = vs"
  by (rule nth_equalityI, assumption)
     (metis nth_concat_enc enc_inject option.inject)

end

interpretation c16: fixed_codec "le_bytes 2 :: u16 \<Rightarrow> bytes" from_le 2
  by unfold_locales (simp_all add: from_le_bytes le_bytes_from_le)

interpretation c32: fixed_codec "le_bytes 4 :: u32 \<Rightarrow> bytes" from_le 4
  by unfold_locales (simp_all add: from_le_bytes le_bytes_from_le)

interpretation c64: fixed_codec "le_bytes 8 :: u64 \<Rightarrow> bytes" from_le 8
  by unfold_locales (simp_all add: from_le_bytes le_bytes_from_le)

interpretation c128: fixed_codec "le_bytes 16 :: u128 \<Rightarrow> bytes" from_le 16
  by unfold_locales (simp_all add: from_le_bytes le_bytes_from_le)

interpretation c256: fixed_codec "le_bytes 32 :: bytes32 \<Rightarrow> bytes" from_le 32
  by unfold_locales (simp_all add: from_le_bytes le_bytes_from_le)

lemmas codec_roundtrips [codec_simps] =
  c16.dec_enc c32.dec_enc c64.dec_enc c128.dec_enc c256.dec_enc

lemmas codec_canonical =
  c16.enc_dec c32.enc_dec c64.enc_dec c128.enc_dec c256.enc_dec

text \<open>An array is all zero bytes exactly when its word is zero.\<close>

lemma le_bytes_zero: "le_bytes n (0 :: 'a::len word) = replicate n 0"
  by (induction n) simp_all

lemma from_le_zeros: "from_le (replicate n 0) = (0 :: 'a::len word)"
  by (induction n) simp_all

end
