(* ===== verification/Runtime.thy ===== *)
theory Runtime
  imports Bytes
begin

text \<open>
  What the program sees of the Solana runtime and of the crates it links: account handles over
  one shared store, and the record \<open>env\<close> of everything that is not code of the repository
  (address derivation, sysvar and token-account parsing, instruction builders of the system,
  token and Serum programs, and cross-program invocation). All of it is a parameter of the
  model; no law about it is built in. Also the program's own error enum (error.rs).
\<close>

subsection \<open>Accounts\<close>

text \<open>
  A handler gets a list of account handles. Two handles with one key share the account, as two
  \<open>AccountInfo\<close>s of a transaction share their \<open>RefCell\<close>: contents live in the store \<open>world\<close>,
  and a handle only carries the key and the flags of the instruction.
\<close>

record account =
  acc_owner :: pubkey
  acc_lamports :: u64
  acc_data :: bytes

type_synonym world = "pubkey \<Rightarrow> account"

record account_info =
  ai_key :: pubkey
  ai_signer :: bool
  ai_writable :: bool

definition data_of :: "world \<Rightarrow> account_info \<Rightarrow> bytes" where
  "data_of w a = acc_data (w (ai_key a))"

definition owner_of :: "world \<Rightarrow> account_info \<Rightarrow> pubkey" where
  "owner_of w a = acc_owner (w (ai_key a))"

definition set_data :: "world \<Rightarrow> account_info \<Rightarrow> bytes \<Rightarrow> world" where
  "set_data w a d = w(ai_key a := (w (ai_key a))\<lparr>acc_data := d\<rparr>)"

lemma set_data_simps [simp]:
  "set_data w a d (ai_key a) = (w (ai_key a))\<lparr>acc_data := d\<rparr>"
  "k \<noteq> ai_key a \<Longrightarrow> set_data w a d k = w k"
  "data_of (set_data w a d) a = d"
  "owner_of (set_data w a d) b = owner_of w b"
  "ai_key b \<noteq> ai_key a \<Longrightarrow> data_of (set_data w a d) b = data_of w b"
  by (auto simp: set_data_def data_of_def owner_of_def)

lemma set_data_set_data [simp]: "set_data (set_data w a d) a d' = set_data w a d'"
  by (auto simp: set_data_def)

text \<open>\<open>next_account_info\<close>, and the loop that collects \<open>n\<close> of them.\<close>

definition next_account_info :: "account_info list \<Rightarrow> (account_info \<times> account_info list) res" where
  "next_account_info it =
     (case it of [] \<Rightarrow> Inl (Error NotEnoughAccountKeys) | a # it' \<Rightarrow> Inr (a, it'))"

primrec next_account_infos :: "nat \<Rightarrow> account_info list \<Rightarrow> (account_info list \<times> account_info list) res" where
  "next_account_infos 0 it = Inr ([], it)"
| "next_account_infos (Suc n) it =
     bind_res (next_account_info it) (\<lambda>(a, it1).
     bind_res (next_account_infos n it1) (\<lambda>(as, it2). Inr (a # as, it2)))"

lemma next_account_info_simps [simp]:
  "next_account_info (a # it) = Inr (a, it)"
  "next_account_info [] = Inl (Error NotEnoughAccountKeys)"
  by (simp_all add: next_account_info_def)

lemma next_account_info_Inr [res_simps]:
  "next_account_info it = Inr (a, it') \<longleftrightarrow> it = a # it'"
  by (auto simp: next_account_info_def split: list.splits)

lemma next_account_infos_Inr [res_simps]:
  "next_account_infos n it = Inr (as, it') \<longleftrightarrow> it = as @ it' \<and> length as = n"
proof (induction n arbitrary: it as)
  case (Suc n)
  then show ?case by (cases as) (auto simp: res_simps split: prod.splits)
qed (auto simp: res_simps)

lemma next_account_infos_append [simp]:
  "length as = n \<Longrightarrow> next_account_infos n (as @ it) = Inr (as, it)"
  by (simp add: res_simps)

subsection \<open>Token accounts and instructions\<close>

text \<open>
  The fields the program reads of \<open>spl_token::state::Account\<close>; of \<open>Mint\<close> it reads the supply.
\<close>

record token_account =
  ta_mint :: pubkey
  ta_owner :: pubkey
  ta_amount :: u64
  ta_delegate :: "pubkey option"
  ta_close_authority :: "pubkey option"

record account_meta =
  am_key :: pubkey
  am_signer :: bool
  am_writable :: bool

record instruction =
  ix_program_id :: pubkey
  ix_accounts :: "account_meta list"
  ix_data :: bytes

datatype side = Bid | Ask
datatype order_type = Limit | ImmediateOrCancel | PostOnly
datatype self_trade_behavior = DecrementTake | CancelProvide | AbortTransaction

subsection \<open>The environment\<close>

text \<open>
  \<open>overflow_checks\<close> is the build profile. The instruction builders take the arguments of the
  crates' functions in their order (\<open>&[]\<close> signer lists as \<open>[]\<close>).
\<close>

record env =
  overflow_checks :: bool
  create_program_address :: "bytes list \<Rightarrow> pubkey \<Rightarrow> program_error + pubkey"
  get_associated_token_address :: "pubkey \<Rightarrow> pubkey \<Rightarrow> pubkey"
  pubkey_from_str :: "string \<Rightarrow> program_error + pubkey"
  spl_token_id :: pubkey
  mint_len :: usize
  rent_minimum_balance :: "pubkey \<Rightarrow> bytes \<Rightarrow> program_error + (usize \<Rightarrow> u64)"
  clock_unix_timestamp :: "pubkey \<Rightarrow> bytes \<Rightarrow> program_error + 64 word"
  token_account_unpack :: "bytes \<Rightarrow> program_error + token_account"
  mint_unpack_supply :: "bytes \<Rightarrow> program_error + u64"
  ix_create_account :: "pubkey \<Rightarrow> pubkey \<Rightarrow> u64 \<Rightarrow> u64 \<Rightarrow> pubkey \<Rightarrow> instruction"
  ix_initialize_mint :: "pubkey \<Rightarrow> pubkey \<Rightarrow> pubkey \<Rightarrow> pubkey option \<Rightarrow> u8 \<Rightarrow> program_error + instruction"
  ix_transfer :: "pubkey \<Rightarrow> pubkey \<Rightarrow> pubkey \<Rightarrow> pubkey \<Rightarrow> pubkey list \<Rightarrow> u64 \<Rightarrow> program_error + instruction"
  ix_mint_to :: "pubkey \<Rightarrow> pubkey \<Rightarrow> pubkey \<Rightarrow> pubkey \<Rightarrow> pubkey list \<Rightarrow> u64 \<Rightarrow> program_error + instruction"
  ix_burn :: "pubkey \<Rightarrow> pubkey \<Rightarrow> pubkey \<Rightarrow> pubkey \<Rightarrow> pubkey list \<Rightarrow> u64 \<Rightarrow> program_error + instruction"
  ix_settle_funds :: "pubkey \<Rightarrow> pubkey \<Rightarrow> pubkey \<Rightarrow> pubkey \<Rightarrow> pubkey \<Rightarrow> pubkey \<Rightarrow> pubkey \<Rightarrow>
    pubkey \<Rightarrow> pubkey \<Rightarrow> pubkey option \<Rightarrow> pubkey \<Rightarrow> program_error + instruction"
  ix_cancel_order :: "pubkey \<Rightarrow> pubkey \<Rightarrow> pubkey \<Rightarrow> pubkey \<Rightarrow> pubkey \<Rightarrow> pubkey \<Rightarrow> pubkey \<Rightarrow>
    side \<Rightarrow> u128 \<Rightarrow> program_error + instruction"
  cpi :: "instruction \<Rightarrow> account_info list \<Rightarrow> bytes list list \<Rightarrow> world \<Rightarrow> program_error + world"

text \<open>\<open>invoke_signed(&ix, infos, seeds)?\<close> and \<open>invoke\<close>, which signs with no seeds.\<close>

definition invoke_signed :: "env \<Rightarrow> instruction \<Rightarrow> account_info list \<Rightarrow> bytes list list \<Rightarrow> world \<Rightarrow> world res" where
  "invoke_signed e ix infos seeds w = try_err (cpi e ix infos seeds w)"

definition invoke :: "env \<Rightarrow> instruction \<Rightarrow> account_info list \<Rightarrow> world \<Rightarrow> world res" where
  "invoke e ix infos w = invoke_signed e ix infos [] w"

definition unpack_token_account :: "env \<Rightarrow> world \<Rightarrow> account_info \<Rightarrow> token_account res" where
  "unpack_token_account e w a = try_err (token_account_unpack e (data_of w a))"

definition unpack_mint_supply :: "env \<Rightarrow> world \<Rightarrow> account_info \<Rightarrow> u64 res" where
  "unpack_mint_supply e w a = try_err (mint_unpack_supply e (data_of w a))"

definition clock_of :: "env \<Rightarrow> world \<Rightarrow> account_info \<Rightarrow> u64 res" where
  "clock_of e w a = try_err (clock_unix_timestamp e (ai_key a) (data_of w a))"

text \<open>
  The seeds \<open>&[&pool_seed]\<close> and \<open>&[&pool_seed, &[1]]\<close> of the pool account and of its mint, as
  \<open>create_program_address\<close> takes them.
\<close>

definition pool_seeds :: "bytes32 \<Rightarrow> bytes list" where
  "pool_seeds s = [le_bytes 32 s]"

definition mint_seeds :: "bytes32 \<Rightarrow> bytes list" where
  "mint_seeds s = [le_bytes 32 s, [1]]"

subsection \<open>Errors of the program\<close>

datatype bonfida_bot_error =
  InvalidInstruction | Overflow | LockedOperation | NotEnoughFIDA | OperationTooSmall

fun error_code :: "bonfida_bot_error \<Rightarrow> u32" where
  "error_code InvalidInstruction = 0"
| "error_code Overflow = 1"
| "error_code LockedOperation = 2"
| "error_code NotEnoughFIDA = 3"
| "error_code OperationTooSmall = 4"

definition program_error_of :: "bonfida_bot_error \<Rightarrow> program_error" where
  "program_error_of err = Custom (error_code err)"

abbreviation bot_err :: "bonfida_bot_error \<Rightarrow> failure" where
  "bot_err err \<equiv> Error (program_error_of err)"

lemma error_code_inject [simp]: "error_code a = error_code b \<longleftrightarrow> a = b"
  by (cases a; cases b) simp_all

lemma program_error_of_inject: "program_error_of a = program_error_of b \<longleftrightarrow> a = b"
  by (simp add: program_error_of_def)

text \<open>The errors are ordered as their codes are.\<close>

instantiation bonfida_bot_error :: linorder
begin

definition less_eq_bonfida_bot_error :: "bonfida_bot_error \<Rightarrow> bonfida_bot_error \<Rightarrow> bool" where
  "less_eq_bonfida_bot_error a b \<longleftrightarrow> error_code a \<le> error_code b"

definition less_bonfida_bot_error :: "bonfida_bot_error \<Rightarrow> bonfida_bot_error \<Rightarrow> bool" where
  "less_bonfida_bot_error a b \<longleftrightarrow> error_code a < error_code b"

instance
  by intro_classes (auto simp: less_eq_bonfida_bot_error_def less_bonfida_bot_error_def order_less_le)

end

end
