(* ===== verification/Instruction.thy ===== *)
theory Instruction
  imports Runtime
begin

text \<open>
  The instruction set of the program and its wire format (instruction.rs): the enum, the decoder
  \<open>unpack\<close> with its two failure modes (panic on a missing seed, InvalidInstruction elsewhere),
  the encoder \<open>pack\<close>, and the lemmas that each inverts the other.
\<close>

subsection \<open>The instructions\<close>

text \<open>
  Fields in the order of the enum's declaration. \<open>NonZeroU64\<close> and \<open>NonZeroU16\<close> (limit price and
  ratio of \<open>CreateOrder\<close>) are words that \<open>wf_instruction\<close> keeps nonzero; the market count of
  \<open>Create\<close> travels as a \<open>u16\<close>.
\<close>

datatype pool_instruction =
    Init bytes32 u32 u16
  | Create bytes32 u64 u16 "u64 list" "pubkey list"
  | Deposit bytes32 u64
  | CreateOrder bytes32 side u64 u16 order_type u64 self_trade_behavior u64 u64 u16 u64 u64 pubkey u16
  | CancelOrder bytes32 side u128
  | SettleFunds bytes32 u64 u64
  | Redeem bytes32 u64
  | CollectFees bytes32

fun wf_instruction :: "pool_instruction \<Rightarrow> bool" where
  "wf_instruction (Create s per fee amounts markets) \<longleftrightarrow> length markets < 2 ^ 16"
| "wf_instruction (CreateOrder s sd price ratio ot cid stb si ti mi cl pl tm lim) \<longleftrightarrow>
     price \<noteq> 0 \<and> ratio \<noteq> 0"
| "wf_instruction _ \<longleftrightarrow> True"

subsection \<open>Decoding\<close>

text \<open>
  \<open>rest.get(i..j)\<close> read as a little-endian value, with \<open>ok_or(InvalidInstruction)?\<close> or with
  \<open>unwrap()\<close>; \<open>rest.get(i)\<close> for a one-byte tag; \<open>NonZero::new(x).ok_or(InvalidInstruction)?\<close>.
\<close>

definition get_field :: "bytes \<Rightarrow> nat \<Rightarrow> nat \<Rightarrow> 'a::len word res" where
  "get_field rest i j = ok_or (map_option from_le (slice_get rest i j)) (bot_err InvalidInstruction)"

definition get_field_unwrap :: "bytes \<Rightarrow> nat \<Rightarrow> nat \<Rightarrow> 'a::len word res" where
  "get_field_unwrap rest i j = ok_or (map_option from_le (slice_get rest i j)) Panic"

definition get_byte :: "bytes \<Rightarrow> nat \<Rightarrow> u8 res" where
  "get_byte rest i = (if i < length rest then Inr (rest ! i) else Inl (bot_err InvalidInstruction))"

definition nonzero :: "'a::len word \<Rightarrow> 'a word res" where
  "nonzero x = (if x = 0 then Inl (bot_err InvalidInstruction) else Inr x)"

definition decode_side :: "u8 \<Rightarrow> side res" where
  "decode_side b = (if b = 0 then Inr Bid else if b = 1 then Inr Ask
     else Inl (bot_err InvalidInstruction))"

definition decode_order_type :: "u8 \<Rightarrow> order_type res" where
  "decode_order_type b = (if b = 0 then Inr Limit else if b = 1 then Inr ImmediateOrCancel
     else if b = 2 then Inr PostOnly else Inl (bot_err InvalidInstruction))"

definition decode_self_trade :: "u8 \<Rightarrow> self_trade_behavior res" where
  "decode_self_trade b = (if b = 0 then Inr DecrementTake else if b = 1 then Inr CancelProvide
     else if b = 2 then Inr AbortTransaction else Inl (bot_err InvalidInstruction))"

definition unpack_init :: "bytes \<Rightarrow> pool_instruction res" where
  "unpack_init rest =
     bind_res (get_field_unwrap rest 0 32) (\<lambda>pool_seed.
     bind_res (get_field rest 32 36) (\<lambda>max_number_of_assets.
     bind_res (get_field rest 36 38) (\<lambda>nb_markets.
     Inr (Init pool_seed max_number_of_assets nb_markets))))"

primrec read_markets :: "nat \<Rightarrow> bytes \<Rightarrow> nat \<Rightarrow> pubkey list \<Rightarrow> (pubkey list \<times> nat) res" where
  "read_markets 0 rest offset markets = Inr (markets, offset)"
| "read_markets (Suc n) rest offset markets =
     bind_res (get_field rest offset (offset + 32)) (\<lambda>m.
     read_markets n rest (offset + 32) (markets @ [m]))"

text \<open>The \<open>while k != 0\<close> loop: reads 8-byte amounts until a read fails, then sets \<open>k\<close> to 0.\<close>

function read_amounts :: "bytes \<Rightarrow> nat \<Rightarrow> u64 list \<Rightarrow> u64 list" where
  "read_amounts rest k amounts =
     (if k = 0 then amounts
      else case slice_get rest k (k + 8) of
        None \<Rightarrow> read_amounts rest 0 amounts
      | Some bytes \<Rightarrow> read_amounts rest (k + 8) (amounts @ [from_le bytes]))"
  by pat_completeness auto
termination
  by (relation "measure (\<lambda>(rest, k, amounts). if k = 0 then 0 else Suc (length rest) - k + 8)")
     (auto simp: slice_get_def split: if_splits)

declare read_amounts.simps [simp del]

definition unpack_create :: "bytes \<Rightarrow> pool_instruction res" where
  "unpack_create rest =
     bind_res (get_field_unwrap rest 0 32) (\<lambda>pool_seed.
     bind_res (get_field rest 32 34) (\<lambda>nb_markets :: u16.
     bind_res (get_field rest 34 42) (\<lambda>period.
     bind_res (get_field rest 42 44) (\<lambda>ratio.
     bind_res (read_markets (unat nb_markets) rest 44 []) (\<lambda>(markets, offset).
     let deposit_amounts = read_amounts rest offset [] in
     Inr (Create pool_seed period ratio deposit_amounts markets))))))"

definition unpack_deposit :: "bytes \<Rightarrow> pool_instruction res" where
  "unpack_deposit rest =
     bind_res (get_field_unwrap rest 0 32) (\<lambda>pool_seed.
     bind_res (get_field rest 32 40) (\<lambda>pool_token_amount.
     Inr (Deposit pool_seed pool_token_amount)))"

definition unpack_create_order :: "bytes \<Rightarrow> pool_instruction res" where
  "unpack_create_order rest =
     bind_res (get_field rest 0 32) (\<lambda>pool_seed.
     bind_res (get_byte rest 32) (\<lambda>b. bind_res (decode_side b) (\<lambda>sd.
     bind_res (get_field rest 33 41) (\<lambda>p. bind_res (nonzero p) (\<lambda>limit_price.
     bind_res (get_field rest 41 43) (\<lambda>r. bind_res (nonzero r) (\<lambda>ratio.
     bind_res (get_byte rest 43) (\<lambda>b. bind_res (decode_order_type b) (\<lambda>ot.
     bind_res (get_field rest 44 52) (\<lambda>client_id.
     bind_res (get_byte rest 52) (\<lambda>b. bind_res (decode_self_trade b) (\<lambda>stb.
     bind_res (get_field rest 53 61) (\<lambda>source_index.
     bind_res (get_field rest 61 69) (\<lambda>target_index.
     bind_res (get_field rest 69 71) (\<lambda>market_index.
     bind_res (get_field rest 71 79) (\<lambda>coin_lot_size.
     bind_res (get_field rest 79 87) (\<lambda>pc_lot_size.
     bind_res (get_field rest 87 119) (\<lambda>target_mint.
     bind_res (get_field rest 119 121) (\<lambda>serum_limit.
     Inr (CreateOrder pool_seed sd limit_price ratio ot client_id stb source_index target_index
       market_index coin_lot_size pc_lot_size target_mint serum_limit))))))))))))))))))))"

definition unpack_cancel_order :: "bytes \<Rightarrow> pool_instruction res" where
  "unpack_cancel_order rest =
     bind_res (get_field_unwrap rest 0 32) (\<lambda>pool_seed.
     bind_res (get_byte rest 32) (\<lambda>b. bind_res (decode_side b) (\<lambda>sd.
     bind_res (get_field rest 33 49) (\<lambda>order_id.
     Inr (CancelOrder pool_seed sd order_id)))))"

definition unpack_settle_funds :: "bytes \<Rightarrow> pool_instruction res" where
  "unpack_settle_funds rest =
     bind_res (get_field_unwrap rest 0 32) (\<lambda>pool_seed.
     bind_res (get_field rest 32 40) (\<lambda>pc_index.
     bind_res (get_field rest 40 48) (\<lambda>coin_index.
     Inr (SettleFunds pool_seed pc_index coin_index))))"

definition unpack_redeem :: "bytes \<Rightarrow> pool_instruction res" where
  "unpack_redeem rest =
     bind_res (get_field_unwrap rest 0 32) (\<lambda>pool_seed.
     bind_res (get_field rest 32 40) (\<lambda>pool_token_amount.
     Inr (Redeem pool_seed pool_token_amount)))"

definition unpack_collect_fees :: "bytes \<Rightarrow> pool_instruction res" where
  "unpack_collect_fees rest =
     bind_res (get_field_unwrap rest 0 32) (\<lambda>pool_seed. Inr (CollectFees pool_seed))"

definition unpack_instruction :: "bytes \<Rightarrow> pool_instruction res" where
  "unpack_instruction input =
     (case input of
        [] \<Rightarrow> Inl (bot_err InvalidInstruction)
      | tag # rest \<Rightarrow>
          if tag = 0 then unpack_init rest
          else if tag = 1 then unpack_create rest
          else if tag = 2 then unpack_deposit rest
          else if tag = 3 then unpack_create_order rest
          else if tag = 4 then unpack_cancel_order rest
          else if tag = 5 then unpack_settle_funds rest
          else if tag = 6 then unpack_redeem rest
          else if tag = 7 then unpack_collect_fees rest
          else Inl (bot_err InvalidInstruction))"

subsection \<open>Encoding\<close>

fun encode_side :: "side \<Rightarrow> u8" where
  "encode_side Bid = 0"
| "encode_side Ask = 1"

fun encode_order_type :: "order_type \<Rightarrow> u8" where
  "encode_order_type Limit = 0"
| "encode_order_type ImmediateOrCancel = 1"
| "encode_order_type PostOnly = 2"

fun encode_self_trade :: "self_trade_behavior \<Rightarrow> u8" where
  "encode_self_trade DecrementTake = 0"
| "encode_self_trade CancelProvide = 1"
| "encode_self_trade AbortTransaction = 2"

fun pack_instruction :: "pool_instruction \<Rightarrow> bytes" where
  "pack_instruction (Init pool_seed max_number_of_assets nb_markets) =
     [0] @ le_bytes 32 pool_seed @ le_bytes 4 max_number_of_assets @ le_bytes 2 nb_markets"
| "pack_instruction (Create pool_seed period ratio deposit_amounts markets) =
     [1] @ le_bytes 32 pool_seed @ le_bytes 2 (of_nat (length markets) :: u16)
     @ le_bytes 8 period @ le_bytes 2 ratio
     @ concat (map (le_bytes 32) markets) @ concat (map (le_bytes 8) deposit_amounts)"
| "pack_instruction (Deposit pool_seed pool_token_amount) =
     [2] @ le_bytes 32 pool_seed @ le_bytes 8 pool_token_amount"
| "pack_instruction (CreateOrder pool_seed sd limit_price ratio ot client_id stb source_index
       target_index market_index coin_lot_size pc_lot_size target_mint serum_limit) =
     [3] @ le_bytes 32 pool_seed @ [encode_side sd] @ le_bytes 8 limit_price @ le_bytes 2 ratio
     @ [encode_order_type ot] @ le_bytes 8 client_id @ [encode_self_trade stb]
     @ le_bytes 8 source_index @ le_bytes 8 target_index @ le_bytes 2 market_index
     @ le_bytes 8 coin_lot_size @ le_bytes 8 pc_lot_size @ le_bytes 32 target_mint
     @ le_bytes 2 serum_limit"
| "pack_instruction (CancelOrder pool_seed sd order_id) =
     [4] @ le_bytes 32 pool_seed @ [encode_side sd] @ le_bytes 16 order_id"
| "pack_instruction (SettleFunds pool_seed pc_index coin_index) =
     [5] @ le_bytes 32 pool_seed @ le_bytes 8 pc_index @ le_bytes 8 coin_index"
| "pack_instruction (Redeem pool_seed pool_token_amount) =
     [6] @ le_bytes 32 pool_seed @ le_bytes 8 pool_token_amount"
| "pack_instruction (CollectFees pool_seed) = [7] @ le_bytes 32 pool_seed"

subsection \<open>Decoding what was encoded\<close>

lemma get_field_at:
  "slice_get rest i j = Some (le_bytes n v) \<Longrightarrow> LENGTH('a) \<le> 8 * n \<Longrightarrow>
    get_field rest i j = Inr (v :: 'a::len word)"
  by (simp add: get_field_def from_le_bytes)

lemma decode_encode [simp]:
  "decode_side (encode_side sd) = Inr sd"
  "decode_order_type (encode_order_type ot) = Inr ot"
  "decode_self_trade (encode_self_trade stb) = Inr stb"
    apply (cases sd; simp add: decode_side_def)
   apply (cases ot; simp add: decode_order_type_def)
  apply (cases stb; simp add: decode_self_trade_def)
  done

lemmas unpack_defs = unpack_init_def unpack_create_def unpack_deposit_def unpack_create_order_def
  unpack_cancel_order_def unpack_settle_funds_def unpack_redeem_def unpack_collect_fees_def

lemmas field_defs = get_field_def get_field_unwrap_def get_byte_def nonzero_def

lemma read_markets_app:
  "length pre = k \<Longrightarrow>
    read_markets (length ms) (pre @ concat (map (le_bytes 32) ms) @ post) k acc =
      Inr (acc @ ms, k + 32 * length ms)"
proof (induction ms arbitrary: pre k acc)
  case (Cons m ms)
  have "get_field (pre @ concat (map (le_bytes 32) (m # ms)) @ post) k (k + 32) = Inr m"
    using Cons.prems by (simp add: get_field_def slice_simps codec_simps)
  then show ?case
    using Cons.IH[of "pre @ le_bytes 32 m" "k + 32" "acc @ [m]"] Cons.prems
    by (simp add: add.assoc)
qed simp

lemma read_amounts_stop: "0 < k \<Longrightarrow> length rest < k + 8 \<Longrightarrow> read_amounts rest k acc = acc"
  by (subst read_amounts.simps) (simp add: slice_get_def read_amounts.simps)

lemma read_amounts_app:
  "length pre = k \<Longrightarrow> 0 < k \<Longrightarrow> length post < 8 \<Longrightarrow>
    read_amounts (pre @ concat (map (le_bytes 8) vs) @ post) k acc = acc @ vs"
proof (induction vs arbitrary: pre k acc)
  case Nil
  then show ?case by (simp add: read_amounts_stop)
next
  case (Cons v vs)
  have "slice_get (pre @ concat (map (le_bytes 8) (v # vs)) @ post) k (k + 8) = Some (le_bytes 8 v)"
    using Cons.prems by (simp add: slice_simps)
  then show ?case
    using Cons.IH[of "pre @ le_bytes 8 v" "k + 8" "acc @ [v]"] Cons.prems
    by (subst read_amounts.simps) (simp add: codec_simps)
qed

lemma unpack_pack_create:
  assumes "length markets < 2 ^ 16" "length post < 8"
  shows "unpack_instruction (pack_instruction (Create s per fee amounts markets) @ post) =
    Inr (Create s per fee amounts markets)"
proof -
  define pre where "pre = le_bytes 32 s @ le_bytes 2 (of_nat (length markets) :: u16)
     @ le_bytes 8 per @ le_bytes 2 fee"
  have len: "length pre = 44" by (simp add: pre_def)
  define rest where "rest = pre @ concat (map (le_bytes 32) markets)
     @ concat (map (le_bytes 8) amounts) @ post"
  have n: "unat (of_nat (length markets) :: u16) = length markets"
    using assms(1) by (simp add: unat_of_nat)
  have m: "read_markets (length markets) rest 44 [] = Inr (markets, 44 + 32 * length markets)"
    using read_markets_app[OF len, of markets _ "[]"] by (simp add: rest_def)
  have a: "read_amounts rest (44 + 32 * length markets) [] = amounts"
    using read_amounts_app[of "pre @ concat (map (le_bytes 32) markets)"
        "44 + 32 * length markets" post amounts "[]"] assms(2) len
    by (simp add: rest_def c256.length_concat_enc)
  have "slice_get rest i j = slice_get pre i j" if "j \<le> 44" for i j
    using that len by (simp add: rest_def slice_get_prefix)
  then have f: "get_field_unwrap rest 0 32 = Inr s"
      "get_field rest 32 34 = Inr (of_nat (length markets) :: u16)"
      "get_field rest 34 42 = Inr per" "get_field rest 42 44 = Inr fee"
    by (simp_all add: field_defs pre_def slice_simps codec_simps)
  have "pack_instruction (Create s per fee amounts markets) @ post = 1 # rest"
    by (simp add: rest_def pre_def)
  then show ?thesis
    by (simp add: unpack_instruction_def unpack_create_def f n m a)
qed

lemma unpack_pack_instruction:
  assumes "wf_instruction i" "length post < 8"
  shows "unpack_instruction (pack_instruction i @ post) = Inr i"
proof (cases i)
  case (Create s per fee amounts markets)
  then show ?thesis using assms unpack_pack_create by simp
qed (use assms(1) in \<open>simp_all add: unpack_instruction_def unpack_defs field_defs
      slice_simps codec_simps nth_append\<close>)

subsection \<open>Encoding what was decoded\<close>

lemma get_field_Inr:
  "get_field rest i j = Inr (v :: 'a::len word) \<longleftrightarrow>
    i \<le> j \<and> j \<le> length rest \<and> v = from_le (take (j - i) (drop i rest))"
  by (auto simp: get_field_def res_simps slice_simps)

lemma get_field_unwrap_Inr:
  "get_field_unwrap rest i j = Inr (v :: 'a::len word) \<longleftrightarrow>
    i \<le> j \<and> j \<le> length rest \<and> v = from_le (take (j - i) (drop i rest))"
  by (auto simp: get_field_unwrap_def res_simps slice_simps)

lemma get_byte_Inr: "get_byte rest i = Inr b \<longleftrightarrow> i < length rest \<and> b = rest ! i"
  by (auto simp: get_byte_def)

lemma nonzero_Inr: "nonzero x = Inr y \<longleftrightarrow> x \<noteq> 0 \<and> y = x"
  by (auto simp: nonzero_def)

lemma decode_Inr:
  "decode_side b = Inr sd \<longleftrightarrow> encode_side sd = b"
  "decode_order_type b = Inr ot \<longleftrightarrow> encode_order_type ot = b"
  "decode_self_trade b = Inr stb \<longleftrightarrow> encode_self_trade stb = b"
    apply (cases sd; auto simp: decode_side_def)
   apply (cases ot; auto simp: decode_order_type_def)
  apply (cases stb; auto simp: decode_self_trade_def)
  done

lemmas decode_Inr_simps = get_field_Inr get_field_unwrap_Inr get_byte_Inr nonzero_Inr decode_Inr

lemma glue_range: "j = i + n \<Longrightarrow> take n (drop i xs) @ drop j xs = drop i xs"
  by (metis append_take_drop_id drop_drop add.commute)

lemma glue_byte: "i < length xs \<Longrightarrow> j = Suc i \<Longrightarrow> xs ! i # drop j xs = drop i xs"
  by (simp add: Cons_nth_drop_Suc)

lemma read_markets_Inr:
  "read_markets n rest k acc = Inr (ms, k') \<Longrightarrow> k \<le> length rest \<Longrightarrow>
    k' = k + 32 * n \<and> k' \<le> length rest \<and>
    (\<exists>new. ms = acc @ new \<and> length new = n \<and>
      drop k rest = concat (map (le_bytes 32) new) @ drop k' rest)"
proof (induction n arbitrary: k acc)
  case (Suc n)
  let ?m = "from_le (take 32 (drop k rest)) :: pubkey"
  from Suc.prems have k: "k + 32 \<le> length rest"
    and rec: "read_markets n rest (k + 32) (acc @ [?m]) = Inr (ms, k')"
    by (auto simp: res_simps get_field_Inr)
  from Suc.IH[OF rec k] obtain new where new: "k' = k + 32 + 32 * n" "k' \<le> length rest"
    "ms = (acc @ [?m]) @ new" "length new = n"
    "drop (k + 32) rest = concat (map (le_bytes 32) new) @ drop k' rest" by blast
  have "drop k rest = le_bytes 32 ?m @ drop (k + 32) rest"
    using k by (simp add: codec_canonical glue_range)
  with new show ?case by (intro conjI exI[of _ "?m # new"]) simp_all
qed simp

lemma read_amounts_ex:
  "0 < k \<Longrightarrow> k \<le> length rest \<Longrightarrow>
    \<exists>vs post. read_amounts rest k acc = acc @ vs \<and> length post < 8 \<and>
      drop k rest = concat (map (le_bytes 8) vs) @ post"
proof (induction rest k acc rule: read_amounts.induct)
  case (1 rest k acc)
  show ?case
  proof (cases "k + 8 \<le> length rest")
    case True
    let ?b = "take 8 (drop k rest)"
    have get: "slice_get rest k (k + 8) = Some ?b" using True by (simp add: slice_get_def)
    from "1.IH"(2)[OF _ get] "1.prems" True obtain vs post where
      vs: "read_amounts rest (k + 8) (acc @ [from_le ?b]) = (acc @ [from_le ?b]) @ vs" "length post < 8"
        "drop (k + 8) rest = concat (map (le_bytes 8) vs) @ post" by auto
    have "drop k rest = le_bytes 8 (from_le ?b :: u64) @ drop (k + 8) rest"
      using True by (simp add: codec_canonical glue_range)
    moreover have "read_amounts rest k acc = read_amounts rest (k + 8) (acc @ [from_le ?b])"
      using "1.prems" get by (subst read_amounts.simps) simp
    ultimately show ?thesis
      using vs by (intro exI[of _ "from_le ?b # vs"] exI[of _ post]) simp
  next
    case False
    then show ?thesis using "1.prems"
      by (intro exI[of _ "[]"] exI[of _ "drop k rest"]) (simp add: read_amounts_stop)
  qed
qed

lemma unpack_create_canonical:
  assumes "unpack_create rest = Inr i"
  shows "wf_instruction i \<and> (\<exists>post. 1 # rest = pack_instruction i @ post)"
proof -
  let ?n = "from_le (take 2 (drop 32 rest)) :: u16"
  from assms obtain ms k where len: "44 \<le> length rest"
    and ms: "read_markets (unat ?n) rest 44 [] = Inr (ms, k)"
    and i: "i = Create (from_le (take 32 rest)) (from_le (take 8 (drop 34 rest)))
      (from_le (take 2 (drop 42 rest))) (read_amounts rest k []) ms"
    by (auto simp: unpack_create_def res_simps decode_Inr_simps Let_def split: prod.splits)
  from read_markets_Inr[OF ms len] have k: "0 < k" "k \<le> length rest" "length ms = unat ?n"
    "drop 44 rest = concat (map (le_bytes 32) ms) @ drop k rest" by auto
  from read_amounts_ex[OF k(1,2), of "[]"] obtain post where
    "drop k rest = concat (map (le_bytes 8) (read_amounts rest k [])) @ post" by auto
  with k(4) have tail: "concat (map (le_bytes 32) ms) @
      concat (map (le_bytes 8) (read_amounts rest k [])) @ post = drop 44 rest" by simp
  have "unat ?n < 2 ^ 16" using unsigned_less[of ?n, where ?'a = nat] by simp
  then have "wf_instruction i" using k(3) i by simp
  moreover have "1 # rest = pack_instruction i @ post"
    using len k(3) by (simp add: i codec_canonical tail glue_range)
  ultimately show ?thesis by blast
qed

lemma unpack_instruction_canonical:
  assumes "unpack_instruction input = Inr i"
  shows "wf_instruction i \<and> (\<exists>post. input = pack_instruction i @ post)"
proof -
  from assms obtain tag rest where input: "input = tag # rest"
    by (cases input) (auto simp: unpack_instruction_def)
  show ?thesis
  proof (cases "tag = 1")
    case True
    with assms input show ?thesis
      using unpack_create_canonical[of rest i] by (simp add: unpack_instruction_def)
  next
    case False
    with assms input have "wf_instruction i \<and>
      input = pack_instruction i @ drop (length (pack_instruction i)) input"
      by (auto simp: unpack_instruction_def unpack_defs res_simps decode_Inr_simps
          codec_canonical glue_range glue_byte split: if_splits)
    then show ?thesis by blast
  qed
qed

subsection \<open>How decoding fails\<close>

lemma get_field_Inl: "get_field rest i j = Inl err \<longleftrightarrow>
    \<not> (i \<le> j \<and> j \<le> length rest) \<and> err = bot_err InvalidInstruction"
  by (auto simp: get_field_def slice_get_def ok_or_def)

lemma get_field_unwrap_Inl: "get_field_unwrap rest i j = Inl err \<longleftrightarrow>
    \<not> (i \<le> j \<and> j \<le> length rest) \<and> err = Panic"
  by (auto simp: get_field_unwrap_def slice_get_def ok_or_def)

lemma get_byte_Inl: "get_byte rest i = Inl err \<longleftrightarrow> length rest \<le> i \<and> err = bot_err InvalidInstruction"
  by (auto simp: get_byte_def)

lemma nonzero_Inl: "nonzero x = Inl err \<longleftrightarrow> x = 0 \<and> err = bot_err InvalidInstruction"
  by (auto simp: nonzero_def)

lemma decode_Inl:
  "decode_side b = Inl err \<Longrightarrow> err = bot_err InvalidInstruction"
  "decode_order_type b = Inl err \<Longrightarrow> err = bot_err InvalidInstruction"
  "decode_self_trade b = Inl err \<Longrightarrow> err = bot_err InvalidInstruction"
  by (auto simp: decode_side_def decode_order_type_def decode_self_trade_def split: if_splits)

lemma read_markets_Inl:
  "read_markets n rest k acc = Inl err \<Longrightarrow> err = bot_err InvalidInstruction"
  by (induction n arbitrary: k acc) (auto simp: bind_res_Inl get_field_Inl)

lemma unpack_instruction_Inl:
  assumes "unpack_instruction (tag # rest) = Inl err"
  shows "err = (if length rest < 32 \<and> tag \<le> 7 \<and> tag \<noteq> 3 then Panic else bot_err InvalidInstruction)"
proof -
  have tags: "tag \<in> {0,1,2,3,4,5,6,7} \<longleftrightarrow> tag \<le> 7"
    by (simp add: word_le_nat_alt word_unat_eq_iff) linarith
  show ?thesis
  proof (cases "tag \<le> 7")
    case True
    with tags consider "tag = 3" | "tag \<in> {0,1,2,4,5,6,7}" by blast
    then show ?thesis
    proof cases
      case 1
      with assms show ?thesis
        by (auto simp: unpack_instruction_def unpack_create_order_def bind_res_Inl get_field_Inl
            get_byte_Inl nonzero_Inl dest: decode_Inl)
    next
      case 2
      show ?thesis
      proof (cases "length rest < 32")
        case short: True
        then have "(get_field_unwrap rest 0 32 :: bytes32 res) = Inl Panic" by (simp add: get_field_unwrap_Inl)
        with 2 short assms True show ?thesis
          by (auto simp: unpack_instruction_def unpack_defs)
      next
        case False
        with 2 assms True show ?thesis
          by (auto simp: unpack_instruction_def unpack_defs bind_res_Inl get_field_Inl Let_def
              get_field_unwrap_Inl get_byte_Inl split: prod.splits dest: decode_Inl read_markets_Inl)
      qed
    qed
  next
    case False
    with tags assms show ?thesis by (auto simp: unpack_instruction_def split: if_splits)
  qed
qed

end
