(* ===== verification/Pool_State.thy ===== *)
theory Pool_State
  imports Runtime
begin

text \<open>
  The pool account's data (state.rs): a 117-byte header, the array of authorised markets
  (32 bytes each) and the array of pool assets (one mint address each; an all-zero slot is
  free). Encoders, decoders and slot accessors with their panics and errors, the header and
  market and asset round trips, and the well-formedness of a decoded header.
\<close>

subsection \<open>Data\<close>

text \<open>\<open>NonZeroU8\<close> is a \<open>u8\<close> that \<open>wf_status\<close> keeps nonzero.\<close>

datatype pool_status =
    Uninitialized | Unlocked | Locked | PendingOrder u8 | LockedPendingOrder u8

record pool_header =
  serum_program_id :: pubkey
  seed :: bytes32
  signal_provider :: pubkey
  status :: pool_status
  number_of_markets :: u16
  fee_ratio :: u16
  last_fee_collection_timestamp :: u64
  fee_collection_period :: u64

record pool_asset =
  mint_address :: pubkey

abbreviation HEADER_LEN :: nat where "HEADER_LEN \<equiv> 117"
abbreviation ASSET_LEN :: nat where "ASSET_LEN \<equiv> 32"
abbreviation PUBKEY_LENGTH :: nat where "PUBKEY_LENGTH \<equiv> 32"

definition STATUS_PENDING_ORDER_FLAG :: u8 where "STATUS_PENDING_ORDER_FLAG = push_bit 6 1"
definition STATUS_PENDING_ORDER_MASK :: u8 where "STATUS_PENDING_ORDER_MASK = 0x3f"
definition STATUS_LOCKED_FLAG :: u8 where "STATUS_LOCKED_FLAG = push_bit 6 2"
definition STATUS_UNLOCKED_FLAG :: u8 where "STATUS_UNLOCKED_FLAG = STATUS_PENDING_ORDER_MASK"

definition BONFIDA_FEE :: string where
  "BONFIDA_FEE = ''31LVSggbVz4VcwBSPdtK8HJ3Lt1cKTJUVQTRNNYMfqBq''"
definition BONFIDA_BNB :: string where
  "BONFIDA_BNB = ''3oQzjfjzUkJ5qHsERk2JPEpAKo34dxAQjUriBqursfxU''"

lemmas status_flag_defs = STATUS_PENDING_ORDER_FLAG_def STATUS_PENDING_ORDER_MASK_def
  STATUS_LOCKED_FLAG_def STATUS_UNLOCKED_FLAG_def

subsection \<open>The status byte\<close>

fun pack_status :: "pool_status \<Rightarrow> u8" where
  "pack_status Uninitialized = 0"
| "pack_status Unlocked = STATUS_UNLOCKED_FLAG"
| "pack_status Locked = STATUS_LOCKED_FLAG"
| "pack_status (PendingOrder n) =
     STATUS_PENDING_ORDER_FLAG OR (STATUS_PENDING_ORDER_MASK AND (n - 1))"
| "pack_status (LockedPendingOrder n) =
     STATUS_LOCKED_FLAG OR STATUS_PENDING_ORDER_FLAG OR (STATUS_PENDING_ORDER_MASK AND (n - 1))"

definition nonzero_u8 :: "u8 \<Rightarrow> u8 option" where
  "nonzero_u8 n = (if n = 0 then None else Some n)"

definition unpack_status :: "u8 \<Rightarrow> pool_status res" where
  "unpack_status b =
     (if b = 0 then Inr Uninitialized
      else let tag = drop_bit 6 b in
        if tag = 0 then Inr Unlocked
        else if tag = 1 then
          bind_res (ok_or (nonzero_u8 ((b AND STATUS_PENDING_ORDER_MASK) + 1)) (Error InvalidArgument))
            (\<lambda>n. Inr (PendingOrder n))
        else if tag = 2 then Inr Locked
        else if tag = 3 then
          bind_res (ok_or (nonzero_u8 ((b AND STATUS_PENDING_ORDER_MASK) + 1)) (Error InvalidArgument))
            (\<lambda>n. Inr (LockedPendingOrder n))
        else Inl (Error InvalidAccountData))"

text \<open>Between 1 and 64 pending orders: what the type's documentation states.\<close>

fun wf_status :: "pool_status \<Rightarrow> bool" where
  "wf_status (PendingOrder n) \<longleftrightarrow> 1 \<le> n \<and> n \<le> 64"
| "wf_status (LockedPendingOrder n) \<longleftrightarrow> 1 \<le> n \<and> n \<le> 64"
| "wf_status _ \<longleftrightarrow> True"

subsection \<open>The header\<close>

definition pack_header_into_slice :: "pool_header \<Rightarrow> bytes \<Rightarrow> bytes res" where
  "pack_header_into_slice h target =
     bind_res (copy_into target 0 32 (le_bytes 32 (serum_program_id h))) (\<lambda>t.
     bind_res (copy_into t 32 64 (le_bytes 32 (seed h))) (\<lambda>t.
     bind_res (copy_into t 64 96 (le_bytes 32 (signal_provider h))) (\<lambda>t.
     bind_res (if 96 < length t then Inr (t[96 := pack_status (status h)]) else Inl Panic) (\<lambda>t.
     bind_res (copy_into t 97 99 (le_bytes 2 (number_of_markets h))) (\<lambda>t.
     bind_res (copy_into t 99 101 (le_bytes 2 (fee_ratio h))) (\<lambda>t.
     bind_res (copy_into t 101 109 (le_bytes 8 (last_fee_collection_timestamp h))) (\<lambda>t.
     copy_into t 109 117 (le_bytes 8 (fee_collection_period h)))))))))"

definition unpack_header_from_slice :: "bytes \<Rightarrow> pool_header res" where
  "unpack_header_from_slice src =
     bind_res (slice_idx src 0 32) (\<lambda>serum.
     bind_res (slice_idx src 32 64) (\<lambda>sd.
     bind_res (slice_idx src 64 96) (\<lambda>sp.
     bind_res (if 96 < length src then unpack_status (src ! 96) else Inl Panic) (\<lambda>st.
     bind_res (slice_idx src 97 99) (\<lambda>nm.
     bind_res (slice_idx src 99 101) (\<lambda>fr.
     bind_res (slice_idx src 101 109) (\<lambda>ts.
     bind_res (slice_idx src 109 117) (\<lambda>per.
     Inr \<lparr>serum_program_id = from_le serum, seed = from_le sd, signal_provider = from_le sp,
          status = st, number_of_markets = from_le nm, fee_ratio = from_le fr,
          last_fee_collection_timestamp = from_le ts, fee_collection_period = from_le per\<rparr>))))))))"

definition header_is_initialized :: "pool_header \<Rightarrow> bool" where
  "header_is_initialized h = (case status h of Uninitialized \<Rightarrow> False | _ \<Rightarrow> True)"

definition unpack_header_unchecked :: "bytes \<Rightarrow> pool_header res" where
  "unpack_header_unchecked src =
     (if length src \<noteq> HEADER_LEN then Inl (Error InvalidAccountData)
      else unpack_header_from_slice src)"

definition unpack_header :: "bytes \<Rightarrow> pool_header res" where
  "unpack_header src =
     bind_res (unpack_header_unchecked src) (\<lambda>h.
     if header_is_initialized h then Inr h else Inl (Error UninitializedAccount))"

definition pack_header :: "pool_header \<Rightarrow> bytes \<Rightarrow> bytes res" where
  "pack_header h dst =
     (if length dst \<noteq> HEADER_LEN then Inl (Error InvalidAccountData)
      else pack_header_into_slice h dst)"

subsection \<open>Assets and markets\<close>

definition asset_is_initialized :: "pool_asset \<Rightarrow> bool" where
  "asset_is_initialized a \<longleftrightarrow> mint_address a \<noteq> from_le (replicate 32 0)"

definition pack_asset_into_slice :: "pool_asset \<Rightarrow> bytes \<Rightarrow> bytes res" where
  "pack_asset_into_slice a target = copy_into target 0 32 (le_bytes 32 (mint_address a))"

definition unpack_asset_from_slice :: "bytes \<Rightarrow> pool_asset res" where
  "unpack_asset_from_slice src =
     bind_res (slice_idx src 0 32) (\<lambda>m. Inr \<lparr>mint_address = from_le m\<rparr>)"

text \<open>
  \<open>PoolAsset\<close> takes the \<open>unpack\<close> and \<open>unpack_unchecked\<close> that the \<open>Pack\<close> trait provides; they
  read as the ones the header spells out.
\<close>

definition unpack_asset_unchecked :: "bytes \<Rightarrow> pool_asset res" where
  "unpack_asset_unchecked src =
     (if length src \<noteq> ASSET_LEN then Inl (Error InvalidAccountData) else unpack_asset_from_slice src)"

definition unpack_asset :: "bytes \<Rightarrow> pool_asset res" where
  "unpack_asset src =
     bind_res (unpack_asset_unchecked src) (\<lambda>a.
     if asset_is_initialized a then Inr a else Inl (Error UninitializedAccount))"

primrec unpack_assets_loop :: "nat \<Rightarrow> bytes \<Rightarrow> nat \<Rightarrow> pool_asset list \<Rightarrow> pool_asset list res" where
  "unpack_assets_loop 0 input offset out = Inr out"
| "unpack_assets_loop (Suc n) input offset out =
     bind_res (slice_idx input offset (offset + ASSET_LEN)) (\<lambda>chunk.
     unpack_assets_loop n input (offset + ASSET_LEN)
       (case unpack_asset chunk of Inl e \<Rightarrow> out | Inr a \<Rightarrow> out @ [a]))"

definition unpack_assets :: "bytes \<Rightarrow> pool_asset list res" where
  "unpack_assets input = unpack_assets_loop (length input div ASSET_LEN) input 0 []"

text \<open>
  Slot access by index: \<open>index * 32\<close> and \<open>offset + 32\<close> are \<open>usize\<close> operations, so they panic on
  overflow in a checked build and wrap in a release build. \<open>get\<close> on a wrapped range whose end
  lies before its start is \<open>None\<close>.
\<close>

definition asset_range :: "bool \<Rightarrow> usize \<Rightarrow> (nat \<times> nat) res" where
  "asset_range oc index =
     bind_res (mul_w oc index (of_nat ASSET_LEN)) (\<lambda>offset.
     bind_res (add_w oc offset (of_nat ASSET_LEN)) (\<lambda>stop. Inr (unat offset, unat stop)))"

definition unpack_unchecked_asset :: "bool \<Rightarrow> bytes \<Rightarrow> usize \<Rightarrow> pool_asset res" where
  "unpack_unchecked_asset oc input index =
     bind_res (asset_range oc index) (\<lambda>(i, j).
     bind_res (ok_or (slice_get input i j) (Error InvalidArgument)) (\<lambda>slice.
     unpack_asset_unchecked slice))"

text \<open>\<open>get_asset_slice\<close> returns a mutable view; its users write an asset or zeroes through it.\<close>

definition get_asset_slice :: "bool \<Rightarrow> bytes \<Rightarrow> usize \<Rightarrow> (nat \<times> nat) res" where
  "get_asset_slice oc target index =
     bind_res (asset_range oc index) (\<lambda>(i, j).
     bind_res (ok_or (slice_get target i j) (Error InvalidArgument)) (\<lambda>_. Inr (i, j)))"

definition write_asset :: "bool \<Rightarrow> pool_asset \<Rightarrow> usize \<Rightarrow> bytes \<Rightarrow> bytes res" where
  "write_asset oc a index target =
     bind_res (get_asset_slice oc target index) (\<lambda>(i, j).
     in_range target i j (pack_asset_into_slice a))"

definition unpack_market :: "bytes \<Rightarrow> u16 \<Rightarrow> pubkey res" where
  "unpack_market input market_index =
     (let offset = 32 * unat market_index in
      bind_res (slice_idx input offset (offset + 32)) (\<lambda>m. Inr (from_le m)))"

primrec pack_markets_loop :: "nat \<Rightarrow> pubkey list \<Rightarrow> bytes \<Rightarrow> bytes res" where
  "pack_markets_loop i [] target = Inr target"
| "pack_markets_loop i (m # ms) target =
     bind_res (copy_into target (32 * i) (32 * (i + 1)) (le_bytes 32 m)) (pack_markets_loop (Suc i) ms)"

definition pack_markets :: "bytes \<Rightarrow> pubkey list \<Rightarrow> bytes res" where
  "pack_markets target markets = pack_markets_loop 0 markets target"

subsection \<open>Lemmas on the header\<close>

text \<open>The 117 bytes a header is written as.\<close>

definition header_bytes :: "pool_header \<Rightarrow> bytes" where
  "header_bytes h = le_bytes 32 (serum_program_id h) @ le_bytes 32 (seed h)
     @ le_bytes 32 (signal_provider h) @ [pack_status (status h)]
     @ le_bytes 2 (number_of_markets h) @ le_bytes 2 (fee_ratio h)
     @ le_bytes 8 (last_fee_collection_timestamp h) @ le_bytes 8 (fee_collection_period h)"

lemma length_header_bytes [simp]: "length (header_bytes h) = HEADER_LEN"
  by (simp add: header_bytes_def)

lemma copy_into_prefix:
  "length pre = i \<Longrightarrow> i \<le> j \<Longrightarrow> j \<le> i + length xs \<Longrightarrow> length ys = j - i \<Longrightarrow>
    copy_into (pre @ xs) i j ys = Inr ((pre @ ys) @ drop (j - i) xs)"
  by (simp add: copy_into_def)

lemma tl_drop_Suc: "tl (drop i xs) = drop (Suc i) xs"
  by (simp add: drop_Suc tl_drop)

lemma update_at_end: "length pre = i \<Longrightarrow> xs \<noteq> [] \<Longrightarrow> (pre @ xs)[i := v] = (pre @ [v]) @ tl xs"
  by (cases xs) (simp_all add: list_update_append)

lemma pack_header_into_slice:
  "pack_header_into_slice h t =
    (if HEADER_LEN \<le> length t then Inr (header_bytes h @ drop HEADER_LEN t) else Inl Panic)"
proof (cases "HEADER_LEN \<le> length t")
  case True
  note step = copy_into_prefix
  have a: "copy_into t 0 32 (le_bytes 32 (serum_program_id h))
     = Inr (le_bytes 32 (serum_program_id h) @ drop 32 t)"
    using True step[of "[]" 0 32 t] by simp
  show ?thesis using True unfolding pack_header_into_slice_def a bind_res_simps
    by (simp add: step update_at_end tl_drop_Suc del: append_assoc append_eq_append_conv)
       (simp add: header_bytes_def)
next
  case False
  then show ?thesis
    by (auto simp: pack_header_into_slice_def bind_res_def copy_into_def split: sum.splits)
qed

lemma u8_lt4: "(x :: u8) < 4 \<Longrightarrow> x = 0 \<or> x = 1 \<or> x = 2 \<or> x = 3"
  by unat_arith

lemma u8_count: "(m :: u8) \<le> 0x3f \<Longrightarrow> 1 \<le> m + 1 \<and> m + 1 \<le> 64 \<and> m + 1 \<noteq> 0"
  by (simp add: word_le_nat_alt word_unat_eq_iff unat_word_ariths)

lemma u8_pred: "1 \<le> n \<Longrightarrow> n \<le> 64 \<Longrightarrow> (n :: u8) - 1 \<le> 0x3f"
  by unat_arith

lemma status_tag: "drop_bit 6 (b :: u8) \<in> {0, 1, 2, 3}"
proof -
  have "unat (drop_bit 6 b) = unat b div 64" by (simp only: unat_drop_bit_eq) (simp add: drop_bit_eq_div)
  also have "\<dots> < 4" using unsigned_less[of b, where ?'a = nat] by simp
  finally have "drop_bit 6 b < 4" by (simp add: word_less_nat_alt)
  then show ?thesis using u8_lt4 by blast
qed

lemma masked_count:
  "b AND STATUS_PENDING_ORDER_MASK \<le> 0x3f"
  by (simp add: status_flag_defs word_and_le1)

lemma nonzero_count:
  "nonzero_u8 ((b AND STATUS_PENDING_ORDER_MASK) + 1) = Some ((b AND STATUS_PENDING_ORDER_MASK) + 1)"
  using u8_count[OF masked_count] by (simp add: nonzero_u8_def)

lemma unpack_status_cases:
  obtains (Uninit) "b = 0" "unpack_status b = Inr Uninitialized"
  | (Unl) "b \<noteq> 0" "drop_bit 6 b = 0" "unpack_status b = Inr Unlocked"
  | (Pend) "drop_bit 6 b = 1" 
      "unpack_status b = Inr (PendingOrder ((b AND STATUS_PENDING_ORDER_MASK) + 1))"
  | (Lock) "drop_bit 6 b = 2" "unpack_status b = Inr Locked"
  | (LPend) "drop_bit 6 b = 3"
      "unpack_status b = Inr (LockedPendingOrder ((b AND STATUS_PENDING_ORDER_MASK) + 1))"
  using status_tag[of b] nonzero_count[of b] that unfolding unpack_status_def Let_def
  by (cases "b = 0") auto

lemma unpack_status_total: "\<exists>s. unpack_status b = Inr s \<and> wf_status s"
  using u8_count[OF masked_count] by (cases b rule: unpack_status_cases) auto

lemma flag_bits:
  assumes "(m :: u8) \<le> 0x3f"
  shows "0x3f AND m = m" "drop_bit 6 (0x40 OR m) = 1" "drop_bit 6 (0xC0 OR m) = 3"
    "(0x40 OR m) AND 0x3f = m" "(0xC0 OR m) AND 0x3f = m"
proof -
  have "take_bit 6 m = m" 
    using assms by (simp add: word_unat_eq_iff unsigned_take_bit_eq take_bit_nat_eq_self_iff word_le_nat_alt)
  then have mask: "m AND 0x3f = m" by (simp add: take_bit_eq_mask mask_numeral)
  then show a: "0x3f AND m = m" by (simp add: and.commute)
  have "drop_bit 6 m = 0" using \<open>take_bit 6 m = m\<close> by (metis drop_bit_take_bit diff_self_eq_0 take_bit_0)
  then show "drop_bit 6 (0x40 OR m) = 1" "drop_bit 6 (0xC0 OR m) = 3" by (simp_all add: drop_bit_or)
  show "(0x40 OR m) AND 0x3f = m" "(0xC0 OR m) AND 0x3f = m"
    by (simp_all add: bit.conj_disj_distrib2 mask)
qed

lemma unpack_pack_status: "wf_status s \<Longrightarrow> unpack_status (pack_status s) = Inr s"
proof (cases s)
  case (PendingOrder n)
  moreover assume "wf_status s"
  ultimately have m: "n - 1 \<le> 0x3f" "n \<noteq> 0" by (auto intro: u8_pred)
  then show ?thesis
    using flag_bits[OF m(1)] PendingOrder
    by (simp add: unpack_status_def status_flag_defs nonzero_u8_def Let_def) fastforce
next
  case (LockedPendingOrder n)
  moreover assume "wf_status s"
  ultimately have m: "n - 1 \<le> 0x3f" "n \<noteq> 0" by (auto intro: u8_pred)
  then show ?thesis
    using flag_bits[OF m(1)] LockedPendingOrder
    by (simp add: unpack_status_def status_flag_defs nonzero_u8_def Let_def or.assoc[symmetric])
       fastforce
qed (simp_all add: unpack_status_def status_flag_defs Let_def)

lemma header_is_initialized_iff: "header_is_initialized h \<longleftrightarrow> status h \<noteq> Uninitialized"
  by (simp add: header_is_initialized_def split: pool_status.splits)

lemma asset_is_initialized_iff: "asset_is_initialized a \<longleftrightarrow> mint_address a \<noteq> 0"
  by (simp add: asset_is_initialized_def from_le_zeros)

lemma unpack_header_from_slice_bytes:
  "unpack_header_from_slice (header_bytes h @ r) =
    bind_res (unpack_status (pack_status (status h))) (\<lambda>st. Inr (h\<lparr>status := st\<rparr>))"
  by (cases h) (simp add: unpack_header_from_slice_def header_bytes_def slice_idx_def slice_simps
      codec_simps nth_append)

definition wf_header :: "pool_header \<Rightarrow> bool" where
  "wf_header h \<longleftrightarrow> wf_status (status h)"

lemma unpack_pack_header:
  "wf_header h \<Longrightarrow> unpack_header_from_slice (header_bytes h @ r) = Inr h"
  by (simp add: unpack_header_from_slice_bytes wf_header_def unpack_pack_status)

lemma unpack_header_bytes:
  "wf_header h \<Longrightarrow> unpack_header (header_bytes h) =
    (if status h = Uninitialized then Inl (Error UninitializedAccount) else Inr h)"
  using unpack_pack_header[of h "[]"]
  by (simp add: unpack_header_def unpack_header_unchecked_def header_is_initialized_iff)

lemma unpack_header_total:
  assumes "HEADER_LEN \<le> length src"
  shows "\<exists>h. unpack_header_from_slice src = Inr h \<and> wf_header h"
proof -
  obtain st where "unpack_status (src ! 96) = Inr st" "wf_status st"
    using unpack_status_total by blast
  with assms show ?thesis
    by (simp add: unpack_header_from_slice_def slice_idx_ok wf_header_def)
qed

lemma unpack_header_short: "length src < HEADER_LEN \<Longrightarrow> unpack_header_from_slice src = Inl Panic"
  using unpack_status_total[of "src ! 96"]
  by (auto simp: unpack_header_from_slice_def slice_idx_def slice_get_def bind_res_def ok_or_def
      split: sum.splits)

text \<open>Only the status byte has more than one encoding; the other fields re-encode to themselves.\<close>

lemma split_range: "i \<le> j \<Longrightarrow> j \<le> length xs \<Longrightarrow> take (j - i) (drop i xs) @ drop j xs = drop i xs"
  by (metis append_take_drop_id drop_drop le_add_diff_inverse2)

lemma repack_header:
  assumes "unpack_header_from_slice src = Inr h"
  shows "header_bytes h @ drop HEADER_LEN src = src[96 := pack_status (status h)]"
proof -
  from assms have len: "117 \<le> length src"
    using unpack_header_short by (metis Inl_Inr_False not_le)
  have st: "src[96 := pack_status (status h)] = take 96 src @ [pack_status (status h)] @ drop 97 src"
    using len by (simp add: upd_conv_take_nth_drop)
  have pre: "take 32 src @ take 32 (drop 32 src) @ take 32 (drop 64 src) = take 96 src"
    by (simp add: take_add[of 32 64 src, simplified] take_add[of 32 32 "drop 32 src", simplified])
  have post: "take 2 (drop 97 src) @ take 2 (drop 99 src) @ take 8 (drop 101 src)
      @ take 8 (drop 109 src) @ drop 117 src = drop 97 src"
    using split_range[of 97 99 src] split_range[of 99 101 src] split_range[of 101 109 src]
      split_range[of 109 117 src] len by simp
  from assms len have bytes: "header_bytes h =
      (take 32 src @ take 32 (drop 32 src) @ take 32 (drop 64 src)) @ [pack_status (status h)]
      @ take 2 (drop 97 src) @ take 2 (drop 99 src) @ take 8 (drop 101 src) @ take 8 (drop 109 src)"
    by (auto simp: unpack_header_from_slice_def res_simps header_bytes_def codec_canonical)
  show ?thesis unfolding bytes st pre by (simp add: post)
qed

lemma pack_header: "pack_header h dst =
    (if length dst = HEADER_LEN then Inr (header_bytes h) else Inl (Error InvalidAccountData))"
  by (simp add: pack_header_def pack_header_into_slice)

subsection \<open>Lemmas on assets\<close>

definition asset_slot :: "bytes \<Rightarrow> nat \<Rightarrow> pool_asset" where
  "asset_slot input i = \<lparr>mint_address = from_le (take 32 (drop (32 * i) input))\<rparr>"

text \<open>What the asset array holds: the used slots, in order, free ones left out.\<close>

definition stored_assets :: "bytes \<Rightarrow> pool_asset list" where
  "stored_assets input =
     filter asset_is_initialized (map (asset_slot input) [0..<length input div 32])"

lemma unpack_assets_loop:
  "32 * (k + n) \<le> length input \<Longrightarrow>
    unpack_assets_loop n input (32 * k) out =
      Inr (out @ filter asset_is_initialized (map (asset_slot input) [k..<k + n]))"
proof (induction n arbitrary: k out)
  case (Suc n)
  have chunk: "slice_idx input (32 * k) (32 * Suc k) = Inr (take 32 (drop (32 * k) input))"
    using Suc.prems by (simp add: slice_idx_ok)
  have asset: "unpack_asset (take 32 (drop (32 * k) input)) =
      (if asset_is_initialized (asset_slot input k) then Inr (asset_slot input k)
       else Inl (Error UninitializedAccount))"
    using Suc.prems
    by (simp add: unpack_asset_def unpack_asset_unchecked_def unpack_asset_from_slice_def
        slice_idx_ok asset_slot_def)
  have next_offset: "32 * k + 32 = 32 * Suc k" by simp
  have range: "[k..<k + Suc n] = k # [Suc k..<Suc k + n]" by (simp add: upt_conv_Cons del: upt_Suc)
  have rest: "unpack_assets_loop n input (32 * Suc k) out' =
      Inr (out' @ filter asset_is_initialized (map (asset_slot input) [Suc k..<Suc k + n]))" for out'
    using Suc.IH[of "Suc k" out'] Suc.prems by (simp only: add_Suc_right add_Suc)
  show ?case
    unfolding unpack_assets_loop.simps chunk bind_res_simps next_offset rest asset range by simp
qed simp

lemma unpack_assets: "unpack_assets input = Inr (stored_assets input)"
  unfolding unpack_assets_def stored_assets_def
  using unpack_assets_loop[of 0 "length input div 32" input "[]"] by simp

text \<open>The array one slot at a time: a zero slot is free, and so is a zeroed tail.\<close>

lemma stored_assets_append:
  "asset_slot (le_bytes 32 (m :: pubkey) @ r) 0 = \<lparr>mint_address = m\<rparr>"
  "asset_slot (le_bytes 32 (m :: pubkey) @ r) (Suc i) = asset_slot r i"
  by (simp_all add: asset_slot_def codec_simps)

lemma stored_assets_Cons:
  "stored_assets (le_bytes 32 m @ r) =
    (if m = 0 then [] else [\<lparr>mint_address = m\<rparr>]) @ stored_assets r"
proof -
  have n: "(32 + length r) div 32 = Suc (length r div 32)" by simp
  have u: "[0..<Suc k] = 0 # map Suc [0..<k]" for k by (simp add: upt_conv_Cons map_Suc_upt del: upt_Suc)
  show ?thesis
    unfolding stored_assets_def length_append length_le_bytes n u
    by (simp add: stored_assets_append asset_is_initialized_iff comp_def)
qed

lemma stored_assets_zeros: "stored_assets (replicate n 0) = []"
  by (auto simp: stored_assets_def asset_slot_def asset_is_initialized_iff filter_empty_conv from_le_zeros
     simp flip: replicate_add)

lemma asset_range_fits:
  "32 * unat i + 32 < 2 ^ 64 \<Longrightarrow> asset_range oc i = Inr (32 * unat i, 32 * unat i + 32)"
  by (simp add: asset_range_def unat_mul_fits unat_add_fits mult.commute)

lemma unpack_unchecked_asset_fits:
  assumes "32 * unat i + 32 \<le> length d" "length d < 2 ^ 64"
  shows "unpack_unchecked_asset oc d i = Inr (asset_slot d (unat i))"
  using assms
  by (simp add: unpack_unchecked_asset_def asset_range_fits slice_get_ok
      unpack_asset_unchecked_def unpack_asset_from_slice_def slice_idx_ok asset_slot_def)

lemma write_asset_fits:
  assumes "32 * unat i + 32 \<le> length d" "length d < 2 ^ 64"
  shows "write_asset oc a i d =
    Inr (take (32 * unat i) d @ le_bytes 32 (mint_address a) @ drop (32 * unat i + 32) d)"
  using assms
  by (simp add: write_asset_def get_asset_slice_def asset_range_fits slice_get_ok
      in_range_def slice_idx_ok pack_asset_into_slice_def copy_into_def)

lemma asset_slot_write:
  assumes "32 * i + 32 \<le> length d"
  shows "asset_slot (take (32 * i) d @ le_bytes 32 (mint_address a) @ drop (32 * i + 32) d) j =
    (if j = i then a else asset_slot d j)"
proof -
  consider "j = i" | "j < i" | "i < j" by linarith
  then show ?thesis
  proof cases
    case 1
    then show ?thesis using assms by (simp add: asset_slot_def codec_simps)
  next
    case 2
    then have "32 * j + 32 \<le> 32 * i" by simp
    then show ?thesis using 2 assms by (simp add: asset_slot_def take_drop min_def)
  next
    case 3
    then obtain k where "32 * j = 32 * i + 32 + k" by (metis Suc_leI le_iff_add mult_Suc_right mult_le_mono2 add.commute)
    then show ?thesis using 3 assms by (simp add: asset_slot_def drop_drop add.commute)
  qed
qed

subsection \<open>Lemmas on markets\<close>

lemma pack_markets_loop:
  "pack_markets_loop i ms t =
    (if ms = [] then Inr t
     else if 32 * (i + length ms) \<le> length t
     then Inr (take (32 * i) t @ concat (map (le_bytes 32) ms) @ drop (32 * (i + length ms)) t)
     else Inl Panic)"
proof (induction ms arbitrary: i t)
  case (Cons m ms)
  show ?case
  proof (cases "32 * (i + 1) \<le> length t")
    case True
    let ?t = "take (32 * i) t @ le_bytes 32 m @ drop (32 * (i + 1)) t"
    have "copy_into t (32 * i) (32 * (i + 1)) (le_bytes 32 m) = Inr ?t"
      using True by (simp add: copy_into_def)
    moreover have "length ?t = length t" using True by simp
    ultimately show ?thesis using True Cons.IH[of "Suc i" ?t]
      by (auto simp: drop_drop algebra_simps)
  next
    case False
    then show ?thesis by (simp add: copy_into_def)
  qed
qed simp

lemma pack_markets:
  "pack_markets t ms =
    (if 32 * length ms \<le> length t
     then Inr (concat (map (le_bytes 32) ms) @ drop (32 * length ms) t) else Inl Panic)"
  by (simp add: pack_markets_def pack_markets_loop)

lemma unpack_pack_market:
  assumes "i < length ms" "length ms \<le> 2 ^ 16"
  shows "unpack_market (concat (map (le_bytes 32) ms) @ r) (of_nat i) = Inr (ms ! i)"
proof -
  have "unat (of_nat i :: u16) = i" using assms by (simp add: unat_of_nat)
  then show ?thesis
    using c256.read_nth[OF assms(1), of r]
    by (auto simp: unpack_market_def slice_idx_def Let_def)
qed

end
