(* ===== verification/Utils.thy ===== *)
theory Utils
  imports Complex_Main Pool_State
begin

text \<open>
  The helpers of utils.rs: the pool address and signal provider checks, slice filling, and the
  fixed-point power that compounds the fee ratio, with its exactness bounds against the real
  power and its freedom from overflow.
\<close>

subsection \<open>Address and signature checks\<close>

definition check_pool_key :: "env \<Rightarrow> pubkey \<Rightarrow> pubkey \<Rightarrow> bytes32 \<Rightarrow> unit res" where
  "check_pool_key e program_id key pool_seed =
     bind_res (try_err (create_program_address e (pool_seeds pool_seed) program_id)) (\<lambda>expected_key.
     if expected_key \<noteq> key then Inl (Error InvalidArgument) else Inr ())"

definition check_signal_provider :: "pool_header \<Rightarrow> account_info \<Rightarrow> bool \<Rightarrow> unit res" where
  "check_signal_provider h a is_signer =
     (if signal_provider h \<noteq> ai_key a then Inl (Error MissingRequiredSignature)
      else if is_signer \<and> \<not> ai_signer a then Inl (Error MissingRequiredSignature)
      else Inr ())"

lemma check_pool_key_Inr [res_simps]:
  "check_pool_key e pid k s = Inr u \<longleftrightarrow> create_program_address e (pool_seeds s) pid = Inr k"
  by (auto simp: check_pool_key_def res_simps)

lemma check_signal_provider_Inr [res_simps]:
  "check_signal_provider h a b = Inr u \<longleftrightarrow> ai_key a = signal_provider h \<and> (b \<longrightarrow> ai_signer a)"
  by (auto simp: check_signal_provider_def)

subsection \<open>Filling a slice\<close>

primrec fill_slice_loop :: "nat \<Rightarrow> nat \<Rightarrow> u8 \<Rightarrow> bytes \<Rightarrow> bytes" where
  "fill_slice_loop 0 i val target = target"
| "fill_slice_loop (Suc n) i val target = fill_slice_loop n (Suc i) val (target[i := val])"

definition fill_slice :: "bytes \<Rightarrow> u8 \<Rightarrow> bytes" where
  "fill_slice target val = fill_slice_loop (length target) 0 val target"

lemma fill_slice_loop: "i + n = length t \<Longrightarrow>
    fill_slice_loop n i val t = take i t @ replicate n val"
proof (induction n arbitrary: i t)
  case (Suc n)
  then have i: "i < length t" by simp
  have "take (Suc i) (t[i := val]) = take i t @ [val]"
    using i by (simp add: take_Suc_conv_app_nth)
  moreover have "fill_slice_loop n (Suc i) val (t[i := val])
      = take (Suc i) (t[i := val]) @ replicate n val"
    by (rule Suc.IH) (use Suc.prems in simp)
  ultimately show ?case by (simp only: fill_slice_loop.simps) simp
qed simp

lemma fill_slice: "fill_slice t val = replicate (length t) val"
  by (simp add: fill_slice_def fill_slice_loop)

subsection \<open>Fixed-point powers\<close>

lemma unat_drop_bit_1: "unat (drop_bit 1 (n :: 'a::len word)) = unat n div 2"
  by (simp only: unat_drop_bit_eq) (simp add: drop_bit_eq_div)

function pow_fixedpoint_u16 :: "bool \<Rightarrow> u32 \<Rightarrow> u64 \<Rightarrow> u32 res" where
  "pow_fixedpoint_u16 oc x n =
     (if n = 1 then Inr x
      else let q = drop_bit 1 n in
        if q = 0 then Inr x
        else bind_res (pow_fixedpoint_u16 oc x (drop_bit 1 n)) (\<lambda>p.
             bind_res (mul_w oc p p) (\<lambda>pp.
             let sq = drop_bit 16 pp in
             if n AND 1 = 1 then bind_res (mul_w oc sq x) (\<lambda>s. Inr (drop_bit 16 s))
             else Inr sq)))"
  by pat_completeness auto

termination
proof (relation "measure (\<lambda>(oc, x, n). unat n)", goal_cases)
  case (2 oc x n q)
  then have "unat n div 2 \<noteq> 0" by (metis unat_drop_bit_1 unat_eq_zero)
  then show ?case unfolding in_measure prod.case unat_drop_bit_1 by simp
qed simp

declare pow_fixedpoint_u16.simps [simp del]

text \<open>The same recursion on natural numbers, where nothing can overflow.\<close>

fun powfx :: "nat \<Rightarrow> nat \<Rightarrow> nat" where
  "powfx x n = (if n \<le> 1 then x
     else let p = powfx x (n div 2); sq = p * p div 65536
          in if odd n then sq * x div 65536 else sq)"

declare powfx.simps [simp del]

lemma powfx_le: "x < 65536 \<Longrightarrow> powfx x n \<le> x"
proof (induction x n rule: powfx.induct)
  case (1 x n)
  show ?case
  proof (cases "n \<le> 1")
    case True
    then show ?thesis by (simp add: powfx.simps)
  next
    case False
    define p where "p = powfx x (n div 2)"
    have p: "p \<le> x" using 1 False by (simp add: p_def)
    then have "p * p \<le> x * 65536" using 1 by (intro mult_le_mono) auto
    then have sq: "p * p div 65536 \<le> x" by (metis div_le_mono nonzero_mult_div_cancel_right zero_neq_numeral)
    moreover have "p * p div 65536 * x div 65536 \<le> x"
    proof -
      have "p * p div 65536 * x \<le> 65536 * x" using sq 1 by (intro mult_le_mono) auto
      then show ?thesis by (metis div_le_mono nonzero_mult_div_cancel_left zero_neq_numeral)
    qed
    ultimately show ?thesis using False by (simp add: powfx.simps[of x n] p_def[symmetric] Let_def)
  qed
qed

lemma mul_fits_u32:
  assumes "unat (a :: u32) < 65536" "unat b < 65536"
  shows "unat a * unat b < 2 ^ 32"
proof -
  have "unat a * unat b \<le> 65535 * 65535" using assms by (intro mult_le_mono) auto
  then show ?thesis by simp
qed

lemma unat_drop_bit_16: "unat (drop_bit 16 (a :: 'a::len word)) = unat a div 65536"
  by (simp only: unat_drop_bit_eq) (simp add: drop_bit_eq_div)

lemma unat_and_1: "(n AND 1 = (1 :: u64)) \<longleftrightarrow> odd (unat n)"
proof -
  have "unat (n AND 1) = unat n mod 2"
    by (simp only: unsigned_and_eq) (simp add: and_one_eq)
  then show ?thesis by (simp only: word_unat_eq_iff odd_iff_mod_2_eq_one unat_1)
qed

lemma pow_fixedpoint_refines:
  "unat x < 65536 \<Longrightarrow>
    \<exists>r. pow_fixedpoint_u16 oc x n = Inr r \<and> unat r = powfx (unat x) (unat n)"
proof (induction oc x n rule: pow_fixedpoint_u16.induct)
  case (1 oc x n)
  show ?case
  proof (cases "n = 1 \<or> drop_bit 1 n = 0")
    case True
    then have "unat n \<le> 1"
    proof
      assume "drop_bit 1 n = 0"
      then have "unat n div 2 = 0" by (metis unat_drop_bit_1 unat_0)
      then show ?thesis by simp
    qed simp
    moreover have "pow_fixedpoint_u16 oc x n = Inr x"
      using True by (auto simp: pow_fixedpoint_u16.simps[of oc x n] Let_def)
    ultimately show ?thesis by (simp add: powfx.simps)
  next
    case False
    then obtain p where p: "pow_fixedpoint_u16 oc x (drop_bit 1 n) = Inr p"
        "unat p = powfx (unat x) (unat n div 2)"
      using 1 unat_drop_bit_1[of n] by auto
    have px: "unat p \<le> unat x" using 1 p powfx_le by simp
    then have p16: "unat p < 65536" using 1 by simp
    note pp = mul_fits_u32[OF p16 p16]
    have sq: "unat (drop_bit 16 (p * p)) = unat p * unat p div 65536"
      using pp by (simp add: unat_drop_bit_16 unat_mul_fits)
    have "unat p * unat p \<le> 65536 * unat p" using p16 by simp
    then have sq16: "unat (drop_bit 16 (p * p)) < 65536"
      using p16 unfolding sq by (metis div_le_mono nonzero_mult_div_cancel_left order_le_less_trans zero_neq_numeral)
    note sx = mul_fits_u32[OF sq16 "1.prems"]
    have out: "unat (drop_bit 16 (drop_bit 16 (p * p) * x)) = unat p * unat p div 65536 * unat x div 65536"
      using sx by (simp only: unat_drop_bit_16[of "drop_bit 16 (p * p) * x"] unat_mul_fits sq len_num1)
        (simp add: sq unat_mul_fits del: drop_bit_numeral_minus_bit1)
    have "unat n div 2 \<noteq> 0" using False by (metis unat_drop_bit_1 unat_eq_zero)
    then have n2: "1 < unat n" by simp
    show ?thesis
      using False p pp sx sq out n2 unat_and_1[of n]
      by (simp add: pow_fixedpoint_u16.simps[of oc x n] powfx.simps[of "unat x" "unat n"] Let_def)
  qed
qed

text \<open>The value the recursion rounds down: \<open>x ^ n / 2 ^ (16 (n - 1))\<close>.\<close>

definition exact_pow :: "nat \<Rightarrow> nat \<Rightarrow> real" where
  "exact_pow x n = real x ^ n / 65536 ^ (n - 1)"

lemma exact_pow_double: "1 \<le> m \<Longrightarrow> exact_pow x (2 * m) = exact_pow x m * exact_pow x m / 65536"
proof -
  assume m: "1 \<le> m"
  then have e: "2 * m - 1 = (m - 1) + (m - 1) + 1" by simp
  have "real x ^ (2 * m) = real x ^ m * real x ^ m" by (simp add: mult_2 power_add)
  then show ?thesis unfolding exact_pow_def e power_add by simp
qed

lemma exact_pow_Suc: "1 \<le> m \<Longrightarrow> exact_pow x (Suc m) = exact_pow x m * real x / 65536"
  by (cases m) (simp_all add: exact_pow_def mult_ac)

lemma exact_pow_le: "x \<le> 65536 \<Longrightarrow> 1 \<le> m \<Longrightarrow> exact_pow x m \<le> 65536"
proof -
  assume x: "x \<le> 65536" and m: "1 \<le> m"
  from x have "real x ^ m \<le> 65536 ^ m" by (intro power_mono) auto
  also have "\<dots> = 65536 * 65536 ^ (m - 1)" using m by (cases m) simp_all
  finally show ?thesis by (simp add: exact_pow_def divide_le_eq)
qed

lemma exact_pow_nonneg: "0 \<le> exact_pow x m"
  by (simp add: exact_pow_def)

text \<open>One rounded multiplication loses less than one unit.\<close>

lemma real_div_floor:
  "real (a div 65536) \<le> real a / 65536" "real a / 65536 < real (a div 65536) + 1"
proof -
  have "real a = real (a div 65536) * 65536 + real (a mod 65536)"
    by (metis div_mult_mod_eq of_nat_add of_nat_mult of_nat_numeral)
  then show "real (a div 65536) \<le> real a / 65536" "real a / 65536 < real (a div 65536) + 1"
    using mod_less_divisor[of 65536 a] by (simp_all add: field_simps)
qed

lemma square_step:
  fixes e p d :: real
  assumes "p \<le> e" "e \<le> p + d" "0 \<le> p" "p \<le> 65536" "e \<le> 65536"
  shows "p * p / 65536 \<le> e * e / 65536" "e * e / 65536 \<le> p * p / 65536 + 2 * d"
proof -
  show "p * p / 65536 \<le> e * e / 65536" using assms by (simp add: mult_mono divide_right_mono)
  have "e * e - p * p = (e - p) * (e + p)" by (simp add: algebra_simps)
  also have "\<dots> \<le> d * 131072" using assms by (intro mult_mono) auto
  finally show "e * e / 65536 \<le> p * p / 65536 + 2 * d" by (simp add: field_simps)
qed

lemma scale_step:
  fixes e p d x :: real
  assumes "p \<le> e" "e \<le> p + d" "0 \<le> x" "x \<le> 65536" "0 \<le> d"
  shows "p * x / 65536 \<le> e * x / 65536" "e * x / 65536 \<le> p * x / 65536 + d"
proof -
  show "p * x / 65536 \<le> e * x / 65536" using assms by (simp add: mult_right_mono divide_right_mono)
  have "(e - p) * x \<le> d * 65536" using assms by (intro mult_mono) auto
  then show "e * x / 65536 \<le> p * x / 65536 + d" by (simp add: field_simps)
qed

lemma powfx_bounds:
  "x < 65536 \<Longrightarrow> 1 \<le> n \<Longrightarrow>
    real (powfx x n) \<le> exact_pow x n \<and> exact_pow x n \<le> real (powfx x n) + real (n - 1)"
proof (induction x n rule: powfx.induct)
  case (1 x n)
  show ?case
  proof (cases "n \<le> 1")
    case True
    with 1 have "n = 1" by simp
    then show ?thesis by (simp add: powfx.simps exact_pow_def)
  next
    case False
    define m where "m = n div 2"
    define p where "p = powfx x m"
    define sq where "sq = p * p div 65536"
    have m: "1 \<le> m" using False by (simp add: m_def)
    have p: "real p \<le> exact_pow x m" "exact_pow x m \<le> real p + real (m - 1)"
      using "1.IH" "1.prems" False m by (simp_all add: p_def m_def)
    have pb: "real p \<le> 65536" using powfx_le[of x m] "1.prems" by (simp add: p_def)
    note s = square_step[OF p _ pb exact_pow_le]
    have sq: "real sq \<le> exact_pow x (2 * m)" "exact_pow x (2 * m) \<le> real sq + real (2 * m - 1)"
      using s "1.prems" m real_div_floor[of "p * p"]
      by (simp_all add: exact_pow_double sq_def of_nat_diff)
    show ?thesis
    proof (cases "odd n")
      case True
      then have n: "n = Suc (2 * m)" by (simp add: m_def)
      note t = scale_step[OF sq, of "real x"]
      show ?thesis
        using t "1.prems" m real_div_floor[of "sq * x"] True False
        by (simp add: powfx.simps[of x n] Let_def p_def[symmetric] m_def[symmetric] sq_def[symmetric])
           (simp add: n exact_pow_Suc of_nat_diff)
    next
      case even: False
      then have n: "n = 2 * m" by (simp add: m_def)
      have "powfx x n = sq" using even False
        by (simp add: powfx.simps[of x n] Let_def p_def[symmetric] m_def[symmetric] sq_def[symmetric])
      then show ?thesis using sq by (simp only: n)
    qed
  qed
qed

lemma powfx_error:
  assumes "x < 65536" "1 \<le> n"
  shows "powfx x n * 65536 ^ (n - 1) \<le> x ^ n"
    "x ^ n \<le> (powfx x n + (n - 1)) * 65536 ^ (n - 1)"
proof -
  have "real (powfx x n) * 65536 ^ (n - 1) \<le> real x ^ n"
    using powfx_bounds[OF assms] by (simp add: exact_pow_def le_divide_eq)
  then show "powfx x n * 65536 ^ (n - 1) \<le> x ^ n"
    by (metis (no_types) of_nat_le_iff of_nat_mult of_nat_numeral of_nat_power)
  have "real x ^ n \<le> (real (powfx x n) + real (n - 1)) * 65536 ^ (n - 1)"
    using powfx_bounds[OF assms] by (simp add: exact_pow_def divide_le_eq)
  then show "x ^ n \<le> (powfx x n + (n - 1)) * 65536 ^ (n - 1)"
    by (metis (no_types) of_nat_add of_nat_le_iff of_nat_mult of_nat_numeral of_nat_power)
qed

text \<open>Once the exact power is below one unit the rounded one is zero, and it stays zero.\<close>

lemma powfx_zero:
  assumes "x < 65536" "1 \<le> n" "x ^ n < 65536 ^ (n - 1)" "n \<le> m"
  shows "powfx x m = 0"
proof -
  have "x ^ m = x ^ n * x ^ (m - n)" using assms(4) by (metis le_add_diff_inverse power_add)
  also have "\<dots> \<le> x ^ n * 65536 ^ (m - n)"
    using assms(1) by (intro mult_le_mono2 power_mono) auto
  also have "\<dots> < 65536 ^ (n - 1) * 65536 ^ (m - n)"
    using assms(3) by (rule mult_strict_right_mono) simp
  also have "\<dots> = 65536 ^ (m - 1)"
    using assms by (simp flip: power_add)
  finally have lt: "x ^ m < 65536 ^ (m - 1)" .
  show ?thesis
  proof (rule ccontr)
    assume "powfx x m \<noteq> 0"
    then have "1 * 65536 ^ (m - 1) \<le> powfx x m * 65536 ^ (m - 1)" by (intro mult_le_mono1) simp
    also have "\<dots> \<le> x ^ m" by (rule powfx_error(1)) (use assms in auto)
    finally show False using lt by simp
  qed
qed

end
