(* ===== verification/Proc_Common.thy ===== *)
theory Proc_Common
  imports Utils
begin

text \<open>
  Steps the handlers of processor.rs share: building and invoking one token instruction, the
  derivation of the Bonfida fee accounts, reading the pool header and assets out of the pool
  account, and the three-way split of a fee.
\<close>

subsection \<open>One token instruction\<close>

definition token_transfer ::
    "env \<Rightarrow> pubkey \<Rightarrow> pubkey \<Rightarrow> pubkey \<Rightarrow> pubkey \<Rightarrow> u64 \<Rightarrow> account_info list \<Rightarrow> bytes list list \<Rightarrow> world \<Rightarrow> world res" where
  "token_transfer e spl src dst authority amount infos seeds w =
     bind_res (try_err (ix_transfer e spl src dst authority [] amount)) (\<lambda>ix.
     invoke_signed e ix infos seeds w)"

definition token_mint_to ::
    "env \<Rightarrow> pubkey \<Rightarrow> pubkey \<Rightarrow> pubkey \<Rightarrow> pubkey \<Rightarrow> u64 \<Rightarrow> account_info list \<Rightarrow> bytes list list \<Rightarrow> world \<Rightarrow> world res" where
  "token_mint_to e spl mint dst authority amount infos seeds w =
     bind_res (try_err (ix_mint_to e spl mint dst authority [] amount)) (\<lambda>ix.
     invoke_signed e ix infos seeds w)"

definition token_burn ::
    "env \<Rightarrow> pubkey \<Rightarrow> pubkey \<Rightarrow> pubkey \<Rightarrow> pubkey \<Rightarrow> u64 \<Rightarrow> account_info list \<Rightarrow> world \<Rightarrow> world res" where
  "token_burn e spl acct mint authority amount infos w =
     bind_res (try_err (ix_burn e spl acct mint authority [] amount)) (\<lambda>ix.
     invoke e ix infos w)"

definition bonfida_pt_key :: "env \<Rightarrow> string \<Rightarrow> pubkey \<Rightarrow> pubkey res" where
  "bonfida_pt_key e name mint_key =
     bind_res (unwrap_res (pubkey_from_str e name)) (\<lambda>k.
     Inr (get_associated_token_address e k mint_key))"

text \<open>The balance a token account shows, if it parses.\<close>

definition token_balance :: "env \<Rightarrow> world \<Rightarrow> account_info \<Rightarrow> u64 option" where
  "token_balance e w a =
     (case token_account_unpack e (data_of w a) of Inl err \<Rightarrow> None | Inr t \<Rightarrow> Some (ta_amount t))"

subsection \<open>Reading the pool account\<close>

definition read_pool_header :: "world \<Rightarrow> account_info \<Rightarrow> pool_header res" where
  "read_pool_header w pool_account =
     bind_res (slice_idx (data_of w pool_account) 0 HEADER_LEN) unpack_header"

definition asset_offset_of :: "pool_header \<Rightarrow> nat" where
  "asset_offset_of h = HEADER_LEN + PUBKEY_LENGTH * unat (number_of_markets h)"

definition read_pool_assets :: "world \<Rightarrow> account_info \<Rightarrow> pool_header \<Rightarrow> pool_asset list res" where
  "read_pool_assets w pool_account h =
     bind_res (slice_from (data_of w pool_account) (asset_offset_of h)) unpack_assets"

lemma read_pool_header_Inr:
  "read_pool_header w a = Inr h \<longleftrightarrow>
    HEADER_LEN \<le> length (data_of w a) \<and>
    unpack_header_from_slice (data_of w a) = Inr h \<and> status h \<noteq> Uninitialized"
proof -
  have "unpack_header_from_slice (take HEADER_LEN d) = unpack_header_from_slice d"
    if "HEADER_LEN \<le> length d" for d
    using that by (simp add: unpack_header_from_slice_def slice_idx_ok take_drop min_def nth_take)
  then show ?thesis
    by (auto simp: read_pool_header_def res_simps unpack_header_def unpack_header_unchecked_def
        header_is_initialized_iff)
qed

lemma read_pool_header_wf: "read_pool_header w a = Inr h \<Longrightarrow> wf_header h"
  using unpack_header_total by (fastforce simp: read_pool_header_Inr)

lemma read_pool_assets_Inr:
  "read_pool_assets w a h = Inr assets \<longleftrightarrow> asset_offset_of h \<le> length (data_of w a) \<and>
    assets = stored_assets (drop (asset_offset_of h) (data_of w a))"
  by (auto simp: read_pool_assets_def res_simps unpack_assets)

text \<open>Writing a header over the front of the pool account's data.\<close>

definition write_pool_header :: "world \<Rightarrow> account_info \<Rightarrow> pool_header \<Rightarrow> world res" where
  "write_pool_header w pool_account h =
     bind_res (in_range (data_of w pool_account) 0 HEADER_LEN (pack_header_into_slice h)) (\<lambda>d.
     Inr (set_data w pool_account d))"

lemma write_pool_header_Inr:
  "write_pool_header w a h = Inr w' \<longleftrightarrow> HEADER_LEN \<le> length (data_of w a) \<and>
    w' = set_data w a (header_bytes h @ drop HEADER_LEN (data_of w a))"
  by (auto simp: write_pool_header_def res_simps pack_header_into_slice)

subsection \<open>Splitting a fee\<close>

text \<open>
  Half to the signal provider, a quarter to the Bonfida fee account, the rest to buy-and-burn;
  each share is computed where its \<open>mint_to\<close> is.
\<close>

definition fee_rest :: "bool \<Rightarrow> u64 \<Rightarrow> u64 \<Rightarrow> u64 \<Rightarrow> u64 res" where
  "fee_rest oc fee bonfida_fee signal_provider_fee =
     bind_res (sub_w oc fee bonfida_fee) (\<lambda>r. sub_w oc r signal_provider_fee)"

lemma unat_half_quarter:
  "unat (fee div 2 :: u64) = unat fee div 2" "unat (fee div 4 :: u64) = unat fee div 4"
  by (simp_all add: unat_div_distrib)

lemma fee_rest: "fee_rest oc fee (fee div 4) (fee div 2) = Inr (fee - fee div 4 - fee div 2)"
proof -
  have q: "fee div 4 \<le> fee" by (simp add: word_le_nat_alt unat_half_quarter)
  then have "unat (fee - fee div 4) = unat fee - unat fee div 4"
    by (simp add: unat_sub unat_half_quarter)
  then have "fee div 2 \<le> fee - fee div 4" by (simp add: word_le_nat_alt unat_half_quarter)
  with q show ?thesis by (simp add: fee_rest_def)
qed

lemma fee_split_sum:
  "unat (fee div 2) + unat (fee div 4) + unat (fee - fee div 4 - fee div 2) = unat (fee :: u64)"
proof -
  have q: "fee div 4 \<le> fee" by (simp add: word_le_nat_alt unat_half_quarter)
  then have r: "unat (fee - fee div 4) = unat fee - unat fee div 4"
    by (simp add: unat_sub unat_half_quarter)
  then have "fee div 2 \<le> fee - fee div 4" by (simp add: word_le_nat_alt unat_half_quarter)
  then have "unat (fee - fee div 4 - fee div 2) = unat fee - unat fee div 4 - unat fee div 2"
    using r by (simp add: unat_sub unat_half_quarter)
  then show ?thesis by (simp add: unat_half_quarter)
qed

end
