(* ===== verification/Proc_Init.thy ===== *)
theory Proc_Init
  imports Proc_Common
begin

text \<open>
  \<open>process_init\<close>: checks the token program and the two derived addresses, sizes the pool account
  for the header, the markets and the assets, and creates the pool account and the pool mint.
\<close>

definition init_state_size :: "u32 \<Rightarrow> u16 \<Rightarrow> usize" where
  "init_state_size max_number_of_assets nb_markets =
     of_nat HEADER_LEN + of_nat PUBKEY_LENGTH * ucast nb_markets
     + ucast max_number_of_assets * of_nat ASSET_LEN"

definition process_init ::
    "env \<Rightarrow> pubkey \<Rightarrow> account_info list \<Rightarrow> bytes32 \<Rightarrow> u32 \<Rightarrow> u16 \<Rightarrow> world \<Rightarrow> world res" where
  "process_init e program_id accounts pool_seed max_number_of_assets nb_markets w =
     bind_res (next_account_info accounts) (\<lambda>(system_program_account, it).
     bind_res (next_account_info it) (\<lambda>(rent_sysvar_account, it).
     bind_res (next_account_info it) (\<lambda>(spl_token_program_account, it).
     bind_res (next_account_info it) (\<lambda>(pool_account, it).
     bind_res (next_account_info it) (\<lambda>(mint_account, it).
     bind_res (next_account_info it) (\<lambda>(payer_account, it).
     bind_res (try_err (rent_minimum_balance e (ai_key rent_sysvar_account)
         (data_of w rent_sysvar_account))) (\<lambda>minimum_balance.
     if ai_key spl_token_program_account \<noteq> spl_token_id e then Inl (Error IncorrectProgramId) else
     bind_res (try_err (create_program_address e (pool_seeds pool_seed) program_id)) (\<lambda>pool_key.
     if pool_key \<noteq> ai_key pool_account then Inl (Error InvalidArgument) else
     bind_res (try_err (create_program_address e (mint_seeds pool_seed) program_id)) (\<lambda>mint_key.
     if mint_key \<noteq> ai_key mint_account then Inl (Error InvalidArgument) else
     if ai_key spl_token_program_account \<noteq> spl_token_id e then Inl (Error InvalidArgument) else
     let state_size = init_state_size max_number_of_assets nb_markets;
         create_pool_account = ix_create_account e (ai_key payer_account) pool_key
           (minimum_balance state_size) state_size program_id;
         create_mint_account = ix_create_account e (ai_key payer_account) mint_key
           (minimum_balance (mint_len e)) (mint_len e) (ai_key spl_token_program_account) in
     bind_res (try_err (ix_initialize_mint e (ai_key spl_token_program_account) mint_key pool_key None 6))
       (\<lambda>init_mint.
     bind_res (invoke_signed e create_pool_account
         [system_program_account, payer_account, pool_account] [pool_seeds pool_seed] w) (\<lambda>w1.
     bind_res (invoke_signed e create_mint_account
         [system_program_account, payer_account, mint_account] [mint_seeds pool_seed] w1) (\<lambda>w2.
     invoke e init_mint [mint_account, rent_sysvar_account] w2))))))))))))"

text \<open>The size never wraps: it is the exact byte count of header, markets and assets.\<close>

lemma unat_init_state_size:
  "unat (init_state_size n m) = HEADER_LEN + PUBKEY_LENGTH * unat m + ASSET_LEN * unat n"
proof -
  have n: "unat n < 2 ^ 32" and m: "unat m < 2 ^ 16"
    using unsigned_less[of n, where ?'a = nat] unsigned_less[of m, where ?'a = nat] by simp_all
  then have a: "unat (of_nat PUBKEY_LENGTH * ucast m :: usize) = PUBKEY_LENGTH * unat m"
    "unat (ucast n * of_nat ASSET_LEN :: usize) = ASSET_LEN * unat n"
    by (simp_all add: unat_mul_fits)
  then have b: "unat (of_nat HEADER_LEN + of_nat PUBKEY_LENGTH * ucast m :: usize)
      = HEADER_LEN + PUBKEY_LENGTH * unat m"
    using m by (subst unat_add_fits) simp_all
  show ?thesis unfolding init_state_size_def
    using a b n m by (subst unat_add_fits) simp_all
qed

end
