(* ===== verification/Proc_Create.thy ===== *)
theory Proc_Create
  imports Proc_Common
begin

text \<open>
  \<open>process_create\<close>: the first deposit. Checks, one transfer per nonzero deposit amount, the first
  pool token, and the initial pool account data (header, markets, assets).
\<close>

subsection \<open>The accounts of the instruction\<close>

record create_accounts =
  cr_spl_token :: account_info
  cr_clock_sysvar :: account_info
  cr_serum_program :: account_info
  cr_signal_provider :: account_info
  cr_mint :: account_info
  cr_target_pool_token :: account_info
  cr_pool :: account_info
  cr_pool_assets :: "account_info list"
  cr_source_owner :: account_info
  cr_source_assets :: "account_info list"

definition create_parse :: "env \<Rightarrow> account_info list \<Rightarrow> nat \<Rightarrow> create_accounts res" where
  "create_parse e accounts number_of_assets =
     bind_res (next_account_info accounts) (\<lambda>(spl_token_account, it).
     if ai_key spl_token_account \<noteq> spl_token_id e then Inl (Error IncorrectProgramId) else
     bind_res (next_account_info it) (\<lambda>(clock_sysvar_account, it).
     bind_res (next_account_info it) (\<lambda>(serum_program_account, it).
     bind_res (next_account_info it) (\<lambda>(signal_provider_account, it).
     bind_res (next_account_info it) (\<lambda>(mint_account, it).
     bind_res (next_account_info it) (\<lambda>(target_pool_token_account, it).
     bind_res (next_account_info it) (\<lambda>(pool_account, it).
     bind_res (next_account_infos number_of_assets it) (\<lambda>(pool_assets_accounts, it).
     bind_res (next_account_info it) (\<lambda>(source_owner_account, it).
     bind_res (next_account_infos number_of_assets it) (\<lambda>(source_assets_accounts, it).
     Inr \<lparr>cr_spl_token = spl_token_account, cr_clock_sysvar = clock_sysvar_account,
          cr_serum_program = serum_program_account, cr_signal_provider = signal_provider_account,
          cr_mint = mint_account, cr_target_pool_token = target_pool_token_account,
          cr_pool = pool_account, cr_pool_assets = pool_assets_accounts,
          cr_source_owner = source_owner_account, cr_source_assets = source_assets_accounts\<rparr>))))))))))"

subsection \<open>Checks\<close>

text \<open>Lines after the accounts are read, up to the first transfer; returns the two derived keys.\<close>

definition create_checks ::
    "env \<Rightarrow> pubkey \<Rightarrow> create_accounts \<Rightarrow> bytes32 \<Rightarrow> pubkey list \<Rightarrow> u64 \<Rightarrow> world \<Rightarrow> (pubkey \<times> pubkey) res" where
  "create_checks e program_id a pool_seed markets period w =
     bind_res (unwrap_res (create_program_address e (pool_seeds pool_seed) program_id)) (\<lambda>pool_key.
     bind_res (unwrap_res (create_program_address e (mint_seeds pool_seed) program_id)) (\<lambda>mint_key.
     if pool_key \<noteq> ai_key (cr_pool a) then Inl (Error InvalidArgument) else
     if mint_key \<noteq> ai_key (cr_mint a) then Inl (Error InvalidArgument) else
     bind_res (slice_idx (data_of w (cr_pool a)) 0 HEADER_LEN) (\<lambda>hb.
     bind_res (unwrap_res (unpack_header_from_slice hb)) (\<lambda>h.
     if status h \<noteq> Uninitialized then Inl (Error InvalidArgument) else
     if owner_of w (cr_pool a) \<noteq> program_id then Inl (Error InvalidArgument) else
     if \<not> ai_signer (cr_source_owner a) then Inl (Error InvalidArgument) else
     if length markets div 65536 \<noteq> 0 then Inl (Error InvalidArgument) else
     if period < 604800 then Inl (Error InvalidArgument) else
     Inr (pool_key, mint_key)))))"

subsection \<open>Transfers\<close>

text \<open>
  The loop over the deposit amounts, in lock step with the pool and source asset accounts (all
  three have the same length); zero amounts are skipped and their asset is not recorded.
\<close>

fun create_deposits ::
    "env \<Rightarrow> create_accounts \<Rightarrow> pubkey \<Rightarrow> u64 list \<Rightarrow> account_info list \<Rightarrow> account_info list \<Rightarrow>
     world \<Rightarrow> pool_asset list \<Rightarrow> (world \<times> pool_asset list) res" where
  "create_deposits e a pool_key (amount # amounts) (pa # pas) (sa # sas) w pool_assets =
     (if amount = 0 then create_deposits e a pool_key amounts pas sas w pool_assets
      else
        bind_res (unpack_token_account e w pa) (\<lambda>pool_asset_data.
        if ta_close_authority pool_asset_data \<noteq> None \<or> ta_delegate pool_asset_data \<noteq> None
        then Inl (Error InvalidArgument) else
        if get_associated_token_address e pool_key (ta_mint pool_asset_data) \<noteq> ai_key pa
        then Inl (Error InvalidArgument) else
        bind_res (token_transfer e (ai_key (cr_spl_token a)) (ai_key sa) (ai_key pa)
            (ai_key (cr_source_owner a)) amount [sa, pa, cr_spl_token a, cr_source_owner a] [] w) (\<lambda>w'.
        create_deposits e a pool_key amounts pas sas w'
          (pool_assets @ [\<lparr>mint_address = ta_mint pool_asset_data\<rparr>]))))"
| "create_deposits e a pool_key _ _ _ w pool_assets = Inr (w, pool_assets)"

subsection \<open>The initial pool data\<close>

primrec write_assets :: "pool_asset list \<Rightarrow> nat \<Rightarrow> bytes \<Rightarrow> bytes res" where
  "write_assets [] offset data = Inr data"
| "write_assets (x # xs) offset data =
     bind_res (in_tail data offset (pack_asset_into_slice x)) (write_assets xs (offset + ASSET_LEN))"

definition create_header ::
    "create_accounts \<Rightarrow> bytes32 \<Rightarrow> pubkey list \<Rightarrow> u64 \<Rightarrow> u64 \<Rightarrow> u16 \<Rightarrow> pool_header" where
  "create_header a pool_seed markets current_timestamp period ratio =
     \<lparr>serum_program_id = ai_key (cr_serum_program a), seed = pool_seed,
      signal_provider = ai_key (cr_signal_provider a), status = Unlocked,
      number_of_markets = of_nat (length markets), fee_ratio = ratio,
      last_fee_collection_timestamp = current_timestamp, fee_collection_period = period\<rparr>"

definition create_write ::
    "create_accounts \<Rightarrow> pool_header \<Rightarrow> pubkey list \<Rightarrow> pool_asset list \<Rightarrow> world \<Rightarrow> world res" where
  "create_write a h markets pool_assets w =
     bind_res (pack_header_into_slice h (data_of w (cr_pool a))) (\<lambda>d.
     bind_res (in_tail d HEADER_LEN (\<lambda>t. pack_markets t markets)) (\<lambda>d.
     bind_res (write_assets pool_assets (HEADER_LEN + PUBKEY_LENGTH * length markets) d) (\<lambda>d.
     Inr (set_data w (cr_pool a) d))))"

subsection \<open>The handler\<close>

definition process_create ::
    "env \<Rightarrow> pubkey \<Rightarrow> account_info list \<Rightarrow> bytes32 \<Rightarrow> u64 list \<Rightarrow> pubkey list \<Rightarrow> u64 \<Rightarrow> u16 \<Rightarrow> world \<Rightarrow> world res" where
  "process_create e program_id accounts pool_seed deposit_amounts markets period ratio w =
     bind_res (create_parse e accounts (length deposit_amounts)) (\<lambda>a.
     bind_res (clock_of e w (cr_clock_sysvar a)) (\<lambda>current_timestamp.
     bind_res (create_checks e program_id a pool_seed markets period w) (\<lambda>(pool_key, mint_key).
     bind_res (create_deposits e a pool_key deposit_amounts (cr_pool_assets a) (cr_source_assets a) w [])
       (\<lambda>(w1, pool_assets).
     bind_res (token_mint_to e (ai_key (cr_spl_token a)) mint_key (ai_key (cr_target_pool_token a))
         pool_key 1000000 [cr_spl_token a, cr_mint a, cr_target_pool_token a, cr_pool a]
         [pool_seeds pool_seed] w1) (\<lambda>w2.
     create_write a (create_header a pool_seed markets current_timestamp period ratio)
       markets pool_assets w2)))))"

end
