(* ===== verification/Proc_Deposit.thy ===== *)
theory Proc_Deposit
  imports Proc_Common
begin

text \<open>
  \<open>process_deposit\<close>: buying pool tokens. The handler reads the pool, checks the accounts and the
  pool status, quotes the largest purchase the source accounts can pay for, transfers the
  corresponding share of every asset, and mints the pool tokens with the fee split.
\<close>

subsection \<open>The accounts of the instruction\<close>

record deposit_accounts =
  dp_spl_token :: account_info
  dp_mint :: account_info
  dp_target_pool_token :: account_info
  dp_signal_provider_pt :: account_info
  dp_bonfida_fee_pt :: account_info
  dp_bonfida_bnb_pt :: account_info
  dp_pool :: account_info
  dp_pool_assets :: "account_info list"
  dp_source_owner :: account_info
  dp_source_assets :: "account_info list"

definition deposit_parse ::
    "env \<Rightarrow> account_info list \<Rightarrow> world \<Rightarrow> (deposit_accounts \<times> pool_header \<times> pool_asset list) res" where
  "deposit_parse e accounts w =
     bind_res (next_account_info accounts) (\<lambda>(spl_token_account, it).
     if ai_key spl_token_account \<noteq> spl_token_id e then Inl (Error IncorrectProgramId) else
     bind_res (next_account_info it) (\<lambda>(mint_account, it).
     bind_res (next_account_info it) (\<lambda>(target_pool_token_account, it).
     bind_res (next_account_info it) (\<lambda>(signal_provider_pt_account, it).
     bind_res (next_account_info it) (\<lambda>(bonfida_fee_pt_account, it).
     bind_res (next_account_info it) (\<lambda>(bonfida_bnb_pt_account, it).
     bind_res (next_account_info it) (\<lambda>(pool_account, it).
     bind_res (read_pool_header w pool_account) (\<lambda>h.
     bind_res (read_pool_assets w pool_account h) (\<lambda>pool_assets.
     bind_res (next_account_infos (length pool_assets) it) (\<lambda>(pool_assets_accounts, it).
     bind_res (next_account_info it) (\<lambda>(source_owner_account, it).
     bind_res (next_account_infos (length pool_assets) it) (\<lambda>(source_assets_accounts, it).
     Inr (\<lparr>dp_spl_token = spl_token_account, dp_mint = mint_account,
           dp_target_pool_token = target_pool_token_account,
           dp_signal_provider_pt = signal_provider_pt_account,
           dp_bonfida_fee_pt = bonfida_fee_pt_account, dp_bonfida_bnb_pt = bonfida_bnb_pt_account,
           dp_pool = pool_account, dp_pool_assets = pool_assets_accounts,
           dp_source_owner = source_owner_account, dp_source_assets = source_assets_accounts\<rparr>,
          h, pool_assets)))))))))))))"

subsection \<open>Checks\<close>

definition deposit_checks ::
    "env \<Rightarrow> pubkey \<Rightarrow> deposit_accounts \<Rightarrow> pool_header \<Rightarrow> bytes32 \<Rightarrow> world \<Rightarrow> (pubkey \<times> pubkey) res" where
  "deposit_checks e program_id a h pool_seed w =
     bind_res (unwrap_res (create_program_address e (pool_seeds pool_seed) program_id)) (\<lambda>pool_key.
     bind_res (unwrap_res (create_program_address e (mint_seeds pool_seed) program_id)) (\<lambda>pool_mint_key.
     let signal_provider_pt_key = get_associated_token_address e (signal_provider h) pool_mint_key in
     bind_res (bonfida_pt_key e BONFIDA_FEE pool_mint_key) (\<lambda>bonfida_fee_pt_key.
     bind_res (bonfida_pt_key e BONFIDA_BNB pool_mint_key) (\<lambda>bonfida_bnb_pt_key.
     if pool_key \<noteq> ai_key (dp_pool a) then Inl (Error InvalidArgument) else
     if pool_mint_key \<noteq> ai_key (dp_mint a) then Inl (Error InvalidArgument) else
     if \<not> ai_signer (dp_source_owner a) then Inl (Error InvalidArgument) else
     if owner_of w (dp_pool a) \<noteq> program_id then Inl (Error InvalidArgument) else
     if ai_key (dp_signal_provider_pt a) \<noteq> signal_provider_pt_key then Inl (Error InvalidArgument) else
     if ai_key (dp_bonfida_fee_pt a) \<noteq> bonfida_fee_pt_key then Inl (Error InvalidArgument) else
     if ai_key (dp_bonfida_bnb_pt a) \<noteq> bonfida_bnb_pt_key then Inl (Error InvalidArgument) else
     Inr (pool_key, pool_mint_key)))))"

fun deposit_status :: "pool_status \<Rightarrow> unit res" where
  "deposit_status Unlocked = Inr ()"
| "deposit_status Locked = Inl (bot_err LockedOperation)"
| "deposit_status (LockedPendingOrder n) = Inl (bot_err LockedOperation)"
| "deposit_status (PendingOrder n) = Inl (bot_err LockedOperation)"
| "deposit_status Uninitialized = Inl Panic"

subsection \<open>The quote\<close>

text \<open>
  How many pool tokens one source account can pay for: a \<open>u128\<close> product, \<open>checked_div\<close> by the
  pool's amount (\<open>u64::MAX\<close> when the pool holds none), cast down with \<open>as u64\<close>.
\<close>

definition quote_limit :: "bool \<Rightarrow> u64 \<Rightarrow> u64 \<Rightarrow> u64 \<Rightarrow> u64 res" where
  "quote_limit oc source_asset_amount total_pooltokens pool_asset_amount =
     bind_res (mul_w oc (ucast source_asset_amount :: u128) (ucast total_pooltokens)) (\<lambda>product.
     Inr (ucast (if pool_asset_amount = 0 then ucast (- 1 :: u64) else product div ucast pool_asset_amount)))"

fun deposit_quote ::
    "env \<Rightarrow> world \<Rightarrow> u64 \<Rightarrow> account_info list \<Rightarrow> account_info list \<Rightarrow> u64 list \<Rightarrow> u64 \<Rightarrow> (u64 list \<times> u64) res" where
  "deposit_quote e w total_pooltokens (pa # pas) (sa # sas) pool_asset_amounts effective =
     bind_res (unpack_token_account e w pa) (\<lambda>pool_acct.
     bind_res (unpack_token_account e w sa) (\<lambda>source_acct.
     bind_res (quote_limit (overflow_checks e) (ta_amount source_acct) total_pooltokens
         (ta_amount pool_acct)) (\<lambda>limit.
     deposit_quote e w total_pooltokens pas sas (pool_asset_amounts @ [ta_amount pool_acct])
       (min limit effective))))"
| "deposit_quote e w total_pooltokens _ _ pool_asset_amounts effective =
     Inr (pool_asset_amounts, effective)"

subsection \<open>Transfers\<close>

text \<open>The share of one asset: rounded down, computed in \<open>u128\<close>; division by a zero supply panics.\<close>

definition buy_in_amount :: "bool \<Rightarrow> u64 \<Rightarrow> u64 \<Rightarrow> u64 \<Rightarrow> u128 res" where
  "buy_in_amount oc effective pool_asset_amount total_pooltokens =
     bind_res (mul_w oc (ucast effective :: u128) (ucast pool_asset_amount)) (\<lambda>product.
     div_w product (ucast total_pooltokens))"

fun deposit_transfers ::
    "env \<Rightarrow> deposit_accounts \<Rightarrow> pubkey \<Rightarrow> u64 \<Rightarrow> u64 \<Rightarrow> pool_asset list \<Rightarrow> u64 list \<Rightarrow>
     account_info list \<Rightarrow> account_info list \<Rightarrow> bool \<Rightarrow> world \<Rightarrow> (world \<times> bool) res" where
  "deposit_transfers e a pool_key effective supply (x # xs) (amt # amts) (pa # pas) (sa # sas) all_zero w =
     (if get_associated_token_address e pool_key (mint_address x) \<noteq> ai_key pa
      then Inl (Error InvalidArgument) else
      bind_res (buy_in_amount (overflow_checks e) effective amt supply) (\<lambda>amount.
      if amount = 0 then deposit_transfers e a pool_key effective supply xs amts pas sas all_zero w
      else
        bind_res (token_transfer e (ai_key (dp_spl_token a)) (ai_key sa) (ai_key pa)
            (ai_key (dp_source_owner a)) (ucast amount) [sa, pa, dp_spl_token a, dp_source_owner a] [] w) (\<lambda>w'.
        deposit_transfers e a pool_key effective supply xs amts pas sas False w')))"
| "deposit_transfers e a pool_key effective supply _ _ _ _ all_zero w = Inr (w, all_zero)"

subsection \<open>Minting\<close>

definition deposit_fee :: "bool \<Rightarrow> u16 \<Rightarrow> u64 \<Rightarrow> u64 res" where
  "deposit_fee oc ratio effective =
     bind_res (mul_w oc (ucast ratio :: u128) (ucast effective)) (\<lambda>product.
     Inr (ucast (drop_bit 16 product)))"

definition deposit_mint ::
    "env \<Rightarrow> deposit_accounts \<Rightarrow> pubkey \<Rightarrow> pubkey \<Rightarrow> bytes32 \<Rightarrow> account_info \<Rightarrow> u64 \<Rightarrow> world \<Rightarrow> world res" where
  "deposit_mint e a pool_key pool_mint_key pool_seed target amount w =
     token_mint_to e (ai_key (dp_spl_token a)) pool_mint_key (ai_key target) pool_key amount
       [dp_spl_token a, dp_mint a, target, dp_pool a] [pool_seeds pool_seed] w"

definition deposit_mints ::
    "env \<Rightarrow> deposit_accounts \<Rightarrow> pubkey \<Rightarrow> pubkey \<Rightarrow> bytes32 \<Rightarrow> u16 \<Rightarrow> u64 \<Rightarrow> world \<Rightarrow> world res" where
  "deposit_mints e a pool_key pool_mint_key pool_seed ratio effective w =
     bind_res (deposit_fee (overflow_checks e) ratio effective) (\<lambda>pool_token_fee.
     bind_res (sub_w (overflow_checks e) effective pool_token_fee) (\<lambda>after_fee.
     bind_res (deposit_mint e a pool_key pool_mint_key pool_seed (dp_target_pool_token a) after_fee w) (\<lambda>w.
     let signal_provider_fee = pool_token_fee div 2 in
     bind_res (deposit_mint e a pool_key pool_mint_key pool_seed (dp_signal_provider_pt a) signal_provider_fee w) (\<lambda>w.
     let bonfida_fee = pool_token_fee div 4 in
     bind_res (deposit_mint e a pool_key pool_mint_key pool_seed (dp_bonfida_fee_pt a) bonfida_fee w) (\<lambda>w.
     bind_res (fee_rest (overflow_checks e) pool_token_fee bonfida_fee signal_provider_fee) (\<lambda>rest.
     deposit_mint e a pool_key pool_mint_key pool_seed (dp_bonfida_bnb_pt a) rest w))))))"

subsection \<open>The handler\<close>

definition process_deposit ::
    "env \<Rightarrow> pubkey \<Rightarrow> account_info list \<Rightarrow> bytes32 \<Rightarrow> u64 \<Rightarrow> world \<Rightarrow> world res" where
  "process_deposit e program_id accounts pool_seed pool_token_amount w =
     bind_res (deposit_parse e accounts w) (\<lambda>(a, h, pool_assets).
     bind_res (deposit_checks e program_id a h pool_seed w) (\<lambda>(pool_key, pool_mint_key).
     bind_res (deposit_status (status h)) (\<lambda>_.
     bind_res (unpack_mint_supply e w (dp_mint a)) (\<lambda>total_pooltokens.
     bind_res (deposit_quote e w total_pooltokens (dp_pool_assets a) (dp_source_assets a) [] (- 1))
       (\<lambda>(pool_asset_amounts, limit).
     let effective = min pool_token_amount limit in
     bind_res (deposit_transfers e a pool_key effective total_pooltokens pool_assets pool_asset_amounts
         (dp_pool_assets a) (dp_source_assets a) True w) (\<lambda>(w1, amounts_all_zero).
     if amounts_all_zero then Inl (Error InvalidArgument) else
     deposit_mints e a pool_key pool_mint_key pool_seed (fee_ratio h) effective w1))))))"

end
