(* ===== verification/Proc_Redeem.thy ===== *)
theory Proc_Redeem
  imports Proc_Common
begin

text \<open>
  \<open>process_redeem\<close>: selling pool tokens back for the proportional share of every asset. Refused
  while orders are pending or fees are due; redeeming the whole supply resets the pool account.
\<close>

subsection \<open>The accounts of the instruction\<close>

record redeem_accounts =
  rd_spl_token :: account_info
  rd_clock_sysvar :: account_info
  rd_mint :: account_info
  rd_source_pool_token_owner :: account_info
  rd_source_pool_token :: account_info
  rd_pool :: account_info
  rd_pool_assets :: "account_info list"
  rd_target_assets :: "account_info list"

definition redeem_parse ::
    "env \<Rightarrow> account_info list \<Rightarrow> world \<Rightarrow> (redeem_accounts \<times> pool_header \<times> pool_asset list) res" where
  "redeem_parse e accounts w =
     bind_res (next_account_info accounts) (\<lambda>(spl_token_account, it).
     if ai_key spl_token_account \<noteq> spl_token_id e then Inl (Error IncorrectProgramId) else
     bind_res (next_account_info it) (\<lambda>(clock_sysvar_account, it).
     bind_res (next_account_info it) (\<lambda>(mint_account, it).
     bind_res (next_account_info it) (\<lambda>(source_pool_token_owner_account, it).
     bind_res (next_account_info it) (\<lambda>(source_pool_token_account, it).
     bind_res (next_account_info it) (\<lambda>(pool_account, it).
     bind_res (read_pool_header w pool_account) (\<lambda>h.
     bind_res (read_pool_assets w pool_account h) (\<lambda>pool_assets.
     bind_res (next_account_infos (length pool_assets) it) (\<lambda>(pool_assets_accounts, it).
     bind_res (next_account_infos (length pool_assets) it) (\<lambda>(target_assets_accounts, it).
     Inr (\<lparr>rd_spl_token = spl_token_account, rd_clock_sysvar = clock_sysvar_account,
           rd_mint = mint_account, rd_source_pool_token_owner = source_pool_token_owner_account,
           rd_source_pool_token = source_pool_token_account, rd_pool = pool_account,
           rd_pool_assets = pool_assets_accounts, rd_target_assets = target_assets_accounts\<rparr>,
          h, pool_assets)))))))))))"

subsection \<open>Checks\<close>

fun redeem_status :: "pool_status \<Rightarrow> unit res" where
  "redeem_status (PendingOrder n) = Inl (bot_err LockedOperation)"
| "redeem_status (LockedPendingOrder n) = Inl (bot_err LockedOperation)"
| "redeem_status _ = Inr ()"

definition fees_due :: "bool \<Rightarrow> u64 \<Rightarrow> pool_header \<Rightarrow> bool res" where
  "fees_due oc current_timestamp h =
     bind_res (sub_w oc current_timestamp (last_fee_collection_timestamp h)) (\<lambda>elapsed.
     Inr (fee_collection_period h < elapsed))"

definition redeem_checks ::
    "env \<Rightarrow> pubkey \<Rightarrow> redeem_accounts \<Rightarrow> pool_header \<Rightarrow> bytes32 \<Rightarrow> world \<Rightarrow> unit res" where
  "redeem_checks e program_id a h pool_seed w =
     bind_res (check_pool_key e program_id (ai_key (rd_pool a)) pool_seed) (\<lambda>_.
     bind_res (unwrap_res (create_program_address e (mint_seeds pool_seed) program_id)) (\<lambda>pool_mint_key.
     if pool_mint_key \<noteq> ai_key (rd_mint a) then Inl (Error InvalidArgument) else
     if \<not> ai_signer (rd_source_pool_token_owner a) then Inl (Error InvalidArgument) else
     if owner_of w (rd_pool a) \<noteq> program_id then Inl (Error InvalidArgument) else
     bind_res (redeem_status (status h)) (\<lambda>_.
     bind_res (clock_of e w (rd_clock_sysvar a)) (\<lambda>current_timestamp.
     bind_res (fees_due (overflow_checks e) current_timestamp h) (\<lambda>due.
     if due then Inl (bot_err LockedOperation) else Inr ())))))"

subsection \<open>Payouts\<close>

text \<open>The share of one asset, rounded down, with \<open>try_into().map_err(Overflow)\<close> to \<open>u64\<close>.\<close>

definition buy_out_amount :: "bool \<Rightarrow> u64 \<Rightarrow> u64 \<Rightarrow> u64 \<Rightarrow> u64 res" where
  "buy_out_amount oc pool_token_amount pool_asset_amount total_pooltokens =
     bind_res (mul_w oc (ucast pool_token_amount :: u128) (ucast pool_asset_amount)) (\<lambda>product.
     bind_res (div_w product (ucast total_pooltokens)) (\<lambda>quotient.
     if unat quotient < 2 ^ 64 then Inr (ucast quotient) else Inl (bot_err Overflow)))"

fun redeem_payouts ::
    "env \<Rightarrow> redeem_accounts \<Rightarrow> bytes32 \<Rightarrow> u64 \<Rightarrow> u64 \<Rightarrow> pool_asset list \<Rightarrow>
     account_info list \<Rightarrow> account_info list \<Rightarrow> world \<Rightarrow> world res" where
  "redeem_payouts e a pool_seed pool_token_amount supply (x # xs) (pa # pas) (ta # tas) w =
     (if get_associated_token_address e (ai_key (rd_pool a)) (mint_address x) \<noteq> ai_key pa
      then Inl (Error InvalidArgument) else
      bind_res (unpack_token_account e w pa) (\<lambda>pool_acct.
      bind_res (buy_out_amount (overflow_checks e) pool_token_amount (ta_amount pool_acct) supply) (\<lambda>amount.
      if amount = 0 then redeem_payouts e a pool_seed pool_token_amount supply xs pas tas w
      else
        bind_res (token_transfer e (ai_key (rd_spl_token a)) (ai_key pa) (ai_key ta)
            (ai_key (rd_pool a)) amount [rd_spl_token a, pa, ta, rd_pool a] [pool_seeds pool_seed] w) (\<lambda>w'.
        redeem_payouts e a pool_seed pool_token_amount supply xs pas tas w'))))"
| "redeem_payouts e a pool_seed pool_token_amount supply _ _ _ w = Inr w"

subsection \<open>Resetting an emptied pool\<close>

definition redeem_reset :: "redeem_accounts \<Rightarrow> pool_header \<Rightarrow> world \<Rightarrow> world res" where
  "redeem_reset a h w =
     bind_res (in_tail (data_of w (rd_pool a)) HEADER_LEN (\<lambda>t. Inr (fill_slice t 0))) (\<lambda>d.
     write_pool_header (set_data w (rd_pool a) d) (rd_pool a) (h\<lparr>status := Uninitialized\<rparr>))"

subsection \<open>The handler\<close>

definition process_redeem ::
    "env \<Rightarrow> pubkey \<Rightarrow> account_info list \<Rightarrow> bytes32 \<Rightarrow> u64 \<Rightarrow> world \<Rightarrow> world res" where
  "process_redeem e program_id accounts pool_seed pool_token_amount w =
     bind_res (redeem_parse e accounts w) (\<lambda>(a, h, pool_assets).
     bind_res (redeem_checks e program_id a h pool_seed w) (\<lambda>_.
     bind_res (unpack_mint_supply e w (rd_mint a)) (\<lambda>total_pooltokens.
     bind_res (unpack_token_account e w (rd_source_pool_token a)) (\<lambda>user.
     if ta_amount user < pool_token_amount then Inl (Error InsufficientFunds) else
     bind_res (redeem_payouts e a pool_seed pool_token_amount total_pooltokens pool_assets
         (rd_pool_assets a) (rd_target_assets a) w) (\<lambda>w1.
     bind_res (token_burn e (ai_key (rd_spl_token a)) (ai_key (rd_source_pool_token a))
         (ai_key (rd_mint a)) (ai_key (rd_source_pool_token_owner a)) pool_token_amount
         [rd_spl_token a, rd_source_pool_token a, rd_mint a, rd_source_pool_token_owner a] w1) (\<lambda>w2.
     if pool_token_amount = total_pooltokens then redeem_reset a h w2 else Inr w2))))))"

end
