(* ===== verification/Proc_Fees.thy ===== *)
theory Proc_Fees
  imports Proc_Common
begin

text \<open>
  \<open>process_collect_fees\<close>: compounds the fee ratio over the periods elapsed since the last
  collection, mints the corresponding pool tokens in three shares and advances the timestamp.
\<close>

subsection \<open>The accounts of the instruction\<close>

record fees_accounts =
  cf_spl_token :: account_info
  cf_clock_sysvar :: account_info
  cf_pool :: account_info
  cf_mint :: account_info
  cf_signal_provider_pt :: account_info
  cf_bonfida_fee_pt :: account_info
  cf_bonfida_bnb_pt :: account_info

definition fees_parse :: "env \<Rightarrow> account_info list \<Rightarrow> fees_accounts res" where
  "fees_parse e accounts =
     bind_res (next_account_info accounts) (\<lambda>(spl_token_account, it).
     if ai_key spl_token_account \<noteq> spl_token_id e then Inl (Error IncorrectProgramId) else
     bind_res (next_account_info it) (\<lambda>(clock_sysvar_account, it).
     bind_res (next_account_info it) (\<lambda>(pool_account, it).
     bind_res (next_account_info it) (\<lambda>(mint_account, it).
     bind_res (next_account_info it) (\<lambda>(signal_provider_pt_account, it).
     bind_res (next_account_info it) (\<lambda>(bonfida_fee_pt_account, it).
     bind_res (next_account_info it) (\<lambda>(bonfida_bnb_pt_account, it).
     Inr \<lparr>cf_spl_token = spl_token_account, cf_clock_sysvar = clock_sysvar_account,
          cf_pool = pool_account, cf_mint = mint_account,
          cf_signal_provider_pt = signal_provider_pt_account,
          cf_bonfida_fee_pt = bonfida_fee_pt_account,
          cf_bonfida_bnb_pt = bonfida_bnb_pt_account\<rparr>)))))))"

subsection \<open>Checks\<close>

text \<open>Returns the header and the three keys the later instructions name.\<close>

definition fees_checks ::
    "env \<Rightarrow> pubkey \<Rightarrow> fees_accounts \<Rightarrow> bytes32 \<Rightarrow> world \<Rightarrow> (pool_header \<times> pubkey \<times> pubkey \<times> pubkey) res" where
  "fees_checks e program_id a pool_seed w =
     bind_res (check_pool_key e program_id (ai_key (cf_pool a)) pool_seed) (\<lambda>_.
     bind_res (unwrap_res (create_program_address e (mint_seeds pool_seed) program_id)) (\<lambda>pool_mint_key.
     if pool_mint_key \<noteq> ai_key (cf_mint a) then Inl (Error InvalidArgument) else
     bind_res (read_pool_header w (cf_pool a)) (\<lambda>h.
     let signal_provider_pt_key = get_associated_token_address e (signal_provider h) pool_mint_key in
     bind_res (bonfida_pt_key e BONFIDA_FEE pool_mint_key) (\<lambda>bonfida_fee_pt_key.
     bind_res (bonfida_pt_key e BONFIDA_BNB pool_mint_key) (\<lambda>bonfida_bnb_pt_key.
     if ai_key (cf_signal_provider_pt a) \<noteq> signal_provider_pt_key then Inl (Error InvalidArgument) else
     if ai_key (cf_bonfida_fee_pt a) \<noteq> bonfida_fee_pt_key then Inl (Error InvalidArgument) else
     if ai_key (cf_bonfida_bnb_pt a) \<noteq> bonfida_bnb_pt_key then Inl (Error InvalidArgument) else
     Inr (h, pool_mint_key, bonfida_fee_pt_key, bonfida_bnb_pt_key))))))"

subsection \<open>The fee\<close>

definition fee_cycles :: "bool \<Rightarrow> u64 \<Rightarrow> pool_header \<Rightarrow> u64 res" where
  "fee_cycles oc current_timestamp h =
     bind_res (sub_w oc current_timestamp (last_fee_collection_timestamp h)) (\<lambda>elapsed.
     div_w elapsed (fee_collection_period h))"

text \<open>\<open>!\<close> is the bitwise complement: \<open>!fee_ratio\<close> is \<open>65535 - fee_ratio\<close>.\<close>

definition feeless_ratio_u16 :: "bool \<Rightarrow> u16 \<Rightarrow> u64 \<Rightarrow> u16 res" where
  "feeless_ratio_u16 oc ratio cycles =
     bind_res (pow_fixedpoint_u16 oc (ucast (NOT ratio)) cycles) (\<lambda>r. Inr (ucast r))"

definition advance_timestamp :: "bool \<Rightarrow> u64 \<Rightarrow> pool_header \<Rightarrow> pool_header res" where
  "advance_timestamp oc cycles h =
     bind_res (mul_w oc cycles (fee_collection_period h)) (\<lambda>d.
     bind_res (add_w oc (last_fee_collection_timestamp h) d) (\<lambda>t.
     Inr (h\<lparr>last_fee_collection_timestamp := t\<rparr>)))"

definition tokens_to_mint :: "bool \<Rightarrow> u16 \<Rightarrow> u64 \<Rightarrow> u64 res" where
  "tokens_to_mint oc feeless supply =
     (let collect_ratio = ucast (NOT feeless) :: u128; feeless_ratio = ucast feeless :: u128 in
      bind_res (mul_w oc collect_ratio (ucast supply)) (\<lambda>product.
      bind_res (div_w product feeless_ratio) (\<lambda>q. Inr (ucast q))))"

subsection \<open>Minting\<close>

definition fees_mint ::
    "env \<Rightarrow> fees_accounts \<Rightarrow> pubkey \<Rightarrow> bytes32 \<Rightarrow> pubkey \<Rightarrow> account_info \<Rightarrow> u64 \<Rightarrow> world \<Rightarrow> world res" where
  "fees_mint e a pool_mint_key pool_seed target_key target amount w =
     token_mint_to e (ai_key (cf_spl_token a)) pool_mint_key target_key (ai_key (cf_pool a)) amount
       [cf_spl_token a, cf_mint a, target, cf_pool a] [pool_seeds pool_seed] w"

definition fees_mints ::
    "env \<Rightarrow> fees_accounts \<Rightarrow> pubkey \<Rightarrow> bytes32 \<Rightarrow> pubkey \<Rightarrow> pubkey \<Rightarrow> u64 \<Rightarrow> world \<Rightarrow> world res" where
  "fees_mints e a pool_mint_key pool_seed bonfida_fee_pt_key bonfida_bnb_pt_key tokens w =
     (let signal_provider_fee = tokens div 2 in
      bind_res (fees_mint e a pool_mint_key pool_seed (ai_key (cf_signal_provider_pt a))
          (cf_signal_provider_pt a) signal_provider_fee w) (\<lambda>w.
      let bonfida_fee = tokens div 4 in
      bind_res (fees_mint e a pool_mint_key pool_seed bonfida_fee_pt_key (cf_bonfida_fee_pt a)
          bonfida_fee w) (\<lambda>w.
      bind_res (fee_rest (overflow_checks e) tokens bonfida_fee signal_provider_fee) (\<lambda>rest.
      fees_mint e a pool_mint_key pool_seed bonfida_bnb_pt_key (cf_bonfida_bnb_pt a) rest w))))"

subsection \<open>The handler\<close>

text \<open>\<open>PoolHeader::pack\<close> into the 117-byte front of the pool account's data.\<close>

definition store_pool_header :: "world \<Rightarrow> account_info \<Rightarrow> pool_header \<Rightarrow> world res" where
  "store_pool_header w pool_account h =
     bind_res (in_range (data_of w pool_account) 0 HEADER_LEN (pack_header h)) (\<lambda>d.
     Inr (set_data w pool_account d))"

definition process_collect_fees ::
    "env \<Rightarrow> pubkey \<Rightarrow> account_info list \<Rightarrow> bytes32 \<Rightarrow> world \<Rightarrow> world res" where
  "process_collect_fees e program_id accounts pool_seed w =
     (let oc = overflow_checks e in
     bind_res (fees_parse e accounts) (\<lambda>a.
     bind_res (fees_checks e program_id a pool_seed w)
       (\<lambda>(h, pool_mint_key, bonfida_fee_pt_key, bonfida_bnb_pt_key).
     bind_res (clock_of e w (cf_clock_sysvar a)) (\<lambda>current_timestamp.
     bind_res (fee_cycles oc current_timestamp h) (\<lambda>fee_cycles_to_collect.
     if fee_cycles_to_collect = 0 then Inl (bot_err LockedOperation) else
     bind_res (feeless_ratio_u16 oc (fee_ratio h) fee_cycles_to_collect) (\<lambda>feeless.
     bind_res (advance_timestamp oc fee_cycles_to_collect h) (\<lambda>h'.
     bind_res (unpack_mint_supply e w (cf_mint a)) (\<lambda>total_pooltokens.
     bind_res (tokens_to_mint oc feeless total_pooltokens) (\<lambda>tokens.
     bind_res (fees_mints e a pool_mint_key pool_seed bonfida_fee_pt_key bonfida_bnb_pt_key tokens w)
       (\<lambda>w1.
     store_pool_header w1 (cf_pool a) h'))))))))))"

end
