(* ===== verification/Proc_Orders.thy ===== *)
theory Proc_Orders
  imports Proc_Common
begin

text \<open>
  The Serum side of the pool: \<open>process_settle\<close> (a permissionless crank that settles an open
  orders account into the pool and counts down the pending orders), \<open>process_cancel\<close> (the signal
  provider cancels an order) and the disabled \<open>process_create_order\<close>.
\<close>

subsection \<open>Settling: the accounts\<close>

record settle_accounts =
  st_market :: account_info
  st_openorders :: account_info
  st_pool :: account_info
  st_pool_token_mint :: account_info
  st_coin_vault :: account_info
  st_pc_vault :: account_info
  st_pool_coin_wallet :: account_info
  st_pool_pc_wallet :: account_info
  st_vault_signer :: account_info
  st_spl_token :: account_info
  st_dex_program :: account_info
  st_referrer :: "account_info option"

definition settle_parse :: "env \<Rightarrow> account_info list \<Rightarrow> settle_accounts res" where
  "settle_parse e accounts =
     bind_res (next_account_info accounts) (\<lambda>(market, it).
     bind_res (next_account_info it) (\<lambda>(openorders_account, it).
     bind_res (next_account_info it) (\<lambda>(pool_account, it).
     bind_res (next_account_info it) (\<lambda>(pool_token_mint, it).
     bind_res (next_account_info it) (\<lambda>(coin_vault, it).
     bind_res (next_account_info it) (\<lambda>(pc_vault, it).
     bind_res (next_account_info it) (\<lambda>(pool_coin_wallet, it).
     bind_res (next_account_info it) (\<lambda>(pool_pc_wallet, it).
     bind_res (next_account_info it) (\<lambda>(vault_signer, it).
     bind_res (next_account_info it) (\<lambda>(spl_token_program, it).
     if ai_key spl_token_program \<noteq> spl_token_id e then Inl (Error IncorrectProgramId) else
     bind_res (next_account_info it) (\<lambda>(dex_program, it).
     let referrer_account = (case next_account_info it of Inr (r, _) \<Rightarrow> Some r | Inl _ \<Rightarrow> None) in
     Inr \<lparr>st_market = market, st_openorders = openorders_account, st_pool = pool_account,
          st_pool_token_mint = pool_token_mint, st_coin_vault = coin_vault, st_pc_vault = pc_vault,
          st_pool_coin_wallet = pool_coin_wallet, st_pool_pc_wallet = pool_pc_wallet,
          st_vault_signer = vault_signer, st_spl_token = spl_token_program,
          st_dex_program = dex_program, st_referrer = referrer_account\<rparr>)))))))))))"

subsection \<open>Settling: checks\<close>

text \<open>The two wallets are the pool's associated accounts for the mints the market data names.\<close>

definition settle_checks ::
    "env \<Rightarrow> pubkey \<Rightarrow> settle_accounts \<Rightarrow> bytes32 \<Rightarrow> world \<Rightarrow> (pubkey \<times> pubkey \<times> token_account \<times> token_account) res" where
  "settle_checks e program_id a pool_seed w =
     bind_res (check_pool_key e program_id (ai_key (st_pool a)) pool_seed) (\<lambda>_.
     bind_res (slice_idx (data_of w (st_market a)) 53 85) (\<lambda>coin_bytes.
     bind_res (slice_idx (data_of w (st_market a)) 85 117) (\<lambda>pc_bytes.
     let coin_mint = from_le coin_bytes; pc_mint = from_le pc_bytes;
         pool_coin_account_key = get_associated_token_address e (ai_key (st_pool a)) coin_mint;
         pool_pc_account_key = get_associated_token_address e (ai_key (st_pool a)) pc_mint in
     bind_res (unwrap_res (create_program_address e (mint_seeds pool_seed) program_id)) (\<lambda>pool_mint_key.
     if pool_mint_key \<noteq> ai_key (st_pool_token_mint a) then Inl (Error InvalidArgument) else
     if pool_coin_account_key \<noteq> ai_key (st_pool_coin_wallet a) then Inl (Error InvalidArgument) else
     if pool_pc_account_key \<noteq> ai_key (st_pool_pc_wallet a) then Inl (Error InvalidArgument) else
     bind_res (unpack_token_account e w (st_pool_coin_wallet a)) (\<lambda>pool_coin_account.
     bind_res (unpack_token_account e w (st_pool_pc_wallet a)) (\<lambda>pool_pc_account.
     Inr (coin_mint, pc_mint, pool_coin_account, pool_pc_account)))))))"

text \<open>A used slot must hold the market's mint; a free one is claimed for it.\<close>

definition claim_asset :: "pool_asset \<Rightarrow> pubkey \<Rightarrow> pool_asset res" where
  "claim_asset asset mint =
     (if asset_is_initialized asset
      then (if mint_address asset \<noteq> mint then Inl (Error InvalidArgument) else Inr asset)
      else Inr (asset\<lparr>mint_address := mint\<rparr>))"

definition settle_assets ::
    "env \<Rightarrow> settle_accounts \<Rightarrow> pool_header \<Rightarrow> usize \<Rightarrow> usize \<Rightarrow> pubkey \<Rightarrow> pubkey \<Rightarrow>
     token_account \<Rightarrow> token_account \<Rightarrow> world \<Rightarrow> (pool_asset \<times> pool_asset) res" where
  "settle_assets e a h pc_index coin_index coin_mint pc_mint pool_coin_account pool_pc_account w =
     bind_res (slice_from (data_of w (st_pool a)) (asset_offset_of h)) (\<lambda>assets.
     bind_res (unpack_unchecked_asset (overflow_checks e) assets coin_index) (\<lambda>pool_coin_asset.
     bind_res (unpack_unchecked_asset (overflow_checks e) assets pc_index) (\<lambda>pool_pc_asset.
     if ta_owner pool_coin_account \<noteq> ai_key (st_pool a) then Inl (Error InvalidArgument) else
     if ta_owner pool_pc_account \<noteq> ai_key (st_pool a) then Inl (Error InvalidArgument) else
     bind_res (claim_asset pool_coin_asset coin_mint) (\<lambda>coin_asset.
     bind_res (claim_asset pool_pc_asset pc_mint) (\<lambda>pc_asset.
     Inr (coin_asset, pc_asset))))))"

subsection \<open>Settling: the open orders account and the pool status\<close>

definition openorders_field :: "bytes \<Rightarrow> nat \<Rightarrow> nat \<Rightarrow> u64 res" where
  "openorders_field d i j = ok_or (map_option from_le (slice_get d i j)) (Error InvalidAccountData)"

record openorders_totals =
  oo_free_pc :: u64
  oo_free_coin :: u64
  oo_total_pc :: u64
  oo_total_coin :: u64

definition read_openorders :: "bytes \<Rightarrow> openorders_totals res" where
  "read_openorders d =
     bind_res (openorders_field d 93 101) (\<lambda>free_pc.
     bind_res (openorders_field d 77 85) (\<lambda>free_coin.
     bind_res (openorders_field d 101 109) (\<lambda>total_pc.
     bind_res (openorders_field d 85 93) (\<lambda>total_coin.
     Inr \<lparr>oo_free_pc = free_pc, oo_free_coin = free_coin,
          oo_total_pc = total_pc, oo_total_coin = total_coin\<rparr>))))"

definition fully_settled :: "openorders_totals \<Rightarrow> bool" where
  "fully_settled oo \<longleftrightarrow> oo_free_pc oo = oo_total_pc oo \<and> oo_free_coin oo = oo_total_coin oo"

fun settle_status :: "pool_status \<Rightarrow> pool_status res" where
  "settle_status (PendingOrder n) = (if n = 1 then Inr Unlocked else Inr (PendingOrder (n - 1)))"
| "settle_status (LockedPendingOrder n) =
     (if n = 1 then Inr Locked else Inr (LockedPendingOrder (n - 1)))"
| "settle_status _ = Inl (Error InvalidAccountData)"

fun_cases settle_statusE: "settle_status st = Inr st'"

definition settle_header :: "openorders_totals \<Rightarrow> pool_header \<Rightarrow> pool_header res" where
  "settle_header oo h =
     (if fully_settled oo
      then bind_res (settle_status (status h)) (\<lambda>s. Inr (h\<lparr>status := s\<rparr>)) else Inr h)"

subsection \<open>Settling: the handler\<close>

definition store_pool_asset :: "bool \<Rightarrow> pool_header \<Rightarrow> pool_asset \<Rightarrow> usize \<Rightarrow> account_info \<Rightarrow> world \<Rightarrow> world res" where
  "store_pool_asset oc h asset index pool_account w =
     bind_res (in_tail (data_of w pool_account) (asset_offset_of h) (write_asset oc asset index)) (\<lambda>d.
     Inr (set_data w pool_account d))"

definition settle_invoke :: "env \<Rightarrow> settle_accounts \<Rightarrow> bytes32 \<Rightarrow> world \<Rightarrow> world res" where
  "settle_invoke e a pool_seed w =
     bind_res (try_err (ix_settle_funds e (ai_key (st_dex_program a)) (ai_key (st_market a))
         (ai_key (st_spl_token a)) (ai_key (st_openorders a)) (ai_key (st_pool a))
         (ai_key (st_coin_vault a)) (ai_key (st_pool_coin_wallet a)) (ai_key (st_pc_vault a))
         (ai_key (st_pool_pc_wallet a)) (map_option ai_key (st_referrer a))
         (ai_key (st_vault_signer a)))) (\<lambda>instruction.
     invoke_signed e instruction
       ([st_dex_program a, st_market a, st_openorders a, st_pool a, st_coin_vault a, st_pc_vault a,
         st_pool_coin_wallet a, st_pool_pc_wallet a, st_vault_signer a, st_spl_token a]
        @ (case st_referrer a of None \<Rightarrow> [] | Some r \<Rightarrow> [r]))
       [pool_seeds pool_seed] w)"

definition process_settle ::
    "env \<Rightarrow> pubkey \<Rightarrow> account_info list \<Rightarrow> bytes32 \<Rightarrow> usize \<Rightarrow> usize \<Rightarrow> world \<Rightarrow> world res" where
  "process_settle e program_id accounts pool_seed pc_index coin_index w =
     (let oc = overflow_checks e in
     bind_res (settle_parse e accounts) (\<lambda>a.
     bind_res (settle_checks e program_id a pool_seed w)
       (\<lambda>(coin_mint, pc_mint, pool_coin_account, pool_pc_account).
     bind_res (read_pool_header w (st_pool a)) (\<lambda>h.
     bind_res (settle_assets e a h pc_index coin_index coin_mint pc_mint
         pool_coin_account pool_pc_account w) (\<lambda>(coin_asset, pc_asset).
     bind_res (read_openorders (data_of w (st_openorders a))) (\<lambda>oo.
     bind_res (settle_header oo h) (\<lambda>h'.
     bind_res (write_pool_header w (st_pool a) h') (\<lambda>w1.
     if oo_free_pc oo = 0 \<and> oo_free_coin oo = 0 then Inl (bot_err LockedOperation) else
     bind_res (store_pool_asset oc h coin_asset coin_index (st_pool a) w1) (\<lambda>w2.
     bind_res (store_pool_asset oc h pc_asset pc_index (st_pool a) w2) (\<lambda>w3.
     settle_invoke e a pool_seed w3))))))))))"

subsection \<open>Cancelling\<close>

definition process_cancel ::
    "env \<Rightarrow> pubkey \<Rightarrow> account_info list \<Rightarrow> bytes32 \<Rightarrow> side \<Rightarrow> u128 \<Rightarrow> world \<Rightarrow> world res" where
  "process_cancel e program_id accounts pool_seed sd order_id w =
     bind_res (next_account_info accounts) (\<lambda>(signal_provider_account, it).
     bind_res (next_account_info it) (\<lambda>(market, it).
     bind_res (next_account_info it) (\<lambda>(openorders_account, it).
     bind_res (next_account_info it) (\<lambda>(serum_market_bids, it).
     bind_res (next_account_info it) (\<lambda>(serum_market_asks, it).
     bind_res (next_account_info it) (\<lambda>(event_queue, it).
     bind_res (next_account_info it) (\<lambda>(pool_account, it).
     bind_res (next_account_info it) (\<lambda>(dex_program, it).
     bind_res (check_pool_key e program_id (ai_key pool_account) pool_seed) (\<lambda>_.
     bind_res (read_pool_header w pool_account) (\<lambda>h.
     bind_res (check_signal_provider h signal_provider_account True) (\<lambda>_.
     bind_res (try_err (ix_cancel_order e (ai_key dex_program) (ai_key market)
         (ai_key serum_market_bids) (ai_key serum_market_asks) (ai_key openorders_account)
         (ai_key pool_account) (ai_key event_queue) sd order_id)) (\<lambda>instruction.
     invoke_signed e instruction
       [dex_program, market, serum_market_bids, serum_market_asks, openorders_account,
        pool_account, event_queue] [pool_seeds pool_seed] w))))))))))))"

subsection \<open>Creating orders\<close>

text \<open>The body of the endpoint is commented out; it returns \<open>Custom(0)\<close> on every input.\<close>

definition process_create_order ::
    "env \<Rightarrow> pubkey \<Rightarrow> account_info list \<Rightarrow> bytes32 \<Rightarrow> side \<Rightarrow> u64 \<Rightarrow> u16 \<Rightarrow> order_type \<Rightarrow> u16 \<Rightarrow> u64 \<Rightarrow>
     u64 \<Rightarrow> pubkey \<Rightarrow> u64 \<Rightarrow> self_trade_behavior \<Rightarrow> usize \<Rightarrow> usize \<Rightarrow> u16 \<Rightarrow> world \<Rightarrow> world res" where
  "process_create_order e program_id accounts pool_seed sd limit_price ratio ot market_index
     coin_lot_size pc_lot_size target_mint client_id stb source_index target_index serum_limit w =
     Inl (Error (Custom 0))"

end
