(* ===== verification/Dispatch.thy ===== *)
theory Dispatch
  imports Instruction Proc_Init Proc_Create Proc_Deposit Proc_Redeem Proc_Fees Proc_Orders
begin

text \<open>
  \<open>Processor::process_instruction\<close> (decode, then one handler per instruction) and the program's
  entrypoint, which prints an error and returns it.
\<close>

fun dispatch :: "env \<Rightarrow> pubkey \<Rightarrow> account_info list \<Rightarrow> pool_instruction \<Rightarrow> world \<Rightarrow> world res" where
  "dispatch e pid accounts (Init pool_seed max_assets nb_markets) w =
     process_init e pid accounts pool_seed max_assets nb_markets w"
| "dispatch e pid accounts (Create pool_seed period ratio amounts markets) w =
     process_create e pid accounts pool_seed amounts markets period ratio w"
| "dispatch e pid accounts (Deposit pool_seed amount) w =
     process_deposit e pid accounts pool_seed amount w"
| "dispatch e pid accounts (CreateOrder pool_seed sd price ratio ot client_id stb source_index
       target_index market_index coin_lot pc_lot target_mint serum_limit) w =
     process_create_order e pid accounts pool_seed sd price ratio ot market_index coin_lot pc_lot
       target_mint client_id stb source_index target_index serum_limit w"
| "dispatch e pid accounts (SettleFunds pool_seed pc_index coin_index) w =
     process_settle e pid accounts pool_seed pc_index coin_index w"
| "dispatch e pid accounts (CancelOrder pool_seed sd order_id) w =
     process_cancel e pid accounts pool_seed sd order_id w"
| "dispatch e pid accounts (Redeem pool_seed amount) w =
     process_redeem e pid accounts pool_seed amount w"
| "dispatch e pid accounts (CollectFees pool_seed) w =
     process_collect_fees e pid accounts pool_seed w"

definition process_instruction :: "env \<Rightarrow> pubkey \<Rightarrow> account_info list \<Rightarrow> bytes \<Rightarrow> world \<Rightarrow> world res" where
  "process_instruction e program_id accounts instruction_data w =
     bind_res (unpack_instruction instruction_data) (\<lambda>i. dispatch e program_id accounts i w)"

fun error_message :: "bonfida_bot_error \<Rightarrow> string" where
  "error_message InvalidInstruction = ''Error: Invalid instruction!''"
| "error_message Overflow = ''Error: Arithmetic operation overflow!''"
| "error_message LockedOperation = ''Error: Operation is locked in the current pool state!''"
| "error_message NotEnoughFIDA = ''Error: Pool must contain a minimum amount of FIDA tokens''"
| "error_message OperationTooSmall = ''Error: Operation was too small''"

text \<open>The entrypoint prints the error and returns it: the result is the processor's.\<close>

definition entrypoint :: "env \<Rightarrow> pubkey \<Rightarrow> account_info list \<Rightarrow> bytes \<Rightarrow> world \<Rightarrow> world res" where
  "entrypoint e program_id accounts instruction_data w =
     (case process_instruction e program_id accounts instruction_data w of
        Inl err \<Rightarrow> Inl err
      | Inr w' \<Rightarrow> Inr w')"

end
