(* ===== verification/Client.thy ===== *)
theory Client
  imports Dispatch
begin

text \<open>
  The instruction builders of the client side of instruction.rs: account lists with their signer and
  writable flags, and the packed data. \<open>handles\<close> is the account list the runtime hands to the
  program for a built instruction; the properties about them are in Client_Facts.
\<close>

definition meta_new :: "pubkey \<Rightarrow> bool \<Rightarrow> account_meta" where
  "meta_new k signer = \<lparr>am_key = k, am_signer = signer, am_writable = True\<rparr>"

definition meta_readonly :: "pubkey \<Rightarrow> bool \<Rightarrow> account_meta" where
  "meta_readonly k signer = \<lparr>am_key = k, am_signer = signer, am_writable = False\<rparr>"

definition writable_metas :: "pubkey list \<Rightarrow> account_meta list" where
  "writable_metas ks = map (\<lambda>k. meta_new k False) ks"

definition client_init ::
    "pubkey \<Rightarrow> pubkey \<Rightarrow> pubkey \<Rightarrow> pubkey \<Rightarrow> pubkey \<Rightarrow> pubkey \<Rightarrow> pubkey \<Rightarrow> bytes32 \<Rightarrow> u32 \<Rightarrow> u16 \<Rightarrow> instruction" where
  "client_init spl_token_program_id system_program_id rent_program_id bonfidabot_program_id mint_key
     payer_key pool_key pool_seed max_number_of_assets nb_markets =
     \<lparr>ix_program_id = bonfidabot_program_id,
      ix_accounts = [meta_readonly system_program_id False, meta_readonly rent_program_id False,
        meta_readonly spl_token_program_id False, meta_new pool_key False, meta_new mint_key False,
        meta_new payer_key True],
      ix_data = pack_instruction (Init pool_seed max_number_of_assets nb_markets)\<rparr>"

definition client_create ::
    "pubkey \<Rightarrow> pubkey \<Rightarrow> pubkey \<Rightarrow> pubkey \<Rightarrow> pubkey \<Rightarrow> bytes32 \<Rightarrow> pubkey list \<Rightarrow> pubkey \<Rightarrow> pubkey \<Rightarrow> pubkey list \<Rightarrow>
     pubkey \<Rightarrow> pubkey \<Rightarrow> u64 \<Rightarrow> u16 \<Rightarrow> u64 list \<Rightarrow> pubkey list \<Rightarrow> instruction" where
  "client_create spl_token_program_id clock_sysvar_id bonfidabot_program_id mint_key pool_key pool_seed
     pool_asset_keys target_pool_token_key source_owner_key source_asset_keys serum_program
     signal_provider_key period ratio deposit_amounts markets =
     \<lparr>ix_program_id = bonfidabot_program_id,
      ix_accounts = [meta_readonly spl_token_program_id False, meta_readonly clock_sysvar_id False,
        meta_readonly serum_program False, meta_readonly signal_provider_key False, meta_new mint_key False,
        meta_new target_pool_token_key False, meta_new pool_key False]
        @ writable_metas pool_asset_keys @ [meta_readonly source_owner_key True]
        @ writable_metas source_asset_keys,
      ix_data = pack_instruction (Create pool_seed period ratio deposit_amounts markets)\<rparr>"

text \<open>The two Bonfida accounts: \<open>Pubkey::from_str(..).unwrap()\<close> panics if the constant does not parse.\<close>

definition client_deposit ::
    "env \<Rightarrow> pubkey \<Rightarrow> pubkey \<Rightarrow> pubkey \<Rightarrow> pubkey \<Rightarrow> pubkey list \<Rightarrow> pubkey \<Rightarrow> pubkey \<Rightarrow> pubkey \<Rightarrow> pubkey list \<Rightarrow>
     bytes32 \<Rightarrow> u64 \<Rightarrow> instruction res" where
  "client_deposit e spl_token_program_id bonfidabot_program_id mint_key pool_key pool_asset_keys
     target_pool_token_key signal_provider_pool_token_key source_owner source_asset_keys pool_seed amount =
     bind_res (bonfida_pt_key e BONFIDA_FEE mint_key) (\<lambda>bonfida_fee_pt_account.
     bind_res (bonfida_pt_key e BONFIDA_BNB mint_key) (\<lambda>bonfida_bnb_pt_account.
     Inr \<lparr>ix_program_id = bonfidabot_program_id,
      ix_accounts = [meta_readonly spl_token_program_id False, meta_new mint_key False,
        meta_new target_pool_token_key False, meta_new signal_provider_pool_token_key False,
        meta_new bonfida_fee_pt_account False, meta_new bonfida_bnb_pt_account False,
        meta_readonly pool_key False]
        @ writable_metas pool_asset_keys @ [meta_readonly source_owner True]
        @ writable_metas source_asset_keys,
      ix_data = pack_instruction (Deposit pool_seed amount)\<rparr>))"

definition client_redeem ::
    "pubkey \<Rightarrow> pubkey \<Rightarrow> pubkey \<Rightarrow> pubkey \<Rightarrow> pubkey \<Rightarrow> pubkey list \<Rightarrow> pubkey \<Rightarrow> pubkey \<Rightarrow> pubkey list \<Rightarrow>
     bytes32 \<Rightarrow> u64 \<Rightarrow> instruction" where
  "client_redeem spl_token_program_id clock_sysvar_id bonfidabot_program_id mint_key pool_key pool_asset_keys
     source_pool_token_owner_key source_pool_token_key target_asset_keys pool_seed amount =
     \<lparr>ix_program_id = bonfidabot_program_id,
      ix_accounts = [meta_readonly spl_token_program_id False, meta_readonly clock_sysvar_id False,
        meta_new mint_key False, meta_readonly source_pool_token_owner_key True,
        meta_new source_pool_token_key False, meta_new pool_key False]
        @ writable_metas pool_asset_keys @ writable_metas target_asset_keys,
      ix_data = pack_instruction (Redeem pool_seed amount)\<rparr>"

definition client_create_order ::
    "pubkey \<Rightarrow> pubkey \<Rightarrow> pubkey \<Rightarrow> pubkey \<Rightarrow> u64 \<Rightarrow> u64 \<Rightarrow> pubkey \<Rightarrow> pubkey \<Rightarrow> pubkey \<Rightarrow> pubkey \<Rightarrow> pubkey \<Rightarrow>
     pubkey \<Rightarrow> pubkey \<Rightarrow> pubkey \<Rightarrow> pubkey \<Rightarrow> pubkey \<Rightarrow> pubkey \<Rightarrow> pubkey option \<Rightarrow> bytes32 \<Rightarrow> side \<Rightarrow> u64 \<Rightarrow> u16 \<Rightarrow>
     u64 \<Rightarrow> u64 \<Rightarrow> pubkey \<Rightarrow> u16 \<Rightarrow> order_type \<Rightarrow> u64 \<Rightarrow> self_trade_behavior \<Rightarrow> u16 \<Rightarrow> instruction" where
  "client_create_order bonfidabot_program_id provider market payer_pool_asset_account
     payer_pool_asset_index target_pool_asset_index openorders_account serum_event_queue
     serum_request_queue serum_market_bids serum_market_asks pool_account coin_vault pc_vault
     spl_token_program dex_program rent_sysvar srm_discount_account pool_seed sd limit_price market_index
     coin_lot_size pc_lot_size target_mint ratio ot client_id stb serum_limit =
     \<lparr>ix_program_id = bonfidabot_program_id,
      ix_accounts = [meta_readonly provider True, meta_new market False,
        meta_new payer_pool_asset_account False, meta_new openorders_account False,
        meta_new serum_event_queue False, meta_new serum_request_queue False,
        meta_new serum_market_bids False, meta_new serum_market_asks False, meta_new pool_account False,
        meta_new coin_vault False, meta_new pc_vault False, meta_readonly spl_token_program False,
        meta_readonly rent_sysvar False, meta_readonly dex_program False]
        @ (case srm_discount_account of None \<Rightarrow> [] | Some key \<Rightarrow> [meta_new key False]),
      ix_data = pack_instruction (CreateOrder pool_seed sd limit_price ratio ot client_id stb
        payer_pool_asset_index target_pool_asset_index market_index coin_lot_size pc_lot_size target_mint
        serum_limit)\<rparr>"

definition client_cancel_order ::
    "pubkey \<Rightarrow> pubkey \<Rightarrow> pubkey \<Rightarrow> pubkey \<Rightarrow> pubkey \<Rightarrow> pubkey \<Rightarrow> pubkey \<Rightarrow> pubkey \<Rightarrow> pubkey \<Rightarrow> bytes32 \<Rightarrow> side \<Rightarrow>
     u128 \<Rightarrow> instruction" where
  "client_cancel_order bonfidabot_program_id provider market openorders_account serum_market_bids
     serum_market_asks serum_event_queue pool_account dex_program pool_seed sd order_id =
     \<lparr>ix_program_id = bonfidabot_program_id,
      ix_accounts = [meta_readonly provider True, meta_readonly market False,
        meta_new openorders_account False, meta_new serum_market_bids False,
        meta_new serum_market_asks False, meta_new serum_event_queue False,
        meta_readonly pool_account False, meta_readonly dex_program False],
      ix_data = pack_instruction (CancelOrder pool_seed sd order_id)\<rparr>"

definition client_settle_funds ::
    "pubkey \<Rightarrow> pubkey \<Rightarrow> pubkey \<Rightarrow> pubkey \<Rightarrow> pubkey \<Rightarrow> pubkey \<Rightarrow> pubkey \<Rightarrow> pubkey \<Rightarrow> pubkey \<Rightarrow> pubkey \<Rightarrow> pubkey \<Rightarrow>
     pubkey \<Rightarrow> pubkey option \<Rightarrow> bytes32 \<Rightarrow> u64 \<Rightarrow> u64 \<Rightarrow> instruction" where
  "client_settle_funds bonfidabot_program_id market openorders_account pool_account pool_token_mint
     coin_vault pc_vault pool_coin_wallet pool_pc_wallet vault_signer spl_token_program dex_program
     referrer_pc_account pool_seed pc_index coin_index =
     \<lparr>ix_program_id = bonfidabot_program_id,
      ix_accounts = [meta_new market False, meta_new openorders_account False, meta_new pool_account False,
        meta_readonly pool_token_mint False, meta_new coin_vault False, meta_new pc_vault False,
        meta_new pool_coin_wallet False, meta_new pool_pc_wallet False, meta_readonly vault_signer False,
        meta_readonly spl_token_program False, meta_readonly dex_program False]
        @ (case referrer_pc_account of None \<Rightarrow> [] | Some key \<Rightarrow> [meta_new key False]),
      ix_data = pack_instruction (SettleFunds pool_seed pc_index coin_index)\<rparr>"

definition client_collect_fees ::
    "env \<Rightarrow> pubkey \<Rightarrow> pubkey \<Rightarrow> pubkey \<Rightarrow> pubkey \<Rightarrow> pubkey \<Rightarrow> pubkey \<Rightarrow> bytes32 \<Rightarrow> instruction res" where
  "client_collect_fees e spl_token_program_id clock_sysvar_id bonfidabot_program_id pool_key
     pool_token_mint signal_provider_pool_token_key pool_seed =
     bind_res (bonfida_pt_key e BONFIDA_FEE pool_token_mint) (\<lambda>bonfida_fee_pt_account.
     bind_res (bonfida_pt_key e BONFIDA_BNB pool_token_mint) (\<lambda>bonfida_bnb_pt_account.
     Inr \<lparr>ix_program_id = bonfidabot_program_id,
      ix_accounts = [meta_readonly spl_token_program_id False, meta_readonly clock_sysvar_id False,
        meta_new pool_key False, meta_new pool_token_mint False,
        meta_new signal_provider_pool_token_key False, meta_new bonfida_fee_pt_account False,
        meta_new bonfida_bnb_pt_account False],
      ix_data = pack_instruction (CollectFees pool_seed)\<rparr>))"

text \<open>The account list of a transaction that carries the instruction with every signature it asks for.\<close>

definition handle_of :: "account_meta \<Rightarrow> account_info" where
  "handle_of m = \<lparr>ai_key = am_key m, ai_signer = am_signer m, ai_writable = am_writable m\<rparr>"

definition handles :: "instruction \<Rightarrow> account_info list" where
  "handles ix = map handle_of (ix_accounts ix)"

lemma handle_of_simps [simp]:
  "ai_key (handle_of (meta_new k s)) = k" "ai_key (handle_of (meta_readonly k s)) = k"
  "ai_signer (handle_of (meta_new k s)) = s" "ai_signer (handle_of (meta_readonly k s)) = s"
  by (simp_all add: handle_of_def meta_new_def meta_readonly_def)

lemma writable_metas_simps [simp]:
  "length (writable_metas ks) = length ks" "map (ai_key \<circ> handle_of) (writable_metas ks) = ks"
  by (simp_all add: writable_metas_def comp_def)

end
