(* ===== verification/Demo.thy ===== *)
theory Demo
  imports Proc_Common
begin

text \<open>
  A concrete environment and world that the witnesses evaluate the handlers in: an injective
  stand-in for address derivation, sysvars stored as little-endian integers, and a small token
  program on 72-byte token accounts (mint, owner, amount) and 8-byte mints (supply) that only
  touches accounts it owns. It is an
  instance of the parameters, used only to show that the hypotheses of the properties can hold.
\<close>

definition demo_token_unpack :: "bytes \<Rightarrow> program_error + token_account" where
  "demo_token_unpack d =
     (if length d = 72 then
        Inr \<lparr>ta_mint = from_le (take 32 d), ta_owner = from_le (take 32 (drop 32 d)),
             ta_amount = from_le (drop 64 d), ta_delegate = None, ta_close_authority = None\<rparr>
      else Inl InvalidAccountData)"

definition demo_mint_unpack :: "bytes \<Rightarrow> program_error + u64" where
  "demo_mint_unpack d = (if length d = 8 then Inr (from_le d) else Inl InvalidAccountData)"

definition demo_add :: "pubkey \<Rightarrow> nat \<Rightarrow> u64 \<Rightarrow> world \<Rightarrow> world" where
  "demo_add k pos amt w =
     (let d = acc_data (w k) in
      w(k := (w k)\<lparr>acc_data := take pos d @ le_bytes 8 (from_le (drop pos d) + amt)\<rparr>))"

text \<open>Transfers, mints and burns with the checks a token program makes on amounts.\<close>

definition demo_transfer :: "pubkey \<Rightarrow> pubkey \<Rightarrow> u64 \<Rightarrow> world \<Rightarrow> program_error + world" where
  "demo_transfer src dst amt w =
     (case (demo_token_unpack (acc_data (w src)), demo_token_unpack (acc_data (w dst))) of
        (Inr a, Inr b) \<Rightarrow>
          if acc_owner (w src) \<noteq> 6 \<or> acc_owner (w dst) \<noteq> 6 then Inl IncorrectProgramId
          else if ta_amount a < amt then Inl InsufficientFunds
          else if src = dst then Inr w
          else if ta_amount b + amt < amt then Inl (Custom 14)
          else Inr (demo_add dst 64 amt (demo_add src 64 (- amt) w))
      | _ \<Rightarrow> Inl InvalidAccountData)"

definition demo_mint_to :: "pubkey \<Rightarrow> pubkey \<Rightarrow> u64 \<Rightarrow> world \<Rightarrow> program_error + world" where
  "demo_mint_to mint dst amt w =
     (case (demo_mint_unpack (acc_data (w mint)), demo_token_unpack (acc_data (w dst))) of
        (Inr s, Inr b) \<Rightarrow>
          if acc_owner (w mint) \<noteq> 6 \<or> acc_owner (w dst) \<noteq> 6 then Inl IncorrectProgramId
          else if s + amt < amt \<or> ta_amount b + amt < amt then Inl (Custom 14)
          else Inr (demo_add dst 64 amt (demo_add mint 0 amt w))
      | _ \<Rightarrow> Inl InvalidAccountData)"

definition demo_burn :: "pubkey \<Rightarrow> pubkey \<Rightarrow> u64 \<Rightarrow> world \<Rightarrow> program_error + world" where
  "demo_burn acct mint amt w =
     (case (demo_token_unpack (acc_data (w acct)), demo_mint_unpack (acc_data (w mint))) of
        (Inr a, Inr s) \<Rightarrow>
          if acc_owner (w acct) \<noteq> 6 \<or> acc_owner (w mint) \<noteq> 6 then Inl IncorrectProgramId
          else if ta_amount a < amt \<or> s < amt then Inl InsufficientFunds
          else Inr (demo_add mint 0 (- amt) (demo_add acct 64 (- amt) w))
      | _ \<Rightarrow> Inl InvalidAccountData)"

definition demo_create :: "pubkey \<Rightarrow> nat \<Rightarrow> pubkey \<Rightarrow> world \<Rightarrow> program_error + world" where
  "demo_create k space own w =
     (if acc_owner (w k) \<noteq> 0 \<or> acc_data (w k) \<noteq> [] then Inl AccountAlreadyInitialized
      else Inr (w(k := \<lparr>acc_owner = own, acc_lamports = 1, acc_data = replicate space 0\<rparr>)))"

definition demo_ix :: "pubkey \<Rightarrow> pubkey list \<Rightarrow> bytes \<Rightarrow> instruction" where
  "demo_ix prog ks d = \<lparr>ix_program_id = prog,
     ix_accounts = map (\<lambda>k. \<lparr>am_key = k, am_signer = False, am_writable = True\<rparr>) ks, ix_data = d\<rparr>"

definition demo_cpi :: "instruction \<Rightarrow> world \<Rightarrow> program_error + world" where
  "demo_cpi ix w =
     (case (map am_key (ix_accounts ix), ix_data ix) of
        (k1 # k2 # ks, tag # d) \<Rightarrow>
          if ix_program_id ix = 6 then
            (if tag = 3 then demo_transfer k1 k2 (from_le d) w
             else if tag = 7 then demo_mint_to k1 k2 (from_le d) w
             else if tag = 8 then demo_burn k1 k2 (from_le d) w
             else Inr w)
          else if ix_program_id ix = 0 then demo_create k1 (unat (from_le d :: u64)) k2 w
          else Inr w
      | _ \<Rightarrow> Inr w)"

definition demo_env :: "bool \<Rightarrow> env" where
  "demo_env oc =
     \<lparr>overflow_checks = oc,
      create_program_address = (\<lambda>seeds pid. Inr (from_le (hd seeds) + of_nat (length seeds))),
      get_associated_token_address = (\<lambda>k m. k * 1000 + m),
      pubkey_from_str = (\<lambda>s. Inr (if s = BONFIDA_FEE then 901 else 902)),
      spl_token_id = 6,
      mint_len = 8,
      rent_minimum_balance = (\<lambda>k d. Inr (\<lambda>n. n)),
      clock_unix_timestamp = (\<lambda>k d. if k = 40 then Inr (from_le d) else Inl InvalidArgument),
      token_account_unpack = demo_token_unpack,
      mint_unpack_supply = demo_mint_unpack,
      ix_create_account = (\<lambda>from to lam space own. demo_ix 0 [to, own, from] (0 # le_bytes 8 space)),
      ix_initialize_mint = (\<lambda>spl mint auth freeze dec. Inr (demo_ix spl [mint, auth] [0, dec])),
      ix_transfer = (\<lambda>spl src dst auth signers amt. Inr (demo_ix spl [src, dst, auth] (3 # le_bytes 8 amt))),
      ix_mint_to = (\<lambda>spl mint dst auth signers amt. Inr (demo_ix spl [mint, dst, auth] (7 # le_bytes 8 amt))),
      ix_burn = (\<lambda>spl acct mint auth signers amt. Inr (demo_ix spl [acct, mint, auth] (8 # le_bytes 8 amt))),
      ix_settle_funds = (\<lambda>dex market spl oo owner cv cw pv pw ref vs.
        Inr (demo_ix dex [market, oo, owner, cv, pv, cw, pw, vs, spl] [0, 5, 0, 0, 0])),
      ix_cancel_order = (\<lambda>dex market bids asks oo owner eq sd oid.
        Inr (demo_ix dex [market, bids, asks, oo, owner, eq] [0, 11, 0, 0, 0])),
      cpi = (\<lambda>ix infos seeds w. demo_cpi ix w)\<rparr>"

definition demo_handle :: "pubkey \<Rightarrow> bool \<Rightarrow> account_info" where
  "demo_handle k s = \<lparr>ai_key = k, ai_signer = s, ai_writable = True\<rparr>"

definition demo_token :: "pubkey \<Rightarrow> pubkey \<Rightarrow> u64 \<Rightarrow> account" where
  "demo_token mint own amt =
     \<lparr>acc_owner = 6, acc_lamports = 1, acc_data = le_bytes 32 mint @ le_bytes 32 own @ le_bytes 8 amt\<rparr>"

definition demo_mint :: "u64 \<Rightarrow> account" where
  "demo_mint n = \<lparr>acc_owner = 6, acc_lamports = 1, acc_data = le_bytes 8 n\<rparr>"

definition demo_clock :: "u64 \<Rightarrow> account" where
  "demo_clock t = \<lparr>acc_owner = 0, acc_lamports = 1, acc_data = le_bytes 8 t\<rparr>"

definition demo_empty :: world where
  "demo_empty = (\<lambda>_. \<lparr>acc_owner = 0, acc_lamports = 0, acc_data = []\<rparr>)"

text \<open>The program is account 7; the pool of seed 100 is account 101 and its mint account 102.\<close>

definition demo_header :: pool_header where
  "demo_header = \<lparr>serum_program_id = 8, seed = 100, signal_provider = 9, status = Unlocked,
     number_of_markets = 1, fee_ratio = 6554, last_fee_collection_timestamp = 1000000,
     fee_collection_period = 604800\<rparr>"

definition demo_pool :: "pool_header \<Rightarrow> pubkey list \<Rightarrow> account" where
  "demo_pool h mints = \<lparr>acc_owner = 7, acc_lamports = 1,
     acc_data = header_bytes h @ le_bytes 32 (55 :: pubkey) @ concat (map (le_bytes 32) mints)
       @ replicate 32 0\<rparr>"

lemma demo_add_token [simp]:
  "acc_data (w k) = le_bytes 32 m @ le_bytes 32 own @ le_bytes 8 (a :: u64) \<Longrightarrow>
    demo_add k 64 amt w = w(k := (w k)\<lparr>acc_data := le_bytes 32 m @ le_bytes 32 own @ le_bytes 8 (a + amt)\<rparr>)"
  by (simp add: demo_add_def codec_simps Let_def)

lemma demo_add_mint [simp]:
  "acc_data (w k) = le_bytes 8 (a :: u64) \<Longrightarrow>
    demo_add k 0 amt w = w(k := (w k)\<lparr>acc_data := le_bytes 8 (a + amt)\<rparr>)"
  by (simp add: demo_add_def codec_simps Let_def)

lemma demo_token_unpack_bytes [simp]:
  "demo_token_unpack (le_bytes 32 m @ le_bytes 32 own @ le_bytes 8 a) =
    Inr \<lparr>ta_mint = m, ta_owner = own, ta_amount = a, ta_delegate = None, ta_close_authority = None\<rparr>"
  by (simp add: demo_token_unpack_def codec_simps)

lemma demo_mint_unpack_bytes [simp]: "demo_mint_unpack (le_bytes 8 n) = Inr n"
  by (simp add: demo_mint_unpack_def codec_simps)

lemma demo_owner [simp]:
  "acc_owner (demo_token m own a) = 6" "acc_owner (demo_mint n) = 6"
  by (simp_all add: demo_token_def demo_mint_def)

lemma demo_data [simp]:
  "acc_data (demo_token m own a) = le_bytes 32 m @ le_bytes 32 own @ le_bytes 8 a"
  "acc_data (demo_mint n) = le_bytes 8 n"
  "acc_data (demo_clock n) = le_bytes 8 n"
  by (simp_all add: demo_token_def demo_mint_def demo_clock_def)

lemma demo_seeds [simp]:
  "create_program_address (demo_env oc) (pool_seeds s) pid = Inr (s + 1)"
  "create_program_address (demo_env oc) (mint_seeds s) pid = Inr (s + 2)"
  by (simp_all add: demo_env_def pool_seeds_def mint_seeds_def codec_simps)

lemma demo_handle_simps [simp]:
  "ai_key (demo_handle k s) = k" "ai_signer (demo_handle k s) = s"
  by (simp_all add: demo_handle_def)

lemma demo_env_simps [simp]:
  "overflow_checks (demo_env oc) = oc"
  "get_associated_token_address (demo_env oc) k m = k * 1000 + m"
  "spl_token_id (demo_env oc) = 6"
  "mint_len (demo_env oc) = 8"
  "rent_minimum_balance (demo_env oc) k d = Inr (\<lambda>n. n)"
  "clock_unix_timestamp (demo_env oc) k d = (if k = 40 then Inr (from_le d) else Inl InvalidArgument)"
  "token_account_unpack (demo_env oc) = demo_token_unpack"
  "mint_unpack_supply (demo_env oc) = demo_mint_unpack"
  "pubkey_from_str (demo_env oc) BONFIDA_FEE = Inr 901"
  "pubkey_from_str (demo_env oc) BONFIDA_BNB = Inr 902"
  "ix_transfer (demo_env oc) spl src dst auth signers amt = Inr (demo_ix spl [src, dst, auth] (3 # le_bytes 8 amt))"
  "ix_mint_to (demo_env oc) spl mint dst auth signers amt = Inr (demo_ix spl [mint, dst, auth] (7 # le_bytes 8 amt))"
  "ix_burn (demo_env oc) spl acct mint auth signers amt = Inr (demo_ix spl [acct, mint, auth] (8 # le_bytes 8 amt))"
  "ix_create_account (demo_env oc) from to lam space own = demo_ix 0 [to, own, from] (0 # le_bytes 8 space)"
  "ix_initialize_mint (demo_env oc) spl mint auth freeze dec = Inr (demo_ix spl [mint, auth] [0, dec])"
  "ix_settle_funds (demo_env oc) dex market spl oo owner cv cw pv pw ref vs =
     Inr (demo_ix dex [market, oo, owner, cv, pv, cw, pw, vs, spl] [0, 5, 0, 0, 0])"
  "ix_cancel_order (demo_env oc) dex market bids asks oo owner eq sd oid =
     Inr (demo_ix dex [market, bids, asks, oo, owner, eq] [0, 11, 0, 0, 0])"
  "cpi (demo_env oc) ix infos seeds w = demo_cpi ix w"
  by (simp_all add: demo_env_def BONFIDA_FEE_def BONFIDA_BNB_def)

lemma demo_cpi_simps [simp]:
  "demo_cpi (demo_ix 6 (k1 # k2 # ks) (3 # le_bytes 8 amt)) w = demo_transfer k1 k2 amt w"
  "demo_cpi (demo_ix 6 (k1 # k2 # ks) (7 # le_bytes 8 amt)) w = demo_mint_to k1 k2 amt w"
  "demo_cpi (demo_ix 6 (k1 # k2 # ks) (8 # le_bytes 8 amt)) w = demo_burn k1 k2 amt w"
  "demo_cpi (demo_ix 6 (k1 # k2 # ks) [0, dec]) w = Inr w"
  "demo_cpi (demo_ix 0 (k1 # k2 # ks) (0 # le_bytes 8 (space :: u64))) w = demo_create k1 (unat space) k2 w"
  "p \<noteq> 6 \<Longrightarrow> p \<noteq> 0 \<Longrightarrow> demo_cpi (demo_ix p ks d) w = Inr w"
  by (simp_all add: demo_cpi_def demo_ix_def codec_simps split: list.splits)

lemma demo_pool_data:
  "acc_data (demo_pool h mints) = header_bytes h @ le_bytes 32 (55 :: pubkey) @
     concat (map (le_bytes 32) mints) @ replicate 32 0"
  "acc_owner (demo_pool h mints) = 7"
  by (simp_all add: demo_pool_def)

text \<open>A pool of seed 100 with two assets, a depositor (account 300) and a clock.\<close>

definition demo_world :: world where
  "demo_world = demo_empty(101 := demo_pool demo_header [1, 2], 102 := demo_mint 1000000,
     101001 := demo_token 1 101 1000000000, 101002 := demo_token 2 101 2000000,
     200 := demo_token 102 300 0, 9102 := demo_token 102 9 0,
     901102 := demo_token 102 901 0, 902102 := demo_token 102 902 0,
     301 := demo_token 1 300 5000000000, 302 := demo_token 2 300 1500000,
     40 := demo_clock 1500000)"

lemma wf_demo_header: "wf_header demo_header"
  by (simp add: wf_header_def demo_header_def)

lemma demo_world [simp]:
  "demo_world 101 = demo_pool demo_header [1, 2]" "demo_world 102 = demo_mint 1000000"
  "demo_world 101001 = demo_token 1 101 1000000000" "demo_world 101002 = demo_token 2 101 2000000"
  "demo_world 200 = demo_token 102 300 0" "demo_world 9102 = demo_token 102 9 0"
  "demo_world 901102 = demo_token 102 901 0" "demo_world 902102 = demo_token 102 902 0"
  "demo_world 301 = demo_token 1 300 5000000000" "demo_world 302 = demo_token 2 300 1500000"
  "demo_world 40 = demo_clock 1500000"
  by (simp_all add: demo_world_def)

lemma demo_read_header:
  "acc_data (w (ai_key a)) = acc_data (demo_pool demo_header mints) \<Longrightarrow>
    read_pool_header w a = Inr demo_header"
  by (simp add: read_pool_header_Inr data_of_def unpack_pack_header wf_demo_header demo_pool_data)
    (simp add: demo_header_def)

lemma demo_assets:
  "acc_data (w (ai_key a)) = acc_data (demo_pool demo_header [1, 2]) \<Longrightarrow>
     read_pool_assets w a demo_header = Inr [\<lparr>mint_address = 1\<rparr>, \<lparr>mint_address = 2\<rparr>]"
  by (simp add: read_pool_assets_Inr data_of_def demo_pool_data asset_offset_of_def
      stored_assets_Cons stored_assets_zeros) (simp add: demo_header_def stored_assets_Cons stored_assets_zeros)

lemma demo_transfer_ok [simp]:
  "acc_data (w src) = le_bytes 32 (m :: pubkey) @ le_bytes 32 (o1 :: pubkey) @ le_bytes 8 (a :: u64) \<Longrightarrow>
   acc_data (w dst) = le_bytes 32 (m' :: pubkey) @ le_bytes 32 (o2 :: pubkey) @ le_bytes 8 (b :: u64) \<Longrightarrow>
   acc_owner (w src) = 6 \<Longrightarrow> acc_owner (w dst) = 6 \<Longrightarrow> amt \<le> a \<Longrightarrow> \<not> b + amt < amt \<Longrightarrow> src \<noteq> dst \<Longrightarrow>
   demo_transfer src dst amt w = Inr (w(src := (w src)\<lparr>acc_data := le_bytes 32 m @ le_bytes 32 o1 @ le_bytes 8 (a - amt)\<rparr>,
     dst := (w dst)\<lparr>acc_data := le_bytes 32 m' @ le_bytes 32 o2 @ le_bytes 8 (b + amt)\<rparr>))"
  by (simp add: demo_transfer_def codec_simps not_less)

lemma demo_mint_to_ok [simp]:
  "acc_data (w mint) = le_bytes 8 (s :: u64) \<Longrightarrow>
   acc_data (w dst) = le_bytes 32 (m' :: pubkey) @ le_bytes 32 (o2 :: pubkey) @ le_bytes 8 (b :: u64) \<Longrightarrow>
   acc_owner (w mint) = 6 \<Longrightarrow> acc_owner (w dst) = 6 \<Longrightarrow> \<not> s + amt < amt \<Longrightarrow> \<not> b + amt < amt \<Longrightarrow> mint \<noteq> dst \<Longrightarrow>
   demo_mint_to mint dst amt w = Inr (w(mint := (w mint)\<lparr>acc_data := le_bytes 8 (s + amt)\<rparr>,
     dst := (w dst)\<lparr>acc_data := le_bytes 32 m' @ le_bytes 32 o2 @ le_bytes 8 (b + amt)\<rparr>))"
  by (simp add: demo_mint_to_def codec_simps)

lemma demo_burn_ok [simp]:
  "acc_data (w acct) = le_bytes 32 (m' :: pubkey) @ le_bytes 32 (o2 :: pubkey) @ le_bytes 8 (a :: u64) \<Longrightarrow>
   acc_data (w mint) = le_bytes 8 (s :: u64) \<Longrightarrow>
   acc_owner (w acct) = 6 \<Longrightarrow> acc_owner (w mint) = 6 \<Longrightarrow> amt \<le> a \<Longrightarrow> amt \<le> s \<Longrightarrow> acct \<noteq> mint \<Longrightarrow>
   demo_burn acct mint amt w = Inr (w(acct := (w acct)\<lparr>acc_data := le_bytes 32 m' @ le_bytes 32 o2 @ le_bytes 8 (a - amt)\<rparr>,
     mint := (w mint)\<lparr>acc_data := le_bytes 8 (s - amt)\<rparr>))"
  by (simp add: demo_burn_def codec_simps not_less)

end
