(* ===== verification/Orders_Facts.thy ===== *)
theory Orders_Facts
  imports Demo Dispatch
begin

text \<open>
  What the Serum side guarantees and what it leaves open: the count of pending orders, the effect
  of a settlement on the pool account, the DEX program that neither settling nor cancelling
  compares with the pool's, and the exact condition under which a cancellation succeeds.
\<close>

subsection \<open>Asset slots\<close>

text \<open>
  In a release build the byte offset of a slot wraps: an index in range of the slice after
  wrapping addresses slot \<open>index mod 2 ^ 59\<close>.
\<close>

lemma asset_range_cases:
  assumes "asset_range oc index = Inr (i, j)" "i \<le> j"
  obtains k where "i = 32 * k" "j = 32 * k + 32" "k = unat index mod 2 ^ 59"
proof -
  from assms have i: "i = unat (index * 32)" "j = unat (index * 32 + 32)"
    by (auto simp: asset_range_def res_simps mul_w_def add_w_def split: if_splits)
  have a: "unat (index * 32) = 32 * (unat index mod 2 ^ 59)"
    using mult_mod_right[of 32 "unat index" "2 ^ 59"] by (simp add: unat_word_ariths mult.commute)
  show ?thesis
  proof (cases "unat (index * 32) + 32 < 2 ^ 64")
    case True
    then have "unat (index * 32 + 32) = unat (index * 32) + 32" by (subst unat_add_fits) simp_all
    with a i that show ?thesis by simp
  next
    case False
    moreover have "unat (index * 32) < 2 ^ 64"
      using unsigned_less[of "index * 32", where ?'a = nat] by simp
    ultimately have "unat (index * 32 + 32) + 2 ^ 64 = unat (index * 32) + 32"
      by (simp add: unat_word_ariths(1)[of "index * 32" 32] mod_if) arith
    with i assms(2) have False by simp
    then show ?thesis ..
  qed
qed

definition slot_of :: "usize \<Rightarrow> nat" where
  "slot_of index = unat index mod 2 ^ 59"

lemma unpack_unchecked_asset_Inr:
  "unpack_unchecked_asset oc d index = Inr x \<Longrightarrow>
    32 * slot_of index + 32 \<le> length d \<and> x = asset_slot d (slot_of index)"
  by (auto simp: unpack_unchecked_asset_def res_simps slice_simps unpack_asset_unchecked_def
      unpack_asset_from_slice_def asset_slot_def slot_of_def elim!: asset_range_cases)

lemma write_asset_Inr:
  "write_asset oc x index d = Inr d' \<Longrightarrow> 32 * slot_of index + 32 \<le> length d \<and>
    d' = take (32 * slot_of index) d @ le_bytes 32 (mint_address x) @ drop (32 * slot_of index + 32) d"
  by (auto simp: write_asset_def get_asset_slice_def res_simps slice_simps
      pack_asset_into_slice_def slot_of_def elim!: asset_range_cases)
subsection \<open>Settling, up to the call into Serum\<close>

text \<open>The handler between reading the accounts and the final cross-program invocation.\<close>

definition settle_prepare ::
    "env \<Rightarrow> pubkey \<Rightarrow> settle_accounts \<Rightarrow> bytes32 \<Rightarrow> usize \<Rightarrow> usize \<Rightarrow> world \<Rightarrow> world res" where
  "settle_prepare e pid a s pc_index coin_index w =
     bind_res (settle_checks e pid a s w) (\<lambda>(coin_mint, pc_mint, coin_account, pc_account).
     bind_res (read_pool_header w (st_pool a)) (\<lambda>h.
     bind_res (settle_assets e a h pc_index coin_index coin_mint pc_mint coin_account pc_account w)
       (\<lambda>(coin_asset, pc_asset).
     bind_res (read_openorders (data_of w (st_openorders a))) (\<lambda>oo.
     bind_res (settle_header oo h) (\<lambda>h'.
     bind_res (write_pool_header w (st_pool a) h') (\<lambda>w1.
     if oo_free_pc oo = 0 \<and> oo_free_coin oo = 0 then Inl (bot_err LockedOperation) else
     bind_res (store_pool_asset (overflow_checks e) h coin_asset coin_index (st_pool a) w1) (\<lambda>w2.
     store_pool_asset (overflow_checks e) h pc_asset pc_index (st_pool a) w2)))))))"

lemma bind_res_if: "bind_res (if b then Inl err else m) f = (if b then Inl err else bind_res m f)"
  by simp

lemma process_settle_split:
  "process_settle e pid accounts s pc_index coin_index w =
    bind_res (settle_parse e accounts) (\<lambda>a.
    bind_res (settle_prepare e pid a s pc_index coin_index w) (settle_invoke e a s))"
  by (simp only: process_settle_def settle_prepare_def Let_def bind_res_assoc case_prod_unfold bind_res_if)

lemma settle_prepare_dex:
  "settle_prepare e pid (a\<lparr>st_dex_program := d\<rparr>) s pc_index coin_index w =
    settle_prepare e pid a s pc_index coin_index w"
  by (cases a) (simp add: settle_prepare_def settle_checks_def settle_assets_def Let_def cong: if_cong)

lemma settle_parse_accounts:
  "settle_parse e accounts = Inr a \<Longrightarrow>
    accounts ! 0 = st_market a \<and> accounts ! 1 = st_openorders a \<and> accounts ! 2 = st_pool a \<and>
    accounts ! 10 = st_dex_program a \<and> ai_key (st_spl_token a) = spl_token_id e \<and> 11 \<le> length accounts"
  by (auto simp: settle_parse_def res_simps Let_def)

lemma settle_parse_dex:
  "settle_parse e accounts = Inr a \<Longrightarrow> settle_parse e (accounts[10 := d]) = Inr (a\<lparr>st_dex_program := d\<rparr>)"
  by (auto simp: settle_parse_def res_simps Let_def)

text \<open>
  What a used or claimed slot and the pool status end up as, and the pool data the handler leaves
  before it calls Serum.
\<close>

lemma claim_asset_Inr:
  "claim_asset x m = Inr y \<longleftrightarrow> (asset_is_initialized x \<and> mint_address x = m \<and> y = x) \<or>
    (\<not> asset_is_initialized x \<and> y = \<lparr>mint_address = m\<rparr>)"
  by (cases x) (auto simp: claim_asset_def)

lemma claim_asset_mint: "claim_asset x m = Inr y \<Longrightarrow> y = \<lparr>mint_address = m\<rparr>"
  by (cases x) (auto simp: claim_asset_Inr)

lemma settle_assets_Inr:
  "settle_assets e a h pci ci cm pm ca pa w = Inr (x, y) \<Longrightarrow>
    asset_offset_of h \<le> length (data_of w (st_pool a)) \<and>
    ta_owner ca = ai_key (st_pool a) \<and> ta_owner pa = ai_key (st_pool a) \<and>
    x = \<lparr>mint_address = cm\<rparr> \<and> y = \<lparr>mint_address = pm\<rparr> \<and>
    (let old = asset_slot (drop (asset_offset_of h) (data_of w (st_pool a))) in
      mint_address (old (slot_of ci)) \<in> {0, cm} \<and> mint_address (old (slot_of pci)) \<in> {0, pm})"
  by (auto simp: settle_assets_def res_simps claim_asset_Inr asset_is_initialized_iff
      dest!: unpack_unchecked_asset_Inr intro: pool_asset.equality)

lemma settle_prepare_Inr:
  assumes "settle_prepare e pid a s pci ci w = Inr w3"
  obtains cm pm ca pa h oo h' d1 d2 where
    "settle_checks e pid a s w = Inr (cm, pm, ca, pa)" "read_pool_header w (st_pool a) = Inr h"
    "settle_assets e a h pci ci cm pm ca pa w = Inr (\<lparr>mint_address = cm\<rparr>, \<lparr>mint_address = pm\<rparr>)"
    "read_openorders (data_of w (st_openorders a)) = Inr oo" "settle_header oo h = Inr h'"
    "\<not> (oo_free_pc oo = 0 \<and> oo_free_coin oo = 0)" "asset_offset_of h \<le> length (data_of w (st_pool a))"
    "write_asset (overflow_checks e) \<lparr>mint_address = cm\<rparr> ci (drop (asset_offset_of h) (data_of w (st_pool a))) = Inr d1"
    "write_asset (overflow_checks e) \<lparr>mint_address = pm\<rparr> pci d1 = Inr d2"
    "w3 = set_data w (st_pool a)
       (header_bytes h' @ take (asset_offset_of h - HEADER_LEN) (drop HEADER_LEN (data_of w (st_pool a))) @ d2)"
proof -
  from assms obtain cm pm ca pa h x y oo h' w1 w2 where r:
    "settle_checks e pid a s w = Inr (cm, pm, ca, pa)" "read_pool_header w (st_pool a) = Inr h"
    "settle_assets e a h pci ci cm pm ca pa w = Inr (x, y)"
    "read_openorders (data_of w (st_openorders a)) = Inr oo" "settle_header oo h = Inr h'"
    "write_pool_header w (st_pool a) h' = Inr w1" "\<not> (oo_free_pc oo = 0 \<and> oo_free_coin oo = 0)"
    "store_pool_asset (overflow_checks e) h x ci (st_pool a) w1 = Inr w2"
    "store_pool_asset (overflow_checks e) h y pci (st_pool a) w2 = Inr w3"
    by (auto simp: settle_prepare_def res_simps split: prod.splits)
  have xy: "x = \<lparr>mint_address = cm\<rparr>" "y = \<lparr>mint_address = pm\<rparr>" using settle_assets_Inr[OF r(3)] by auto
  define D where "D = data_of w (st_pool a)"
  define k where "k = asset_offset_of h"
  have k: "HEADER_LEN \<le> k" by (simp add: k_def asset_offset_of_def)
  have off: "k \<le> length D" using settle_assets_Inr[OF r(3)] by (simp add: D_def k_def)
  define pre where "pre = header_bytes h' @ take (k - HEADER_LEN) (drop HEADER_LEN D)"
  have pre: "length pre = k" using k off by (simp add: pre_def)
  have w1: "w1 = set_data w (st_pool a) (pre @ drop k D)"
  proof -
    have "drop HEADER_LEN D = take (k - HEADER_LEN) (drop HEADER_LEN D) @ drop k D"
      using k by (metis append_take_drop_id drop_drop le_add_diff_inverse2)
    then show ?thesis using r(6) by (simp add: write_pool_header_Inr D_def[symmetric] pre_def)
  qed
  from r(8) obtain d1 where d1: "write_asset (overflow_checks e) x ci (drop k D) = Inr d1"
    "w2 = set_data w (st_pool a) (pre @ d1)"
    using pre by (auto simp: store_pool_asset_def res_simps w1 k_def[symmetric])
  from r(9) obtain d2 where d2: "write_asset (overflow_checks e) y pci d1 = Inr d2"
    "w3 = set_data w (st_pool a) (pre @ d2)"
    using pre by (auto simp: store_pool_asset_def res_simps d1(2) k_def[symmetric])
  show ?thesis
    by (rule that[of cm pm ca pa h oo h' d1 d2])
       (use r d1 d2 off in \<open>simp_all add: xy D_def[symmetric] k_def[symmetric] pre_def\<close>)
qed
subsection \<open>An abstract view of the pool status\<close>

text \<open>A status is a number of pending orders and a lock.\<close>

fun pending_orders :: "pool_status \<Rightarrow> nat" where
  "pending_orders (PendingOrder n) = unat n"
| "pending_orders (LockedPendingOrder n) = unat n"
| "pending_orders _ = 0"

fun pool_locked :: "pool_status \<Rightarrow> bool" where
  "pool_locked Locked = True"
| "pool_locked (LockedPendingOrder n) = True"
| "pool_locked _ = False"

lemma unat_pred: "1 \<le> n \<Longrightarrow> unat (n - 1 :: u8) = unat n - 1"
  by (subst unat_sub) simp_all

lemma word_pred_range: "1 \<le> n \<Longrightarrow> n \<le> 64 \<Longrightarrow> n \<noteq> 1 \<Longrightarrow> 1 \<le> n - 1 \<and> n - 1 \<le> (64 :: u8)"
  by unat_arith

text \<open>
  C18. Settling counts the pending orders down, as the abstract view says: without pending orders
  the step is InvalidAccountData; otherwise there is one pending order less, the lock is kept,
  and the new status is again an initialised one with at most 64 pending orders.
\<close>

theorem settle_status_refines:
  assumes "wf_status st"
  shows "if pending_orders st = 0 then settle_status st = Inl (Error InvalidAccountData)
    else \<exists>st'. settle_status st = Inr st' \<and> pending_orders st' = pending_orders st - 1 \<and>
      pool_locked st' = pool_locked st \<and> wf_status st' \<and> st' \<noteq> Uninitialized"
proof (cases st)
  case (PendingOrder n)
  with assms have "1 \<le> n" "n \<le> 64" by simp_all
  with word_pred_range[OF this] unat_pred[of n] PendingOrder show ?thesis
    by (cases "n = 1") (auto simp: unat_eq_zero)
next
  case (LockedPendingOrder n)
  with assms have "1 \<le> n" "n \<le> 64" by simp_all
  with word_pred_range[OF this] unat_pred[of n] LockedPendingOrder show ?thesis
    by (cases "n = 1") (auto simp: unat_eq_zero)
qed simp_all

theorem settle_status_refines_witness:
  "\<exists>st'. settle_status (LockedPendingOrder 64) = Inr st' \<and> pending_orders st' = 63 \<and> pool_locked st'"
  using settle_status_refines[of "LockedPendingOrder 64"] by auto

lemma settle_header_cases:
  assumes "settle_header oo h = Inr h'"
  shows "h' = h\<lparr>status := status h'\<rparr>"
    "fully_settled oo \<Longrightarrow> settle_status (status h) = Inr (status h')"
    "\<not> fully_settled oo \<Longrightarrow> h' = h"
  using assms by (cases h; auto simp: settle_header_def res_simps split: if_splits)+

subsection \<open>Settling the demo pool\<close>

text \<open>
  A market for the mints 1 and 2, and an open orders account of it with funds free and an order
  still open; the pool is unlocked and no order is pending.
\<close>

definition demo_market :: account where
  "demo_market = \<lparr>acc_owner = 8, acc_lamports = 1,
     acc_data = replicate 53 0 @ le_bytes 32 (1 :: pubkey) @ le_bytes 32 (2 :: pubkey)\<rparr>"

definition demo_openorders :: account where
  "demo_openorders = \<lparr>acc_owner = 8, acc_lamports = 1,
     acc_data = replicate 77 0 @ le_bytes 8 (5 :: u64) @ le_bytes 8 (9 :: u64) @ le_bytes 8 (0 :: u64) @ le_bytes 8 (7 :: u64)\<rparr>"

definition demo_trading_world :: world where
  "demo_trading_world = demo_world(50 := demo_market, 51 := demo_openorders)"

definition demo_settle_accounts :: "account_info list" where
  "demo_settle_accounts = map (\<lambda>k. demo_handle k False) [50, 51, 101, 102, 52, 53, 101001, 101002, 54, 6, 8]"

definition demo_settle_record :: settle_accounts where
  "demo_settle_record = \<lparr>st_market = demo_handle 50 False, st_openorders = demo_handle 51 False,
     st_pool = demo_handle 101 False, st_pool_token_mint = demo_handle 102 False,
     st_coin_vault = demo_handle 52 False, st_pc_vault = demo_handle 53 False,
     st_pool_coin_wallet = demo_handle 101001 False, st_pool_pc_wallet = demo_handle 101002 False,
     st_vault_signer = demo_handle 54 False, st_spl_token = demo_handle 6 False,
     st_dex_program = demo_handle 8 False, st_referrer = None\<rparr>"

lemma demo_settle_parse: "settle_parse (demo_env oc) demo_settle_accounts = Inr demo_settle_record"
  by (simp add: settle_parse_def demo_settle_accounts_def demo_settle_record_def Let_def next_account_info_def)

lemma demo_trading_header: "read_pool_header demo_trading_world (st_pool demo_settle_record) = Inr demo_header"
  by (rule demo_read_header[where mints = "[1, 2]"]) (simp add: demo_trading_world_def demo_settle_record_def)

lemma demo_trading_data:
  "data_of demo_trading_world (demo_handle 50 s) = replicate 53 0 @ le_bytes 32 (1 :: pubkey) @ le_bytes 32 (2 :: pubkey)"
  "data_of demo_trading_world (demo_handle 51 s) =
     replicate 77 0 @ le_bytes 8 (5 :: u64) @ le_bytes 8 (9 :: u64) @ le_bytes 8 (0 :: u64) @ le_bytes 8 (7 :: u64)"
  "data_of demo_trading_world (demo_handle 101 s) =
     header_bytes demo_header @ le_bytes 32 (55 :: pubkey) @ le_bytes 32 (1 :: pubkey) @ le_bytes 32 (2 :: pubkey) @ replicate 32 0"
  "data_of demo_trading_world (demo_handle 101001 s) = le_bytes 32 (1 :: pubkey) @ le_bytes 32 (101 :: pubkey) @ le_bytes 8 (1000000000 :: u64)"
  "data_of demo_trading_world (demo_handle 101002 s) = le_bytes 32 (2 :: pubkey) @ le_bytes 32 (101 :: pubkey) @ le_bytes 8 (2000000 :: u64)"
  by (simp_all add: data_of_def demo_trading_world_def demo_market_def demo_openorders_def demo_pool_data)

lemma demo_settle_checks: "settle_checks (demo_env oc) 7 demo_settle_record 100 demo_trading_world =
    Inr (1, 2, \<lparr>ta_mint = 1, ta_owner = 101, ta_amount = 1000000000, ta_delegate = None, ta_close_authority = None\<rparr>,
      \<lparr>ta_mint = 2, ta_owner = 101, ta_amount = 2000000, ta_delegate = None, ta_close_authority = None\<rparr>)"
  by (simp add: settle_checks_def demo_settle_record_def check_pool_key_def demo_trading_data slice_idx_ok
      codec_simps unpack_token_account_def Let_def)

lemma demo_openorders: "read_openorders (data_of demo_trading_world (st_openorders demo_settle_record)) =
    Inr \<lparr>oo_free_pc = 0, oo_free_coin = 5, oo_total_pc = 7, oo_total_coin = 9\<rparr>"
  by (simp add: read_openorders_def openorders_field_def demo_settle_record_def demo_trading_data slice_get_ok codec_simps)

lemma demo_settle_assets:
  "settle_assets (demo_env oc) demo_settle_record demo_header 1 0 1 2
     \<lparr>ta_mint = 1, ta_owner = 101, ta_amount = x, ta_delegate = None, ta_close_authority = None\<rparr>
     \<lparr>ta_mint = 2, ta_owner = 101, ta_amount = y, ta_delegate = None, ta_close_authority = None\<rparr> demo_trading_world
   = Inr (\<lparr>mint_address = 1\<rparr>, \<lparr>mint_address = 2\<rparr>)"
proof -
  have off: "asset_offset_of demo_header = 149" by (simp add: asset_offset_of_def demo_header_def)
  let ?A = "le_bytes 32 (1 :: pubkey) @ le_bytes 32 (2 :: pubkey) @ replicate 32 0"
  have u: "unpack_unchecked_asset oc ?A 0 = Inr \<lparr>mint_address = 1\<rparr>"
    "unpack_unchecked_asset oc ?A 1 = Inr \<lparr>mint_address = 2\<rparr>"
    by (simp_all add: unpack_unchecked_asset_fits asset_slot_def codec_simps)
  show ?thesis
    by (simp add: settle_assets_def off slice_from_def demo_settle_record_def demo_trading_data u
        claim_asset_def asset_is_initialized_iff)
qed
lemma demo_settle_prepare: "\<exists>w3. settle_prepare (demo_env oc) 7 demo_settle_record 100 1 0 demo_trading_world = Inr w3"
proof -
  let ?oo = "\<lparr>oo_free_pc = 0, oo_free_coin = 5, oo_total_pc = 7, oo_total_coin = 9\<rparr>"
  have h': "settle_header ?oo demo_header = Inr demo_header" by (simp add: settle_header_def fully_settled_def)
  have off: "asset_offset_of demo_header = 149" by (simp add: asset_offset_of_def demo_header_def)
  have w: "write_asset oc x 0 d = Inr (le_bytes 32 (mint_address x) @ drop 32 d)"
    "write_asset oc x 1 d = Inr (take 32 d @ le_bytes 32 (mint_address x) @ drop 64 d)"
    if "length d = 96" for x d
    using that by (simp_all add: write_asset_fits)
  have h: "write_pool_header demo_trading_world (st_pool demo_settle_record) demo_header = Inr demo_trading_world"
    by (auto simp: write_pool_header_Inr demo_settle_record_def demo_trading_data set_data_def fun_eq_iff)
       (auto simp: demo_trading_world_def demo_pool_def demo_world_def)
  have l: "length (data_of demo_trading_world (st_pool demo_settle_record)) = 245"
    by (simp add: demo_settle_record_def demo_trading_data)
  show ?thesis
    by (simp add: settle_prepare_def demo_settle_checks demo_trading_header demo_settle_assets demo_openorders h' h
        store_pool_asset_def off in_tail_def slice_from_def l w)
qed

lemma demo_settle:
  assumes "ai_key d \<noteq> 6" "ai_key d \<noteq> 0"
  shows "\<exists>w'. process_settle (demo_env oc) 7 (demo_settle_accounts[10 := d]) 100 1 0 demo_trading_world = Inr w'"
proof -
  obtain w3 where "settle_prepare (demo_env oc) 7 demo_settle_record 100 1 0 demo_trading_world = Inr w3"
    using demo_settle_prepare by blast
  then show ?thesis using assms
    by (simp add: process_settle_split settle_parse_dex[OF demo_settle_parse] settle_prepare_dex
       settle_invoke_def invoke_signed_def)
qed

subsection \<open>Properties\<close>

lemma settle_checks_Inr:
  "settle_checks e pid a s w = Inr (cm, pm, ca, pa) \<Longrightarrow>
    create_program_address e (pool_seeds s) pid = Inr (ai_key (st_pool a)) \<and>
    create_program_address e (mint_seeds s) pid = Inr (ai_key (st_pool_token_mint a)) \<and>
    ai_key (st_pool_coin_wallet a) = get_associated_token_address e (ai_key (st_pool a)) cm \<and>
    ai_key (st_pool_pc_wallet a) = get_associated_token_address e (ai_key (st_pool a)) pm \<and>
    unpack_token_account e w (st_pool_coin_wallet a) = Inr ca \<and>
    unpack_token_account e w (st_pool_pc_wallet a) = Inr pa"
  by (auto simp: settle_checks_def res_simps Let_def)

lemma two_slot_writes:
  assumes "write_asset oc x ci d = Inr d1" "write_asset oc y pci d1 = Inr d2"
  shows "length d2 = length d \<and> asset_slot d2 j =
    (if j = slot_of pci then y else if j = slot_of ci then x else asset_slot d j)"
proof -
  note 1 = write_asset_Inr[OF assms(1)] and 2 = write_asset_Inr[OF assms(2)]
  then have "length d1 = length d" "length d2 = length d1" by auto
  with 1 2 asset_slot_write[of "slot_of ci" d x j] asset_slot_write[of "slot_of pci" d1 y j]
  show ?thesis by simp
qed

text \<open>
  C17. What a settlement does before it calls Serum: funds are free in the open orders account;
  the pool and its mint are the derived addresses and both wallets are the pool's associated
  accounts, owned by the pool, for the two mints of the market; the only account changed is the pool's.
  Its markets are kept, its header is the old one with at most the status counted down, and that
  exactly when the open orders account is fully settled; every asset slot is kept except the two
  named ones, which were free or held the market's mints and now hold them (the quote mint wins where
  both name one slot).
\<close>

theorem settle_effect:
  assumes "process_settle e pid accounts s pc_index coin_index w = Inr w'"
  shows "\<exists>a h oo st cm pm ca pa data. settle_parse e accounts = Inr a \<and> read_pool_header w (st_pool a) = Inr h \<and>
    read_openorders (data_of w (st_openorders a)) = Inr oo \<and> (oo_free_pc oo \<noteq> 0 \<or> oo_free_coin oo \<noteq> 0) \<and>
    create_program_address e (pool_seeds s) pid = Inr (ai_key (st_pool a)) \<and>
    create_program_address e (mint_seeds s) pid = Inr (ai_key (st_pool_token_mint a)) \<and>
    ai_key (st_pool_coin_wallet a) = get_associated_token_address e (ai_key (st_pool a)) cm \<and>
    ai_key (st_pool_pc_wallet a) = get_associated_token_address e (ai_key (st_pool a)) pm \<and>
    unpack_token_account e w (st_pool_coin_wallet a) = Inr ca \<and> ta_owner ca = ai_key (st_pool a) \<and>
    unpack_token_account e w (st_pool_pc_wallet a) = Inr pa \<and> ta_owner pa = ai_key (st_pool a) \<and>
    (if fully_settled oo then settle_status (status h) = Inr st else st = status h) \<and>
    length data = length (data_of w (st_pool a)) \<and>
    take (asset_offset_of h) data =
      header_bytes (h\<lparr>status := st\<rparr>) @ take (32 * unat (number_of_markets h)) (drop HEADER_LEN (data_of w (st_pool a))) \<and>
    (let old = asset_slot (drop (asset_offset_of h) (data_of w (st_pool a)));
         new = asset_slot (drop (asset_offset_of h) data) in
      mint_address (old (slot_of coin_index)) \<in> {0, cm} \<and> mint_address (old (slot_of pc_index)) \<in> {0, pm} \<and>
      (\<forall>j. mint_address (new j) = (if j = slot_of pc_index then pm else if j = slot_of coin_index then cm
        else mint_address (old j)))) \<and>
    settle_invoke e a s (set_data w (st_pool a) data) = Inr w'"
proof -
  from assms obtain a w3 where a: "settle_parse e accounts = Inr a"
    and p: "settle_prepare e pid a s pc_index coin_index w = Inr w3" and i: "settle_invoke e a s w3 = Inr w'"
    by (auto simp: process_settle_split res_simps)
  from p obtain cm pm ca pa h oo h' d1 d2 where r:
    "settle_checks e pid a s w = Inr (cm, pm, ca, pa)" "read_pool_header w (st_pool a) = Inr h"
    "settle_assets e a h pc_index coin_index cm pm ca pa w = Inr (\<lparr>mint_address = cm\<rparr>, \<lparr>mint_address = pm\<rparr>)"
    "read_openorders (data_of w (st_openorders a)) = Inr oo" "settle_header oo h = Inr h'"
    "\<not> (oo_free_pc oo = 0 \<and> oo_free_coin oo = 0)" "asset_offset_of h \<le> length (data_of w (st_pool a))"
    "write_asset (overflow_checks e) \<lparr>mint_address = cm\<rparr> coin_index (drop (asset_offset_of h) (data_of w (st_pool a))) = Inr d1"
    "write_asset (overflow_checks e) \<lparr>mint_address = pm\<rparr> pc_index d1 = Inr d2"
    "w3 = set_data w (st_pool a)
       (header_bytes h' @ take (asset_offset_of h - HEADER_LEN) (drop HEADER_LEN (data_of w (st_pool a))) @ d2)"
    by (rule settle_prepare_Inr)
  let ?D = "data_of w (st_pool a)" and ?k = "asset_offset_of h"
  let ?pre = "header_bytes h' @ take (?k - HEADER_LEN) (drop HEADER_LEN ?D)"
  have k: "?k - HEADER_LEN = 32 * unat (number_of_markets h)" "HEADER_LEN \<le> ?k" by (simp_all add: asset_offset_of_def)
  have pre: "length ?pre = ?k" using r(7) k(2) by simp
  have h': "h' = h\<lparr>status := status h'\<rparr>" by (rule settle_header_cases(1)[OF r(5)])
  have st: "if fully_settled oo then settle_status (status h) = Inr (status h') else status h' = status h"
    using settle_header_cases(2,3)[OF r(5)] by simp
  note slots = two_slot_writes[OF r(8,9)]
  have len: "length (?pre @ d2) = length ?D" using pre slots r(7) by simp
  have tk: "take ?k (?pre @ d2) = ?pre" "drop ?k (?pre @ d2) = d2" using pre by simp_all
  have sl: "mint_address (asset_slot (drop ?k (?pre @ d2)) j) = (if j = slot_of pc_index then pm
      else if j = slot_of coin_index then cm else mint_address (asset_slot (drop ?k ?D) j))" for j
    using slots[of j] unfolding tk by simp
  show ?thesis
    by (rule exI[of _ a], rule exI[of _ h], rule exI[of _ oo], rule exI[of _ "status h'"], rule exI[of _ cm],
      rule exI[of _ pm], rule exI[of _ ca], rule exI[of _ pa], rule exI[of _ "?pre @ d2"])
      (use a r(2,4,6) settle_checks_Inr[OF r(1)] settle_assets_Inr[OF r(3)] st i len sl tk(1) in
        \<open>simp add: r(10) Let_def h'[symmetric] k(1)\<close>)
qed

theorem settle_effect_witness:
  "\<exists>w' oo. process_settle (demo_env False) 7 demo_settle_accounts 100 1 0 demo_trading_world = Inr w' \<and>
    read_openorders (data_of demo_trading_world (st_openorders demo_settle_record)) = Inr oo \<and> oo_free_coin oo \<noteq> 0"
proof -
  have "demo_settle_accounts[10 := demo_handle 8 False] = demo_settle_accounts"
    by (simp add: demo_settle_accounts_def)
  then obtain w' where w': "process_settle (demo_env False) 7 demo_settle_accounts 100 1 0 demo_trading_world = Inr w'"
    using demo_settle[of "demo_handle 8 False" False] by auto
  from settle_effect[OF w'] obtain oo where
    "read_openorders (data_of demo_trading_world (st_openorders demo_settle_record)) = Inr oo"
    "oo_free_pc oo \<noteq> 0 \<or> oo_free_coin oo \<noteq> 0"
    using demo_settle_parse[of False] by auto
  with w' show ?thesis by (auto simp: demo_openorders)
qed

text \<open>
  C8. The Serum program of a settlement is never compared with the one recorded in the pool. Whatever
  account takes the place of the DEX program, the handler does the same checks and the same
  writes and then invokes an instruction built for that account, signed with the pool's seeds,
  with the pool's wallets among its accounts.
\<close>

theorem settle_any_dex:
  assumes "settle_parse e accounts = Inr a"
  shows "process_settle e pid (accounts[10 := d]) s pc_index coin_index w =
    bind_res (settle_prepare e pid a s pc_index coin_index w)
      (\<lambda>w3. bind_res (try_err (ix_settle_funds e (ai_key d) (ai_key (st_market a)) (ai_key (st_spl_token a))
         (ai_key (st_openorders a)) (ai_key (st_pool a)) (ai_key (st_coin_vault a)) (ai_key (st_pool_coin_wallet a))
         (ai_key (st_pc_vault a)) (ai_key (st_pool_pc_wallet a)) (map_option ai_key (st_referrer a)) (ai_key (st_vault_signer a))))
       (\<lambda>ix. invoke_signed e ix ([d, st_market a, st_openorders a, st_pool a, st_coin_vault a, st_pc_vault a,
         st_pool_coin_wallet a, st_pool_pc_wallet a, st_vault_signer a, st_spl_token a]
         @ (case st_referrer a of None \<Rightarrow> [] | Some r \<Rightarrow> [r])) [pool_seeds s] w3))"
  by (simp add: process_settle_split settle_parse_dex[OF assms] settle_prepare_dex settle_invoke_def [abs_def])

theorem settle_any_dex_witness:
  "serum_program_id demo_header = 8 \<and>
    (\<exists>w'. process_settle (demo_env False) 7 (demo_settle_accounts[10 := demo_handle 66 False]) 100 1 0 demo_trading_world = Inr w')"
proof -
  obtain w3 where "settle_prepare (demo_env False) 7 demo_settle_record 100 1 0 demo_trading_world = Inr w3"
    using demo_settle_prepare by blast
  then show ?thesis
    using settle_any_dex[OF demo_settle_parse[of False], of 7 "demo_handle 66 False" 100 1 0 demo_trading_world]
    by (simp add: invoke_signed_def demo_header_def)
qed

text \<open>
  C38. A cancellation succeeds exactly when the pool is the derived address, its header reads, the
  first account is the signal provider recorded there and signed, and the invocation of the cancel
  instruction (built for the DEX program account as given) succeeds; it changes nothing itself.
\<close>

theorem cancel_iff:
  "process_cancel e pid (sp # market # oo # bids # asks # queue # pool # dex # rest) s sd oid w = Inr w' \<longleftrightarrow>
    create_program_address e (pool_seeds s) pid = Inr (ai_key pool) \<and>
    (\<exists>h. read_pool_header w pool = Inr h \<and> ai_key sp = signal_provider h \<and> ai_signer sp) \<and>
    (\<exists>ix. ix_cancel_order e (ai_key dex) (ai_key market) (ai_key bids) (ai_key asks) (ai_key oo)
        (ai_key pool) (ai_key queue) sd oid = Inr ix \<and>
      cpi e ix [dex, market, bids, asks, oo, pool, queue] [pool_seeds s] w = Inr w')"
  by (auto simp: process_cancel_def res_simps invoke_signed_def)

end
