(* ===== verification/Create_Facts.thy ===== *)
theory Create_Facts
  imports Demo Dispatch
begin

text \<open>
  What \<open>process_create\<close> guarantees: its guards, and (in \<open>create_stored\<close>) that header, markets and assets of the new
  pool read back as the instruction gave them.
\<close>

subsection \<open>What a successful creation went through\<close>

lemma create_parse_Inr:
  "create_parse e accounts n = Inr a \<Longrightarrow> ai_key (cr_spl_token a) = spl_token_id e \<and>
    length (cr_pool_assets a) = n \<and> length (cr_source_assets a) = n \<and>
    set (cr_pool a # cr_signal_provider a # cr_serum_program a # cr_pool_assets a) \<subseteq> set accounts"
  by (auto simp: create_parse_def res_simps)

lemma create_checks_Inr:
  "create_checks e pid a s markets period w = Inr (pk, mk) \<longleftrightarrow>
    create_program_address e (pool_seeds s) pid = Inr pk \<and> create_program_address e (mint_seeds s) pid = Inr mk \<and>
    pk = ai_key (cr_pool a) \<and> mk = ai_key (cr_mint a) \<and> HEADER_LEN \<le> length (data_of w (cr_pool a)) \<and>
    (\<exists>h. unpack_header_from_slice (take HEADER_LEN (data_of w (cr_pool a))) = Inr h \<and> status h = Uninitialized) \<and>
    owner_of w (cr_pool a) = pid \<and> ai_signer (cr_source_owner a) \<and>
    length markets < 65536 \<and> 604800 \<le> period"
  by (auto simp: create_checks_def res_simps not_less Let_def div_eq_0_iff)

lemma process_create_Inr:
  assumes "process_create e pid accounts s amounts markets period ratio w = Inr w'"
  obtains a now w1 w2 assets where
    "create_parse e accounts (length amounts) = Inr a" "clock_of e w (cr_clock_sysvar a) = Inr now"
    "create_checks e pid a s markets period w = Inr (ai_key (cr_pool a), ai_key (cr_mint a))"
    "create_deposits e a (ai_key (cr_pool a)) amounts (cr_pool_assets a) (cr_source_assets a) w [] = Inr (w1, assets)"
    "token_mint_to e (ai_key (cr_spl_token a)) (ai_key (cr_mint a)) (ai_key (cr_target_pool_token a))
       (ai_key (cr_pool a)) 1000000 [cr_spl_token a, cr_mint a, cr_target_pool_token a, cr_pool a]
       [pool_seeds s] w1 = Inr w2"
    "create_write a (create_header a s markets now period ratio) markets assets w2 = Inr w'"
proof -
  from assms obtain a now pk mk w1 w2 assets where r:
    "create_parse e accounts (length amounts) = Inr a" "clock_of e w (cr_clock_sysvar a) = Inr now"
    "create_checks e pid a s markets period w = Inr (pk, mk)"
    "create_deposits e a pk amounts (cr_pool_assets a) (cr_source_assets a) w [] = Inr (w1, assets)"
    "token_mint_to e (ai_key (cr_spl_token a)) mk (ai_key (cr_target_pool_token a))
       pk 1000000 [cr_spl_token a, cr_mint a, cr_target_pool_token a, cr_pool a] [pool_seeds s] w1 = Inr w2"
    "create_write a (create_header a s markets now period ratio) markets assets w2 = Inr w'"
    by (auto simp: process_create_def res_simps split: prod.splits)
  moreover have "pk = ai_key (cr_pool a)" "mk = ai_key (cr_mint a)" using r(3) by (auto simp: create_checks_Inr)
  ultimately show ?thesis using that by blast
qed

text \<open>Every nonzero amount records one asset: its account is the pool's own, without delegate or close authority.\<close>

lemma create_deposits_Inr:
  "length amounts = length pas \<Longrightarrow> length pas = length sas \<Longrightarrow>
    create_deposits e a pk amounts pas sas w acc = Inr (w1, assets) \<Longrightarrow>
    \<exists>new. assets = acc @ new \<and> length new = length (filter (\<lambda>x. x \<noteq> 0) amounts) \<and>
      list_all2 (\<lambda>x pa. ai_key pa = get_associated_token_address e pk (mint_address x))
        new (map snd (filter (\<lambda>(x, pa). x \<noteq> 0) (zip amounts pas)))"
proof (induction amounts pas sas arbitrary: w acc rule: list_induct3)
  case (Cons x amounts pa pas sa sas)
  show ?case
  proof (cases "x = 0")
    case True
    with Cons show ?thesis by simp
  next
    case False
    with Cons.prems obtain t :: token_account and w2 where
      "get_associated_token_address e pk (ta_mint t) = ai_key pa"
      "create_deposits e a pk amounts pas sas w2 (acc @ [\<lparr>mint_address = ta_mint t\<rparr>]) = Inr (w1, assets)"
      by (auto simp: res_simps)
    with Cons.IH[of w2 "acc @ [\<lparr>mint_address = ta_mint t\<rparr>]"] False show ?thesis by auto
  qed
qed simp

lemma write_assets:
  "write_assets xs k d = (if xs = [] then Inr d
    else if k + 32 * length xs \<le> length d
    then Inr (take k d @ concat (map (\<lambda>x. le_bytes 32 (mint_address x)) xs) @ drop (k + 32 * length xs) d)
    else Inl Panic)"
proof (induction xs arbitrary: k d)
  case (Cons x xs)
  show ?case
  proof (cases "k + 32 \<le> length d")
    case True
    let ?d = "take k d @ le_bytes 32 (mint_address x) @ drop (k + 32) d"
    have "in_tail d k (pack_asset_into_slice x) = Inr ?d"
      using True by (simp add: in_tail_def slice_from_def pack_asset_into_slice_def copy_into_def add.commute)
    moreover have "length ?d = length d" using True by simp
    ultimately show ?thesis using True Cons.IH[of "k + 32" ?d]
      by (auto simp: drop_drop algebra_simps)
  next
    case False
    then show ?thesis
      by (auto simp: in_tail_def slice_from_def pack_asset_into_slice_def copy_into_def)
  qed
qed simp

text \<open>The data a creation leaves: header, markets, assets, and what was behind them before.\<close>

lemma create_write_Inr:
  assumes "create_write a h markets assets w = Inr w'"
  shows "HEADER_LEN + 32 * length markets + 32 * length assets \<le> length (data_of w (cr_pool a)) \<and>
    w' = set_data w (cr_pool a) (header_bytes h @ concat (map (le_bytes 32) markets)
      @ concat (map (\<lambda>x. le_bytes 32 (mint_address x)) assets)
      @ drop (HEADER_LEN + 32 * length markets + 32 * length assets) (data_of w (cr_pool a)))"
proof -
  let ?D = "data_of w (cr_pool a)" and ?m = "concat (map (le_bytes 32) markets) :: bytes"
  from assms obtain d1 d2 d3 where r: "pack_header_into_slice h ?D = Inr d1"
    "in_tail d1 HEADER_LEN (\<lambda>t. pack_markets t markets) = Inr d2"
    "write_assets assets (HEADER_LEN + PUBKEY_LENGTH * length markets) d2 = Inr d3"
    "w' = set_data w (cr_pool a) d3"
    by (auto simp: create_write_def res_simps)
  have len: "HEADER_LEN \<le> length ?D" and d1: "d1 = header_bytes h @ drop HEADER_LEN ?D"
    using r(1) by (auto simp: pack_header_into_slice split: if_splits)
  have m: "HEADER_LEN + 32 * length markets \<le> length ?D"
    and d2: "d2 = (header_bytes h @ ?m) @ drop (HEADER_LEN + 32 * length markets) ?D"
    using r(2) len by (auto simp: d1 res_simps pack_markets drop_drop add.commute split: if_splits)
  have pre: "length (header_bytes h @ ?m) = HEADER_LEN + 32 * length markets"
    by (simp add: c256.length_concat_enc)
  have "length d2 = length ?D" unfolding d2 using m pre by simp
  then show ?thesis
    using r(3,4) m pre unfolding d2 by (auto simp: write_assets drop_drop add.commute split: if_splits)
qed

lemma stored_assets_concat:
  "stored_assets (concat (map (\<lambda>x. le_bytes 32 (mint_address x)) xs) @ r) =
    filter asset_is_initialized xs @ stored_assets r"
  by (induction xs) (auto simp: stored_assets_Cons asset_is_initialized_iff intro: pool_asset.equality)
subsection \<open>Creating the demo pool\<close>

text \<open>
  The demo world before its pool exists: the pool account is allocated and zero, with room for two
  markets and three assets.
\<close>

definition demo_fresh_world :: world where
  "demo_fresh_world = demo_world(101 := \<lparr>acc_owner = 7, acc_lamports = 1, acc_data = replicate 277 0\<rparr>)"

definition demo_create_accounts :: "account_info list" where
  "demo_create_accounts = map (\<lambda>k. demo_handle k (k = 300))
     [6, 40, 8, 9, 102, 200, 101, 101001, 101002, 300, 301, 302]"

definition demo_create_record :: create_accounts where
  "demo_create_record = \<lparr>cr_spl_token = demo_handle 6 False, cr_clock_sysvar = demo_handle 40 False,
     cr_serum_program = demo_handle 8 False, cr_signal_provider = demo_handle 9 False,
     cr_mint = demo_handle 102 False, cr_target_pool_token = demo_handle 200 False,
     cr_pool = demo_handle 101 False, cr_pool_assets = [demo_handle 101001 False, demo_handle 101002 False],
     cr_source_owner = demo_handle 300 True, cr_source_assets = [demo_handle 301 False, demo_handle 302 False]\<rparr>"

lemma demo_create_parse: "create_parse (demo_env oc) demo_create_accounts (Suc (Suc 0)) = Inr demo_create_record"
  by (simp add: create_parse_def demo_create_accounts_def demo_create_record_def)

lemma unpack_header_zeros: "117 \<le> n \<Longrightarrow> \<exists>h. unpack_header_from_slice (replicate n 0) = Inr h \<and> status h = Uninitialized"
  by (simp add: unpack_header_from_slice_def slice_idx_ok unpack_status_def)

lemma demo_create_checks:
  "create_checks (demo_env oc) 7 demo_create_record 100 [55] 604800 demo_fresh_world = Inr (101, 102)"
  using unpack_header_zeros[of 117]
  by (simp add: create_checks_Inr demo_create_record_def data_of_def owner_of_def demo_fresh_world_def)

lemma demo_create_deposits: "\<exists>w1. create_deposits (demo_env oc) demo_create_record 101 [1000, 500] (cr_pool_assets demo_create_record)
    (cr_source_assets demo_create_record) demo_fresh_world [] = Inr (w1, [\<lparr>mint_address = 1\<rparr>, \<lparr>mint_address = 2\<rparr>]) \<and>
    (\<forall>k \<in> {101, 102, 200}. w1 k = demo_fresh_world k)"
  by (simp add: demo_create_record_def unpack_token_account_def data_of_def token_transfer_def invoke_signed_def
      demo_fresh_world_def)

lemma demo_create:
  "\<exists>w'. process_create (demo_env oc) 7 demo_create_accounts 100 [1000, 500] [55] 604800 6554 demo_fresh_world = Inr w'"
proof -
  obtain w1 where w1: "create_deposits (demo_env oc) demo_create_record 101 [1000, 500] (cr_pool_assets demo_create_record)
    (cr_source_assets demo_create_record) demo_fresh_world [] = Inr (w1, [\<lparr>mint_address = 1\<rparr>, \<lparr>mint_address = 2\<rparr>])"
    "\<forall>k \<in> {101, 102, 200}. w1 k = demo_fresh_world k" using demo_create_deposits by blast
  have clk: "clock_of (demo_env oc) demo_fresh_world (demo_handle 40 False) = Inr 1500000"
    by (simp add: clock_of_def data_of_def demo_fresh_world_def codec_simps)
  have "\<exists>w2. token_mint_to (demo_env oc) 6 102 200 101 1000000 is [pool_seeds 100] w1 = Inr w2 \<and> w2 101 = w1 101" for "is"
    using w1(2) by (simp add: token_mint_to_def invoke_signed_def demo_fresh_world_def)
  then obtain w2 where w2: "token_mint_to (demo_env oc) 6 102 200 101 1000000
      [demo_handle 6 False, demo_handle 102 False, demo_handle 200 False, demo_handle 101 False] [pool_seeds 100] w1 = Inr w2"
    "w2 101 = w1 101" by blast
  have d: "data_of w2 (demo_handle 101 False) = replicate 277 0"
    using w2(2) w1(2) by (simp add: data_of_def demo_fresh_world_def)
  have f: "cr_clock_sysvar demo_create_record = demo_handle 40 False" "cr_spl_token demo_create_record = demo_handle 6 False"
    "cr_mint demo_create_record = demo_handle 102 False" "cr_target_pool_token demo_create_record = demo_handle 200 False"
    "cr_pool demo_create_record = demo_handle 101 False" by (simp_all add: demo_create_record_def)
  have "\<exists>w'. create_write demo_create_record h [55] [\<lparr>mint_address = 1\<rparr>, \<lparr>mint_address = 2\<rparr>] w2 = Inr w'" for h
    by (simp add: create_write_def f d pack_header_into_slice in_tail_def slice_from_def pack_markets write_assets)
  then show ?thesis using w1(1) w2(1)
    by (simp add: process_create_def f demo_create_parse demo_create_checks clk)
qed

subsection \<open>Properties\<close>

text \<open>
  C15. The guards of a creation: the pool account was allocated to the program, is the derived
  address and was not initialised, so no header could be read from it and a live pool is never
  overwritten; the owner of the deposit signed, the period is at least a week, and the market
  count fits the header's 16-bit field.
\<close>

theorem create_guards:
  assumes "process_create e pid accounts s amounts markets period ratio w = Inr w'"
    and "create_parse e accounts (length amounts) = Inr a"
  shows "read_pool_header w (cr_pool a) = Inl (Error UninitializedAccount) \<and> owner_of w (cr_pool a) = pid \<and>
    create_program_address e (pool_seeds s) pid = Inr (ai_key (cr_pool a)) \<and>
    create_program_address e (mint_seeds s) pid = Inr (ai_key (cr_mint a)) \<and>
    ai_signer (cr_source_owner a) \<and> ai_key (cr_spl_token a) = spl_token_id e \<and>
    604800 \<le> period \<and> length markets < 2 ^ 16"
proof -
  obtain now where r: "clock_of e w (cr_clock_sysvar a) = Inr now"
    "create_checks e pid a s markets period w = Inr (ai_key (cr_pool a), ai_key (cr_mint a))"
    by (rule process_create_Inr[OF assms(1)]) (use assms(2) in auto)
  then have "read_pool_header w (cr_pool a) = Inl (Error UninitializedAccount)"
    by (auto simp: create_checks_Inr read_pool_header_def slice_idx_ok unpack_header_def
        unpack_header_unchecked_def header_is_initialized_iff)
  with r(2) create_parse_Inr[OF assms(2)] show ?thesis by (simp add: create_checks_Inr)
qed

theorem create_guards_witness:
  "\<exists>w'. process_create (demo_env True) 7 demo_create_accounts 100 [1000, 500] [55] 604800 6554 demo_fresh_world = Inr w' \<and>
    read_pool_header demo_fresh_world (cr_pool demo_create_record) = Inl (Error UninitializedAccount)"
proof -
  obtain w' where w': "process_create (demo_env True) 7 demo_create_accounts 100 [1000, 500] [55] 604800 6554 demo_fresh_world = Inr w'"
    using demo_create by blast
  moreover have "create_parse (demo_env True) demo_create_accounts (length [1000, 500 :: u64]) = Inr demo_create_record"
    using demo_create_parse by simp
  ultimately show ?thesis using create_guards[OF w'] by blast
qed

text \<open>
  What a creation stores, field by field. Behind the recorded assets the account keeps the data it
  had just before the write.
\<close>

lemma create_stored:
  assumes "process_create e pid accounts s amounts markets period ratio w = Inr w'"
    and "create_parse e accounts (length amounts) = Inr a" and "clock_of e w (cr_clock_sysvar a) = Inr now"
  shows "\<exists>h assets. read_pool_header w' (cr_pool a) = Inr h \<and>
    h = \<lparr>serum_program_id = ai_key (cr_serum_program a), seed = s, signal_provider = ai_key (cr_signal_provider a),
      status = Unlocked, number_of_markets = number_of_markets h, fee_ratio = ratio,
      last_fee_collection_timestamp = now, fee_collection_period = period\<rparr> \<and>
    unat (number_of_markets h) = length markets \<and>
    (\<forall>i < length markets. unpack_market (drop HEADER_LEN (data_of w' (cr_pool a))) (of_nat i) = Inr (markets ! i)) \<and>
    read_pool_assets w' (cr_pool a) h = Inr (filter asset_is_initialized assets @
      stored_assets (drop (HEADER_LEN + 32 * length markets + 32 * length assets) (data_of w' (cr_pool a)))) \<and>
    length assets = length (filter (\<lambda>x. x \<noteq> 0) amounts) \<and>
    list_all2 (\<lambda>x pa. ai_key pa = get_associated_token_address e (ai_key (cr_pool a)) (mint_address x))
      assets (map snd (filter (\<lambda>(x, pa). x \<noteq> 0) (zip amounts (cr_pool_assets a))))"
proof -
  let ?h = "create_header a s markets now period ratio"
  obtain w1 w2 assets where r:
    "create_checks e pid a s markets period w = Inr (ai_key (cr_pool a), ai_key (cr_mint a))"
    "create_deposits e a (ai_key (cr_pool a)) amounts (cr_pool_assets a) (cr_source_assets a) w [] = Inr (w1, assets)"
    "create_write a ?h markets assets w2 = Inr w'"
    by (rule process_create_Inr[OF assms(1)]) (use assms(2,3) in auto)
  have n: "length markets < 2 ^ 16" using r(1) by (simp add: create_checks_Inr)
  let ?R = "drop (HEADER_LEN + 32 * length markets + 32 * length assets) (data_of w2 (cr_pool a))"
  have D: "data_of w' (cr_pool a) = header_bytes ?h @ concat (map (le_bytes 32) markets)
      @ concat (map (\<lambda>x. le_bytes 32 (mint_address x)) assets) @ ?R"
    using create_write_Inr[OF r(3)] by simp
  have la: "length (concat (map (\<lambda>x. le_bytes 32 (mint_address x)) assets)) = 32 * length assets"
    by (induction assets) simp_all
  have R: "drop (HEADER_LEN + 32 * length markets + 32 * length assets) (data_of w' (cr_pool a)) = ?R"
    unfolding D by (simp add: c256.length_concat_enc la)
  have off: "asset_offset_of ?h = HEADER_LEN + 32 * length markets"
    using n by (simp add: asset_offset_of_def create_header_def unat_of_nat)
  have st: "status ?h = Unlocked" by (simp add: create_header_def)
  have "read_pool_header w' (cr_pool a) = Inr ?h"
    by (simp add: read_pool_header_Inr D unpack_pack_header wf_header_def st)
  moreover have "unpack_market (drop HEADER_LEN (data_of w' (cr_pool a))) (of_nat i) = Inr (markets ! i)"
    if "i < length markets" for i
    unfolding D using unpack_pack_market[OF that] n by simp
  moreover have "read_pool_assets w' (cr_pool a) ?h = Inr (filter asset_is_initialized assets @
      stored_assets (drop (HEADER_LEN + 32 * length markets + 32 * length assets) (data_of w' (cr_pool a))))"
    unfolding R by (simp add: read_pool_assets_Inr off D c256.length_concat_enc stored_assets_concat)
  moreover have "length assets = length (filter (\<lambda>x. x \<noteq> 0) amounts) \<and>
    list_all2 (\<lambda>x pa. ai_key pa = get_associated_token_address e (ai_key (cr_pool a)) (mint_address x))
      assets (map snd (filter (\<lambda>(x, pa). x \<noteq> 0) (zip amounts (cr_pool_assets a))))"
    using create_deposits_Inr[OF _ _ r(2)] create_parse_Inr[OF assms(2)] by simp
  moreover have "?h = \<lparr>serum_program_id = ai_key (cr_serum_program a), seed = s, signal_provider = ai_key (cr_signal_provider a),
      status = Unlocked, number_of_markets = number_of_markets ?h, fee_ratio = ratio,
      last_fee_collection_timestamp = now, fee_collection_period = period\<rparr>" "unat (number_of_markets ?h) = length markets"
    using n by (simp_all add: create_header_def unat_of_nat)
  ultimately show ?thesis by blast
qed

end
