(* ===== verification/Codec_Facts.thy ===== *)
theory Codec_Facts
  imports Orders_Facts Create_Facts
begin

text \<open>
  The properties of the wire and storage formats, of the fixed-point power and of the dispatcher:
  round trips in both directions, the classification of decoding failures, slot accesses with
  their wrap-around, and the size of a new pool account.
\<close>

unbundle bit_operations_syntax

subsection \<open>Instructions\<close>

text \<open>
  C24. Decoding inverts encoding: every instruction within the format's limits (at most 65535
  markets, nonzero limit price and ratio) is decoded from its own bytes, also when fewer than
  eight stray bytes follow.
\<close>

theorem instruction_roundtrip:
  assumes "wf_instruction i" and "length post < 8"
  shows "unpack_instruction (pack_instruction i @ post) = Inr i"
  using assms by (rule unpack_pack_instruction)

theorem instruction_roundtrip_witness:
  "unpack_instruction (pack_instruction (Create 5 604800 6554 [10, 20] [1, 2, 3]) @ [0, 0]) =
    Inr (Create 5 604800 6554 [10, 20] [1, 2, 3])"
  by (rule instruction_roundtrip) simp_all

text \<open>
  C25. Encoding inverts decoding: whatever decodes is an instruction within the format's limits, and its
  encoding is a prefix of the input, so no two instructions share an encoding.
\<close>

theorem instruction_canonical:
  assumes "unpack_instruction input = Inr i"
  shows "wf_instruction i \<and> take (length (pack_instruction i)) input = pack_instruction i"
  using unpack_instruction_canonical[OF assms] by auto

theorem instruction_canonical_witness:
  "take (length (pack_instruction (Deposit 5 77))) (pack_instruction (Deposit 5 77) @ [9]) = pack_instruction (Deposit 5 77)"
proof -
  have "unpack_instruction (pack_instruction (Deposit 5 77) @ [9]) = Inr (Deposit 5 77)"
    by (rule unpack_pack_instruction) simp_all
  from instruction_canonical[OF this] show ?thesis by blast
qed

text \<open>
  C26. How decoding fails: on every input that does not decode the program panics exactly when the
  tag is one of the known ones other than \<open>CreateOrder\<close> and fewer than 32 bytes follow it (the
  seed is unwrapped); every other failure is the error InvalidInstruction.
\<close>

theorem instruction_failure:
  assumes "unpack_instruction input = Inl err"
  shows "err = (case input of [] \<Rightarrow> bot_err InvalidInstruction
    | tag # rest \<Rightarrow> if length rest < 32 \<and> tag \<le> 7 \<and> tag \<noteq> 3 then Panic else bot_err InvalidInstruction)"
  using assms unpack_instruction_Inl by (cases input) (auto simp: unpack_instruction_def)

theorem instruction_failure_witness: "unpack_instruction [6, 1, 2] = Inl Panic"
proof -
  have "unpack_instruction [6, 1, 2] \<noteq> Inr i" for i
    by (auto simp: unpack_instruction_def unpack_redeem_def res_simps get_field_unwrap_Inr)
  then obtain err where "unpack_instruction [6, 1, 2] = Inl err"
    by (cases "unpack_instruction [6, 1, 2]") auto
  with instruction_failure[OF this] show ?thesis by simp
qed

text \<open>
  C27. Which bytes run which handler. The entrypoint reads the tag byte and then, at fixed offsets,
  the seed and the little-endian fields, and returns what the handler of that tag returns on
  these values, whatever accounts and state it is given and also when fewer than eight stray bytes
  follow. An order creation (tag 3), an unknown tag and an empty input are refused with the custom
  error 0 on every input.
\<close>

theorem entrypoint_dispatches:
  assumes "length post < 8" and "length markets < 2 ^ 16"
  shows "entrypoint e pid accounts ([0] @ le_bytes 32 s @ le_bytes 4 max_assets @ le_bytes 2 nb_markets @ post) w =
      process_init e pid accounts s max_assets nb_markets w \<and>
    entrypoint e pid accounts ([1] @ le_bytes 32 s @ le_bytes 2 (of_nat (length markets) :: u16) @ le_bytes 8 period @ le_bytes 2 ratio
        @ concat (map (le_bytes 32) markets) @ concat (map (le_bytes 8) amounts) @ post) w =
      process_create e pid accounts s amounts markets period ratio w \<and>
    entrypoint e pid accounts ([2] @ le_bytes 32 s @ le_bytes 8 amount @ post) w = process_deposit e pid accounts s amount w \<and>
    entrypoint e pid accounts ([4] @ le_bytes 32 s @ [if bid then 0 else 1] @ le_bytes 16 order_id @ post) w =
      process_cancel e pid accounts s (if bid then Bid else Ask) order_id w \<and>
    entrypoint e pid accounts ([5] @ le_bytes 32 s @ le_bytes 8 pc_index @ le_bytes 8 coin_index @ post) w =
      process_settle e pid accounts s pc_index coin_index w \<and>
    entrypoint e pid accounts ([6] @ le_bytes 32 s @ le_bytes 8 amount @ post) w = process_redeem e pid accounts s amount w \<and>
    entrypoint e pid accounts ([7] @ le_bytes 32 s @ post) w = process_collect_fees e pid accounts s w \<and>
    entrypoint e pid accounts (3 # rest) w = Inl (Error (Custom 0)) \<and>
    (7 < tag \<longrightarrow> entrypoint e pid accounts (tag # rest) w = Inl (Error (Custom 0))) \<and>
    entrypoint e pid accounts [] w = Inl (Error (Custom 0))"
proof -
  have run: "entrypoint e pid accounts (pack_instruction i @ post) w = dispatch e pid accounts i w" if "wf_instruction i" for i
    by (simp add: entrypoint_def process_instruction_def unpack_pack_instruction[OF that assms(1)] split: sum.splits)
  have refused: "entrypoint e pid accounts input w = Inl (Error (Custom 0))"
    if "unpack_instruction input = Inl (bot_err InvalidInstruction) \<or>
      (\<exists>s sd price ratio ot cid stb si ti mi cl pl tm lm. unpack_instruction input =
        Inr (CreateOrder s sd price ratio ot cid stb si ti mi cl pl tm lm))" for input
    using that by (auto simp: entrypoint_def process_instruction_def process_create_order_def program_error_of_def)
  have order: "entrypoint e pid accounts (3 # rest) w = Inl (Error (Custom 0))"
  proof (rule refused, cases "unpack_instruction (3 # rest)")
    case (Inl err)
    then show "unpack_instruction (3 # rest) = Inl (bot_err InvalidInstruction) \<or> (\<exists>s sd price ratio ot cid stb si ti mi cl pl tm lm.
        unpack_instruction (3 # rest) = Inr (CreateOrder s sd price ratio ot cid stb si ti mi cl pl tm lm))"
      using unpack_instruction_Inl by fastforce
  next
    case (Inr i)
    then show "unpack_instruction (3 # rest) = Inl (bot_err InvalidInstruction) \<or> (\<exists>s sd price ratio ot cid stb si ti mi cl pl tm lm.
        unpack_instruction (3 # rest) = Inr (CreateOrder s sd price ratio ot cid stb si ti mi cl pl tm lm))"
      by (auto simp: unpack_instruction_def unpack_create_order_def res_simps)
  qed
  have unknown: "entrypoint e pid accounts (tag # rest) w = Inl (Error (Custom 0))" if "7 < tag"
    by (rule refused) (use that in \<open>auto simp: unpack_instruction_def\<close>)
  have empty: "entrypoint e pid accounts [] w = Inl (Error (Custom 0))"
    by (rule refused) (simp add: unpack_instruction_def)
  have side: "encode_side (if bid then Bid else Ask) = (if bid then 0 else 1)" by simp
  show ?thesis
    using run[of "Init s max_assets nb_markets"] run[of "Create s period ratio amounts markets"] run[of "Deposit s amount"]
      run[of "CancelOrder s (if bid then Bid else Ask) order_id", unfolded pack_instruction.simps side]
      run[of "SettleFunds s pc_index coin_index"] run[of "Redeem s amount"] run[of "CollectFees s"]
      assms(2) order unknown empty
    by (intro conjI impI) (simp_all only: pack_instruction.simps wf_instruction.simps dispatch.simps append_assoc simp_thms)
qed

theorem entrypoint_dispatches_witness:
  "\<exists>w'. entrypoint (demo_env False) 7 demo_create_accounts
    ([1] @ le_bytes 32 (100 :: bytes32) @ le_bytes 2 (1 :: u16) @ le_bytes 8 (604800 :: u64) @ le_bytes 2 (6554 :: u16)
      @ le_bytes 32 (55 :: pubkey) @ le_bytes 8 (1000 :: u64) @ le_bytes 8 (500 :: u64)) demo_fresh_world = Inr w'"
proof -
  have l: "length ([] :: bytes) < 8" "length [55 :: pubkey] < 2 ^ 16" by simp_all
  from entrypoint_dispatches[OF l, of "demo_env False" 7 demo_create_accounts 100 _ _ demo_fresh_world 604800 6554 "[1000, 500]"]
  show ?thesis using demo_create[of False] by simp
qed

subsection \<open>The pool header\<close>

text \<open>
  C28. A stored header is read back and its neighbourhood is kept: packing a well-formed header
  into the front of any buffer of at least 117 bytes succeeds, keeps the length and every byte from
  117 on, and unpacking gives the header; shorter buffers panic in both directions.
\<close>

theorem header_roundtrip:
  assumes "wf_header h"
  shows "(if HEADER_LEN \<le> length buf
    then \<exists>buf'. pack_header_into_slice h buf = Inr buf' \<and> length buf' = length buf \<and>
      drop HEADER_LEN buf' = drop HEADER_LEN buf \<and> unpack_header_from_slice buf' = Inr h
    else pack_header_into_slice h buf = Inl Panic \<and> unpack_header_from_slice buf = Inl Panic)"
  using assms by (simp add: pack_header_into_slice unpack_pack_header unpack_header_short)

theorem header_roundtrip_witness:
  "\<exists>buf'. pack_header_into_slice (demo_header\<lparr>status := LockedPendingOrder 64\<rparr>) (replicate 150 1) = Inr buf' \<and>
    unpack_header_from_slice buf' = Inr (demo_header\<lparr>status := LockedPendingOrder 64\<rparr>)"
  using header_roundtrip[of "demo_header\<lparr>status := LockedPendingOrder 64\<rparr>" "replicate 150 1"]
  by (auto simp: wf_header_def)

text \<open>
  C29. Every 117 bytes decode: the decoder never fails on a long enough buffer, the status it reads
  has between 1 and 64 pending orders if any, and writing the header back changes at most the
  status byte (the one field with several encodings).
\<close>

theorem header_decode_total:
  assumes "HEADER_LEN \<le> length src"
  shows "\<exists>h. unpack_header_from_slice src = Inr h \<and> wf_status (status h) \<and>
    pack_header_into_slice h src = Inr (src[96 := pack_status (status h)])"
proof -
  obtain h where "unpack_header_from_slice src = Inr h" "wf_header h"
    using unpack_header_total[OF assms] by blast
  with repack_header[OF this(1)] assms show ?thesis
    by (simp add: pack_header_into_slice wf_header_def)
qed

theorem header_decode_total_witness:
  "\<exists>h. unpack_header_from_slice (replicate 117 255) = Inr h \<and> wf_status (status h)"
  using header_decode_total[of "replicate 117 255"] by auto

subsection \<open>Asset slots and markets\<close>

text \<open>
  C30. Writing an asset slot is reading it back: a successful write keeps the length and every other
  slot, the same index then reads the asset, and the array lists a nonzero asset among its assets.
\<close>

theorem asset_slot_roundtrip:
  assumes "write_asset oc x index d = Inr d'"
  shows "length d' = length d \<and> unpack_unchecked_asset oc d' index = Inr x \<and>
    (\<forall>j. j \<noteq> slot_of index \<longrightarrow> asset_slot d' j = asset_slot d j) \<and>
    (asset_is_initialized x \<longrightarrow> x \<in> set (stored_assets d'))"
proof -
  from assms obtain i j where r: "asset_range oc index = Inr (i, j)" "i \<le> j" "j \<le> length d"
    by (auto simp: write_asset_def get_asset_slice_def res_simps slice_simps)
  note k = write_asset_Inr[OF assms]
  let ?k = "slot_of index"
  have ij: "i = 32 * ?k" "j = 32 * ?k + 32"
    using asset_range_cases[OF r(1,2)] by (auto simp: slot_of_def)
  have len: "length d' = length d" using k by simp
  have slot: "asset_slot d' l = (if l = ?k then x else asset_slot d l)" for l
    using k asset_slot_write[of ?k d x l] by simp
  have "unpack_unchecked_asset oc d' index = Inr (asset_slot d' ?k)"
    using r k len unfolding ij
    by (simp add: unpack_unchecked_asset_def slice_get_ok unpack_asset_unchecked_def
        unpack_asset_from_slice_def slice_idx_ok asset_slot_def)
  moreover have "?k < length d' div 32" using k len by linarith
  then have "asset_is_initialized x \<longrightarrow> x \<in> set (stored_assets d')"
    using slot[of ?k] by (auto simp: stored_assets_def image_iff intro!: bexI[of _ ?k])
  ultimately show ?thesis using len slot by simp
qed

theorem asset_slot_roundtrip_witness:
  "\<exists>d'. write_asset True \<lparr>mint_address = 9\<rparr> 1 (replicate 96 0) = Inr d' \<and> \<lparr>mint_address = 9\<rparr> \<in> set (stored_assets d')"
proof -
  obtain d' where d': "write_asset True \<lparr>mint_address = 9\<rparr> 1 (replicate 96 0) = Inr d'"
    by (simp add: write_asset_fits)
  with asset_slot_roundtrip[OF d'] show ?thesis by (auto simp: asset_is_initialized_iff)
qed

text \<open>
  C40. Reading an asset slot by index, for every index and both build profiles. A checked build
  panics from index \<open>2 ^ 59 - 1\<close> on, where \<open>32 * index + 32\<close> leaves 64 bits. A release build reads
  slot \<open>index mod 2 ^ 59\<close>, so that indices \<open>2 ^ 59\<close> apart name the same slot. Otherwise a slot inside the array is
  read as the 32 bytes at its place, and a slot outside, or the last one before the wrap-around, is
  the error InvalidArgument.
\<close>

theorem asset_index_wraps:
  "unpack_unchecked_asset oc d index =
    (if oc \<and> 2 ^ 59 - 1 \<le> unat index then Inl Panic
     else if 32 * (unat index mod 2 ^ 59) + 32 \<le> length d \<and> unat index mod 2 ^ 59 \<noteq> 2 ^ 59 - 1
     then Inr \<lparr>mint_address = from_le (take 32 (drop (32 * (unat index mod 2 ^ 59)) d))\<rparr>
     else Inl (Error InvalidArgument))"
proof -
  let ?k = "unat index mod 2 ^ 59"
  have k: "?k < 2 ^ 59" by simp
  have off: "unat (index * 32) = 32 * ?k"
    using mult_mod_right[of 32 "unat index" "2 ^ 59"] by (simp add: unat_word_ariths mult.commute)
  have stop: "unat (index * 32 + 32) = (if ?k = 2 ^ 59 - 1 then 0 else 32 * ?k + 32)"
    using k by (auto simp: unat_word_ariths(1) off)
  have range: "asset_range oc index = (if oc \<and> 2 ^ 59 - 1 \<le> unat index then Inl Panic
    else Inr (32 * ?k, if ?k = 2 ^ 59 - 1 then 0 else 32 * ?k + 32))"
  proof (cases "oc")
    case False
    then show ?thesis using off stop by (simp add: asset_range_def mul_w_def add_w_def)
  next
    case True
    show ?thesis
    proof (cases "2 ^ 59 - 1 \<le> unat index")
      case big: True
      show ?thesis
      proof (cases "unat index = 2 ^ 59 - 1")
        case True
        then have "?k = 2 ^ 59 - 1" by simp
        then show ?thesis using \<open>oc\<close> big off by (simp add: asset_range_def mul_w_def add_w_def)
      qed (use \<open>oc\<close> big in \<open>simp add: asset_range_def mul_w_def\<close>)
    next
      case False
      then have "?k = unat index" by simp
      then show ?thesis using False off stop by (simp add: asset_range_def mul_w_def add_w_def)
    qed
  qed
  show ?thesis unfolding unpack_unchecked_asset_def range
    by (auto simp: slice_get_def unpack_asset_unchecked_def unpack_asset_from_slice_def slice_idx_ok)
qed

text \<open>
  C31. Markets are read back at their index: packing up to 65536 markets into a buffer that holds
  them succeeds and keeps the bytes behind them.
\<close>

theorem markets_roundtrip:
  assumes "32 * length markets \<le> length buf" and "length markets \<le> 2 ^ 16"
  shows "\<exists>buf'. pack_markets buf markets = Inr buf' \<and> length buf' = length buf \<and>
    drop (32 * length markets) buf' = drop (32 * length markets) buf \<and>
    (\<forall>i < length markets. unpack_market buf' (of_nat i) = Inr (markets ! i))"
proof -
  let ?buf = "concat (map (le_bytes 32) markets) @ drop (32 * length markets) buf"
  have "pack_markets buf markets = Inr ?buf" using assms(1) by (simp add: pack_markets)
  moreover have "length ?buf = length buf \<and> drop (32 * length markets) ?buf = drop (32 * length markets) buf"
    using assms(1) by (simp add: c256.length_concat_enc)
  moreover have "\<forall>i < length markets. unpack_market ?buf (of_nat i) = Inr (markets ! i)"
    using unpack_pack_market[OF _ assms(2)] by blast
  ultimately show ?thesis by blast
qed

theorem markets_roundtrip_witness:
  "\<exists>buf'. pack_markets (replicate 70 3) [11, 22] = Inr buf' \<and> unpack_market buf' 1 = Inr 22"
proof -
  have "\<exists>buf'. pack_markets (replicate 70 3) [11, 22] = Inr buf' \<and> length buf' = length (replicate 70 (3 :: u8)) \<and>
    drop (32 * length [11, 22 :: pubkey]) buf' = drop (32 * length [11, 22 :: pubkey]) (replicate 70 3) \<and>
    (\<forall>i < length [11, 22 :: pubkey]. unpack_market buf' (of_nat i) = Inr ([11, 22] ! i))"
    by (rule markets_roundtrip) simp_all
  then obtain buf' where b: "pack_markets (replicate 70 3) [11, 22] = Inr buf'"
    "\<And>i. i < length [11, 22 :: pubkey] \<Longrightarrow> unpack_market buf' (of_nat i) = Inr ([11, 22] ! i)" by blast
  from b(2)[of 1] b(1) show ?thesis by simp
qed

text \<open>
  C32. A pool account that \<open>process_init\<close> sizes for \<open>m\<close> markets and \<open>n\<close> assets holds every pool
  that \<open>process_create\<close> writes with at most that many: the size is computed without wrap-around,
  and the write does not panic.
\<close>

theorem init_size_fits_create:
  assumes "length (data_of w (cr_pool a)) = unat (init_state_size n m)"
    and "length markets \<le> unat m" and "length assets \<le> unat n"
  shows "\<exists>w'. create_write a h markets assets w = Inr w' \<and>
    unat (init_state_size n m) = HEADER_LEN + 32 * unat m + 32 * unat n"
proof -
  have len: "length (data_of w (cr_pool a)) = HEADER_LEN + 32 * unat m + 32 * unat n"
    using assms(1) by (simp add: unat_init_state_size)
  then have "\<exists>w'. create_write a h markets assets w = Inr w'" using assms(2,3)
    by (simp add: create_write_def pack_header_into_slice in_tail_def slice_from_def pack_markets
        write_assets c256.length_concat_enc)
  then show ?thesis by (simp add: unat_init_state_size)
qed

theorem init_size_fits_create_witness:
  "\<exists>w'. create_write demo_create_record demo_header [55, 56] [\<lparr>mint_address = 1\<rparr>] demo_fresh_world = Inr w'"
proof -
  have "length (data_of demo_fresh_world (cr_pool demo_create_record)) = unat (init_state_size 3 2)"
    by (simp add: unat_init_state_size data_of_def demo_create_record_def demo_fresh_world_def)
  from init_size_fits_create[OF this] show ?thesis by auto
qed

subsection \<open>The fixed-point power\<close>

text \<open>
  C23. The recursion that compounds the fee ratio ends without a panic in both build profiles for
  every exponent, never exceeds its base, and is below the exact \<open>x ^ n / 65536 ^ (n - 1)\<close> by at
  most \<open>n - 1\<close> units.
\<close>

theorem pow_fixedpoint_exact:
  assumes "unat x < 65536" and "n \<noteq> 0"
  shows "\<exists>r. pow_fixedpoint_u16 oc x n = Inr r \<and> unat r \<le> unat x \<and>
    unat r * 65536 ^ (unat n - 1) \<le> unat x ^ unat n \<and>
    unat x ^ unat n \<le> (unat r + (unat n - 1)) * 65536 ^ (unat n - 1)"
proof -
  obtain r where r: "pow_fixedpoint_u16 oc x n = Inr r" "unat r = powfx (unat x) (unat n)"
    using pow_fixedpoint_refines[OF assms(1)] by blast
  have "1 \<le> unat n" using assms(2) by (simp add: Suc_le_eq unat_gt_0)
  with r powfx_le[OF assms(1)] powfx_error[OF assms(1)] show ?thesis by simp
qed

theorem pow_fixedpoint_exact_witness:
  "\<exists>r. pow_fixedpoint_u16 True 58981 5 = Inr r \<and> unat r * 65536 ^ 4 \<le> 58981 ^ 5"
  using pow_fixedpoint_exact[of 58981 5 True] by auto

end
