(* ===== verification/Shares.thy ===== *)
theory Shares
  imports Proc_Deposit Proc_Redeem
begin

text \<open>
  Pricing: the share of an asset that a number of pool tokens stands for. The interface
  \<open>proportional_share\<close> collects what depositing and redeeming rely on; it is interpreted on
  the buy-in amount of \<open>process_deposit\<close> and on the buy-out amount of \<open>process_redeem\<close>.
\<close>

text \<open>
  What both handlers rely on when they price pool tokens: the share of \<open>t\<close> pool tokens in an
  asset of which the pool holds \<open>p\<close>, at supply \<open>s\<close>, is the quotient rounded down, without
  overflow, panic or truncation, wherever \<open>ok t p s\<close> holds.
\<close>

locale proportional_share =
  fixes share :: "u64 \<Rightarrow> u64 \<Rightarrow> u64 \<Rightarrow> 'w::len word res"
    and ok :: "u64 \<Rightarrow> u64 \<Rightarrow> u64 \<Rightarrow> bool"
  assumes share_floor: "ok t p s \<Longrightarrow> \<exists>q. share t p s = Inr q \<and>
      unat q * unat s \<le> unat t * unat p \<and> unat t * unat p < (unat q + 1) * unat s"
begin

lemma supply_pos: "ok t p s \<Longrightarrow> 0 < unat s"
  using share_floor[of t p s] by (metis gr0I mult_0_right not_less0)

lemma share_eq: "ok t p s \<Longrightarrow> share t p s = Inr q \<Longrightarrow> unat q = unat t * unat p div unat s"
proof -
  assume "ok t p s" "share t p s = Inr q"
  then have "unat q * unat s \<le> unat t * unat p" "unat t * unat p < (unat q + 1) * unat s"
    using share_floor[of t p s] by auto
  then show ?thesis by (metis div_nat_eqI mult.commute Suc_eq_plus1)
qed

text \<open>Nobody takes out more than the pool has, and the whole supply is worth the whole pool.\<close>

lemma share_le_pool: "ok t p s \<Longrightarrow> t \<le> s \<Longrightarrow> share t p s = Inr q \<Longrightarrow> unat q \<le> unat p"
  using share_eq[of t p s q] supply_pos[of t p s]
  by (simp add: word_le_nat_alt div_le_mono)
     (metis div_le_mono mult_le_mono1 nonzero_mult_div_cancel_left less_numeral_extra(3))

lemma share_of_supply: "ok s p s \<Longrightarrow> share s p s = Inr q \<Longrightarrow> unat q = unat p"
  using share_eq[of s p s q] supply_pos[of s p s] by simp

lemma share_mono: "ok t p s \<Longrightarrow> ok t' p s \<Longrightarrow> t \<le> t' \<Longrightarrow>
    share t p s = Inr q \<Longrightarrow> share t' p s = Inr q' \<Longrightarrow> unat q \<le> unat q'"
  by (simp add: share_eq word_le_nat_alt div_le_mono)

text \<open>
  Paying a share out leaves the remaining tokens worth at least as much, and paying it in makes
  them worth at most one unit of the asset less: \<open>p / s\<close> compared by cross-multiplication.
\<close>

lemma payout_no_dilution:
  assumes "ok t p s" "t \<le> s" "share t p s = Inr q"
  shows "unat p * (unat s - unat t) \<le> (unat p - unat q) * unat s"
proof -
  have "unat q * unat s \<le> unat t * unat p" using share_floor[OF assms(1)] assms(3) by auto
  then show ?thesis using share_le_pool[OF assms]
    by (simp add: diff_mult_distrib diff_mult_distrib2 mult.commute diff_le_mono2)
qed

lemma payin_dilution:
  assumes "ok t p s" "share t p s = Inr q"
  shows "unat p * (unat s + unat t) < (unat p + unat q + 1) * unat s"
  using share_floor[OF assms(1)] assms(2) by (auto simp: algebra_simps)

end

lemma word_floor: "0 < s \<Longrightarrow> x div s * s \<le> x \<and> x < (x div s + 1) * (s :: nat)"
  using dividend_less_times_div[of s x] by (simp add: algebra_simps)

lemma mul_u128:
  "mul_w oc (ucast (a :: u64) :: u128) (ucast (b :: u64)) = Inr (ucast a * ucast b)"
  "unat (ucast a * ucast b :: u128) = unat a * unat b"
proof -
  have "unat a * unat b \<le> (2 ^ 64 - 1) * (2 ^ 64 - 1)"
    using unsigned_less[of a, where ?'a = nat] unsigned_less[of b, where ?'a = nat]
    by (intro mult_le_mono) simp_all
  then have f: "unat (ucast a :: u128) * unat (ucast b :: u128) < 2 ^ LENGTH(128)" by simp
  then show "mul_w oc (ucast a :: u128) (ucast b) = Inr (ucast a * ucast b)" by (rule mul_w_fits)
  show "unat (ucast a * ucast b :: u128) = unat a * unat b" using unat_mul_fits[OF f] by simp
qed

lemma ucast_u128_zero [simp]: "(ucast (a :: u64) :: u128) = 0 \<longleftrightarrow> a = 0"
  by (simp add: word_unat_eq_iff)

lemma buy_in_amount:
  "buy_in_amount oc t p s =
    (if s = 0 then Inl Panic else Inr (ucast t * ucast p div ucast s))"
  "s \<noteq> 0 \<Longrightarrow> unat (ucast t * ucast p div ucast s :: u128) = unat t * unat p div unat s"
  by (simp_all add: buy_in_amount_def mul_u128 unat_div_distrib div_w_def)

lemma buy_out_amount:
  "buy_out_amount oc t p s =
    (if s = 0 then Inl Panic
     else if unat t * unat p div unat s < 2 ^ 64 then Inr (ucast (ucast t * ucast p div ucast s :: u128))
     else Inl (bot_err Overflow))"
  by (simp add: buy_out_amount_def mul_u128 unat_div_distrib div_w_def)

interpretation buy_in: proportional_share "buy_in_amount oc" "\<lambda>t p s. s \<noteq> 0" for oc
  by unfold_locales (use buy_in_amount word_floor in \<open>auto simp: unat_gt_0\<close>)

interpretation buy_out: proportional_share "buy_out_amount oc" "\<lambda>t p s. s \<noteq> 0 \<and> t \<le> s" for oc
proof unfold_locales
  fix t p s :: u64 assume ok: "s \<noteq> 0 \<and> t \<le> s"
  then have s: "0 < unat s" by (simp add: unat_gt_0)
  have "unat t * unat p div unat s \<le> unat s * unat p div unat s"
    using ok by (intro div_le_mono mult_le_mono1) (simp add: word_le_nat_alt)
  also have "\<dots> = unat p" using s by simp
  also have "\<dots> < 2 ^ 64" using unsigned_less[of p, where ?'a = nat] by simp
  finally have q: "unat t * unat p div unat s < 2 ^ 64" .
  then have "unat (ucast (ucast t * ucast p div ucast s :: u128) :: u64) = unat t * unat p div unat s"
    using ok by (simp add: unat_ucast_down buy_in_amount)
  then show "\<exists>q. buy_out_amount oc t p s = Inr q \<and> unat q * unat s \<le> unat t * unat p \<and>
      unat t * unat p < (unat q + 1) * unat s"
    using ok q word_floor[OF s, of "unat t * unat p"] by (auto simp: buy_out_amount)
qed

end
