(* ===== verification/Deposit_Facts.thy ===== *)
theory Deposit_Facts
  imports Shares Demo
begin

text \<open>
  What \<open>process_deposit\<close> guarantees: the quote never lets a source account be overdrawn, the
  amounts survive the casts, the mints add up to the tokens paid for, and the guards of a
  successful run. Each property is evaluated on the demo pool.
\<close>

subsection \<open>The quote\<close>

lemma quote_limit_le:
  "quote_limit oc s T p = Inr l \<Longrightarrow> unat l * unat p \<le> unat s * unat T"
proof -
  assume "quote_limit oc s T p = Inr l"
  then have l: "l = ucast (if p = 0 then ucast (- 1 :: u64) else ucast s * ucast T div ucast p :: u128)"
    by (simp add: quote_limit_def mul_u128)
  show ?thesis
  proof (cases "p = 0")
    case False
    have "unat (ucast s * ucast T div ucast p :: u128) = unat s * unat T div unat p"
      by (simp add: unat_div_distrib mul_u128)
    moreover have "unat (ucast x :: u64) = unat x mod 2 ^ 64" for x :: u128
      by (simp only: unat_ucast_down) simp
    ultimately have "unat l = (unat s * unat T div unat p) mod 2 ^ 64"
      using l False by simp
    then have "unat l \<le> unat s * unat T div unat p" by simp
    then show ?thesis by (metis div_times_less_eq_dividend le_trans mult_le_mono1)
  qed simp
qed

lemma quote_limit_total: "\<exists>l. quote_limit oc s T p = Inr l"
  by (simp add: quote_limit_def mul_u128)

text \<open>
  The quote reads both balances of every asset and returns a purchase that every source account
  can pay for: \<open>limit * pool \<le> source * supply\<close> for each of them.
\<close>

lemma deposit_quote_Inr:
  "length pas = length sas \<Longrightarrow> deposit_quote e w T pas sas acc eff = Inr (amts, lmt) \<Longrightarrow>
    lmt \<le> eff \<and> (\<exists>ps. amts = acc @ ps \<and> length ps = length pas \<and>
      (\<forall>i < length pas. token_balance e w (pas ! i) = Some (ps ! i) \<and>
        (\<exists>s. token_balance e w (sas ! i) = Some s \<and> unat lmt * unat (ps ! i) \<le> unat s * unat T)))"
proof (induction pas sas arbitrary: acc eff rule: list_induct2)
  case (Cons pa pas sa sas)
  from Cons.prems obtain pt st l where
    pt: "token_account_unpack e (data_of w pa) = Inr pt" and
    st: "token_account_unpack e (data_of w sa) = Inr st" and
    l: "quote_limit (overflow_checks e) (ta_amount st) T (ta_amount pt) = Inr l" and
    rec: "deposit_quote e w T pas sas (acc @ [ta_amount pt]) (min l eff) = Inr (amts, lmt)"
    by (auto simp: res_simps unpack_token_account_def)
  from Cons.IH[OF rec] obtain ps where lmt: "lmt \<le> min l eff" and
    ps: "amts = (acc @ [ta_amount pt]) @ ps" "length ps = length pas" and
    rest: "\<And>i. i < length pas \<Longrightarrow> token_balance e w (pas ! i) = Some (ps ! i) \<and>
        (\<exists>s. token_balance e w (sas ! i) = Some s \<and> unat lmt * unat (ps ! i) \<le> unat s * unat T)"
    by blast
  have "unat lmt \<le> unat l" using lmt by (metis min.boundedE word_le_nat_alt)
  then have "unat lmt * unat (ta_amount pt) \<le> unat (ta_amount st) * unat T"
    by (rule order_trans[OF mult_le_mono1 quote_limit_le[OF l]])
  then have "token_balance e w ((pa # pas) ! i) = Some ((ta_amount pt # ps) ! i) \<and>
      (\<exists>s. token_balance e w ((sa # sas) ! i) = Some s \<and>
        unat lmt * unat ((ta_amount pt # ps) ! i) \<le> unat s * unat T)"
    if "i < length (pa # pas)" for i
    using that rest pt st by (cases i) (auto simp: token_balance_def)
  then show ?case using lmt ps by (intro conjI exI[of _ "ta_amount pt # ps"]) auto
qed simp

subsection \<open>Fees and minting\<close>

lemma deposit_fee:
  "deposit_fee oc ratio eff = Inr (ucast (drop_bit 16 (ucast ratio * ucast eff :: u128)))"
  "unat (ucast (drop_bit 16 (ucast ratio * ucast eff :: u128)) :: u64) = unat ratio * unat eff div 65536"
  "unat ratio * unat eff div 65536 \<le> unat (eff :: u64)"
proof -
  have r: "unat (ratio :: u16) < 65536" using unsigned_less[of ratio, where ?'a = nat] by simp
  have e: "unat eff < 2 ^ 64" using unsigned_less[of eff, where ?'a = nat] by simp
  have "unat ratio * unat eff \<le> 65536 * unat eff" using r by simp
  then show le: "unat ratio * unat eff div 65536 \<le> unat eff"
    by (metis div_le_mono nonzero_mult_div_cancel_left zero_neq_numeral)
  have f: "unat (ucast ratio :: u128) * unat (ucast eff :: u128) < 2 ^ LENGTH(128)"
  proof -
    have "unat ratio * unat eff < 65536 * 2 ^ 64" using r e by (intro mult_strict_mono) auto
    then show ?thesis by simp
  qed
  then show "deposit_fee oc ratio eff = Inr (ucast (drop_bit 16 (ucast ratio * ucast eff :: u128)))"
    by (simp add: deposit_fee_def)
  have "unat (drop_bit 16 (ucast ratio * ucast eff :: u128)) = unat ratio * unat eff div 65536"
    using unat_mul_fits[OF f] by (simp only: unat_drop_bit_16) simp
  then show "unat (ucast (drop_bit 16 (ucast ratio * ucast eff :: u128)) :: u64)
      = unat ratio * unat eff div 65536"
    using le e by (simp only: unat_ucast_down) simp
qed

text \<open>The arithmetic of the minting step never fails: it is the four mints with these amounts.\<close>

lemma deposit_mints_eq:
  obtains fee where "unat fee = unat ratio * unat eff div 65536" "fee \<le> eff"
    "deposit_mints e a pk mk s ratio eff w =
      bind_res (deposit_mint e a pk mk s (dp_target_pool_token a) (eff - fee) w) (\<lambda>w.
      bind_res (deposit_mint e a pk mk s (dp_signal_provider_pt a) (fee div 2) w) (\<lambda>w.
      bind_res (deposit_mint e a pk mk s (dp_bonfida_fee_pt a) (fee div 4) w) (\<lambda>w.
      deposit_mint e a pk mk s (dp_bonfida_bnb_pt a) (fee - fee div 4 - fee div 2) w)))"
proof -
  let ?fee = "ucast (drop_bit 16 (ucast ratio * ucast eff :: u128)) :: u64"
  have le: "?fee \<le> eff" using deposit_fee(2,3)[of ratio eff] by (simp only: word_le_nat_alt)
  show ?thesis
    by (rule that[of ?fee, OF deposit_fee(2) le])
       (simp only: deposit_mints_def deposit_fee(1) bind_res_simps sub_w_fits[OF le] fee_rest Let_def)
qed

subsection \<open>A deposit into the demo pool\<close>

definition demo_deposit_accounts :: "account_info list" where
  "demo_deposit_accounts = map (\<lambda>k. demo_handle k (k = 300))
     [6, 102, 200, 9102, 901102, 902102, 101, 101001, 101002, 300, 301, 302]"

definition demo_deposit_record :: deposit_accounts where
  "demo_deposit_record = \<lparr>dp_spl_token = demo_handle 6 False, dp_mint = demo_handle 102 False,
     dp_target_pool_token = demo_handle 200 False, dp_signal_provider_pt = demo_handle 9102 False,
     dp_bonfida_fee_pt = demo_handle 901102 False, dp_bonfida_bnb_pt = demo_handle 902102 False,
     dp_pool = demo_handle 101 False, dp_pool_assets = [demo_handle 101001 False, demo_handle 101002 False],
     dp_source_owner = demo_handle 300 True, dp_source_assets = [demo_handle 301 False, demo_handle 302 False]\<rparr>"

lemma demo_deposit_parse:
  "deposit_parse (demo_env oc) demo_deposit_accounts demo_world =
     Inr (demo_deposit_record, demo_header, [\<lparr>mint_address = 1\<rparr>, \<lparr>mint_address = 2\<rparr>])"
  by (simp add: deposit_parse_def demo_deposit_accounts_def demo_read_header[where mints = "[1, 2]"] demo_assets
       demo_deposit_record_def)

lemma demo_deposit_checks:
  "deposit_checks (demo_env oc) 7 demo_deposit_record demo_header 100 demo_world = Inr (101, 102)"
  by (simp add: deposit_checks_def demo_deposit_record_def bonfida_pt_key_def demo_header_def
       owner_of_def demo_pool_data)

lemma demo_deposit_quote:
  "deposit_quote (demo_env oc) demo_world 1000000 (dp_pool_assets demo_deposit_record)
     (dp_source_assets demo_deposit_record) [] (- 1) = Inr ([1000000000, 2000000], 750000)"
  by (simp add: demo_deposit_record_def unpack_token_account_def  data_of_def quote_limit_def mul_u128)

lemma demo_deposit_transfers: "\<exists>w1. deposit_transfers (demo_env oc) demo_deposit_record 101 500000 1000000
     [\<lparr>mint_address = 1\<rparr>, \<lparr>mint_address = 2\<rparr>] [1000000000, 2000000] (dp_pool_assets demo_deposit_record)
     (dp_source_assets demo_deposit_record) True demo_world = Inr (w1, False) \<and> (\<forall>k \<in> {102, 200, 9102, 901102, 902102}. w1 k = demo_world k)"
  by (simp add: demo_deposit_record_def buy_in_amount token_transfer_def invoke_signed_def)

lemma demo_deposit_mints: "(\<forall>k \<in> {102, 200, 9102, 901102, 902102}. w1 k = demo_world k) \<Longrightarrow>
  \<exists>w2. deposit_mints (demo_env oc) demo_deposit_record 101 102 100 6554 500000 w1 = Inr w2"
  by (simp add: demo_deposit_record_def deposit_mints_def deposit_fee(1) fee_rest_def deposit_mint_def token_mint_to_def
    invoke_signed_def Let_def)

lemma demo_deposit: "\<exists>w'. process_deposit (demo_env oc) 7 demo_deposit_accounts 100 500000 demo_world = Inr w'"
proof -
  obtain w1 where w1: "deposit_transfers (demo_env oc) demo_deposit_record 101 500000 1000000
     [\<lparr>mint_address = 1\<rparr>, \<lparr>mint_address = 2\<rparr>] [1000000000, 2000000] (dp_pool_assets demo_deposit_record)
     (dp_source_assets demo_deposit_record) True demo_world = Inr (w1, False)" 
     "\<forall>k \<in> {102, 200, 9102, 901102, 902102}. w1 k = demo_world k"
    using demo_deposit_transfers by blast
  have m: "unpack_mint_supply (demo_env oc) demo_world (dp_mint demo_deposit_record) = Inr 1000000"
    by (simp add: unpack_mint_supply_def data_of_def demo_deposit_record_def)
  have h: "status demo_header = Unlocked" "fee_ratio demo_header = 6554" by (simp_all add: demo_header_def)
  show ?thesis using demo_deposit_mints[OF w1(2)] w1(1)
    by (simp add: process_deposit_def demo_deposit_parse demo_deposit_checks h m demo_deposit_quote Let_def)
qed

subsection \<open>Properties\<close>

lemma process_deposit_Inr:
  assumes "process_deposit e pid accounts s amt w = Inr w'"
  obtains a h assets tot ps quota w1 where
    "deposit_parse e accounts w = Inr (a, h, assets)"
    "deposit_checks e pid a h s w = Inr (ai_key (dp_pool a), ai_key (dp_mint a))"
    "status h = Unlocked"
    "unpack_mint_supply e w (dp_mint a) = Inr tot"
    "deposit_quote e w tot (dp_pool_assets a) (dp_source_assets a) [] (- 1) = Inr (ps, quota)"
    "deposit_transfers e a (ai_key (dp_pool a)) (min amt quota) tot assets ps
       (dp_pool_assets a) (dp_source_assets a) True w = Inr (w1, False)"
    "deposit_mints e a (ai_key (dp_pool a)) (ai_key (dp_mint a)) s (fee_ratio h) (min amt quota) w1 = Inr w'"
proof -
  from assms obtain a h assets pk mk tot ps quota w1 where
    r: "deposit_parse e accounts w = Inr (a, h, assets)"
      "deposit_checks e pid a h s w = Inr (pk, mk)" "deposit_status (status h) = Inr ()"
      "unpack_mint_supply e w (dp_mint a) = Inr tot"
      "deposit_quote e w tot (dp_pool_assets a) (dp_source_assets a) [] (- 1) = Inr (ps, quota)"
      "deposit_transfers e a pk (min amt quota) tot assets ps
         (dp_pool_assets a) (dp_source_assets a) True w = Inr (w1, False)"
      "deposit_mints e a pk mk s (fee_ratio h) (min amt quota) w1 = Inr w'"
    by (auto simp: process_deposit_def res_simps Let_def split: prod.splits)
  then have "pk = ai_key (dp_pool a)" "mk = ai_key (dp_mint a)"
    by (auto simp: deposit_checks_def res_simps Let_def)
  moreover have "status h = Unlocked" using r(3) by (cases "status h") auto
  ultimately show ?thesis using that r by blast
qed

lemma deposit_parse_Inr:
  "deposit_parse e accounts w = Inr (a, h, assets) \<Longrightarrow>
    ai_key (dp_spl_token a) = spl_token_id e \<and> read_pool_header w (dp_pool a) = Inr h \<and>
    read_pool_assets w (dp_pool a) h = Inr assets \<and>
    length (dp_pool_assets a) = length assets \<and> length (dp_source_assets a) = length assets \<and>
    set (dp_spl_token a # dp_pool a # dp_pool_assets a @ dp_source_assets a) \<subseteq> set accounts"
  by (auto simp: deposit_parse_def res_simps split: prod.splits)

text \<open>What a finished transfer loop checked: every account is the pool's own for its asset.\<close>

lemma deposit_transfers_Inr:
  "length xs = length pas \<Longrightarrow> length amts = length pas \<Longrightarrow> length pas = length sas \<Longrightarrow>
    deposit_transfers e a pk q tot xs amts pas sas z w = Inr (w1, z') \<Longrightarrow>
    (\<forall>i < length pas. ai_key (pas ! i) = get_associated_token_address e pk (mint_address (xs ! i)) \<and>
      (\<exists>n. buy_in_amount (overflow_checks e) q (amts ! i) tot = Inr n)) \<and>
    (z \<and> \<not> z' \<longrightarrow> (\<exists>i < length pas. buy_in_amount (overflow_checks e) q (amts ! i) tot \<noteq> Inr 0))"
proof (induction e a pk q tot xs amts pas sas z w arbitrary: w1 z' rule: deposit_transfers.induct)
  case (1 e a pk q tot x xs amt amts pa pas sa sas z w)
  from "1.prems"(4) obtain n where k: "get_associated_token_address e pk (mint_address x) = ai_key pa"
    and n: "buy_in_amount (overflow_checks e) q amt tot = Inr n"
    by (auto simp: res_simps)
  have pre: "length xs = length pas" "length amts = length pas" "length pas = length sas"
    using "1.prems"(1-3) by auto
  have ih: "(\<forall>i < length pas. ai_key (pas ! i) = get_associated_token_address e pk (mint_address (xs ! i)) \<and>
      (\<exists>n. buy_in_amount (overflow_checks e) q (amts ! i) tot = Inr n)) \<and>
    (z \<and> \<not> z' \<longrightarrow> n \<noteq> 0 \<or> (\<exists>i < length pas. buy_in_amount (overflow_checks e) q (amts ! i) tot \<noteq> Inr 0))"
  proof (cases "n = 0")
    case True
    with "1.prems"(4) k n have "deposit_transfers e a pk q tot xs amts pas sas z w = Inr (w1, z')" by simp
    from "1.IH"(1)[OF _ n True pre this] k show ?thesis by auto
  next
    case False
    with "1.prems"(4) k n obtain w2 where
      x: "token_transfer e (ai_key (dp_spl_token a)) (ai_key sa) (ai_key pa) (ai_key (dp_source_owner a))
        (ucast n) [sa, pa, dp_spl_token a, dp_source_owner a] [] w = Inr w2"
      and "deposit_transfers e a pk q tot xs amts pas sas False w2 = Inr (w1, z')"
      by (auto simp: res_simps)
    from "1.IH"(2)[OF _ n False x pre this(2)] k False show ?thesis by auto
  qed
  have "ai_key ((pa # pas) ! i) = get_associated_token_address e pk (mint_address ((x # xs) ! i)) \<and>
      (\<exists>n. buy_in_amount (overflow_checks e) q ((amt # amts) ! i) tot = Inr n)" if "i < length (pa # pas)" for i
    using that ih k n by (cases i) auto
  moreover have "\<exists>i < length (pa # pas). buy_in_amount (overflow_checks e) q ((amt # amts) ! i) tot \<noteq> Inr 0"
    if z: "z \<and> \<not> z'"
  proof (cases "n = 0")
    case True
    with ih z obtain i where "i < length pas" "buy_in_amount (overflow_checks e) q (amts ! i) tot \<noteq> Inr 0" by blast
    then show ?thesis by (intro exI[of _ "Suc i"]) simp
  qed (use n in \<open>auto intro: exI[of _ 0]\<close>)
  ultimately show ?case by blast
qed auto

lemma deposit_amount_fits:
  assumes "deposit_quote e w supply pas sas [] (- 1) = Inr (ps, quota)"
    and "length pas = length sas" and "i < length pas" and "supply \<noteq> 0" and "effective \<le> quota"
  shows "\<exists>amount source. buy_in_amount (overflow_checks e) effective (ps ! i) supply = Inr amount \<and>
    token_balance e w (sas ! i) = Some source \<and> unat amount \<le> unat source \<and>
    unat (ucast amount :: u64) = unat effective * unat (ps ! i) div unat supply"
proof -
  from deposit_quote_Inr[OF assms(2,1)] assms(3) obtain source where
    source: "token_balance e w (sas ! i) = Some source"
      "unat quota * unat (ps ! i) \<le> unat source * unat supply" by auto
  obtain amount where amount: "buy_in_amount (overflow_checks e) effective (ps ! i) supply = Inr amount"
    using assms(4) by (simp add: buy_in_amount)
  then have eq: "unat amount = unat effective * unat (ps ! i) div unat supply"
    using assms(4) by (rule buy_in.share_eq[rotated])
  have "unat effective * unat (ps ! i) \<le> unat quota * unat (ps ! i)"
    using assms(5) by (simp add: word_le_nat_alt)
  also note source(2)
  finally have "unat amount \<le> unat source * unat supply div unat supply"
    unfolding eq by (rule div_le_mono)
  also have "\<dots> = unat source" using assms(4) by (simp add: unat_gt_0)
  finally have le: "unat amount \<le> unat source" .
  then have "unat amount < 2 ^ 64" using unsigned_less[of source, where ?'a = nat] by simp
  then have "unat (ucast amount :: u64) = unat amount" by (simp add: unat_ucast_down)
  with amount source le eq show ?thesis by auto
qed



text \<open>
  C19. The pool tokens a deposit mints are exactly the tokens that were paid for: a successful
  minting step consists of four mints, to the buyer, the signal provider, the Bonfida fee account
  and the buy-and-burn account, whose amounts add up to the effective amount; the fee is
  \<open>fee_ratio * effective / 2^16\<close> rounded down, split in half, a quarter and the rest.
\<close>

theorem deposit_mints_split:
  assumes "deposit_mints e a pool_key mint_key s ratio effective w = Inr w'"
  shows "\<exists>fee w1 w2 w3. unat fee = unat ratio * unat effective div 65536 \<and> fee \<le> effective \<and>
    deposit_mint e a pool_key mint_key s (dp_target_pool_token a) (effective - fee) w = Inr w1 \<and>
    deposit_mint e a pool_key mint_key s (dp_signal_provider_pt a) (fee div 2) w1 = Inr w2 \<and>
    deposit_mint e a pool_key mint_key s (dp_bonfida_fee_pt a) (fee div 4) w2 = Inr w3 \<and>
    deposit_mint e a pool_key mint_key s (dp_bonfida_bnb_pt a) (fee - fee div 4 - fee div 2) w3 = Inr w' \<and>
    unat (effective - fee) + unat (fee div 2) + unat (fee div 4) + unat (fee - fee div 4 - fee div 2)
      = unat effective"
proof -
  obtain fee where fee: "unat fee = unat ratio * unat effective div 65536" "fee \<le> effective"
    and eq: "deposit_mints e a pool_key mint_key s ratio effective w =
      bind_res (deposit_mint e a pool_key mint_key s (dp_target_pool_token a) (effective - fee) w) (\<lambda>w.
      bind_res (deposit_mint e a pool_key mint_key s (dp_signal_provider_pt a) (fee div 2) w) (\<lambda>w.
      bind_res (deposit_mint e a pool_key mint_key s (dp_bonfida_fee_pt a) (fee div 4) w) (\<lambda>w.
      deposit_mint e a pool_key mint_key s (dp_bonfida_bnb_pt a) (fee - fee div 4 - fee div 2) w)))"
    by (rule deposit_mints_eq)
  have "unat (effective - fee) + unat fee = unat effective"
    using fee(2) by (simp add: unat_sub word_le_nat_alt)
  then have "unat (effective - fee) + unat (fee div 2) + unat (fee div 4)
      + unat (fee - fee div 4 - fee div 2) = unat effective"
    using fee_split_sum[of fee] by linarith
  with fee assms show ?thesis unfolding eq by (auto simp: res_simps)
qed

theorem deposit_mints_split_witness:
  "\<exists>w w' fee w1. deposit_mints (demo_env False) demo_deposit_record 101 102 100 6554 500000 w = Inr w' \<and>
    unat fee = 6554 * 500000 div 65536 \<and>
    deposit_mint (demo_env False) demo_deposit_record 101 102 100
      (dp_target_pool_token demo_deposit_record) (500000 - fee) w = Inr w1"
proof -
  obtain w' where w': "deposit_mints (demo_env False) demo_deposit_record 101 102 100 6554 500000 demo_world = Inr w'"
    using demo_deposit_mints[of demo_world] by blast
  from deposit_mints_split[OF w'] obtain fee w1 where "unat fee = 6554 * 500000 div 65536"
    "deposit_mint (demo_env False) demo_deposit_record 101 102 100
      (dp_target_pool_token demo_deposit_record) (500000 - fee) demo_world = Inr w1" by auto
  with w' show ?thesis by blast
qed

text \<open>
  C12. Every check of a deposit holds when it succeeds: the pool is unlocked, the source owner
  signed, the pool and mint accounts are the addresses derived from the seed, the program owns the
  pool account, the three fee accounts are the associated accounts of the signal provider recorded
  in the pool and of the two Bonfida keys, each account paid into is the pool's associated account
  for the asset listed at its place, the pool token supply is not zero, and the amount
  \<open>effective * pool / supply\<close> to pay is not zero for at least one asset.
\<close>

theorem deposit_guards:
  assumes "process_deposit e pid accounts s amt w = Inr w'"
  shows "\<exists>a h assets fee_key bnb_key supply effective. deposit_parse e accounts w = Inr (a, h, assets) \<and>
    status h = Unlocked \<and> ai_signer (dp_source_owner a) \<and> owner_of w (dp_pool a) = pid \<and>
    ai_key (dp_spl_token a) = spl_token_id e \<and>
    create_program_address e (pool_seeds s) pid = Inr (ai_key (dp_pool a)) \<and>
    create_program_address e (mint_seeds s) pid = Inr (ai_key (dp_mint a)) \<and>
    pubkey_from_str e BONFIDA_FEE = Inr fee_key \<and> pubkey_from_str e BONFIDA_BNB = Inr bnb_key \<and>
    ai_key (dp_signal_provider_pt a) = get_associated_token_address e (signal_provider h) (ai_key (dp_mint a)) \<and>
    ai_key (dp_bonfida_fee_pt a) = get_associated_token_address e fee_key (ai_key (dp_mint a)) \<and>
    ai_key (dp_bonfida_bnb_pt a) = get_associated_token_address e bnb_key (ai_key (dp_mint a)) \<and>
    length (dp_pool_assets a) = length assets \<and>
    (\<forall>i < length assets. ai_key (dp_pool_assets a ! i) =
      get_associated_token_address e (ai_key (dp_pool a)) (mint_address (assets ! i))) \<and>
    unpack_mint_supply e w (dp_mint a) = Inr supply \<and> supply \<noteq> 0 \<and> effective \<le> amt \<and>
    (\<exists>i < length assets. \<exists>p. token_balance e w (dp_pool_assets a ! i) = Some p \<and>
      unat effective * unat p div unat supply \<noteq> 0)"
proof -
  from assms obtain a h assets tot ps quota w1 where r:
    "deposit_parse e accounts w = Inr (a, h, assets)"
    "deposit_checks e pid a h s w = Inr (ai_key (dp_pool a), ai_key (dp_mint a))"
    "status h = Unlocked" "unpack_mint_supply e w (dp_mint a) = Inr tot"
    "deposit_quote e w tot (dp_pool_assets a) (dp_source_assets a) [] (- 1) = Inr (ps, quota)"
    "deposit_transfers e a (ai_key (dp_pool a)) (min amt quota) tot assets ps
       (dp_pool_assets a) (dp_source_assets a) True w = Inr (w1, False)"
    by (rule process_deposit_Inr)
  note p = deposit_parse_Inr[OF r(1)]
  have len: "length assets = length (dp_pool_assets a)" "length (dp_pool_assets a) = length (dp_source_assets a)"
    using p by simp_all
  from deposit_quote_Inr[OF len(2) r(5)] have ps: "length ps = length (dp_pool_assets a)"
    "\<And>i. i < length assets \<Longrightarrow> token_balance e w (dp_pool_assets a ! i) = Some (ps ! i)" by (auto simp: len)
  note chk = deposit_transfers_Inr[OF len(1) ps(1) len(2) r(6), folded len(1)]
  from chk obtain i n where i: "i < length assets" "buy_in_amount (overflow_checks e) (min amt quota) (ps ! i) tot = Inr n" "n \<noteq> 0"
    by fastforce
  have tot: "tot \<noteq> 0" using i(2) by (auto simp: buy_in_amount)
  have "unat (min amt quota) * unat (ps ! i) div unat tot \<noteq> 0"
    using i(2,3) tot buy_in_amount(2)[OF tot, of "min amt quota" "ps ! i"] by (auto simp: buy_in_amount(1) word_unat_eq_iff)
  then have nz: "\<exists>i < length assets. \<exists>p. token_balance e w (dp_pool_assets a ! i) = Some p \<and>
      unat (min amt quota) * unat p div unat tot \<noteq> 0" using i(1) ps(2) by blast
  from r(2) obtain fee bnb where k: "pubkey_from_str e BONFIDA_FEE = Inr fee" "pubkey_from_str e BONFIDA_BNB = Inr bnb"
    "ai_key (dp_bonfida_fee_pt a) = get_associated_token_address e fee (ai_key (dp_mint a))"
    "ai_key (dp_bonfida_bnb_pt a) = get_associated_token_address e bnb (ai_key (dp_mint a))"
    by (auto simp: deposit_checks_def bonfida_pt_key_def res_simps Let_def)
  have c: "ai_signer (dp_source_owner a)" "owner_of w (dp_pool a) = pid"
    "create_program_address e (pool_seeds s) pid = Inr (ai_key (dp_pool a))"
    "create_program_address e (mint_seeds s) pid = Inr (ai_key (dp_mint a))"
    "ai_key (dp_signal_provider_pt a) = get_associated_token_address e (signal_provider h) (ai_key (dp_mint a))"
    using r(2) by (auto simp: deposit_checks_def res_simps Let_def)
  show ?thesis
    by (rule exI[of _ a], rule exI[of _ h], rule exI[of _ assets], rule exI[of _ fee], rule exI[of _ bnb],
      rule exI[of _ tot], rule exI[of _ "min amt quota"])
      (use p chk in \<open>intro conjI r(1,3,4) c k tot nz; simp\<close>)
qed

theorem deposit_guards_witness:
  "\<exists>w'. process_deposit (demo_env True) 7 demo_deposit_accounts 100 500000 demo_world = Inr w' \<and>
    owner_of demo_world (dp_pool demo_deposit_record) = 7"
proof -
  obtain w' where w': "process_deposit (demo_env True) 7 demo_deposit_accounts 100 500000 demo_world = Inr w'"
    using demo_deposit by blast
  from deposit_guards[OF w'] have "owner_of demo_world (dp_pool demo_deposit_record) = 7"
    unfolding demo_deposit_parse by (elim exE conjE) simp
  with w' show ?thesis by blast
qed

end
