(* ===== verification/Redeem_Facts.thy ===== *)
theory Redeem_Facts
  imports Shares Demo Dispatch
begin

text \<open>
  What \<open>process_redeem\<close> guarantees: its guards, the closing of an emptied pool, and how the
  shares it pays compare with the shares \<open>process_deposit\<close> takes. Each property is evaluated
  on the demo pool.
\<close>

subsection \<open>What a successful redemption went through\<close>

lemma redeem_parse_Inr:
  "redeem_parse e accounts w = Inr (a, h, assets) \<Longrightarrow>
    ai_key (rd_spl_token a) = spl_token_id e \<and> read_pool_header w (rd_pool a) = Inr h \<and>
    read_pool_assets w (rd_pool a) h = Inr assets \<and>
    length (rd_pool_assets a) = length assets \<and> length (rd_target_assets a) = length assets \<and>
    set (rd_spl_token a # rd_pool a # rd_pool_assets a @ rd_target_assets a) \<subseteq> set accounts"
  by (auto simp: redeem_parse_def res_simps split: prod.splits)

lemma redeem_status_Inr: "redeem_status st = Inr u \<longleftrightarrow> (\<forall>n. st \<noteq> PendingOrder n \<and> st \<noteq> LockedPendingOrder n)"
  by (cases st) auto

lemma redeem_checks_Inr:
  "redeem_checks e pid a h s w = Inr u \<longleftrightarrow>
    create_program_address e (pool_seeds s) pid = Inr (ai_key (rd_pool a)) \<and>
    create_program_address e (mint_seeds s) pid = Inr (ai_key (rd_mint a)) \<and>
    ai_signer (rd_source_pool_token_owner a) \<and> owner_of w (rd_pool a) = pid \<and>
    (\<forall>n. status h \<noteq> PendingOrder n \<and> status h \<noteq> LockedPendingOrder n) \<and>
    (\<exists>now. clock_of e w (rd_clock_sysvar a) = Inr now \<and> fees_due (overflow_checks e) now h = Inr False)"
  by (auto simp: redeem_checks_def res_simps redeem_status_Inr)

lemma process_redeem_Inr:
  assumes "process_redeem e pid accounts s amt w = Inr w'"
  obtains a h assets tot user w1 w2 where
    "redeem_parse e accounts w = Inr (a, h, assets)" "redeem_checks e pid a h s w = Inr ()"
    "unpack_mint_supply e w (rd_mint a) = Inr tot"
    "unpack_token_account e w (rd_source_pool_token a) = Inr user" "amt \<le> ta_amount user"
    "redeem_payouts e a s amt tot assets (rd_pool_assets a) (rd_target_assets a) w = Inr w1"
    "token_burn e (ai_key (rd_spl_token a)) (ai_key (rd_source_pool_token a)) (ai_key (rd_mint a))
       (ai_key (rd_source_pool_token_owner a)) amt
       [rd_spl_token a, rd_source_pool_token a, rd_mint a, rd_source_pool_token_owner a] w1 = Inr w2"
    "(if amt = tot then redeem_reset a h w2 else Inr w2) = Inr w'"
proof -
  from assms obtain a h assets u tot user w1 w2 where
    r: "redeem_parse e accounts w = Inr (a, h, assets)" "redeem_checks e pid a h s w = Inr u"
    "unpack_mint_supply e w (rd_mint a) = Inr tot"
    "unpack_token_account e w (rd_source_pool_token a) = Inr user" "\<not> ta_amount user < amt"
    "redeem_payouts e a s amt tot assets (rd_pool_assets a) (rd_target_assets a) w = Inr w1"
    "token_burn e (ai_key (rd_spl_token a)) (ai_key (rd_source_pool_token a)) (ai_key (rd_mint a))
       (ai_key (rd_source_pool_token_owner a)) amt
       [rd_spl_token a, rd_source_pool_token a, rd_mint a, rd_source_pool_token_owner a] w1 = Inr w2"
    "(if amt = tot then redeem_reset a h w2 else Inr w2) = Inr w'"
    by (auto simp: process_redeem_def res_simps Let_def simp del: split_paired_Ex split: prod.splits)
  then show ?thesis using that by (cases u) (auto simp: not_less)
qed

text \<open>What a finished payout loop checked: every account is the pool's own for its asset.\<close>

lemma redeem_payouts_accounts:
  "length xs = length pas \<Longrightarrow> length pas = length tas \<Longrightarrow>
    redeem_payouts e a s amt tot xs pas tas w = Inr w1 \<Longrightarrow> i < length pas \<Longrightarrow>
    ai_key (pas ! i) = get_associated_token_address e (ai_key (rd_pool a)) (mint_address (xs ! i))"
proof (induction e a s amt tot xs pas tas w arbitrary: w1 i rule: redeem_payouts.induct)
  case (1 e a s amt tot x xs pa pas ta tas w)
  from "1.prems"(3) obtain t :: token_account and n where
    k: "get_associated_token_address e (ai_key (rd_pool a)) (mint_address x) = ai_key pa"
    and t: "unpack_token_account e w pa = Inr t"
    and n: "buy_out_amount (overflow_checks e) amt (ta_amount t) tot = Inr n"
    by (auto simp: res_simps)
  have pre: "length xs = length pas" "length pas = length tas" using "1.prems"(1,2) by auto
  have ih: "ai_key (pas ! j) = get_associated_token_address e (ai_key (rd_pool a)) (mint_address (xs ! j))"
    if j: "j < length pas" for j
  proof (cases "n = 0")
    case True
    with "1.prems"(3) k t n have "redeem_payouts e a s amt tot xs pas tas w = Inr w1" by simp
    from "1.IH"(1)[OF _ t n True pre this j] k show ?thesis by simp
  next
    case False
    with "1.prems"(3) k t n obtain w2 where
      x: "token_transfer e (ai_key (rd_spl_token a)) (ai_key pa) (ai_key ta) (ai_key (rd_pool a))
        n [rd_spl_token a, pa, ta, rd_pool a] [pool_seeds s] w = Inr w2"
      and r: "redeem_payouts e a s amt tot xs pas tas w2 = Inr w1"
      by (auto simp: res_simps)
    from "1.IH"(2)[OF _ t n False x pre r j] k show ?thesis by simp
  qed
  show ?case using "1.prems"(4) ih k by (cases i) auto
qed auto

text \<open>The data a full redemption leaves: the header marked uninitialised, then zeros.\<close>

lemma redeem_reset_Inr:
  "redeem_reset a h w = Inr w' \<longleftrightarrow> HEADER_LEN \<le> length (data_of w (rd_pool a)) \<and>
    w' = set_data w (rd_pool a) (header_bytes (h\<lparr>status := Uninitialized\<rparr>)
      @ replicate (length (data_of w (rd_pool a)) - HEADER_LEN) 0)"
  by (auto simp: redeem_reset_def res_simps write_pool_header_Inr fill_slice)

lemma uninitialized_header_rejected:
  "data_of w p = header_bytes (h\<lparr>status := Uninitialized\<rparr>) @ d \<Longrightarrow>
    read_pool_header w p = Inl (Error UninitializedAccount)"
  by (simp add: read_pool_header_def slice_idx_ok unpack_header_bytes wf_header_def)

subsection \<open>Redeeming from the demo pool\<close>

definition demo_redeem_accounts :: "account_info list" where
  "demo_redeem_accounts = map (\<lambda>k. demo_handle k (k = 300)) [6, 40, 102, 300, 200, 101, 101001, 101002, 301, 302]"

definition demo_redeem_record :: redeem_accounts where
  "demo_redeem_record = \<lparr>rd_spl_token = demo_handle 6 False, rd_clock_sysvar = demo_handle 40 False,
     rd_mint = demo_handle 102 False, rd_source_pool_token_owner = demo_handle 300 True,
     rd_source_pool_token = demo_handle 200 False, rd_pool = demo_handle 101 False,
     rd_pool_assets = [demo_handle 101001 False, demo_handle 101002 False],
     rd_target_assets = [demo_handle 301 False, demo_handle 302 False]\<rparr>"

text \<open>The demo world with the whole supply in the hands of account 300.\<close>

definition demo_holder_world :: world where
  "demo_holder_world = demo_world(200 := demo_token 102 300 1000000)"

lemma demo_redeem_parse:
  "redeem_parse (demo_env oc) demo_redeem_accounts demo_holder_world =
     Inr (demo_redeem_record, demo_header, [\<lparr>mint_address = 1\<rparr>, \<lparr>mint_address = 2\<rparr>])"
  by (simp add: redeem_parse_def demo_redeem_accounts_def demo_read_header[where mints = "[1, 2]"]
       demo_assets demo_redeem_record_def demo_holder_world_def)

lemma demo_redeem_checks:
  "redeem_checks (demo_env oc) 7 demo_redeem_record demo_header 100 demo_holder_world = Inr ()"
  by (simp add: redeem_checks_Inr demo_redeem_record_def demo_header_def owner_of_def demo_pool_data
      clock_of_def data_of_def demo_holder_world_def codec_simps fees_due_def)

lemma buy_out_numeral: "s \<noteq> 0 \<Longrightarrow> unat t * unat p div unat s < 2 ^ 64 \<Longrightarrow>
    buy_out_amount oc t p s = Inr (of_nat (unat t * unat p div unat s))"
  by (simp add: buy_out_amount buy_in_amount word_unat_eq_iff unat_of_nat unat_ucast_down)

lemma demo_redeem_payouts:
  "amt = 1000000 \<or> amt = 250000 \<Longrightarrow> \<exists>w1. redeem_payouts (demo_env oc) demo_redeem_record 100 amt 1000000 [\<lparr>mint_address = 1\<rparr>, \<lparr>mint_address = 2\<rparr>]
     (rd_pool_assets demo_redeem_record) (rd_target_assets demo_redeem_record) demo_holder_world = Inr w1 \<and>
     (\<forall>k \<in> {101, 102, 200}. w1 k = demo_holder_world k)"
  by (auto simp: demo_redeem_record_def buy_out_numeral token_transfer_def invoke_signed_def
      unpack_token_account_def data_of_def demo_holder_world_def)

lemma demo_redeem:
  assumes "amt = 1000000 \<or> amt = 250000"
  shows "\<exists>w'. process_redeem (demo_env oc) 7 demo_redeem_accounts 100 amt demo_holder_world = Inr w'"
proof -
  from demo_redeem_payouts[OF assms, of oc] obtain w1 where
    w1: "redeem_payouts (demo_env oc) demo_redeem_record 100 amt 1000000 [\<lparr>mint_address = 1\<rparr>, \<lparr>mint_address = 2\<rparr>]
     (rd_pool_assets demo_redeem_record) (rd_target_assets demo_redeem_record) demo_holder_world = Inr w1"
     "\<forall>k \<in> {101, 102, 200}. w1 k = demo_holder_world k" by blast
  have m: "unpack_mint_supply (demo_env oc) demo_holder_world (demo_handle 102 False) = Inr 1000000"
    by (simp add: unpack_mint_supply_def data_of_def demo_redeem_record_def demo_holder_world_def)
  have t: "unpack_token_account (demo_env oc) demo_holder_world (demo_handle 200 False) =
    Inr \<lparr>ta_mint = 102, ta_owner = 300, ta_amount = 1000000, ta_delegate = None, ta_close_authority = None\<rparr>"
    by (simp add: unpack_token_account_def data_of_def demo_redeem_record_def demo_holder_world_def)
  have "demo_burn 200 102 amt w1 = Inr (w1(200 := (w1 200)\<lparr>acc_data := le_bytes 32 (102 :: pubkey) @ le_bytes 32 (300 :: pubkey) @ le_bytes 8 (1000000 - amt)\<rparr>,
      102 := (w1 102)\<lparr>acc_data := le_bytes 8 (1000000 - amt)\<rparr>))"
    using w1(2) assms by (auto simp: demo_holder_world_def)
  then obtain w2 where b: "token_burn (demo_env oc) 6 200 102 300 amt
       [demo_handle 6 False, demo_handle 200 False, demo_handle 102 False, demo_handle 300 True] w1 = Inr w2" "w2 101 = demo_holder_world 101"
    using w1(2) by (simp add: token_burn_def invoke_def invoke_signed_def)
  have "\<exists>w'. redeem_reset demo_redeem_record demo_header w2 = Inr w'"
    using b(2) by (simp add: redeem_reset_Inr data_of_def demo_redeem_record_def demo_holder_world_def demo_pool_data)
  moreover have "rd_spl_token demo_redeem_record = demo_handle 6 False" "rd_source_pool_token demo_redeem_record = demo_handle 200 False"
    "rd_mint demo_redeem_record = demo_handle 102 False" "rd_source_pool_token_owner demo_redeem_record = demo_handle 300 True"
    by (simp_all add: demo_redeem_record_def)
  ultimately show ?thesis using w1(1) b(1) assms
    by (auto simp: process_redeem_def demo_redeem_parse demo_redeem_checks m t)
qed

text \<open>
  C13. Every check of a redemption holds when it succeeds: no order is pending on the pool, at most
  one fee period has passed since the recorded time, the owner of the pool tokens signed, pool
  and mint are the addresses derived from the seed, the program owns the pool account, each account
  paid from is the pool's associated account for the asset listed at its place, and the token
  account shows at least the amount.
\<close>

theorem redeem_guards:
  assumes "process_redeem e pid accounts s amt w = Inr w'"
  shows "\<exists>a h assets now balance. redeem_parse e accounts w = Inr (a, h, assets) \<and>
    ai_key (rd_spl_token a) = spl_token_id e \<and> ai_signer (rd_source_pool_token_owner a) \<and>
    create_program_address e (pool_seeds s) pid = Inr (ai_key (rd_pool a)) \<and>
    create_program_address e (mint_seeds s) pid = Inr (ai_key (rd_mint a)) \<and>
    owner_of w (rd_pool a) = pid \<and> (status h = Unlocked \<or> status h = Locked) \<and>
    clock_of e w (rd_clock_sysvar a) = Inr now \<and>
    (overflow_checks e \<longrightarrow> last_fee_collection_timestamp h \<le> now) \<and>
    now - last_fee_collection_timestamp h \<le> fee_collection_period h \<and>
    length (rd_pool_assets a) = length assets \<and>
    (\<forall>i < length assets. ai_key (rd_pool_assets a ! i) =
      get_associated_token_address e (ai_key (rd_pool a)) (mint_address (assets ! i))) \<and>
    token_balance e w (rd_source_pool_token a) = Some balance \<and> amt \<le> balance"
proof -
  from assms obtain a h assets tot user w1 w2 where r:
    "redeem_parse e accounts w = Inr (a, h, assets)" "redeem_checks e pid a h s w = Inr ()"
    "unpack_mint_supply e w (rd_mint a) = Inr tot"
    "unpack_token_account e w (rd_source_pool_token a) = Inr user" "amt \<le> ta_amount user"
    "redeem_payouts e a s amt tot assets (rd_pool_assets a) (rd_target_assets a) w = Inr w1"
    by (rule process_redeem_Inr)
  note p = redeem_parse_Inr[OF r(1)]
  have "status h \<noteq> Uninitialized" using p by (simp add: read_pool_header_Inr)
  then have "status h = Unlocked \<or> status h = Locked"
    using r(2) by (cases "status h") (auto simp: redeem_checks_Inr)
  moreover have "token_balance e w (rd_source_pool_token a) = Some (ta_amount user)"
    using r(4) by (auto simp: token_balance_def unpack_token_account_def res_simps)
  moreover obtain now where "clock_of e w (rd_clock_sysvar a) = Inr now" "fees_due (overflow_checks e) now h = Inr False"
    using r(2) by (auto simp: redeem_checks_Inr)
  moreover from this(2) have "(overflow_checks e \<longrightarrow> last_fee_collection_timestamp h \<le> now) \<and>
      now - last_fee_collection_timestamp h \<le> fee_collection_period h"
    by (auto simp: fees_due_def sub_w_def res_simps not_less split: if_splits)
  moreover have "\<forall>i < length assets. ai_key (rd_pool_assets a ! i) =
      get_associated_token_address e (ai_key (rd_pool a)) (mint_address (assets ! i))"
    using redeem_payouts_accounts[OF _ _ r(6)] p by simp
  ultimately show ?thesis using r p by (auto simp: redeem_checks_Inr)
qed

theorem redeem_guards_witness:
  "\<exists>w'. process_redeem (demo_env True) 7 demo_redeem_accounts 100 250000 demo_holder_world = Inr w' \<and>
    status demo_header = Unlocked"
proof -
  obtain w' where w': "process_redeem (demo_env True) 7 demo_redeem_accounts 100 250000 demo_holder_world = Inr w'"
    using demo_redeem[of 250000] by blast
  from redeem_guards[OF w'] w' show ?thesis
    by (auto simp: demo_redeem_parse) (simp_all add: demo_header_def)
qed

text \<open>
  C14. Redeeming the whole supply closes the pool: the pool account's data keeps its length, starts
  with the header marked uninitialised and is zero after it, so no header and no asset can be
  read from it any more, while its first bytes satisfy the status check of \<open>process_create\<close>.
\<close>

theorem full_redeem_closes_pool:
  assumes "process_redeem e pid accounts s amt w = Inr w'"
    and "redeem_parse e accounts w = Inr (a, h, assets)" and "unpack_mint_supply e w (rd_mint a) = Inr amt"
  shows "\<exists>n. data_of w' (rd_pool a) = header_bytes (h\<lparr>status := Uninitialized\<rparr>) @ replicate n 0 \<and>
    read_pool_header w' (rd_pool a) = Inl (Error UninitializedAccount) \<and>
    stored_assets (drop HEADER_LEN (data_of w' (rd_pool a))) = [] \<and>
    unpack_header_from_slice (data_of w' (rd_pool a)) = Inr (h\<lparr>status := Uninitialized\<rparr>)"
proof -
  obtain w2 where "redeem_reset a h w2 = Inr w'"
    by (rule process_redeem_Inr[OF assms(1)]) (use assms(2,3) in \<open>auto split: if_splits\<close>)
  then have d: "data_of w' (rd_pool a) = header_bytes (h\<lparr>status := Uninitialized\<rparr>)
      @ replicate (length (data_of w2 (rd_pool a)) - HEADER_LEN) 0"
    by (auto simp: redeem_reset_Inr)
  then show ?thesis
    by (intro exI conjI, assumption)
       (simp_all add: uninitialized_header_rejected stored_assets_zeros unpack_pack_header wf_header_def)
qed

theorem full_redeem_closes_pool_witness:
  "\<exists>w'. process_redeem (demo_env False) 7 demo_redeem_accounts 100 1000000 demo_holder_world = Inr w' \<and>
    read_pool_header w' (rd_pool demo_redeem_record) = Inl (Error UninitializedAccount)"
proof -
  obtain w' where w': "process_redeem (demo_env False) 7 demo_redeem_accounts 100 1000000 demo_holder_world = Inr w'"
    using demo_redeem[of 1000000] by blast
  have m: "unpack_mint_supply (demo_env False) demo_holder_world (rd_mint demo_redeem_record) = Inr 1000000"
    by (simp add: unpack_mint_supply_def data_of_def demo_redeem_record_def demo_holder_world_def)
  from full_redeem_closes_pool[OF w' demo_redeem_parse m] w' show ?thesis by blast
qed

subsection \<open>Pricing\<close>

text \<open>
  C20. Redeeming never fails on arithmetic and never dilutes: for any amount up to a nonzero supply the share
  of an asset is computed without panic or overflow error in both profiles, it is at most what the
  pool holds, and the asset per remaining token does not go down (compared by cross-multiplication).
\<close>

theorem redeem_share_fair:
  assumes "tot \<noteq> 0" and "amount \<le> tot"
  shows "\<exists>q. buy_out_amount oc amount pool tot = Inr q \<and> unat q \<le> unat pool \<and>
    (amount = tot \<longrightarrow> q = pool) \<and>
    unat pool * (unat tot - unat amount) \<le> (unat pool - unat q) * unat tot"
proof -
  obtain q where q: "buy_out_amount oc amount pool tot = Inr q"
    using buy_out.share_floor[of tot amount oc pool] assms by blast
  have "q = pool" if "amount = tot"
    using buy_out.share_of_supply[of tot oc pool q] q assms that by (simp add: word_unat_eq_iff)
  with q buy_out.share_le_pool[OF _ assms(2) q] buy_out.payout_no_dilution[OF _ assms(2) q] assms
  show ?thesis by auto
qed

theorem redeem_share_fair_witness: "\<exists>q. buy_out_amount True 250000 2000000 1000000 = Inr q \<and> unat q \<le> 2000000"
  using redeem_share_fair[of 1000000 250000 True 2000000] by auto

text \<open>
  C21. Buying and selling back: at a fixed pool, whoever pays the share \<open>q\<close> of an asset for \<open>t\<close>
  tokens gets exactly \<open>q\<close> back when redeeming the \<open>t\<close> tokens from the enlarged pool and supply,
  and the purchase costs the other holders less than one unit of the asset.
\<close>

theorem deposit_then_redeem:
  assumes "buy_in_amount oc t p tot = Inr q" and "tot \<noteq> 0"
    and "unat p + unat q < 2 ^ 64" and "unat tot + unat t < 2 ^ 64"
  shows "buy_out_amount oc' t (p + ucast q) (tot + t) = Inr (ucast q) \<and>
    unat p * (unat tot + unat t) < (unat p + unat q + 1) * unat tot"
proof -
  have q64: "unat (ucast q :: u64) = unat q" using assms(3) by (simp add: unat_ucast_down)
  have pq: "unat (p + ucast q) = unat p + unat q" using assms(3) q64 by (subst unat_add_fits) simp_all
  have st: "unat (tot + t) = unat tot + unat t" using assms(4) by (subst unat_add_fits) simp_all
  have "0 < unat tot" using assms(2) by (simp add: unat_gt_0)
  then have nz: "tot + t \<noteq> 0" using st by (metis add_is_0 less_not_refl unat_0)
  have q: "unat q * unat tot \<le> unat t * unat p" "unat t * unat p < (unat q + 1) * unat tot"
    using buy_in.share_floor[OF assms(2), of oc t p] assms(1) by auto
  have "unat t * (unat p + unat q) div (unat tot + unat t) = unat q"
  proof (rule div_nat_eqI)
    show "(unat tot + unat t) * unat q \<le> unat t * (unat p + unat q)"
      using q(1) by (simp add: algebra_simps)
    show "unat t * (unat p + unat q) < (unat tot + unat t) * Suc (unat q)"
      using q(2) by (simp add: algebra_simps)
  qed
  moreover have "unat q < 2 ^ 64" using assms(3) by simp
  ultimately have "buy_out_amount oc' t (p + ucast q) (tot + t) = Inr (ucast q)"
    using nz pq st q64 by (subst buy_out_amount) (auto simp: word_unat_eq_iff unat_ucast_down buy_in_amount)
  with buy_in.payin_dilution[OF assms(2,1)] show ?thesis by simp
qed

theorem deposit_then_redeem_witness:
  "buy_out_amount False 300000 (2000001 + ucast (600000 :: u128)) (1000000 + 300000) = Inr (ucast (600000 :: u128))"
proof -
  have "buy_in_amount False 300000 2000001 1000000 = Inr 600000" by (simp add: buy_in_amount)
  then show ?thesis using deposit_then_redeem[of False 300000 2000001 1000000 600000 False] by simp
qed

text \<open>
  C22. Rounding favours the depositor. While \<open>t\<close> tokens are worth less than one unit of an asset,
  each purchase of \<open>t\<close> tokens pays nothing of it, however many have been made, and the
  \<open>k * t\<close> tokens bought by \<open>k\<close> such purchases redeem exactly \<open>k * t * p / (s + k * t)\<close> units of it
  rounded down: zero as long as \<open>k * t * p < s + k * t\<close>, and at least one unit from there on.
\<close>

theorem rounding_favours_depositor:
  assumes "unat t * unat p < unat s" and "unat s + k * unat t < 2 ^ 64"
  shows "(\<forall>j<k. buy_in_amount oc t p (s + of_nat j * t) = Inr 0) \<and>
    (\<exists>q. buy_out_amount oc (of_nat k * t) p (s + of_nat k * t) = Inr q \<and>
      unat q = k * unat t * unat p div (unat s + k * unat t) \<and>
      (q \<noteq> 0 \<longleftrightarrow> unat s + k * unat t \<le> k * unat t * unat p))"
proof -
  have s: "0 < unat s" using assms(1) by simp
  have kt: "unat (of_nat j * t) = j * unat t" "unat (s + of_nat j * t) = unat s + j * unat t" if "j \<le> k" for j
  proof -
    have le: "j * unat t \<le> k * unat t" using that by simp
    show a: "unat (of_nat j * t) = j * unat t"
    proof (cases "unat t = 0")
      case False
      then have "j \<le> k * unat t" using that
        by (metis dual_order.trans le_numeral_extra(4) less_one mult_le_mono nat_mult_1_right not_le)
      moreover have "j * unat t < 2 ^ 64" using le assms(2) by linarith
      moreover have "k * unat t < 2 ^ 64" using assms(2) by linarith
      ultimately have "unat (of_nat j :: u64) = j" "j * unat t < 2 ^ 64" by (simp_all add: unat_of_nat)
      then show ?thesis by (simp add: unat_mul_fits)
    qed (simp add: unat_eq_zero)
    show "unat (s + of_nat j * t) = unat s + j * unat t"
    proof -
      have "unat s + j * unat t < 2 ^ 64" using le assms(2) by linarith
      then show ?thesis using a by (simp add: unat_add_fits)
    qed
  qed
  have nz: "s + of_nat j * t \<noteq> 0" if "j \<le> k" for j
    using kt(2)[OF that] s by (metis add_is_0 less_not_refl unat_0)
  have "buy_in_amount oc t p (s + of_nat j * t) = Inr 0" if "j < k" for j
  proof -
    have "unat t * unat p div (unat s + j * unat t) = 0" using assms(1) by simp
    then show ?thesis using nz[of j] kt(2)[of j] that
      by (simp add: buy_in_amount(1)) (simp add: word_unat_eq_iff buy_in_amount(2))
  qed
  moreover have "s + of_nat k * t \<noteq> 0 \<and> of_nat k * t \<le> s + of_nat k * t"
    using nz[of k] kt[of k] by (simp add: word_le_nat_alt)
  then obtain q where q: "buy_out_amount oc (of_nat k * t) p (s + of_nat k * t) = Inr q"
    "unat q = unat (of_nat k * t) * unat p div unat (s + of_nat k * t)"
    using buy_out.share_floor[of "s + of_nat k * t" "of_nat k * t" oc p] buy_out.share_eq by metis
  have v: "unat q = k * unat t * unat p div (unat s + k * unat t)" using q(2) kt[of k] by simp
  moreover have "q \<noteq> 0 \<longleftrightarrow> unat s + k * unat t \<le> k * unat t * unat p"
    using s v by (simp add: word_unat_eq_iff div_eq_0_iff not_less)
  ultimately show ?thesis using q(1) by blast
qed

theorem rounding_favours_depositor_witness:
  "buy_in_amount False 300000 3 1000000 = Inr 0 \<and> buy_in_amount False 300000 3 1300000 = Inr 0 \<and>
    (\<exists>q. buy_out_amount False 600000 3 1600000 = Inr q \<and> unat q = 1)"
proof -
  have "(\<forall>j<2. buy_in_amount False 300000 3 (1000000 + of_nat j * 300000) = Inr 0) \<and>
    (\<exists>q. buy_out_amount False (of_nat 2 * 300000) 3 (1000000 + of_nat 2 * 300000) = Inr q \<and>
      unat q = 2 * unat (300000 :: u64) * unat (3 :: u64) div (unat (1000000 :: u64) + 2 * unat (300000 :: u64)) \<and>
      (q \<noteq> 0 \<longleftrightarrow> unat (1000000 :: u64) + 2 * unat (300000 :: u64) \<le> 2 * unat (300000 :: u64) * unat (3 :: u64)))"
    by (rule rounding_favours_depositor) simp_all
  then have a: "\<And>j. j < 2 \<Longrightarrow> buy_in_amount False 300000 3 (1000000 + of_nat j * 300000) = Inr 0"
    and b: "\<exists>q. buy_out_amount False 600000 3 1600000 = Inr q \<and> unat q = 1"
    by auto
  from a[of 0] a[of 1] b show ?thesis by simp
qed

end
