(* ===== verification/Fees_Facts.thy ===== *)
theory Fees_Facts
  imports Dispatch Demo
begin

text \<open>
  What collecting fees does: how far the timestamp advances, how many pool tokens are minted and
  for whom, and the two corners of the fee arithmetic (a compounded ratio of zero, a fee ratio of
  zero). Facts about the fixed-point ratio rest on the error bounds of Utils.
\<close>

unbundle bit_operations_syntax

subsection \<open>Periods and timestamps\<close>

lemma fee_cycles_eq:
  assumes "last_fee_collection_timestamp h \<le> now" "fee_collection_period h \<noteq> 0"
  shows "fee_cycles oc now h = Inr ((now - last_fee_collection_timestamp h) div fee_collection_period h)"
    "unat ((now - last_fee_collection_timestamp h) div fee_collection_period h) =
      (unat now - unat (last_fee_collection_timestamp h)) div unat (fee_collection_period h)"
  using assms by (simp_all add: fee_cycles_def unat_div_distrib unat_sub word_le_nat_alt)

text \<open>
  The advanced timestamp stays in the past and leaves less than one period: computed without
  overflow in both profiles.
\<close>

lemma advance_timestamp_eq:
  assumes le: "last_fee_collection_timestamp h \<le> now" and p: "fee_collection_period h \<noteq> 0"
    and c: "fee_cycles oc now h = Inr cycles"
  obtains t where "advance_timestamp oc' cycles h = Inr (h\<lparr>last_fee_collection_timestamp := t\<rparr>)"
    "unat t = unat (last_fee_collection_timestamp h) + unat cycles * unat (fee_collection_period h)"
    "t \<le> now" "unat now < unat t + unat (fee_collection_period h)"
proof -
  let ?l = "unat (last_fee_collection_timestamp h)" and ?p = "unat (fee_collection_period h)"
  have pos: "0 < ?p" using p by (simp add: unat_gt_0)
  have l: "?l \<le> unat now" using le by (simp add: word_le_nat_alt)
  have n: "unat now < 2 ^ 64" using unsigned_less[of now, where ?'a = nat] by simp
  have cy: "unat cycles = (unat now - ?l) div ?p"
    using fee_cycles_eq[OF le p] c by auto
  have below: "unat cycles * ?p \<le> unat now - ?l" unfolding cy by (rule div_times_less_eq_dividend)
  have above: "unat now - ?l < unat cycles * ?p + ?p"
    unfolding cy using dividend_less_times_div[OF pos, of "unat now - ?l"] by (simp add: mult.commute)
  have fm: "unat cycles * ?p < 2 ^ LENGTH(64)" using below n by simp
  have um: "unat (cycles * fee_collection_period h) = unat cycles * ?p" by (rule unat_mul_fits[OF fm])
  have fa: "?l + unat (cycles * fee_collection_period h) < 2 ^ LENGTH(64)"
    unfolding um using below n l by simp
  let ?t = "last_fee_collection_timestamp h + cycles * fee_collection_period h"
  have ut: "unat ?t = ?l + unat cycles * ?p" using unat_add_fits[OF fa] um by simp
  show ?thesis
  proof (rule that[of ?t])
    show "advance_timestamp oc' cycles h = Inr (h\<lparr>last_fee_collection_timestamp := ?t\<rparr>)"
      using fm fa by (simp add: advance_timestamp_def)
    show "?t \<le> now" unfolding word_le_nat_alt ut using below l by simp
    show "unat now < unat ?t + ?p" unfolding ut using above l by simp
  qed (rule ut)
qed

subsection \<open>The compounded ratio and the tokens minted\<close>

lemma unat_not_u16: "unat (NOT (f :: u16)) = 65535 - unat f"
proof -
  have "NOT f = - 1 - f" by (simp add: not_eq_complement)
  then have "unat (NOT f) = unat (- 1 - f)" by simp
  also have "\<dots> = unat (- 1 :: u16) - unat f" by (rule unat_sub) simp
  also have "unat (- 1 :: u16) = 65535" by (simp add: unsigned_minus_1_eq_mask mask_eq_exp_minus_1)
  finally show ?thesis .
qed

lemma feeless_ratio_u16_eq:
  obtains f where "feeless_ratio_u16 oc ratio cycles = Inr f"
    "unat f = powfx (65535 - unat ratio) (unat cycles)"
proof -
  have x: "unat (ucast (NOT ratio) :: u32) = 65535 - unat ratio" by (simp add: unat_not_u16)
  have "unat (ucast (NOT ratio) :: u32) < 65536" unfolding x by simp
  from pow_fixedpoint_refines[OF this, of oc cycles, unfolded x]
  obtain r where r: "pow_fixedpoint_u16 oc (ucast (NOT ratio)) cycles = Inr r"
    "unat r = powfx (65535 - unat ratio) (unat cycles)" by blast
  have x': "65535 - unat ratio < 65536" by simp
  have "unat r < 65536" using powfx_le[OF x', of "unat cycles"] unfolding r(2) by simp
  then have "unat (ucast r :: u16) = unat r" by (simp add: unat_ucast_down)
  with r that show ?thesis by (simp add: feeless_ratio_u16_def)
qed

lemma tokens_product_fits:
  "unat (ucast (NOT f :: u16) :: u128) * unat (ucast (tot :: u64) :: u128) < 2 ^ LENGTH(128)"
proof -
  have "unat (ucast (NOT f :: u16) :: u128) * unat (ucast tot :: u128) < 65536 * 2 ^ 64"
    using unsigned_less[of tot, where ?'a = nat]
    by (intro mult_strict_mono) (simp_all add: unat_not_u16 less_Suc_eq_le)
  then show ?thesis by simp
qed

lemma tokens_to_mint_zero: "tokens_to_mint oc 0 tot = Inl Panic"
proof -
  define c where "c = (ucast (NOT 0 :: u16) :: u128)"
  have "unat c * unat (ucast tot :: u128) < 2 ^ LENGTH(128)"
    unfolding c_def by (rule tokens_product_fits)
  then show ?thesis unfolding tokens_to_mint_def c_def[symmetric] Let_def by simp
qed

lemma tokens_to_mint_eq:
  assumes "f \<noteq> 0"
  obtains t where "tokens_to_mint oc f tot = Inr t"
    "unat t = ((65535 - unat f) * unat tot div unat f) mod 2 ^ 64"
proof -
  let ?c = "ucast (NOT f) :: u128" and ?s = "ucast tot :: u128"
  note fit = tokens_product_fits[of f tot]
  have nz: "(ucast f :: u128) \<noteq> 0" using assms by (simp add: word_unat_eq_iff)
  have "unat (?c * ?s div ucast f) = (65535 - unat f) * unat tot div unat f"
    using unat_mul_fits[OF fit] by (simp add: unat_div_distrib unat_not_u16)
  moreover have "unat (ucast x :: u64) = unat x mod 2 ^ 64" for x :: u128
    by (simp only: unat_ucast_down) simp
  ultimately have "unat (ucast (?c * ?s div ucast f) :: u64) =
      ((65535 - unat f) * unat tot div unat f) mod 2 ^ 64" by (simp only:)
  moreover have "tokens_to_mint oc f tot = Inr (ucast (?c * ?s div ucast f))"
    using fit nz by (simp add: tokens_to_mint_def Let_def)
  ultimately show ?thesis using that by blast
qed

text \<open>The ratio and the tokens of a collection that got past its division.\<close>

lemma collected_amount:
  assumes "feeless_ratio_u16 oc (fee_ratio h) n = Inr f" "n \<noteq> 0" "tokens_to_mint oc f tot = Inr tokens"
  shows "unat f \<noteq> 0" "unat f * 65536 ^ (unat n - 1) \<le> (65535 - unat (fee_ratio h)) ^ unat n"
    "(65535 - unat (fee_ratio h)) ^ unat n \<le> (unat f + (unat n - 1)) * 65536 ^ (unat n - 1)"
    "unat tokens = ((65535 - unat f) * unat tot div unat f) mod 2 ^ 64"
proof -
  have f: "unat f = powfx (65535 - unat (fee_ratio h)) (unat n)"
    using feeless_ratio_u16_eq[of oc "fee_ratio h" n] assms(1) by auto
  have fw: "f \<noteq> 0" using assms(3) tokens_to_mint_zero by auto
  then show "unat f \<noteq> 0" by (simp add: unat_gt_0)
  have "1 \<le> unat n" using assms(2) by (simp add: Suc_le_eq unat_gt_0)
  then show "unat f * 65536 ^ (unat n - 1) \<le> (65535 - unat (fee_ratio h)) ^ unat n"
    "(65535 - unat (fee_ratio h)) ^ unat n \<le> (unat f + (unat n - 1)) * 65536 ^ (unat n - 1)"
    unfolding f by (intro powfx_error; simp)+
  show "unat tokens = ((65535 - unat f) * unat tot div unat f) mod 2 ^ 64"
    using tokens_to_mint_eq[OF fw, of oc tot] assms(3) by auto
qed

lemma process_collect_fees_Inr:
  assumes "process_collect_fees e pid accounts s w = Inr w'"
  obtains a h mk fk bk now cycles f h' tot tokens w1 where
    "fees_parse e accounts = Inr a" "fees_checks e pid a s w = Inr (h, mk, fk, bk)"
    "read_pool_header w (cf_pool a) = Inr h"
    "clock_of e w (cf_clock_sysvar a) = Inr now"
    "fee_cycles (overflow_checks e) now h = Inr cycles" "cycles \<noteq> 0"
    "feeless_ratio_u16 (overflow_checks e) (fee_ratio h) cycles = Inr f"
    "advance_timestamp (overflow_checks e) cycles h = Inr h'"
    "unpack_mint_supply e w (cf_mint a) = Inr tot"
    "tokens_to_mint (overflow_checks e) f tot = Inr tokens"
    "fees_mints e a mk s fk bk tokens w = Inr w1"
    "HEADER_LEN \<le> length (data_of w1 (cf_pool a))"
    "w' = set_data w1 (cf_pool a) (header_bytes h' @ drop HEADER_LEN (data_of w1 (cf_pool a)))"
proof -
  from assms obtain a h mk fk bk now cycles f h' tot tokens w1 where r:
    "fees_parse e accounts = Inr a" "fees_checks e pid a s w = Inr (h, mk, fk, bk)"
    "clock_of e w (cf_clock_sysvar a) = Inr now"
    "fee_cycles (overflow_checks e) now h = Inr cycles" "cycles \<noteq> 0"
    "feeless_ratio_u16 (overflow_checks e) (fee_ratio h) cycles = Inr f"
    "advance_timestamp (overflow_checks e) cycles h = Inr h'"
    "unpack_mint_supply e w (cf_mint a) = Inr tot"
    "tokens_to_mint (overflow_checks e) f tot = Inr tokens"
    "fees_mints e a mk s fk bk tokens w = Inr w1" "store_pool_header w1 (cf_pool a) h' = Inr w'"
    by (auto simp: process_collect_fees_def res_simps Let_def split: prod.splits)
  have "read_pool_header w (cf_pool a) = Inr h"
    using r(2) by (auto simp: fees_checks_def res_simps Let_def)
  moreover have "HEADER_LEN \<le> length (data_of w1 (cf_pool a)) \<and>
      w' = set_data w1 (cf_pool a) (header_bytes h' @ drop HEADER_LEN (data_of w1 (cf_pool a)))"
    using r(11) by (auto simp: store_pool_header_def res_simps pack_header)
  ultimately show ?thesis using that r by blast
qed
lemma fees_mints_Inr:
  "fees_mints e a mk s fk bk tokens w = Inr w1 \<longleftrightarrow> (\<exists>wa wb.
    fees_mint e a mk s (ai_key (cf_signal_provider_pt a)) (cf_signal_provider_pt a) (tokens div 2) w = Inr wa \<and>
    fees_mint e a mk s fk (cf_bonfida_fee_pt a) (tokens div 4) wa = Inr wb \<and>
    fees_mint e a mk s bk (cf_bonfida_bnb_pt a) (tokens - tokens div 4 - tokens div 2) wb = Inr w1)"
  by (simp add: fees_mints_def fee_rest res_simps Let_def)

lemma collected_header:
  assumes "read_pool_header w p = Inr h" "fee_collection_period h \<noteq> 0"
    "last_fee_collection_timestamp h \<le> now" "fee_cycles oc now h = Inr cycles"
    "advance_timestamp oc cycles h = Inr h'"
    "w' = set_data w1 p (header_bytes h' @ d)"
  shows "read_pool_header w' p = Inr h' \<and> last_fee_collection_timestamp h' \<le> now \<and>
    h' = h\<lparr>last_fee_collection_timestamp := last_fee_collection_timestamp h'\<rparr> \<and>
    unat (last_fee_collection_timestamp h') =
      unat (last_fee_collection_timestamp h) + unat cycles * unat (fee_collection_period h) \<and>
    fee_cycles oc' now h' = Inr 0 \<and> fees_due oc' now h' = Inr False"
proof -
  obtain t where t: "h' = h\<lparr>last_fee_collection_timestamp := t\<rparr>" "t \<le> now"
      "unat t = unat (last_fee_collection_timestamp h) + unat cycles * unat (fee_collection_period h)"
      "unat now < unat t + unat (fee_collection_period h)"
    using advance_timestamp_eq[OF assms(3,2,4), of oc] assms(5) by auto
  have el: "unat (now - t) < unat (fee_collection_period h)"
    using t(2,4) by (simp add: unat_sub word_le_nat_alt)
  then have "(now - t) div fee_collection_period h = 0"
    by (simp add: word_unat_eq_iff unat_div_distrib)
  then have "fee_cycles oc' now h' = Inr 0" using t(1,2) assms(2) by (simp add: fee_cycles_def)
  moreover have "\<not> fee_collection_period h < now - t" using el by (simp add: word_less_nat_alt)
  then have "fees_due oc' now h' = Inr False" using t(1,2) by (simp add: fees_due_def)
  moreover have "read_pool_header w' p = Inr h'"
    using assms(1,6) t(1) read_pool_header_wf[OF assms(1)]
    by (simp add: read_pool_header_Inr unpack_pack_header wf_header_def)
  ultimately show ?thesis using t by simp
qed

lemma fee_cycles_nonzero_period: "fee_cycles oc now h = Inr c \<Longrightarrow> fee_collection_period h \<noteq> 0"
  by (auto simp: fee_cycles_def res_simps div_w_def split: if_splits)

lemma fees_parse_demo:
  "fees_parse e accounts = Inr a \<Longrightarrow> \<exists>it. accounts = [cf_spl_token a, cf_clock_sysvar a, cf_pool a, cf_mint a,
     cf_signal_provider_pt a, cf_bonfida_fee_pt a, cf_bonfida_bnb_pt a] @ it"
  by (auto simp: fees_parse_def res_simps)

text \<open>
  C9. Collecting fees happens once per period: when the clock is not behind the recorded
  timestamp, a successful collection leaves a pool whose header is the old one with the
  timestamp advanced by exactly the whole periods elapsed, still in the past, and with less than a
  period to go. Fees are then not due, so redemption is open again, and another collection at the
  same time fails on any state that still has this pool account.
\<close>

theorem collect_fees_once:
  assumes "process_collect_fees e pid accounts s w = Inr w'" and "fees_parse e accounts = Inr a"
    and "read_pool_header w (cf_pool a) = Inr h" and "clock_of e w (cf_clock_sysvar a) = Inr now"
    and "last_fee_collection_timestamp h \<le> now"
  shows "\<exists>t. read_pool_header w' (cf_pool a) = Inr (h\<lparr>last_fee_collection_timestamp := t\<rparr>) \<and> t \<le> now \<and>
    unat t = unat (last_fee_collection_timestamp h) +
      (unat now - unat (last_fee_collection_timestamp h)) div unat (fee_collection_period h)
        * unat (fee_collection_period h) \<and>
    unat t \<noteq> unat (last_fee_collection_timestamp h) \<and>
    fees_due (overflow_checks e) now (h\<lparr>last_fee_collection_timestamp := t\<rparr>) = Inr False \<and>
    (\<forall>w2 w3. data_of w2 (cf_pool a) = data_of w' (cf_pool a) \<and>
      clock_of e w2 (cf_clock_sysvar a) = Inr now \<longrightarrow> process_collect_fees e pid accounts s w2 \<noteq> Inr w3)"
proof -
  obtain mk fk bk cycles f h' tot tokens w1 where r:
    "fee_cycles (overflow_checks e) now h = Inr cycles" "cycles \<noteq> 0"
    "advance_timestamp (overflow_checks e) cycles h = Inr h'"
    "w' = set_data w1 (cf_pool a) (header_bytes h' @ drop HEADER_LEN (data_of w1 (cf_pool a)))"
    by (rule process_collect_fees_Inr[OF assms(1)]) (use assms(2-4) in auto)
  note p = fee_cycles_nonzero_period[OF r(1)]
  note ch = collected_header[OF assms(3) p assms(5) r(1) r(3) r(4), of "overflow_checks e"]
  let ?t = "last_fee_collection_timestamp h'"
  have cy: "unat cycles = (unat now - unat (last_fee_collection_timestamp h)) div unat (fee_collection_period h)"
    using fee_cycles_eq[OF assms(5) p] r(1) by auto
  have h': "h\<lparr>last_fee_collection_timestamp := ?t\<rparr> = h'" using ch by simp
  have "unat cycles * unat (fee_collection_period h) \<noteq> 0" using p r(2) by (simp add: word_unat_eq_iff)
  moreover have "process_collect_fees e pid accounts s w2 \<noteq> Inr w3"
    if "data_of w2 (cf_pool a) = data_of w' (cf_pool a)" "clock_of e w2 (cf_clock_sysvar a) = Inr now" for w2 w3
  proof
    assume again: "process_collect_fees e pid accounts s w2 = Inr w3"
    have "read_pool_header w2 (cf_pool a) = Inr h'"
      using ch that(1) by (simp add: read_pool_header_def)
    with ch that(2) assms(2) show False
      by (auto intro: process_collect_fees_Inr[OF again])
  qed
  ultimately show ?thesis using ch unfolding h' cy[symmetric] 
    by (intro exI[of _ ?t]) (simp add: h')
qed
subsection \<open>Collecting from the demo pool\<close>

definition demo_fee_accounts :: "account_info list" where
  "demo_fee_accounts = map (\<lambda>k. demo_handle k False) [6, 40, 101, 102, 9102, 901102, 902102]"

definition demo_fee_record :: fees_accounts where
  "demo_fee_record = \<lparr>cf_spl_token = demo_handle 6 False, cf_clock_sysvar = demo_handle 40 False,
     cf_pool = demo_handle 101 False, cf_mint = demo_handle 102 False,
     cf_signal_provider_pt = demo_handle 9102 False, cf_bonfida_fee_pt = demo_handle 901102 False,
     cf_bonfida_bnb_pt = demo_handle 902102 False\<rparr>"

definition demo_later_world :: world where
  "demo_later_world = demo_world(40 := demo_clock 2300000)"

lemma demo_fees_parse: "fees_parse (demo_env oc) demo_fee_accounts = Inr demo_fee_record"
  by (simp add: fees_parse_def demo_fee_accounts_def demo_fee_record_def)

lemma demo_fees_checks:
  "read_pool_header w (cf_pool demo_fee_record) = Inr h \<Longrightarrow> signal_provider h = 9 \<Longrightarrow>
    fees_checks (demo_env oc) 7 demo_fee_record 100 w = Inr (h, 102, 901102, 902102)"
  by (simp add: fees_checks_def demo_fee_record_def bonfida_pt_key_def check_pool_key_def)

lemma demo_later_header: "read_pool_header demo_later_world (cf_pool demo_fee_record) = Inr demo_header"
  by (rule demo_read_header[where mints = "[1, 2]"]) (simp add: demo_later_world_def demo_fee_record_def)

lemma demo_later_clock: "clock_of (demo_env oc) demo_later_world (cf_clock_sysvar demo_fee_record) = Inr 2300000"
  by (simp add: clock_of_def demo_later_world_def demo_fee_record_def data_of_def codec_simps)

lemma demo_fees_mints:
  "\<exists>w1. fees_mints (demo_env oc) demo_fee_record 102 100 901102 902102 234622 demo_later_world = Inr w1 \<and>
    w1 101 = demo_later_world 101"
  by (simp add: fees_mints_Inr fees_mint_def token_mint_to_def invoke_signed_def demo_fee_record_def
      demo_later_world_def)

lemma demo_feeless: "feeless_ratio_u16 oc 6554 2 = Inr 53081"
proof -
  obtain f where f: "feeless_ratio_u16 oc 6554 2 = Inr f" "unat f = powfx 58981 2"
    using feeless_ratio_u16_eq[of oc 6554 2] by auto
  have "powfx 58981 2 = 53081" by (simp add: powfx.simps)
  then have "f = 53081" using f(2) by (simp add: word_unat_eq_iff)
  with f(1) show ?thesis by simp
qed

lemma demo_collect_fees:
  "\<exists>w'. process_collect_fees (demo_env oc) 7 demo_fee_accounts 100 demo_later_world = Inr w'"
proof -
  obtain w1 where w1: "fees_mints (demo_env oc) demo_fee_record 102 100 901102 902102 234622 demo_later_world = Inr w1"
    "w1 101 = demo_later_world 101" using demo_fees_mints by blast
  have d: "HEADER_LEN \<le> length (data_of w1 (cf_pool demo_fee_record))"
    using w1(2) by (simp add: data_of_def demo_fee_record_def demo_later_world_def demo_pool_data)
  have h: "signal_provider demo_header = 9" "fee_ratio demo_header = 6554"
    "fee_cycles oc 2300000 demo_header = Inr 2"
    by (simp_all add: demo_header_def fee_cycles_def)
  obtain h' where h': "advance_timestamp oc 2 demo_header = Inr h'"
    by (simp add: advance_timestamp_def demo_header_def)
  have m: "unpack_mint_supply (demo_env oc) demo_later_world (cf_mint demo_fee_record) = Inr 1000000"
    by (simp add: unpack_mint_supply_def data_of_def demo_fee_record_def demo_later_world_def)
  have t: "tokens_to_mint oc 53081 1000000 = Inr 234622"
    by (simp add: tokens_to_mint_def Let_def)
  show ?thesis using w1(1) d
    by (simp add: process_collect_fees_def demo_fees_parse demo_fees_checks[OF demo_later_header h(1)]
        demo_later_clock h demo_feeless h' m t store_pool_header_def pack_header res_simps Let_def)
qed
theorem collect_fees_once_witness:
  "\<exists>w' t. process_collect_fees (demo_env True) 7 demo_fee_accounts 100 demo_later_world = Inr w' \<and>
    read_pool_header w' (cf_pool demo_fee_record) = Inr (demo_header\<lparr>last_fee_collection_timestamp := t\<rparr>) \<and>
    unat t = 2209600"
proof -
  obtain w' where w': "process_collect_fees (demo_env True) 7 demo_fee_accounts 100 demo_later_world = Inr w'"
    using demo_collect_fees by blast
  from collect_fees_once[OF w' demo_fees_parse demo_later_header demo_later_clock] w'
  show ?thesis by (auto simp: demo_header_def)
qed

lemma collect_fees_mints:
  assumes "process_collect_fees e pid accounts s w = Inr w'" and "fees_parse e accounts = Inr a"
  shows "\<exists>h now n f supply tokens fk bk wa wb wc. read_pool_header w (cf_pool a) = Inr h \<and>
    clock_of e w (cf_clock_sysvar a) = Inr now \<and> fee_cycles (overflow_checks e) now h = Inr n \<and> n \<noteq> 0 \<and>
    unpack_mint_supply e w (cf_mint a) = Inr supply \<and>
    fees_mint e a (ai_key (cf_mint a)) s (ai_key (cf_signal_provider_pt a)) (cf_signal_provider_pt a) (tokens div 2) w = Inr wa \<and>
    fees_mint e a (ai_key (cf_mint a)) s fk (cf_bonfida_fee_pt a) (tokens div 4) wa = Inr wb \<and>
    fees_mint e a (ai_key (cf_mint a)) s bk (cf_bonfida_bnb_pt a) (tokens - tokens div 4 - tokens div 2) wb = Inr wc \<and>
    fk = ai_key (cf_bonfida_fee_pt a) \<and> bk = ai_key (cf_bonfida_bnb_pt a) \<and>
    unat (tokens div 2) + unat (tokens div 4) + unat (tokens - tokens div 4 - tokens div 2) = unat tokens \<and>
    f \<noteq> 0 \<and> f * 65536 ^ (unat n - 1) \<le> (65535 - unat (fee_ratio h)) ^ unat n \<and>
    (65535 - unat (fee_ratio h)) ^ unat n \<le> (f + (unat n - 1)) * 65536 ^ (unat n - 1) \<and>
    unat tokens = ((65535 - f) * unat supply div f) mod 2 ^ 64 \<and>
    ((65535 - f) * unat supply div f < 2 ^ 64 \<longrightarrow>
      65535 * unat tokens \<le> (65535 - f) * (unat supply + unat tokens))"
proof -
  obtain h mk fk bk now n fw tot tokens w1 where r:
    "fees_checks e pid a s w = Inr (h, mk, fk, bk)" "read_pool_header w (cf_pool a) = Inr h"
    "clock_of e w (cf_clock_sysvar a) = Inr now" "fee_cycles (overflow_checks e) now h = Inr n" "n \<noteq> 0"
    "feeless_ratio_u16 (overflow_checks e) (fee_ratio h) n = Inr fw"
    "unpack_mint_supply e w (cf_mint a) = Inr tot"
    "tokens_to_mint (overflow_checks e) fw tot = Inr tokens" "fees_mints e a mk s fk bk tokens w = Inr w1"
    by (rule process_collect_fees_Inr[OF assms(1)]) (use assms(2) in auto)
  let ?x = "65535 - unat (fee_ratio h)" and ?f = "unat fw"
  have f: "?f = powfx ?x (unat n)"
    using feeless_ratio_u16_eq[of "overflow_checks e" "fee_ratio h" n] r(6) by auto
  have fw: "fw \<noteq> 0" using r(8) tokens_to_mint_zero by auto
  have tok: "unat tokens = ((65535 - ?f) * unat tot div ?f) mod 2 ^ 64"
    using tokens_to_mint_eq[OF fw, of "overflow_checks e" tot] r(8) by auto
  have n: "1 \<le> unat n" using r(5) by (simp add: Suc_le_eq unat_gt_0)
  have share: "65535 * unat tokens \<le> (65535 - ?f) * (unat tot + unat tokens)"
    if fits: "(65535 - ?f) * unat tot div ?f < 2 ^ 64"
  proof -
    have "unat tokens = (65535 - ?f) * unat tot div ?f" using tok fits by simp
    then have "unat tokens * ?f \<le> (65535 - ?f) * unat tot" by (simp add: div_times_less_eq_dividend)
    moreover have "?f + (65535 - ?f) = 65535"
      using unsigned_less[of fw, where ?'a = nat] by simp
    then have "65535 * unat tokens = ?f * unat tokens + (65535 - ?f) * unat tokens"
      by (metis add_mult_distrib)
    moreover have "(65535 - ?f) * (unat tot + unat tokens) = (65535 - ?f) * unat tot + (65535 - ?f) * unat tokens"
      by (rule add_mult_distrib2)
    ultimately show ?thesis using mult.commute[of "unat tokens" ?f] by linarith
  qed
  have keys: "mk = ai_key (cf_mint a)" "fk = ai_key (cf_bonfida_fee_pt a)" "bk = ai_key (cf_bonfida_bnb_pt a)"
    using r(1) by (auto simp: fees_checks_def res_simps Let_def)
  have err: "?f * 65536 ^ (unat n - 1) \<le> ?x ^ unat n"
    "?x ^ unat n \<le> (?f + (unat n - 1)) * 65536 ^ (unat n - 1)"
    unfolding f by (rule powfx_error; use n in simp)+
  have f0: "?f \<noteq> 0" using fw by (simp add: unat_gt_0)
  from r(9) obtain wa wb where m:
    "fees_mint e a mk s (ai_key (cf_signal_provider_pt a)) (cf_signal_provider_pt a) (tokens div 2) w = Inr wa"
    "fees_mint e a mk s fk (cf_bonfida_fee_pt a) (tokens div 4) wa = Inr wb"
    "fees_mint e a mk s bk (cf_bonfida_bnb_pt a) (tokens - tokens div 4 - tokens div 2) wb = Inr w1"
    unfolding fees_mints_Inr by blast
  show ?thesis
    by (rule exI[of _ h], rule exI[of _ now], rule exI[of _ n], rule exI[of _ ?f], rule exI[of _ tot],
      rule exI[of _ tokens], rule exI[of _ fk], rule exI[of _ bk], rule exI[of _ wa], rule exI[of _ wb],
      rule exI[of _ w1])
      (intro conjI impI r(2-5) r(7) m[unfolded keys(1)] keys fee_split_sum f0 err tok share)
qed

text \<open>
  C10. The amount a collection mints: with \<open>x = 65535 - fee_ratio\<close> and \<open>n\<close> elapsed periods the
  ratio \<open>f\<close> left to the holders is within \<open>n - 1\<close> units of 1/65536 below \<open>x ^ n / 65536 ^ (n - 1)\<close>
  and is not zero; three mints of the pool mint go to the signal provider, the Bonfida fee account
  and the buy-and-burn account, their sum is \<open>(65535 - f) * supply / f\<close> cast to 64 bits, and where the cast keeps the
  value the collectors own at most the fraction \<open>(65535 - f) / 65535\<close> of the new supply.
\<close>

theorem collect_fees_amount:
  assumes "process_collect_fees e pid accounts s w = Inr w'" and "fees_parse e accounts = Inr a"
  shows "\<exists>h now n f supply tokens fk bk wa wb wc. read_pool_header w (cf_pool a) = Inr h \<and>
    clock_of e w (cf_clock_sysvar a) = Inr now \<and> fee_cycles (overflow_checks e) now h = Inr n \<and> n \<noteq> 0 \<and>
    unpack_mint_supply e w (cf_mint a) = Inr supply \<and>
    fees_mint e a (ai_key (cf_mint a)) s (ai_key (cf_signal_provider_pt a)) (cf_signal_provider_pt a) (tokens div 2) w = Inr wa \<and>
    fees_mint e a (ai_key (cf_mint a)) s fk (cf_bonfida_fee_pt a) (tokens div 4) wa = Inr wb \<and>
    fees_mint e a (ai_key (cf_mint a)) s bk (cf_bonfida_bnb_pt a) (tokens - tokens div 4 - tokens div 2) wb = Inr wc \<and>
    fk = ai_key (cf_bonfida_fee_pt a) \<and> bk = ai_key (cf_bonfida_bnb_pt a) \<and>
    unat (tokens div 2) + unat (tokens div 4) + unat (tokens - tokens div 4 - tokens div 2) = unat tokens \<and>
    f \<noteq> 0 \<and> f * 65536 ^ (unat n - 1) \<le> (65535 - unat (fee_ratio h)) ^ unat n \<and>
    (65535 - unat (fee_ratio h)) ^ unat n \<le> (f + (unat n - 1)) * 65536 ^ (unat n - 1) \<and>
    unat tokens = ((65535 - f) * unat supply div f) mod 2 ^ 64 \<and>
    ((65535 - f) * unat supply div f < 2 ^ 64 \<longrightarrow>
      65535 * unat tokens \<le> (65535 - f) * (unat supply + unat tokens))"
  using assms by (rule collect_fees_mints)

theorem collect_fees_amount_witness:
  "\<exists>w' n (f :: nat). process_collect_fees (demo_env False) 7 demo_fee_accounts 100 demo_later_world = Inr w' \<and>
    fee_cycles False 2300000 demo_header = Inr n \<and> f \<noteq> 0 \<and> f * 65536 ^ (unat n - 1) \<le> 58981 ^ unat n"
proof -
  obtain w' where w': "process_collect_fees (demo_env False) 7 demo_fee_accounts 100 demo_later_world = Inr w'"
    using demo_collect_fees by blast
  have ratio: "unat (fee_ratio demo_header) = 6554" by (simp add: demo_header_def)
  from collect_fees_amount[OF w' demo_fees_parse] obtain h now n f where
    "read_pool_header demo_later_world (cf_pool demo_fee_record) = Inr h"
    "clock_of (demo_env False) demo_later_world (cf_clock_sysvar demo_fee_record) = Inr now"
    "fee_cycles (overflow_checks (demo_env False)) now h = Inr n" "f \<noteq> 0"
    "f * 65536 ^ (unat n - 1) \<le> (65535 - unat (fee_ratio h)) ^ unat n" by blast
  with w' ratio show ?thesis by (auto simp: demo_later_header demo_later_clock)
qed

text \<open>
  Once the exact compounded ratio \<open>(65535 - fee_ratio) ^ n / 65536 ^ (n - 1)\<close> is below one unit for
  some \<open>n \<ge> 2\<close>, the rounded ratio of \<open>n\<close> or more periods is zero: a header for which \<open>n\<close> periods
  have passed can neither have its fees collected (division by zero) nor its tokens redeemed (fees
  are due).
\<close>

definition frozen_at :: "nat \<Rightarrow> u64 \<Rightarrow> pool_header \<Rightarrow> bool" where
  "frozen_at n now h \<longleftrightarrow> 2 \<le> n \<and> (65535 - unat (fee_ratio h)) ^ n < 65536 ^ (n - 1) \<and>
     fee_collection_period h \<noteq> 0 \<and> last_fee_collection_timestamp h \<le> now \<and>
     n * unat (fee_collection_period h) \<le> unat now - unat (last_fee_collection_timestamp h)"

lemma frozen_at_later: "frozen_at n now h \<Longrightarrow> now \<le> now' \<Longrightarrow> frozen_at n now' h"
  by (auto simp: frozen_at_def word_le_nat_alt)

lemma frozen_at_status [simp]: "frozen_at n now (h\<lparr>status := st\<rparr>) = frozen_at n now h"
  by (simp add: frozen_at_def)

lemma frozen_refuses_collection:
  assumes "frozen_at n now h" and "fees_parse e accounts = Inr a" and "read_pool_header w (cf_pool a) = Inr h"
    and "clock_of e w (cf_clock_sysvar a) = Inr now"
  shows "process_collect_fees e pid accounts s w \<noteq> Inr w'"
proof
  assume ok: "process_collect_fees e pid accounts s w = Inr w'"
  note f = assms(1)[unfolded frozen_at_def]
  have "0 < unat (fee_collection_period h)" using f by (simp add: unat_gt_0)
  then have el: "n \<le> (unat now - unat (last_fee_collection_timestamp h)) div unat (fee_collection_period h)"
    using f by (simp add: less_eq_div_iff_mult_less_eq)
  obtain cycles g tot tokens where r: "fee_cycles (overflow_checks e) now h = Inr cycles"
    "feeless_ratio_u16 (overflow_checks e) (fee_ratio h) cycles = Inr g"
    "tokens_to_mint (overflow_checks e) g tot = Inr tokens"
    by (rule process_collect_fees_Inr[OF ok]) (use assms(2-4) in auto)
  have "last_fee_collection_timestamp h \<le> now" "fee_collection_period h \<noteq> 0" using f by simp_all
  then have "n \<le> unat cycles" using r(1) fee_cycles_eq el by auto
  then have "powfx (65535 - unat (fee_ratio h)) (unat cycles) = 0"
    using f by (intro powfx_zero[of _ n]) simp_all
  then have "g = 0"
    using feeless_ratio_u16_eq[of "overflow_checks e" "fee_ratio h" cycles] r(2)
    by (auto simp: unat_eq_zero)
  with r(3) show False by (simp add: tokens_to_mint_zero)
qed

lemma frozen_refuses_redemption:
  assumes "frozen_at n now h" and "redeem_parse e accounts w = Inr (a, h, assets)"
    and "clock_of e w (rd_clock_sysvar a) = Inr now"
  shows "process_redeem e pid accounts s amount w \<noteq> Inr w'"
proof
  assume ok: "process_redeem e pid accounts s amount w = Inr w'"
  note f = assms(1)[unfolded frozen_at_def]
  have "0 < unat (fee_collection_period h)" using f by (simp add: unat_gt_0)
  moreover have "2 * unat (fee_collection_period h) \<le> n * unat (fee_collection_period h)" using f by simp
  then have "2 * unat (fee_collection_period h) \<le> unat now - unat (last_fee_collection_timestamp h)"
    using f by (meson order_trans)
  ultimately have "fee_collection_period h < now - last_fee_collection_timestamp h"
    using f by (simp add: word_less_nat_alt unat_sub word_le_nat_alt)
  then have "fees_due (overflow_checks e) now h = Inr True" using f by (simp add: fees_due_def)
  with ok assms(2,3) show False
    by (auto simp: process_redeem_def redeem_checks_def res_simps Let_def)
qed

definition demo_greedy_header :: pool_header where
  "demo_greedy_header = demo_header\<lparr>fee_ratio := 32768\<rparr>"

definition demo_greedy_world :: world where
  "demo_greedy_world = demo_world(101 := demo_pool demo_greedy_header [1, 2], 40 := demo_clock 11281600)"

lemma demo_greedy:
  "read_pool_header demo_greedy_world (cf_pool demo_fee_record) = Inr demo_greedy_header"
  "clock_of (demo_env oc) demo_greedy_world (cf_clock_sysvar demo_fee_record) = Inr 11281600"
  using wf_demo_header
  by (simp_all add: read_pool_header_Inr data_of_def demo_fee_record_def demo_greedy_world_def demo_pool_data
      unpack_pack_header demo_greedy_header_def wf_header_def demo_header_def clock_of_def codec_simps)

lemma powfx_max:
  "powfx 65535 1 = 65535" "powfx 65535 2 = 65534"
  by (simp_all add: powfx.simps)

lemma feeless_ratio_zero: "feeless_ratio_u16 oc 0 n = Inr (of_nat (powfx 65535 (unat n)))"
proof -
  obtain f where f: "feeless_ratio_u16 oc 0 n = Inr f" "unat f = powfx 65535 (unat n)"
    using feeless_ratio_u16_eq[of oc 0 n] by auto
  from f(2) have "f = of_nat (powfx 65535 (unat n))" by (metis of_nat_unat ucast_id)
  with f(1) show ?thesis by simp
qed

text \<open>
  C39. A fee ratio of zero is not free of fees. One period mints nothing, but two periods collected
  together leave the ratio 65534 instead of 65535, and the collectors are minted one token in
  65534 of the supply.
\<close>

theorem zero_fee_ratio_charges:
  "feeless_ratio_u16 oc 0 1 = Inr 65535 \<and> tokens_to_mint oc 65535 tot = Inr 0 \<and>
    feeless_ratio_u16 oc 0 2 = Inr 65534 \<and>
    (\<exists>t. tokens_to_mint oc 65534 tot = Inr t \<and> unat t = unat tot div 65534)"
proof (intro conjI)
  show "feeless_ratio_u16 oc 0 1 = Inr 65535"
    by (simp add: feeless_ratio_zero powfx_max del: One_nat_def)
  show "feeless_ratio_u16 oc 0 2 = Inr 65534"
    by (simp add: feeless_ratio_zero powfx_max)
  show "tokens_to_mint oc 65535 tot = Inr 0"
    using tokens_to_mint_eq[of 65535 oc tot] by (auto simp: unat_eq_zero)
  show "\<exists>t. tokens_to_mint oc 65534 tot = Inr t \<and> unat t = unat tot div 65534"
  proof -
    have "unat tot div 65534 < 2 ^ 64" using unsigned_less[of tot, where ?'a = nat]
      by (auto intro: order_le_less_trans[OF div_le_dividend])
    then show ?thesis using tokens_to_mint_eq[of 65534 oc tot] by auto
  qed
qed

end
