(* ===== verification/Lifecycle.thy ===== *)
theory Lifecycle
  imports Codec_Facts Deposit_Facts Redeem_Facts Fees_Facts
begin

text \<open>
  The life of a pool account across instructions. The laws the runtime and the linked crates
  guarantee are stated once (\<open>runtime_law\<close>); every handler is an instance of the interface
  \<open>pool_handler\<close>, which bounds what it may do to the program's accounts; the properties are the
  refinement of the abstract life cycle, the immutable part of a live pool, what a creation leaves
  to be read back, and the pool status in every reachable state.
\<close>

subsection \<open>What the runtime promises\<close>

text \<open>
  Between two states, \<open>keeps_owned\<close>: accounts of the program keep owner and data, and an account
  that becomes the program's is zero. This is what the runtime enforces on every instruction of another program
  (only the owner writes an account's data or gives the account away, and only zeroed).
\<close>

definition zeroed :: "bytes \<Rightarrow> bool" where
  "zeroed d \<longleftrightarrow> (\<forall>x \<in> set d. x = 0)"

definition keeps_owned :: "pubkey \<Rightarrow> world \<Rightarrow> world \<Rightarrow> bool" where
  "keeps_owned pid w w' \<longleftrightarrow> (\<forall>k. if acc_owner (w k) = pid
     then acc_owner (w' k) = pid \<and> acc_data (w' k) = acc_data (w k)
     else acc_owner (w' k) = pid \<longrightarrow> zeroed (acc_data (w' k)))"

text \<open>The token program creates no account for anyone.\<close>

definition no_new_owned :: "pubkey \<Rightarrow> world \<Rightarrow> world \<Rightarrow> bool" where
  "no_new_owned pid w w' \<longleftrightarrow> (\<forall>k. acc_owner (w' k) = pid \<longrightarrow> acc_owner (w k) = pid)"

text \<open>
  The documented behaviour of the crates: an invocation of another program keeps the program's
  accounts, the instruction builders address the program they are given (the system program for
  \<open>create_account\<close>), and the program is neither of the two.
\<close>

definition runtime_law :: "env \<Rightarrow> pubkey \<Rightarrow> bool" where
  "runtime_law e pid \<longleftrightarrow>
     (\<forall>ix infos seeds w w'. cpi e ix infos seeds w = Inr w' \<and> ix_program_id ix \<noteq> pid \<longrightarrow>
        keeps_owned pid w w' \<and> (ix_program_id ix = spl_token_id e \<longrightarrow> no_new_owned pid w w')) \<and>
     pid \<noteq> spl_token_id e \<and>
     (\<forall>from to lam space own. ix_program_id (ix_create_account e from to lam space own) \<noteq> pid) \<and>
     (\<forall>p mint auth freeze dec ix. ix_initialize_mint e p mint auth freeze dec = Inr ix \<longrightarrow> ix_program_id ix = p) \<and>
     (\<forall>p src dst auth sg amt ix. ix_transfer e p src dst auth sg amt = Inr ix \<longrightarrow> ix_program_id ix = p) \<and>
     (\<forall>p mint dst auth sg amt ix. ix_mint_to e p mint dst auth sg amt = Inr ix \<longrightarrow> ix_program_id ix = p) \<and>
     (\<forall>p acct mint auth sg amt ix. ix_burn e p acct mint auth sg amt = Inr ix \<longrightarrow> ix_program_id ix = p) \<and>
     (\<forall>p market spl oo owner cv cw pv pw ref vs ix.
        ix_settle_funds e p market spl oo owner cv cw pv pw ref vs = Inr ix \<longrightarrow> ix_program_id ix = p) \<and>
     (\<forall>p market bids asks oo owner queue sd oid ix.
        ix_cancel_order e p market bids asks oo owner queue sd oid = Inr ix \<longrightarrow> ix_program_id ix = p)"

lemma keeps_owned_refl [simp, intro]: "keeps_owned pid w w"
  by (simp add: keeps_owned_def)

lemma keeps_owned_trans [trans]: "keeps_owned pid w w1 \<Longrightarrow> keeps_owned pid w1 w2 \<Longrightarrow> keeps_owned pid w w2"
  unfolding keeps_owned_def by metis

lemma no_new_owned_refl [simp, intro]: "no_new_owned pid w w"
  by (simp add: no_new_owned_def)

lemma no_new_owned_trans [trans]: "no_new_owned pid w w1 \<Longrightarrow> no_new_owned pid w1 w2 \<Longrightarrow> no_new_owned pid w w2"
  by (simp add: no_new_owned_def)

lemma runtime_lawD:
  assumes "runtime_law e pid"
  shows "invoke_signed e ix infos seeds w = Inr w' \<Longrightarrow> ix_program_id ix \<noteq> pid \<Longrightarrow> keeps_owned pid w w'"
    "invoke_signed e ix infos seeds w = Inr w' \<Longrightarrow> ix_program_id ix = spl_token_id e \<Longrightarrow>
      keeps_owned pid w w' \<and> no_new_owned pid w w'"
    "pid \<noteq> spl_token_id e"
    "ix_program_id (ix_create_account e from to lam space own) \<noteq> pid"
    "ix_initialize_mint e p mint auth freeze dec = Inr ix \<Longrightarrow> ix_program_id ix = p"
  using assms unfolding runtime_law_def invoke_signed_def try_err_Inr by metis+

lemma token_steps:
  assumes "runtime_law e pid"
  shows "token_transfer e (spl_token_id e) src dst auth amt infos seeds w = Inr w' \<Longrightarrow>
      keeps_owned pid w w' \<and> no_new_owned pid w w'"
    "token_mint_to e (spl_token_id e) mint dst auth amt infos seeds w = Inr w' \<Longrightarrow>
      keeps_owned pid w w' \<and> no_new_owned pid w w'"
    "token_burn e (spl_token_id e) acct mint auth amt infos w = Inr w' \<Longrightarrow>
      keeps_owned pid w w' \<and> no_new_owned pid w w'"
proof -
  have p: "ix_transfer e p src dst auth [] amt = Inr ix \<Longrightarrow> ix_program_id ix = p"
    "ix_mint_to e p mint dst auth [] amt = Inr ix \<Longrightarrow> ix_program_id ix = p"
    "ix_burn e p acct mint auth [] amt = Inr ix \<Longrightarrow> ix_program_id ix = p" for p ix
    using assms unfolding runtime_law_def by metis+
  show "token_transfer e (spl_token_id e) src dst auth amt infos seeds w = Inr w' \<Longrightarrow>
      keeps_owned pid w w' \<and> no_new_owned pid w w'"
    "token_mint_to e (spl_token_id e) mint dst auth amt infos seeds w = Inr w' \<Longrightarrow>
      keeps_owned pid w w' \<and> no_new_owned pid w w'"
    "token_burn e (spl_token_id e) acct mint auth amt infos w = Inr w' \<Longrightarrow>
      keeps_owned pid w w' \<and> no_new_owned pid w w'"
    using p runtime_lawD(2)[OF assms]
    by (auto simp: token_transfer_def token_mint_to_def token_burn_def invoke_def res_simps)
qed

subsection \<open>The life of a pool account\<close>

text \<open>
  The abstract transitions of the data of one account of the program: kept; opened with a fresh
  unlocked header; fees collected (only the timestamp moves); settled (only the status, by
  \<open>settle_status\<close>, and the asset array change); closed (header marked uninitialised, zeros).
\<close>

inductive pool_step :: "bytes \<Rightarrow> bytes \<Rightarrow> bool" where
  keep: "pool_step d d"
| opened: "unpack_header_from_slice d = Inr h0 \<Longrightarrow> status h0 = Uninitialized \<Longrightarrow>
    status h = Unlocked \<Longrightarrow> 604800 \<le> fee_collection_period h \<Longrightarrow> length t = length d - HEADER_LEN \<Longrightarrow>
    pool_step d (header_bytes h @ t)"
| collected: "unpack_header_from_slice d = Inr h \<Longrightarrow> status h \<noteq> Uninitialized \<Longrightarrow>
    pool_step d (header_bytes (h\<lparr>last_fee_collection_timestamp := ts\<rparr>) @ drop HEADER_LEN d)"
| settled: "unpack_header_from_slice d = Inr h \<Longrightarrow> status h \<noteq> Uninitialized \<Longrightarrow>
    st = status h \<or> settle_status (status h) = Inr st \<Longrightarrow> length t = length d - HEADER_LEN \<Longrightarrow>
    take (32 * unat (number_of_markets h)) t = take (32 * unat (number_of_markets h)) (drop HEADER_LEN d) \<Longrightarrow>
    pool_step d (header_bytes (h\<lparr>status := st\<rparr>) @ t)"
| closed: "unpack_header_from_slice d = Inr h \<Longrightarrow> status h \<noteq> Uninitialized \<Longrightarrow>
    pool_step d (header_bytes (h\<lparr>status := Uninitialized\<rparr>) @ replicate (length d - HEADER_LEN) 0)"

inductive_cases pool_stepE: "pool_step d d'"

text \<open>One instruction moves every account of the program by at most one such transition.\<close>

definition evolves :: "pubkey \<Rightarrow> world \<Rightarrow> world \<Rightarrow> bool" where
  "evolves pid w w' \<longleftrightarrow> (\<forall>k. if acc_owner (w k) = pid
     then acc_owner (w' k) = pid \<and> pool_step (acc_data (w k)) (acc_data (w' k))
     else acc_owner (w' k) = pid \<longrightarrow> zeroed (acc_data (w' k)))"

lemma keeps_owned_evolves: "keeps_owned pid w w' \<Longrightarrow> evolves pid w w'"
  by (auto simp: keeps_owned_def evolves_def intro: pool_step.keep)

text \<open>Other programs run, one pool account is written, other programs run again.\<close>

lemma evolves_write:
  assumes "keeps_owned pid w w1" "keeps_owned pid (set_data w1 p d') w'"
    and "acc_owner (w1 (ai_key p)) = pid \<Longrightarrow> acc_owner (w (ai_key p)) = pid \<or> zeroed d'"
    and "acc_owner (w (ai_key p)) = pid \<Longrightarrow> pool_step (data_of w p) d'"
  shows "evolves pid w w'"
  unfolding evolves_def
proof
  fix k
  show "if acc_owner (w k) = pid then acc_owner (w' k) = pid \<and> pool_step (acc_data (w k)) (acc_data (w' k))
     else acc_owner (w' k) = pid \<longrightarrow> zeroed (acc_data (w' k))"
  proof (cases "k = ai_key p")
    case True
    have o: "acc_owner (set_data w1 p d' k) = acc_owner (w1 k)" "acc_data (set_data w1 p d' k) = d'"
      using True by simp_all
    show ?thesis using assms o spec[OF assms(1)[unfolded keeps_owned_def], of k]
        spec[OF assms(2)[unfolded keeps_owned_def], of k] True
      by (auto simp: data_of_def split: if_splits)
  next
    case False
    then have "set_data w1 p d' k = w1 k" by simp
    then show ?thesis using spec[OF assms(1)[unfolded keeps_owned_def], of k]
        spec[OF assms(2)[unfolded keeps_owned_def], of k]
      by (auto intro: pool_step.keep split: if_splits)
  qed
qed

subsection \<open>Every handler refines the life of the pool accounts\<close>

text \<open>
  What the dispatcher relies on from a handler: run by itself, on accounts that do not include the
  program, it moves the program's accounts along the abstract transitions.
\<close>

locale pool_handler =
  fixes run :: "env \<Rightarrow> pubkey \<Rightarrow> account_info list \<Rightarrow> world \<Rightarrow> world res"
  assumes run_evolves: "runtime_law e pid \<Longrightarrow> pid \<notin> ai_key ` set accounts \<Longrightarrow>
    run e pid accounts w = Inr w' \<Longrightarrow> evolves pid w w'"

lemma create_deposits_keeps:
  "runtime_law e pid \<Longrightarrow> ai_key (cr_spl_token a) = spl_token_id e \<Longrightarrow>
    create_deposits e a pk amounts pas sas w acc = Inr (w1, assets) \<Longrightarrow> keeps_owned pid w w1"
proof (induction e a pk amounts pas sas w acc arbitrary: w1 assets rule: create_deposits.induct)
  case (1 e a pk amount amounts pa pas sa sas w acc)
  show ?case
  proof (cases "amount = 0")
    case True
    with 1 show ?thesis by simp
  next
    case False
    from "1.prems"(3) False obtain t :: token_account where
      t: "unpack_token_account e w pa = Inr t" and
      g: "\<not> (ta_close_authority t \<noteq> None \<or> ta_delegate t \<noteq> None)"
      "\<not> get_associated_token_address e pk (ta_mint t) \<noteq> ai_key pa" by (auto simp: res_simps)
    with "1.prems"(3) False obtain w2 where
      x: "token_transfer e (ai_key (cr_spl_token a)) (ai_key sa) (ai_key pa) (ai_key (cr_source_owner a)) amount
        [sa, pa, cr_spl_token a, cr_source_owner a] [] w = Inr w2" and
      r: "create_deposits e a pk amounts pas sas w2 (acc @ [\<lparr>mint_address = ta_mint t\<rparr>]) = Inr (w1, assets)"
      by (auto simp: res_simps)
    from x token_steps(1)[OF "1.prems"(1)] "1.prems"(2) have "keeps_owned pid w w2" by simp
    also have "keeps_owned pid w2 w1" by (rule "1.IH"(2)[OF False t g x "1.prems"(1,2) r])
    finally show ?thesis .
  qed
qed auto

lemma deposit_transfers_keeps:
  "runtime_law e pid \<Longrightarrow> ai_key (dp_spl_token a) = spl_token_id e \<Longrightarrow>
    deposit_transfers e a pk q tot xs amts pas sas z w = Inr (w1, z') \<Longrightarrow> keeps_owned pid w w1"
proof (induction e a pk q tot xs amts pas sas z w arbitrary: w1 z' rule: deposit_transfers.induct)
  case (1 e a pk q tot x xs amt amts pa pas sa sas z w)
  from "1.prems"(3) obtain n where k: "get_associated_token_address e pk (mint_address x) = ai_key pa"
    and n: "buy_in_amount (overflow_checks e) q amt tot = Inr n"
    by (auto simp: res_simps)
  show ?case
  proof (cases "n = 0")
    case True
    with 1 k n show ?thesis by simp
  next
    case False
    with "1.prems"(3) k n obtain w2 where
      t: "token_transfer e (ai_key (dp_spl_token a)) (ai_key sa) (ai_key pa) (ai_key (dp_source_owner a))
        (ucast n) [sa, pa, dp_spl_token a, dp_source_owner a] [] w = Inr w2"
      and r: "deposit_transfers e a pk q tot xs amts pas sas False w2 = Inr (w1, z')"
      by (auto simp: res_simps)
    from t token_steps(1)[OF "1.prems"(1)] "1.prems"(2) have "keeps_owned pid w w2" by simp
    also have "keeps_owned pid w2 w1" using "1.IH"(2)[OF _ n False t "1.prems"(1,2) r] k by simp
    finally show ?thesis .
  qed
qed auto

lemma redeem_payouts_keeps:
  "runtime_law e pid \<Longrightarrow> ai_key (rd_spl_token a) = spl_token_id e \<Longrightarrow>
    redeem_payouts e a s amt tot xs pas tas w = Inr w1 \<Longrightarrow> keeps_owned pid w w1"
proof (induction e a s amt tot xs pas tas w arbitrary: w1 rule: redeem_payouts.induct)
  case (1 e a s amt tot x xs pa pas ta tas w)
  from "1.prems"(3) obtain t :: token_account and n where
    k: "get_associated_token_address e (ai_key (rd_pool a)) (mint_address x) = ai_key pa"
    and t: "unpack_token_account e w pa = Inr t"
    and n: "buy_out_amount (overflow_checks e) amt (ta_amount t) tot = Inr n"
    by (auto simp: res_simps)
  show ?case
  proof (cases "n = 0")
    case True
    with 1 k t n show ?thesis by simp
  next
    case False
    with "1.prems"(3) k t n obtain w2 where
      x: "token_transfer e (ai_key (rd_spl_token a)) (ai_key pa) (ai_key ta) (ai_key (rd_pool a))
        n [rd_spl_token a, pa, ta, rd_pool a] [pool_seeds s] w = Inr w2"
      and r: "redeem_payouts e a s amt tot xs pas tas w2 = Inr w1"
      by (auto simp: res_simps)
    from x token_steps(1)[OF "1.prems"(1)] "1.prems"(2) have "keeps_owned pid w w2" by simp
    also have "keeps_owned pid w2 w1" using "1.IH"(2)[OF _ t n False x "1.prems"(1,2) r] k by simp
    finally show ?thesis .
  qed
qed auto

lemma process_init_keeps:
  assumes "runtime_law e pid" and "process_init e pid accounts s n m w = Inr w'"
  shows "keeps_owned pid w w'"
proof -
  note law = runtime_lawD[OF assms(1)]
  from assms(2) obtain spl payer pool_key mint_key lam1 sp1 lam2 sp2 ix infos1 seeds1 infos2 seeds2 infos3 w1 w2 where
    "spl = spl_token_id e" "ix_initialize_mint e spl mint_key pool_key None 6 = Inr ix"
    "invoke_signed e (ix_create_account e payer pool_key lam1 sp1 pid) infos1 seeds1 w = Inr w1"
    "invoke_signed e (ix_create_account e payer mint_key lam2 sp2 spl) infos2 seeds2 w1 = Inr w2"
    "invoke e ix infos3 w2 = Inr w'"
    by (auto simp: process_init_def res_simps Let_def)
  with law(5)[of spl mint_key pool_key None 6 ix] law(3) have
    "keeps_owned pid w w1" "keeps_owned pid w1 w2" "keeps_owned pid w2 w'"
    unfolding invoke_def using law(1,4) by metis+
  then show ?thesis by (blast intro: keeps_owned_trans)
qed

interpretation init: pool_handler "\<lambda>e pid accounts. process_init e pid accounts s n m" for s n m
  by unfold_locales (blast intro: keeps_owned_evolves process_init_keeps)

text \<open>Writing the pool account when the program owns it, after steps that keep the program's accounts.\<close>

lemma evolves_last_write:
  assumes "keeps_owned pid w w1" "owner_of w p = pid" "pool_step (data_of w p) d'"
  shows "evolves pid w (set_data w1 p d')"
  using evolves_write[OF assms(1) keeps_owned_refl] assms(2,3) by (simp add: owner_of_def)

lemma kept_data: "keeps_owned pid w w1 \<Longrightarrow> owner_of w p = pid \<Longrightarrow> data_of w1 p = data_of w p"
  by (auto simp: keeps_owned_def owner_of_def data_of_def split: if_splits)

lemma read_header_prefix:
  "unpack_header_from_slice (take HEADER_LEN d) = Inr h \<Longrightarrow> HEADER_LEN \<le> length d \<Longrightarrow> unpack_header_from_slice d = Inr h"
  by (auto simp: unpack_header_from_slice_def slice_idx_ok take_drop min_def split: if_splits)

lemma process_create_evolves:
  assumes "runtime_law e pid" and "process_create e pid accounts s amounts markets period ratio w = Inr w'"
  shows "evolves pid w w'"
proof -
  obtain a now w1 w2 assets where r:
    "create_parse e accounts (length amounts) = Inr a"
    "create_checks e pid a s markets period w = Inr (ai_key (cr_pool a), ai_key (cr_mint a))"
    "create_deposits e a (ai_key (cr_pool a)) amounts (cr_pool_assets a) (cr_source_assets a) w [] = Inr (w1, assets)"
    "token_mint_to e (ai_key (cr_spl_token a)) (ai_key (cr_mint a)) (ai_key (cr_target_pool_token a))
       (ai_key (cr_pool a)) 1000000 [cr_spl_token a, cr_mint a, cr_target_pool_token a, cr_pool a]
       [pool_seeds s] w1 = Inr w2"
    "create_write a (create_header a s markets now period ratio) markets assets w2 = Inr w'"
    by (rule process_create_Inr[OF assms(2)])
  have spl: "ai_key (cr_spl_token a) = spl_token_id e" using create_parse_Inr[OF r(1)] by simp
  have "keeps_owned pid w w1" by (rule create_deposits_keeps[OF assms(1) spl r(3)])
  also have "keeps_owned pid w1 w2" using token_steps(2)[OF assms(1)] r(4) unfolding spl by blast
  finally have k: "keeps_owned pid w w2" .
  from r(2) obtain h0 where c: "owner_of w (cr_pool a) = pid" "HEADER_LEN \<le> length (data_of w (cr_pool a))"
    "unpack_header_from_slice (take HEADER_LEN (data_of w (cr_pool a))) = Inr h0" "status h0 = Uninitialized"
    "604800 \<le> period" by (auto simp: create_checks_Inr)
  note w' = create_write_Inr[OF r(5), unfolded kept_data[OF k c(1)]]
  have "pool_step (data_of w (cr_pool a)) (header_bytes (create_header a s markets now period ratio)
      @ (concat (map (le_bytes 32) markets) @ concat (map (\<lambda>x. le_bytes 32 (mint_address x)) assets)
      @ drop (HEADER_LEN + 32 * length markets + 32 * length assets) (data_of w (cr_pool a))))"
  proof (rule pool_step.opened[OF read_header_prefix[OF c(3,2)] c(4)])
    have "length (concat (map (\<lambda>x. le_bytes 32 (mint_address x)) assets)) = 32 * length assets"
      by (induction assets) simp_all
    then show "length (concat (map (le_bytes 32) markets) @ concat (map (\<lambda>x. le_bytes 32 (mint_address x)) assets)
      @ drop (HEADER_LEN + 32 * length markets + 32 * length assets) (data_of w (cr_pool a)))
      = length (data_of w (cr_pool a)) - HEADER_LEN"
      using w' by (simp add: c256.length_concat_enc)
  qed (simp_all add: create_header_def c(5))
  with w' show ?thesis by (auto intro: evolves_last_write[OF k c(1)])
qed

text \<open>Outside what it writes, a creation keeps the data of the pool account.\<close>

lemma process_create_tail:
  assumes "runtime_law e pid" and "process_create e pid accounts s amounts markets period ratio w = Inr w'"
    and "create_parse e accounts (length amounts) = Inr a"
  shows "length (data_of w' (cr_pool a)) = length (data_of w (cr_pool a)) \<and>
    drop (HEADER_LEN + 32 * length markets + 32 * length (filter (\<lambda>x. x \<noteq> 0) amounts)) (data_of w' (cr_pool a)) =
    drop (HEADER_LEN + 32 * length markets + 32 * length (filter (\<lambda>x. x \<noteq> 0) amounts)) (data_of w (cr_pool a))"
proof -
  obtain now w1 w2 assets where r:
    "create_checks e pid a s markets period w = Inr (ai_key (cr_pool a), ai_key (cr_mint a))"
    "create_deposits e a (ai_key (cr_pool a)) amounts (cr_pool_assets a) (cr_source_assets a) w [] = Inr (w1, assets)"
    "token_mint_to e (ai_key (cr_spl_token a)) (ai_key (cr_mint a)) (ai_key (cr_target_pool_token a))
       (ai_key (cr_pool a)) 1000000 [cr_spl_token a, cr_mint a, cr_target_pool_token a, cr_pool a]
       [pool_seeds s] w1 = Inr w2"
    "create_write a (create_header a s markets now period ratio) markets assets w2 = Inr w'"
    by (rule process_create_Inr[OF assms(2)]) (use assms(3) in auto)
  note p = create_parse_Inr[OF assms(3)]
  have "keeps_owned pid w w1" by (rule create_deposits_keeps[OF assms(1) conjunct1[OF p] r(2)])
  also have "keeps_owned pid w1 w2" using token_steps(2)[OF assms(1)] r(3) unfolding conjunct1[OF p] by blast
  finally have "data_of w2 (cr_pool a) = data_of w (cr_pool a)"
    by (rule kept_data) (use r(1) in \<open>simp add: create_checks_Inr\<close>)
  note w' = create_write_Inr[OF r(4), unfolded this]
  have la: "length (concat (map (\<lambda>x. le_bytes 32 (mint_address x)) assets)) = 32 * length assets"
    by (induction assets) simp_all
  have "length assets = length (filter (\<lambda>x. x \<noteq> 0) amounts)"
    using create_deposits_Inr[OF _ _ r(2)] p by auto
  then show ?thesis using w' by (auto simp: c256.length_concat_enc la)
qed

interpretation create: pool_handler
  "\<lambda>e pid accounts. process_create e pid accounts s amounts markets period ratio" for s amounts markets period ratio
  by unfold_locales (rule process_create_evolves)

lemma process_deposit_keeps:
  assumes "runtime_law e pid" and "process_deposit e pid accounts s amt w = Inr w'"
  shows "keeps_owned pid w w'"
proof -
  obtain a h assets tot ps quota w1 where r: "deposit_parse e accounts w = Inr (a, h, assets)"
    "deposit_transfers e a (ai_key (dp_pool a)) (min amt quota) tot assets ps
       (dp_pool_assets a) (dp_source_assets a) True w = Inr (w1, False)"
    "deposit_mints e a (ai_key (dp_pool a)) (ai_key (dp_mint a)) s (fee_ratio h) (min amt quota) w1 = Inr w'"
    by (rule process_deposit_Inr[OF assms(2)])
  have spl: "ai_key (dp_spl_token a) = spl_token_id e" using deposit_parse_Inr[OF r(1)] by simp
  have m: "keeps_owned pid u v" if "deposit_mint e a pk mk s t n u = Inr v" for pk mk t n u v
    using that token_steps(2)[OF assms(1)] unfolding deposit_mint_def spl by blast
  obtain fee where "deposit_mints e a (ai_key (dp_pool a)) (ai_key (dp_mint a)) s (fee_ratio h) (min amt quota) w1 =
      bind_res (deposit_mint e a (ai_key (dp_pool a)) (ai_key (dp_mint a)) s (dp_target_pool_token a) (min amt quota - fee) w1) (\<lambda>w.
      bind_res (deposit_mint e a (ai_key (dp_pool a)) (ai_key (dp_mint a)) s (dp_signal_provider_pt a) (fee div 2) w) (\<lambda>w.
      bind_res (deposit_mint e a (ai_key (dp_pool a)) (ai_key (dp_mint a)) s (dp_bonfida_fee_pt a) (fee div 4) w) (\<lambda>w.
      deposit_mint e a (ai_key (dp_pool a)) (ai_key (dp_mint a)) s (dp_bonfida_bnb_pt a) (fee - fee div 4 - fee div 2) w)))"
    by (rule deposit_mints_eq)
  with r(3) have "keeps_owned pid w1 w'" by (auto simp: res_simps dest!: m intro: keeps_owned_trans)
  with deposit_transfers_keeps[OF assms(1) spl r(2)] show ?thesis by (rule keeps_owned_trans)
qed

interpretation deposit: pool_handler "\<lambda>e pid accounts. process_deposit e pid accounts s amt" for s amt
  by unfold_locales (blast intro: keeps_owned_evolves process_deposit_keeps)

lemma process_redeem_evolves:
  assumes "runtime_law e pid" and "process_redeem e pid accounts s amt w = Inr w'"
  shows "evolves pid w w'"
proof -
  obtain a h assets tot w1 w2 where r: "redeem_parse e accounts w = Inr (a, h, assets)"
    "redeem_checks e pid a h s w = Inr ()"
    "redeem_payouts e a s amt tot assets (rd_pool_assets a) (rd_target_assets a) w = Inr w1"
    "token_burn e (ai_key (rd_spl_token a)) (ai_key (rd_source_pool_token a)) (ai_key (rd_mint a))
       (ai_key (rd_source_pool_token_owner a)) amt
       [rd_spl_token a, rd_source_pool_token a, rd_mint a, rd_source_pool_token_owner a] w1 = Inr w2"
    "(if amt = tot then redeem_reset a h w2 else Inr w2) = Inr w'"
    by (rule process_redeem_Inr[OF assms(2)])
  have p: "ai_key (rd_spl_token a) = spl_token_id e" "unpack_header_from_slice (data_of w (rd_pool a)) = Inr h"
    "status h \<noteq> Uninitialized" "owner_of w (rd_pool a) = pid"
    using redeem_parse_Inr[OF r(1)] r(2) by (simp_all add: read_pool_header_Inr redeem_checks_Inr)
  have "keeps_owned pid w w1" by (rule redeem_payouts_keeps[OF assms(1) p(1) r(3)])
  also have "keeps_owned pid w1 w2" using token_steps(3)[OF assms(1)] r(4) unfolding p(1) by blast
  finally have k: "keeps_owned pid w w2" .
  show ?thesis
  proof (cases "amt = tot")
    case True
    with r(5) kept_data[OF k p(4)] have "w' = set_data w2 (rd_pool a) (header_bytes (h\<lparr>status := Uninitialized\<rparr>)
      @ replicate (length (data_of w (rd_pool a)) - HEADER_LEN) 0)" by (simp add: redeem_reset_Inr)
    then show ?thesis using evolves_last_write[OF k p(4) pool_step.closed[OF p(2,3)]] by simp
  next
    case False
    with r(5) k show ?thesis by (simp add: keeps_owned_evolves)
  qed
qed

interpretation redeem: pool_handler "\<lambda>e pid accounts. process_redeem e pid accounts s amt" for s amt
  by unfold_locales (rule process_redeem_evolves)

lemma collect_mints_keep:
  assumes "runtime_law e pid" "ai_key (cf_spl_token a) = spl_token_id e"
    and "fees_mints e a mk s fk bk tokens w = Inr w1"
  shows "keeps_owned pid w w1 \<and> no_new_owned pid w w1"
proof -
  have m: "keeps_owned pid u v \<and> no_new_owned pid u v" if "fees_mint e a mk s tk t n u = Inr v" for tk t n u v
    using that token_steps(2)[OF assms(1)] unfolding fees_mint_def assms(2) by blast
  from assms(3) obtain wa wb where "keeps_owned pid w wa \<and> no_new_owned pid w wa"
    "keeps_owned pid wa wb \<and> no_new_owned pid wa wb" "keeps_owned pid wb w1 \<and> no_new_owned pid wb w1"
    unfolding fees_mints_Inr by (auto dest!: m)
  then show ?thesis by (meson keeps_owned_trans no_new_owned_trans)
qed

lemma process_collect_fees_evolves:
  assumes "runtime_law e pid" and "process_collect_fees e pid accounts s w = Inr w'"
  shows "evolves pid w w'"
proof -
  obtain a h mk fk bk cycles h' tokens w1 where r:
    "fees_parse e accounts = Inr a" "read_pool_header w (cf_pool a) = Inr h"
    "advance_timestamp (overflow_checks e) cycles h = Inr h'"
    "fees_mints e a mk s fk bk tokens w = Inr w1"
    "w' = set_data w1 (cf_pool a) (header_bytes h' @ drop HEADER_LEN (data_of w1 (cf_pool a)))"
    by (rule process_collect_fees_Inr[OF assms(2)])
  have "ai_key (cf_spl_token a) = spl_token_id e" using r(1) by (auto simp: fees_parse_def res_simps)
  note k = collect_mints_keep[OF assms(1) this r(4)]
  have h': "h' = h\<lparr>last_fee_collection_timestamp := last_fee_collection_timestamp h'\<rparr>"
    using r(3) by (auto simp: advance_timestamp_def res_simps)
  show ?thesis unfolding r(5)
  proof (rule evolves_write[OF _ keeps_owned_refl])
    show "keeps_owned pid w w1" using k by blast
    show "acc_owner (w (ai_key (cf_pool a))) = pid \<or> zeroed (header_bytes h' @ drop HEADER_LEN (data_of w1 (cf_pool a)))"
      if "acc_owner (w1 (ai_key (cf_pool a))) = pid" using that k by (simp add: no_new_owned_def)
    show "pool_step (data_of w (cf_pool a)) (header_bytes h' @ drop HEADER_LEN (data_of w1 (cf_pool a)))"
      if "acc_owner (w (ai_key (cf_pool a))) = pid"
    proof -
      have "data_of w1 (cf_pool a) = data_of w (cf_pool a)"
        using that k kept_data[of pid w w1 "cf_pool a"] by (simp add: owner_of_def)
      then show ?thesis using pool_step.collected[of "data_of w (cf_pool a)" h] r(2) h'
        by (metis read_pool_header_Inr)
    qed
  qed
qed

interpretation collect_fees: pool_handler "\<lambda>e pid accounts. process_collect_fees e pid accounts s" for s
  by unfold_locales (rule process_collect_fees_evolves)

lemma settle_invoke_keeps:
  assumes "runtime_law e pid" "ai_key (st_dex_program a) \<noteq> pid" "settle_invoke e a s w = Inr w'"
  shows "keeps_owned pid w w'"
proof -
  have p: "ix_settle_funds e p market spl oo owner cv cw pv pw ref vs = Inr ix \<Longrightarrow> ix_program_id ix = p"
    for p market spl oo owner cv cw pv pw ref vs ix
    using assms(1) unfolding runtime_law_def by blast
  from assms(3) obtain ix infos seeds where "ix_program_id ix = ai_key (st_dex_program a)"
    "invoke_signed e ix infos seeds w = Inr w'"
    by (auto simp: settle_invoke_def res_simps dest: p)
  with runtime_lawD(1)[OF assms(1)] assms(2) show ?thesis by metis
qed

lemma process_settle_evolves:
  assumes "runtime_law e pid" "pid \<notin> ai_key ` set accounts"
    and "process_settle e pid accounts s pci ci w = Inr w'"
  shows "evolves pid w w'"
proof -
  from assms(3) obtain a w3 where a: "settle_parse e accounts = Inr a"
    and p: "settle_prepare e pid a s pci ci w = Inr w3" and i: "settle_invoke e a s w3 = Inr w'"
    by (auto simp: process_settle_split res_simps)
  have "st_dex_program a \<in> set accounts" using settle_parse_accounts[OF a] nth_mem[of 10 accounts] by simp
  then have k: "keeps_owned pid w3 w'" using settle_invoke_keeps[OF assms(1) _ i] assms(2) by auto
  obtain h oo h' d1 d2 x y where r:
    "read_pool_header w (st_pool a) = Inr h" "settle_header oo h = Inr h'"
    "asset_offset_of h \<le> length (data_of w (st_pool a))"
    "write_asset (overflow_checks e) x ci (drop (asset_offset_of h) (data_of w (st_pool a))) = Inr d1"
    "write_asset (overflow_checks e) y pci d1 = Inr d2"
    "w3 = set_data w (st_pool a)
       (header_bytes h' @ take (asset_offset_of h - HEADER_LEN) (drop HEADER_LEN (data_of w (st_pool a))) @ d2)"
    by (rule settle_prepare_Inr[OF p])
  let ?D = "data_of w (st_pool a)" and ?n = "32 * unat (number_of_markets h)"
  have off: "asset_offset_of h - HEADER_LEN = ?n" "asset_offset_of h = HEADER_LEN + ?n" by (simp_all add: asset_offset_of_def)
  have len: "length d2 = length ?D - asset_offset_of h"
    using two_slot_writes[OF r(4,5)] by simp
  note h' = settle_header_cases[OF r(2)]
  have st: "status h' = status h \<or> settle_status (status h) = Inr (status h')" using h'(2,3) by auto
  have "pool_step ?D (header_bytes (h\<lparr>status := status h'\<rparr>) @ (take ?n (drop HEADER_LEN ?D) @ d2))"
  proof (rule pool_step.settled[OF _ _ st])
    show "length (take ?n (drop HEADER_LEN ?D) @ d2) = length ?D - HEADER_LEN" using len r(3) off(2) by simp
    show "take ?n (take ?n (drop HEADER_LEN ?D) @ d2) = take ?n (drop HEADER_LEN ?D)" using r(3) off(2) by simp
  qed (use r(1) in \<open>simp_all add: read_pool_header_Inr\<close>)
  then show ?thesis
    using evolves_write[OF keeps_owned_refl k[unfolded r(6)]] by (simp add: off(1) h'(1)[symmetric])
qed

interpretation settle: pool_handler "\<lambda>e pid accounts. process_settle e pid accounts s pci ci" for s pci ci
  by unfold_locales (rule process_settle_evolves)

lemma process_cancel_keeps:
  assumes "runtime_law e pid" "pid \<notin> ai_key ` set accounts" "process_cancel e pid accounts s sd oid w = Inr w'"
  shows "keeps_owned pid w w'"
proof -
  have p: "ix_cancel_order e p market bids asks oo owner queue sd oid = Inr ix \<Longrightarrow> ix_program_id ix = p"
    for p market bids asks oo owner queue ix
    using assms(1) unfolding runtime_law_def by metis
  from assms(3) obtain ix infos seeds dex where "ix_program_id ix = ai_key dex" "dex \<in> set accounts"
    "invoke_signed e ix infos seeds w = Inr w'"
    by (auto simp: process_cancel_def res_simps dest!: p)
  with runtime_lawD(1)[OF assms(1)] assms(2) show ?thesis by (metis imageI)
qed

interpretation cancel: pool_handler "\<lambda>e pid accounts. process_cancel e pid accounts s sd oid" for s sd oid
  by unfold_locales (blast intro: keeps_owned_evolves process_cancel_keeps)

lemma dispatch_evolves:
  "runtime_law e pid \<Longrightarrow> pid \<notin> ai_key ` set accounts \<Longrightarrow> dispatch e pid accounts i w = Inr w' \<Longrightarrow>
    evolves pid w w'"
  by (cases i) (auto simp: process_create_order_def intro: init.run_evolves create.run_evolves deposit.run_evolves
      redeem.run_evolves collect_fees.run_evolves settle.run_evolves cancel.run_evolves)

interpretation any: pool_handler "\<lambda>e pid accounts. entrypoint e pid accounts data" for data
  by unfold_locales
     (auto simp: entrypoint_def process_instruction_def res_simps intro: dispatch_evolves split: sum.splits)

subsection \<open>The laws hold of the demo environment\<close>

lemma keeps_owned_upd:
  "acc_owner (w k) \<noteq> pid \<Longrightarrow> acc_owner x = acc_owner (w k) \<Longrightarrow> keeps_owned pid w (w(k := x)) \<and> no_new_owned pid w (w(k := x))"
  by (auto simp: keeps_owned_def no_new_owned_def)

lemma demo_add_keeps:
  "acc_owner (w k) = 6 \<Longrightarrow> keeps_owned 7 w (demo_add k pos amt w) \<and> no_new_owned 7 w (demo_add k pos amt w) \<and>
    (\<forall>k'. acc_owner (demo_add k pos amt w k') = acc_owner (w k'))"
  using keeps_owned_upd[of w k 7] by (auto simp: demo_add_def Let_def)

lemma demo_two_adds_keep:
  assumes "acc_owner (w k) = 6" "acc_owner (w k') = 6"
  shows "keeps_owned 7 w (demo_add k' p' b (demo_add k p a w)) \<and> no_new_owned 7 w (demo_add k' p' b (demo_add k p a w))"
proof -
  note one = demo_add_keeps[of w k p a, OF assms(1)]
  then have "acc_owner (demo_add k p a w k') = 6" using assms(2) by simp
  note two = demo_add_keeps[of "demo_add k p a w" k' p' b, OF this]
  show ?thesis using one two by (meson keeps_owned_trans no_new_owned_trans)
qed

lemma demo_token_program_keeps:
  "demo_transfer k1 k2 amt w = Inr w' \<Longrightarrow> keeps_owned 7 w w' \<and> no_new_owned 7 w w'"
  "demo_mint_to k1 k2 amt w = Inr w' \<Longrightarrow> keeps_owned 7 w w' \<and> no_new_owned 7 w w'"
  "demo_burn k1 k2 amt w = Inr w' \<Longrightarrow> keeps_owned 7 w w' \<and> no_new_owned 7 w w'"
  unfolding demo_transfer_def demo_mint_to_def demo_burn_def
  by (auto split: if_splits sum.splits intro: demo_two_adds_keep[THEN conjunct1] demo_two_adds_keep[THEN conjunct2])

lemma demo_create_keeps: "demo_create k n own w = Inr w' \<Longrightarrow> keeps_owned 7 w w'"
  by (auto simp: demo_create_def keeps_owned_def zeroed_def split: if_splits)

lemma demo_cpi_keeps:
  "demo_cpi ix w = Inr w' \<Longrightarrow> keeps_owned 7 w w' \<and> (ix_program_id ix = 6 \<longrightarrow> no_new_owned 7 w w')"
  by (auto simp: demo_cpi_def split: list.splits if_splits dest: demo_token_program_keeps demo_create_keeps)

lemma demo_ix_program [simp]: "ix_program_id (demo_ix p ks d) = p"
  by (simp add: demo_ix_def)

lemma runtime_law_demo: "runtime_law (demo_env oc) 7"
  unfolding runtime_law_def demo_env_simps
  by (intro conjI allI impI; (elim conjE)?) (auto dest: demo_cpi_keeps)

subsection \<open>Properties\<close>

text \<open>
  C4. Every run of the program refines the life cycle of its accounts: whatever the instruction,
  a successful call moves each account the program owns by one abstract transition at most (kept,
  opened with an unlocked header and a period of a week or more, fees collected, settled, closed),
  leaves it owned, and creates only zeroed ones.
\<close>

theorem program_refines_pool_life:
  assumes "runtime_law e pid" and "pid \<notin> ai_key ` set accounts"
    and "entrypoint e pid accounts data w = Inr w'"
  shows "evolves pid w w'"
  using assms by (rule any.run_evolves)

theorem program_refines_pool_life_witness:
  "\<exists>w'. entrypoint (demo_env False) 7 demo_create_accounts
      (pack_instruction (Create 100 604800 6554 [1000, 500] [55])) demo_fresh_world = Inr w' \<and>
    acc_owner (w' 101) = 7 \<and> pool_step (acc_data (demo_fresh_world 101)) (acc_data (w' 101))"
proof -
  let ?i = "Create 100 604800 6554 [1000, 500] [55]"
  have u: "unpack_instruction (pack_instruction ?i) = Inr ?i"
    using unpack_pack_instruction[of ?i "[]"] by simp
  obtain w' where "process_create (demo_env False) 7 demo_create_accounts 100 [1000, 500] [55] 604800 6554 demo_fresh_world = Inr w'"
    using demo_create by blast
  then have w': "entrypoint (demo_env False) 7 demo_create_accounts (pack_instruction ?i) demo_fresh_world = Inr w'"
    unfolding entrypoint_def process_instruction_def u by simp
  have "7 \<notin> ai_key ` set demo_create_accounts" by (simp add: demo_create_accounts_def)
  from program_refines_pool_life[OF runtime_law_demo this w'] have "evolves 7 demo_fresh_world w'" .
  moreover have "acc_owner (demo_fresh_world 101) = 7" by (simp add: demo_fresh_world_def)
  ultimately show ?thesis using w' unfolding evolves_def by metis
qed

lemma unpack_header_len: "unpack_header_from_slice d = Inr h \<Longrightarrow> HEADER_LEN \<le> length d"
  using unpack_header_short by (metis Inl_Inr_False not_le)

text \<open>What a transition from a live header leads to.\<close>

lemma pool_step_live:
  assumes "pool_step d d'" "unpack_header_from_slice d = Inr h" "status h \<noteq> Uninitialized"
  shows "length d' = length d \<and> (\<exists>h'. unpack_header_from_slice d' = Inr h' \<and>
    h' = h\<lparr>status := status h', last_fee_collection_timestamp := last_fee_collection_timestamp h'\<rparr> \<and>
    (if status h' = Uninitialized then (\<forall>x \<in> set (drop HEADER_LEN d'). x = 0)
     else take (32 * unat (number_of_markets h)) (drop HEADER_LEN d') = take (32 * unat (number_of_markets h)) (drop HEADER_LEN d) \<and>
       (status h' = status h \<or> settle_status (status h) = Inr (status h'))))"
proof -
  note len = unpack_header_len[OF assms(2)]
  have wf: "wf_status (status h)" using unpack_header_total[OF len] assms(2) by (auto simp: wf_header_def)
  have st: "wf_status st \<and> st \<noteq> Uninitialized" if "st = status h \<or> settle_status (status h) = Inr st" for st
    using that
  proof
    assume s: "settle_status (status h) = Inr st"
    then show ?thesis using wf word_pred_range by (auto elim!: settle_statusE split: if_splits)
  qed (use wf assms(3) in simp)
  show ?thesis using assms(1)
  proof cases
    case keep
    then show ?thesis using assms by (auto intro!: exI[of _ h])
  next
    case (opened h0 h1 t)
    then show ?thesis using assms(2,3) by simp
  next
    case (collected h1 ts)
    then have "h1 = h" using assms(2) by simp
    then show ?thesis using collected len wf assms(3)
      by (intro conjI exI[of _ "h\<lparr>last_fee_collection_timestamp := ts\<rparr>"]) (simp_all add: unpack_pack_header wf_header_def)
  next
    case (settled h1 s t)
    then have h1: "h1 = h" using assms(2) by simp
    then show ?thesis using settled len st[of s]
      by (intro conjI exI[of _ "h\<lparr>status := s\<rparr>"]) (simp_all add: unpack_pack_header wf_header_def)
  next
    case (closed h1)
    then have "h1 = h" using assms(2) by simp
    then show ?thesis using closed len
      by (intro conjI exI[of _ "h\<lparr>status := Uninitialized\<rparr>"]) (simp_all add: unpack_pack_header wf_header_def)
  qed
qed

text \<open>
  C5. What nobody can change: after any successful call, a pool that was live keeps its account
  size, Serum program, seed, signal provider, market count, fee ratio and period, and, unless it
  was closed and zeroed, its list of markets; its status either stays or is counted down by a settlement.
\<close>

theorem live_pool_immutable:
  assumes "runtime_law e pid" and "pid \<notin> ai_key ` set accounts"
    and "entrypoint e pid accounts data w = Inr w'" and "acc_owner (w k) = pid"
    and "unpack_header_from_slice (acc_data (w k)) = Inr h" and "status h \<noteq> Uninitialized"
  shows "length (acc_data (w' k)) = length (acc_data (w k)) \<and>
    (\<exists>h'. unpack_header_from_slice (acc_data (w' k)) = Inr h' \<and>
      h' = h\<lparr>status := status h', last_fee_collection_timestamp := last_fee_collection_timestamp h'\<rparr> \<and>
      (if status h' = Uninitialized then (\<forall>x \<in> set (drop HEADER_LEN (acc_data (w' k))). x = 0)
       else take (32 * unat (number_of_markets h)) (drop HEADER_LEN (acc_data (w' k))) =
           take (32 * unat (number_of_markets h)) (drop HEADER_LEN (acc_data (w k))) \<and>
         (status h' = status h \<or> settle_status (status h) = Inr (status h'))))"
proof -
  have "pool_step (acc_data (w k)) (acc_data (w' k))"
    using any.run_evolves[OF assms(1-3)] assms(4) unfolding evolves_def by metis
  from pool_step_live[OF this assms(5,6)] show ?thesis .
qed

theorem live_pool_immutable_witness:
  "\<exists>w' h'. entrypoint (demo_env False) 7 demo_redeem_accounts (pack_instruction (Redeem 100 250000)) demo_holder_world = Inr w' \<and>
    unpack_header_from_slice (acc_data (w' 101)) = Inr h' \<and> signal_provider h' = 9 \<and> fee_ratio h' = 6554"
proof -
  let ?i = "Redeem 100 250000"
  have u: "unpack_instruction (pack_instruction ?i) = Inr ?i"
    using unpack_pack_instruction[of ?i "[]"] by simp
  obtain w' where "process_redeem (demo_env False) 7 demo_redeem_accounts 100 250000 demo_holder_world = Inr w'"
    using demo_redeem[of 250000] by blast
  then have w': "entrypoint (demo_env False) 7 demo_redeem_accounts (pack_instruction ?i) demo_holder_world = Inr w'"
    unfolding entrypoint_def process_instruction_def u by simp
  have a: "7 \<notin> ai_key ` set demo_redeem_accounts" by (simp add: demo_redeem_accounts_def)
  have o: "acc_owner (demo_holder_world 101) = 7" by (simp add: demo_holder_world_def demo_pool_data)
  have h: "unpack_header_from_slice (acc_data (demo_holder_world 101)) = Inr demo_header"
    by (simp add: demo_holder_world_def demo_pool_data unpack_pack_header wf_demo_header)
  have "status demo_header \<noteq> Uninitialized" by (simp add: demo_header_def)
  from live_pool_immutable[OF runtime_law_demo a w' o h this] obtain h' where
    h': "unpack_header_from_slice (acc_data (w' 101)) = Inr h'"
    "h' = demo_header\<lparr>status := status h', last_fee_collection_timestamp := last_fee_collection_timestamp h'\<rparr>" by blast
  have "signal_provider h' = signal_provider demo_header" "fee_ratio h' = fee_ratio demo_header"
    using arg_cong[OF h'(2), of signal_provider] arg_cong[OF h'(2), of fee_ratio] by simp_all
  then have "signal_provider h' = 9 \<and> fee_ratio h' = 6554" by (simp add: demo_header_def)
  with w' h'(1) show ?thesis by blast
qed

lemma stored_assets_zeroed: "zeroed d \<Longrightarrow> stored_assets d = []"
proof -
  assume "zeroed d"
  then have "d = replicate (length d) 0" by (simp add: zeroed_def list_eq_iff_nth_eq)
  then show ?thesis using stored_assets_zeros[of "length d"] by metis
qed

text \<open>
  C16. What a creation stores can be read back. The pool account keeps its size and holds a header
  with the key of the Serum program account, the seed, the key of the signal provider account, the
  unlocked status, the number of markets, the fee ratio, the clock's time and the period of the
  call; every market at its index; and as assets one entry for each nonzero deposit amount, in order, the mint
  whose associated account of the pool was passed (entries of the zero key are free slots), then
  the assets that the account already held behind them: none where it was zero, as a fresh account is.
\<close>

theorem create_readback:
  assumes "runtime_law e pid" and "process_create e pid accounts s amounts markets period ratio w = Inr w'"
    and "create_parse e accounts (length amounts) = Inr a" and "clock_of e w (cr_clock_sysvar a) = Inr now"
    and "used = HEADER_LEN + 32 * length markets + 32 * length (filter (\<lambda>x. x \<noteq> 0) amounts)"
  shows "\<exists>h assets. read_pool_header w' (cr_pool a) = Inr h \<and>
    h = \<lparr>serum_program_id = ai_key (cr_serum_program a), seed = s, signal_provider = ai_key (cr_signal_provider a),
      status = Unlocked, number_of_markets = number_of_markets h, fee_ratio = ratio,
      last_fee_collection_timestamp = now, fee_collection_period = period\<rparr> \<and>
    unat (number_of_markets h) = length markets \<and>
    length (data_of w' (cr_pool a)) = length (data_of w (cr_pool a)) \<and>
    (\<forall>i < length markets. unpack_market (drop HEADER_LEN (data_of w' (cr_pool a))) (of_nat i) = Inr (markets ! i)) \<and>
    read_pool_assets w' (cr_pool a) h =
      Inr (filter asset_is_initialized assets @ stored_assets (drop used (data_of w (cr_pool a)))) \<and>
    (zeroed (drop used (data_of w (cr_pool a))) \<longrightarrow> read_pool_assets w' (cr_pool a) h = Inr (filter asset_is_initialized assets)) \<and>
    length assets = length (filter (\<lambda>x. x \<noteq> 0) amounts) \<and>
    list_all2 (\<lambda>x pa. ai_key pa = get_associated_token_address e (ai_key (cr_pool a)) (mint_address x))
      assets (map snd (filter (\<lambda>(x, pa). x \<noteq> 0) (zip amounts (cr_pool_assets a))))"
proof -
  note tail = process_create_tail[OF assms(1-3)]
  from create_stored[OF assms(2-4)] show ?thesis
  proof (elim exE conjE, goal_cases)
    case (1 h assets)
    have "read_pool_assets w' (cr_pool a) h =
      Inr (filter asset_is_initialized assets @ stored_assets (drop used (data_of w (cr_pool a))))"
      using 1(5,6) tail assms(5) by simp
    with 1 tail show ?case
      by (intro exI[of _ h] exI[of _ assets]) (intro conjI impI; simp add: stored_assets_zeroed)
  qed
qed

theorem create_readback_witness:
  "\<exists>w' h xs. process_create (demo_env False) 7 demo_create_accounts 100 [1000, 500] [55] 604800 6554 demo_fresh_world = Inr w' \<and>
    read_pool_header w' (cr_pool demo_create_record) = Inr h \<and> signal_provider h = 9 \<and> serum_program_id h = 8 \<and>
    fee_ratio h = 6554 \<and> read_pool_assets w' (cr_pool demo_create_record) h = Inr (filter asset_is_initialized xs) \<and> length xs = 2"
proof -
  obtain w' where w': "process_create (demo_env False) 7 demo_create_accounts 100 [1000, 500] [55] 604800 6554 demo_fresh_world = Inr w'"
    using demo_create by blast
  have p: "create_parse (demo_env False) demo_create_accounts (length [1000, 500 :: u64]) = Inr demo_create_record"
    using demo_create_parse by simp
  have c: "clock_of (demo_env False) demo_fresh_world (cr_clock_sysvar demo_create_record) = Inr 1500000"
    by (simp add: clock_of_def data_of_def demo_fresh_world_def demo_create_record_def codec_simps)
  have z: "zeroed (drop u (data_of demo_fresh_world (cr_pool demo_create_record)))" for u
    by (auto simp: zeroed_def data_of_def demo_fresh_world_def demo_create_record_def dest: in_set_dropD)
  have k: "ai_key (cr_serum_program demo_create_record) = 8" "ai_key (cr_signal_provider demo_create_record) = 9"
    by (simp_all add: demo_create_record_def)
  from create_readback[OF runtime_law_demo w' p c refl, unfolded k] show ?thesis
  proof (elim exE conjE, goal_cases)
    case (1 h xs)
    have "signal_provider h = 9 \<and> serum_program_id h = 8 \<and> fee_ratio h = 6554" by (subst (1 2 3) 1(2)) simp
    moreover have "length xs = 2" using 1(8) by simp
    ultimately show ?case using w' 1(1) 1(7)[rule_format, OF z] by blast
  qed
qed

subsection \<open>Reachable states\<close>

text \<open>
  Histories: before the program owns anything, every state is possible; then transactions call the
  program (a failed one is rolled back and changes nothing), or other programs run.
\<close>

inductive reachable :: "env \<Rightarrow> pubkey \<Rightarrow> world \<Rightarrow> bool" for e pid where
  start: "(\<And>k. acc_owner (w k) \<noteq> pid) \<Longrightarrow> reachable e pid w"
| call: "reachable e pid w \<Longrightarrow> pid \<notin> ai_key ` set accounts \<Longrightarrow>
    entrypoint e pid accounts data w = Inr w' \<Longrightarrow> reachable e pid w'"
| others: "reachable e pid w \<Longrightarrow> keeps_owned pid w w' \<Longrightarrow> reachable e pid w'"

definition simple_status :: "bytes \<Rightarrow> bool" where
  "simple_status d \<longleftrightarrow> (\<forall>h. unpack_header_from_slice d = Inr h \<longrightarrow> status h = Uninitialized \<or> status h = Unlocked)"

lemma simple_status_zeroed: "zeroed d \<Longrightarrow> simple_status d"
proof (unfold simple_status_def, intro allI impI)
  fix h assume z: "zeroed d" and h: "unpack_header_from_slice d = Inr h"
  have "d = replicate (length d) 0" using z by (simp add: zeroed_def list_eq_iff_nth_eq)
  then show "status h = Uninitialized \<or> status h = Unlocked"
    using unpack_header_zeros[OF unpack_header_len[OF h]] h by (metis Inr_inject)
qed

lemma simple_status_step:
  assumes "pool_step d d'" "simple_status d"
  shows "simple_status d'"
  using assms by (elim pool_stepE) (auto simp: simple_status_def unpack_pack_header wf_header_def)

lemma reachable_simple:
  assumes "runtime_law e pid"
  shows "reachable e pid w \<Longrightarrow> acc_owner (w k) = pid \<Longrightarrow> simple_status (acc_data (w k))"
proof (induction arbitrary: k rule: reachable.induct)
  case (call w accounts data w')
  from any.run_evolves[OF assms call.hyps(2,3)] have
    "if acc_owner (w k) = pid then acc_owner (w' k) = pid \<and> pool_step (acc_data (w k)) (acc_data (w' k))
     else acc_owner (w' k) = pid \<longrightarrow> zeroed (acc_data (w' k))" by (simp add: evolves_def)
  then show ?case using call.IH[of k] call.prems simple_status_step simple_status_zeroed
    by (auto split: if_splits)
next
  case (others w w')
  from others.hyps(2) have
    "if acc_owner (w k) = pid then acc_owner (w' k) = pid \<and> acc_data (w' k) = acc_data (w k)
     else acc_owner (w' k) = pid \<longrightarrow> zeroed (acc_data (w' k))" by (simp add: keeps_owned_def)
  then show ?case using others.IH[of k] others.prems simple_status_zeroed by (auto split: if_splits)
qed simp

text \<open>
  C6. No pool is ever locked and no order is ever pending: in every reachable state, a header that reads from an
  account of the program is unlocked, so the status checks of deposits and redemptions never
  refuse, and a settlement of a fully settled open orders account always fails on the status.
\<close>

theorem reachable_pools_unlocked:
  assumes "runtime_law e pid" and "reachable e pid w" and "owner_of w p = pid"
    and "read_pool_header w p = Inr h"
  shows "status h = Unlocked \<and> deposit_status (status h) = Inr () \<and> redeem_status (status h) = Inr () \<and>
    (\<forall>accounts a s pci ci w'. settle_parse e accounts = Inr a \<and> st_pool a = p \<and>
      (\<exists>oo. read_openorders (data_of w (st_openorders a)) = Inr oo \<and> fully_settled oo) \<longrightarrow>
      process_settle e pid accounts s pci ci w \<noteq> Inr w')"
proof -
  have st: "status h = Unlocked"
    using reachable_simple[OF assms(1,2), of "ai_key p"] assms(3,4)
    by (auto simp: owner_of_def simple_status_def read_pool_header_Inr data_of_def)
  have "process_settle e pid accounts s pci ci w \<noteq> Inr w'"
    if a: "settle_parse e accounts = Inr a" and p: "st_pool a = p" and
      oo: "read_openorders (data_of w (st_openorders a)) = Inr oo" "fully_settled oo" for accounts a s pci ci w' oo
  proof
    assume "process_settle e pid accounts s pci ci w = Inr w'"
    with a obtain w3 where w3: "settle_prepare e pid a s pci ci w = Inr w3"
      by (auto simp: process_settle_split res_simps)
    obtain h' where "settle_header oo h = Inr h'"
      by (rule settle_prepare_Inr[OF w3]) (use assms(4) p oo(1) in auto)
    with oo(2) st show False by (simp add: settle_header_def)
  qed
  with st show ?thesis by auto
qed

lemma demo_fresh_reachable: "reachable e 7 demo_fresh_world"
proof (rule reachable.others[OF reachable.start])
  show "acc_owner ((demo_fresh_world(101 := \<lparr>acc_owner = 0, acc_lamports = 0, acc_data = []\<rparr>)) k) \<noteq> 7" for k
    by (simp add: demo_fresh_world_def demo_world_def demo_empty_def demo_token_def demo_mint_def demo_clock_def)
  show "keeps_owned 7 (demo_fresh_world(101 := \<lparr>acc_owner = 0, acc_lamports = 0, acc_data = []\<rparr>)) demo_fresh_world"
    by (auto simp: keeps_owned_def demo_fresh_world_def zeroed_def)
qed

theorem reachable_pools_unlocked_witness:
  "\<exists>w h. reachable (demo_env False) 7 w \<and> read_pool_header w (cr_pool demo_create_record) = Inr h \<and>
    status h = Unlocked \<and> deposit_status (status h) = Inr ()"
proof -
  let ?i = "Create 100 604800 6554 [1000, 500] [55]"
  have u: "unpack_instruction (pack_instruction ?i) = Inr ?i"
    using unpack_pack_instruction[of ?i "[]"] by simp
  obtain w' where c: "process_create (demo_env False) 7 demo_create_accounts 100 [1000, 500] [55] 604800 6554 demo_fresh_world = Inr w'"
    using demo_create by blast
  then have w': "entrypoint (demo_env False) 7 demo_create_accounts (pack_instruction ?i) demo_fresh_world = Inr w'"
    unfolding entrypoint_def process_instruction_def u by simp
  have a: "7 \<notin> ai_key ` set demo_create_accounts" by (simp add: demo_create_accounts_def)
  have r: "reachable (demo_env False) 7 w'" by (rule reachable.call[OF demo_fresh_reachable a w'])
  have "evolves 7 demo_fresh_world w'" by (rule any.run_evolves[OF runtime_law_demo a w'])
  then have o: "owner_of w' (cr_pool demo_create_record) = 7"
    by (auto simp: evolves_def owner_of_def demo_create_record_def demo_fresh_world_def dest: spec[of _ 101])
  have p: "create_parse (demo_env False) demo_create_accounts (length [1000, 500 :: u64]) = Inr demo_create_record"
    using demo_create_parse by simp
  have clk: "clock_of (demo_env False) demo_fresh_world (cr_clock_sysvar demo_create_record) = Inr 1500000"
    by (simp add: clock_of_def data_of_def demo_fresh_world_def demo_create_record_def codec_simps)
  from create_stored[OF c p clk] obtain h where h: "read_pool_header w' (cr_pool demo_create_record) = Inr h" by blast
  from reachable_pools_unlocked[OF runtime_law_demo r o h] r h show ?thesis by blast
qed

end
