(* ===== verification/Token_Facts.thy ===== *)
theory Token_Facts
  imports Lifecycle
begin

text \<open>
  End-to-end effects on balances and supply. \<open>token_law\<close> states what the SPL token program
  documents of its transfer, mint and burn instructions. Under it every handler is a ledger: a list
  of postings per account (\<open>flow\<close>), transfers for the loops over assets (\<open>moved\<close>), mints for the
  minting steps (\<open>minted\<close>), added up by \<open>shifted\<close>; nothing requires the accounts to be distinct. The properties give
  every balance and the supply after a deposit, a redemption and a fee collection in terms of those before.
\<close>

unbundle bit_operations_syntax

subsection \<open>What the token program promises\<close>

text \<open>Balances and supplies by account key.\<close>

definition balance :: "env \<Rightarrow> world \<Rightarrow> pubkey \<Rightarrow> u64 option" where
  "balance e w k = (case token_account_unpack e (acc_data (w k)) of Inl err \<Rightarrow> None | Inr t \<Rightarrow> Some (ta_amount t))"

definition mint_supply :: "env \<Rightarrow> world \<Rightarrow> pubkey \<Rightarrow> u64 option" where
  "mint_supply e w k = (case mint_unpack_supply e (acc_data (w k)) of Inl err \<Rightarrow> None | Inr s \<Rightarrow> Some s)"

definition same_elsewhere :: "pubkey set \<Rightarrow> world \<Rightarrow> world \<Rightarrow> bool" where
  "same_elsewhere K w w' \<longleftrightarrow> (\<forall>k. k \<notin> K \<longrightarrow> acc_data (w' k) = acc_data (w k))"

text \<open>
  The documented effect of the three token instructions the program builds. An account's data is
  read as a token account or as a mint, never as both. An instruction succeeds on accounts of the
  kinds it names; exact amounts are moved, minted or burned; a source is never overdrawn, a sum
  never wraps; a transfer of an account to itself changes no balance; and no other account's data
  changes. Nothing is assumed about the accounts being distinct.
\<close>

definition token_law :: "env \<Rightarrow> bool" where
  "token_law e \<longleftrightarrow>
     (\<forall>w k. balance e w k = None \<or> mint_supply e w k = None) \<and>
     (\<forall>src dst auth amt infos seeds w w'.
        token_transfer e (spl_token_id e) src dst auth amt infos seeds w = Inr w' \<longrightarrow>
        (\<exists>a b. balance e w src = Some a \<and> balance e w dst = Some b \<and> amt \<le> a \<and> same_elsewhere {src, dst} w w' \<and>
           (if src = dst then balance e w' src = Some a
            else unat b + unat amt < 2 ^ 64 \<and> balance e w' src = Some (a - amt) \<and> balance e w' dst = Some (b + amt)))) \<and>
     (\<forall>mint dst auth amt infos seeds w w'.
        token_mint_to e (spl_token_id e) mint dst auth amt infos seeds w = Inr w' \<longrightarrow>
        (\<exists>s b. mint_supply e w mint = Some s \<and> balance e w dst = Some b \<and>
           unat s + unat amt < 2 ^ 64 \<and> unat b + unat amt < 2 ^ 64 \<and>
           mint_supply e w' mint = Some (s + amt) \<and> balance e w' dst = Some (b + amt) \<and> same_elsewhere {mint, dst} w w')) \<and>
     (\<forall>acct mint auth amt infos w w'.
        token_burn e (spl_token_id e) acct mint auth amt infos w = Inr w' \<longrightarrow>
        (\<exists>a s. balance e w acct = Some a \<and> mint_supply e w mint = Some s \<and> amt \<le> a \<and> amt \<le> s \<and>
           balance e w' acct = Some (a - amt) \<and> mint_supply e w' mint = Some (s - amt) \<and> same_elsewhere {acct, mint} w w'))"

lemma token_lawD:
  assumes "token_law e"
  shows "balance e w k = None \<or> mint_supply e w k = None"
    "token_transfer e (spl_token_id e) src dst auth amt infos seeds w = Inr w' \<Longrightarrow>
      \<exists>a b. balance e w src = Some a \<and> balance e w dst = Some b \<and> amt \<le> a \<and> same_elsewhere {src, dst} w w' \<and>
        (if src = dst then balance e w' src = Some a
         else unat b + unat amt < 2 ^ 64 \<and> balance e w' src = Some (a - amt) \<and> balance e w' dst = Some (b + amt))"
    "token_mint_to e (spl_token_id e) mint dst auth amt infos seeds w = Inr w' \<Longrightarrow>
      \<exists>s b. mint_supply e w mint = Some s \<and> balance e w dst = Some b \<and>
        unat s + unat amt < 2 ^ 64 \<and> unat b + unat amt < 2 ^ 64 \<and>
        mint_supply e w' mint = Some (s + amt) \<and> balance e w' dst = Some (b + amt) \<and> same_elsewhere {mint, dst} w w'"
    "token_burn e (spl_token_id e) acct mint auth amt infos w = Inr w' \<Longrightarrow>
      \<exists>a s. balance e w acct = Some a \<and> mint_supply e w mint = Some s \<and> amt \<le> a \<and> amt \<le> s \<and>
        balance e w' acct = Some (a - amt) \<and> mint_supply e w' mint = Some (s - amt) \<and> same_elsewhere {acct, mint} w w'"
  using assms[unfolded token_law_def, THEN conjunct1, rule_format, of w k]
    assms[unfolded token_law_def, THEN conjunct2, THEN conjunct1, rule_format, of src dst auth amt infos seeds w w']
    assms[unfolded token_law_def, THEN conjunct2, THEN conjunct2, THEN conjunct1, rule_format, of mint dst auth amt infos seeds w w']
    assms[unfolded token_law_def, THEN conjunct2, THEN conjunct2, THEN conjunct2, rule_format, of acct mint auth amt infos w w']
  by simp_all

lemma same_elsewhere_trans:
  "same_elsewhere K w w1 \<Longrightarrow> same_elsewhere L w1 w2 \<Longrightarrow> K \<subseteq> M \<Longrightarrow> L \<subseteq> M \<Longrightarrow> same_elsewhere M w w2"
  by (force simp: same_elsewhere_def)

lemma same_elsewhere_refl [simp]: "same_elsewhere K w w"
  by (simp add: same_elsewhere_def)

lemma same_elsewhereD:
  assumes "same_elsewhere K w w'" "k \<notin> K"
  shows "balance e w' k = balance e w k" "mint_supply e w' k = mint_supply e w k" "acc_data (w' k) = acc_data (w k)"
  using assms by (simp_all add: same_elsewhere_def balance_def mint_supply_def)

lemma balance_token: "balance e w (ai_key a) = token_balance e w a"
  by (simp add: balance_def token_balance_def data_of_def)

lemma balance_unpack: "unpack_token_account e w a = Inr t \<Longrightarrow> balance e w (ai_key a) = Some (ta_amount t)"
  by (auto simp: balance_def unpack_token_account_def data_of_def res_simps)

lemma supply_unpack: "unpack_mint_supply e w a = Inr s \<longleftrightarrow> mint_supply e w (ai_key a) = Some s"
  by (auto simp: mint_supply_def unpack_mint_supply_def data_of_def res_simps split: sum.splits)

subsection \<open>Ledgers\<close>

text \<open>
  The amount a list of postings \<open>ks ! i\<close>, \<open>ns ! i\<close> books on one account: the same account may be
  named several times.
\<close>

primrec flow :: "pubkey list \<Rightarrow> u64 list \<Rightarrow> pubkey \<Rightarrow> nat" where
  "flow [] ns k = 0"
| "flow (x # xs) ns k = (case ns of [] \<Rightarrow> 0 | n # ns \<Rightarrow> (if x = k then unat n else 0) + flow xs ns k)"

lemma flow_simps [simp]:
  "flow ks [] k = 0"
  "flow (x # xs) (n # ns) k = (if x = k then unat n else 0) + flow xs ns k"
  by (cases ks) simp_all

declare flow.simps(2) [simp del]

lemma flow_notin: "k \<notin> set ks \<Longrightarrow> flow ks ns k = 0"
proof (induction ks arbitrary: ns)
  case (Cons x ks)
  then show ?case by (cases ns) auto
qed simp

text \<open>With distinct accounts every account has its own posting.\<close>

lemma flow_distinct: "distinct ks \<Longrightarrow> i < length ks \<Longrightarrow> i < length ns \<Longrightarrow> flow ks ns (ks ! i) = unat (ns ! i)"
proof (induction ks arbitrary: i ns)
  case (Cons x ks)
  show ?case
  proof (cases i)
    case 0
    with Cons.prems show ?thesis by (cases ns) (simp_all add: flow_notin)
  next
    case (Suc j)
    with Cons.prems have "ks ! j \<noteq> x" by auto
    with Suc Cons.prems Cons.IH[of j] show ?thesis by (cases ns) auto
  qed
qed simp

text \<open>A balance that \<open>cr\<close> was booked on and \<open>db\<close> was taken from; accounts without one stay without.\<close>

definition shifted :: "u64 option \<Rightarrow> nat \<Rightarrow> nat \<Rightarrow> u64 option \<Rightarrow> bool" where
  "shifted b cr db b' \<longleftrightarrow> (case b of None \<Rightarrow> b' = None
     | Some x \<Rightarrow> (\<exists>y. b' = Some y \<and> unat y + db = unat x + cr))"

lemma shifted_refl [simp]: "shifted b 0 0 b"
  by (simp add: shifted_def split: option.splits)

lemma shifted_trans: "shifted a p m b \<Longrightarrow> shifted b p' m' c \<Longrightarrow> shifted a (p + p') (m + m') c"
  by (auto simp: shifted_def split: option.splits)

lemma shifted_Some: "shifted (Some x) p m b' \<longleftrightarrow> (\<exists>y. b' = Some y \<and> unat y + m = unat x + p)"
  by (simp add: shifted_def)

lemma shifted_None: "shifted None p m b' \<longleftrightarrow> b' = None"
  by (simp add: shifted_def)

lemma shifted_SomeD: "shifted b p m (Some y) \<Longrightarrow> \<exists>x. b = Some x \<and> unat y + m = unat x + p"
  by (simp add: shifted_def split: option.splits)

text \<open>What one token instruction does to every balance and every supply.\<close>

lemma transfer_books:
  assumes "token_law e" "token_transfer e (spl_token_id e) src dst auth n infos seeds w = Inr w'"
  shows "shifted (balance e w k) (if dst = k then unat n else 0) (if src = k then unat n else 0) (balance e w' k)"
    "mint_supply e w k = Some s \<Longrightarrow> mint_supply e w' k = Some s" "same_elsewhere {src, dst} w w'"
proof -
  from token_lawD(2)[OF assms] obtain a b where f: "balance e w src = Some a" "balance e w dst = Some b" "n \<le> a"
    "same_elsewhere {src, dst} w w'"
    "if src = dst then balance e w' src = Some a
     else unat b + unat n < 2 ^ 64 \<and> balance e w' src = Some (a - n) \<and> balance e w' dst = Some (b + n)" by blast
  have "unat (a - n) + unat n = unat a" using f(3) by (simp add: unat_sub word_le_nat_alt)
  then show "shifted (balance e w k) (if dst = k then unat n else 0) (if src = k then unat n else 0) (balance e w' k)"
    using f same_elsewhereD(1)[OF f(4), of k e]
    by (cases "k = src"; cases "k = dst") (auto simp: shifted_Some unat_add_fits)
  show "mint_supply e w' k = Some s" if "mint_supply e w k = Some s"
    using that f(1,2) token_lawD(1)[OF assms(1), of w k] same_elsewhereD(2)[OF f(4), of k e]
    by (cases "k = src"; cases "k = dst") auto
qed (use token_lawD(2)[OF assms] in blast)

lemma mint_books:
  assumes "token_law e" "token_mint_to e (spl_token_id e) mint dst auth n infos seeds w = Inr w'"
  shows "shifted (balance e w k) (if dst = k then unat n else 0) 0 (balance e w' k)"
    "shifted (mint_supply e w mint) (unat n) 0 (mint_supply e w' mint)"
    "balance e w dst \<noteq> None" "same_elsewhere {mint, dst} w w'"
proof -
  from token_lawD(3)[OF assms] obtain s b where f: "mint_supply e w mint = Some s" "balance e w dst = Some b"
    "unat s + unat n < 2 ^ 64" "unat b + unat n < 2 ^ 64" "mint_supply e w' mint = Some (s + n)"
    "balance e w' dst = Some (b + n)" "same_elsewhere {mint, dst} w w'" by blast
  have "balance e w mint = None" "balance e w' mint = None"
    using f(1,5) token_lawD(1)[OF assms(1), of w mint] token_lawD(1)[OF assms(1), of w' mint] by simp_all
  then show "shifted (balance e w k) (if dst = k then unat n else 0) 0 (balance e w' k)"
    using f same_elsewhereD(1)[OF f(7), of k e]
    by (cases "k = mint"; cases "k = dst") (auto simp: shifted_Some shifted_None unat_add_fits)
  show "shifted (mint_supply e w mint) (unat n) 0 (mint_supply e w' mint)"
    using f by (simp add: shifted_Some unat_add_fits)
qed (use token_lawD(3)[OF assms] in \<open>fastforce\<close>)+

lemma burn_books:
  assumes "token_law e" "token_burn e (spl_token_id e) acct mint auth n infos w = Inr w'"
  shows "shifted (balance e w k) 0 (if acct = k then unat n else 0) (balance e w' k)"
    "shifted (mint_supply e w mint) 0 (unat n) (mint_supply e w' mint)" "same_elsewhere {acct, mint} w w'"
proof -
  from token_lawD(4)[OF assms] obtain a s where f: "balance e w acct = Some a" "mint_supply e w mint = Some s"
    "n \<le> a" "n \<le> s" "balance e w' acct = Some (a - n)" "mint_supply e w' mint = Some (s - n)"
    "same_elsewhere {acct, mint} w w'" by blast
  have "balance e w mint = None" "balance e w' mint = None"
    using f(2,6) token_lawD(1)[OF assms(1), of w mint] token_lawD(1)[OF assms(1), of w' mint] by simp_all
  then show "shifted (balance e w k) 0 (if acct = k then unat n else 0) (balance e w' k)"
    using f same_elsewhereD(1)[OF f(7), of k e]
    by (cases "k = mint"; cases "k = acct") (auto simp: shifted_Some shifted_None unat_sub word_le_nat_alt)
  show "shifted (mint_supply e w mint) 0 (unat n) (mint_supply e w' mint)"
    using f by (simp add: shifted_Some unat_sub word_le_nat_alt)
qed (use token_lawD(4)[OF assms] in blast)

subsection \<open>One transfer per asset\<close>

text \<open>
  What a loop over assets achieves, whether or not an account is named twice: \<open>ns ! i\<close> is taken
  from \<open>srcs ! i\<close> and booked on \<open>dsts ! i\<close>, in exact arithmetic, no supply changes, and no other
  account's data does.
\<close>

definition moved :: "env \<Rightarrow> pubkey list \<Rightarrow> pubkey list \<Rightarrow> u64 list \<Rightarrow> world \<Rightarrow> world \<Rightarrow> bool" where
  "moved e srcs dsts ns w w' \<longleftrightarrow> length srcs = length ns \<and> length dsts = length ns \<and>
     (\<forall>k. shifted (balance e w k) (flow dsts ns k) (flow srcs ns k) (balance e w' k)) \<and>
     (\<forall>k s. mint_supply e w k = Some s \<longrightarrow> mint_supply e w' k = Some s) \<and>
     same_elsewhere (set srcs \<union> set dsts) w w'"

lemma movedD:
  assumes "moved e srcs dsts ns w w'"
  shows "shifted (balance e w k) (flow dsts ns k) (flow srcs ns k) (balance e w' k)"
    "mint_supply e w k = Some s \<Longrightarrow> mint_supply e w' k = Some s"
    "same_elsewhere (set srcs \<union> set dsts) w w'" "length srcs = length ns" "length dsts = length ns"
  using assms by (simp_all add: moved_def)

lemma moved_Nil [simp]: "moved e [] [] [] w w"
  by (simp add: moved_def)

text \<open>One more asset in front: no transfer for a zero amount, one token transfer otherwise.\<close>

lemma moved_Cons:
  assumes law: "token_law e"
    and step: "(n = 0 \<and> w1 = w) \<or> token_transfer e (spl_token_id e) src dst auth n infos seeds w = Inr w1"
    and rest: "moved e srcs dsts ns w1 w'"
  shows "moved e (src # srcs) (dst # dsts) (n # ns) w w'"
    "shifted (balance e w k) (if dst = k then unat n else 0) (if src = k then unat n else 0) (balance e w1 k)"
proof -
  have first: "shifted (balance e w k) (if dst = k then unat n else 0) (if src = k then unat n else 0) (balance e w1 k) \<and>
      (\<forall>s. mint_supply e w k = Some s \<longrightarrow> mint_supply e w1 k = Some s) \<and> same_elsewhere {src, dst} w w1" for k
    using step
  proof
    assume "token_transfer e (spl_token_id e) src dst auth n infos seeds w = Inr w1"
    note b = transfer_books[OF law this]
    from b(1)[of k] b(2)[of k] b(3) show ?thesis by blast
  qed simp
  then show "shifted (balance e w k) (if dst = k then unat n else 0) (if src = k then unat n else 0) (balance e w1 k)"
    by blast
  note r = movedD[OF rest]
  have "same_elsewhere (set (src # srcs) \<union> set (dst # dsts)) w w'"
    by (rule same_elsewhere_trans[of "{src, dst}" w w1]) (use first r(3) in auto)
  moreover have "shifted (balance e w k) (flow (dst # dsts) (n # ns) k) (flow (src # srcs) (n # ns) k) (balance e w' k)" for k
    using shifted_trans[OF conjunct1[OF first] r(1)] by simp
  ultimately show "moved e (src # srcs) (dst # dsts) (n # ns) w w'"
    unfolding moved_def using r first by auto
qed

text \<open>The transfer loop of a deposit books the amounts that were computed before it.\<close>

lemma deposit_transfers_moves:
  "token_law e \<Longrightarrow> ai_key (dp_spl_token a) = spl_token_id e \<Longrightarrow> length xs = length pas \<Longrightarrow>
    length amts = length pas \<Longrightarrow> length pas = length sas \<Longrightarrow>
    deposit_transfers e a pk q tot xs amts pas sas z w = Inr (w1, z') \<Longrightarrow>
    \<exists>ns. moved e (map ai_key sas) (map ai_key pas) ns w w1 \<and>
      (\<forall>i < length pas. \<exists>n. buy_in_amount (overflow_checks e) q (amts ! i) tot = Inr n \<and> ns ! i = ucast n)"
proof (induction e a pk q tot xs amts pas sas z w arbitrary: w1 z' rule: deposit_transfers.induct)
  case (1 e a pk q tot x xs amt amts pa pas sa sas z w)
  from "1.prems"(6) obtain n where k: "get_associated_token_address e pk (mint_address x) = ai_key pa"
    and n: "buy_in_amount (overflow_checks e) q amt tot = Inr n"
    by (auto simp: res_simps)
  have pre: "token_law e" "ai_key (dp_spl_token a) = spl_token_id e" "length xs = length pas"
    "length amts = length pas" "length pas = length sas"
    using "1.prems"(1-5) by auto
  obtain w2 ns where step: "(ucast n = (0 :: u64) \<and> w2 = w) \<or> token_transfer e (spl_token_id e) (ai_key sa) (ai_key pa)
      (ai_key (dp_source_owner a)) (ucast n) [sa, pa, dp_spl_token a, dp_source_owner a] [] w = Inr w2"
    and ns: "moved e (map ai_key sas) (map ai_key pas) ns w2 w1"
      "\<And>i. i < length pas \<Longrightarrow> \<exists>n. buy_in_amount (overflow_checks e) q (amts ! i) tot = Inr n \<and> ns ! i = ucast n"
  proof (cases "n = 0")
    case True
    with "1.prems"(6) k n have "deposit_transfers e a pk q tot xs amts pas sas z w = Inr (w1, z')" by simp
    from "1.IH"(1)[OF _ n True pre this] k that[of w] True show ?thesis by auto
  next
    case False
    with "1.prems"(6) k n obtain w2 where
      x: "token_transfer e (ai_key (dp_spl_token a)) (ai_key sa) (ai_key pa) (ai_key (dp_source_owner a))
        (ucast n) [sa, pa, dp_spl_token a, dp_source_owner a] [] w = Inr w2"
      and "deposit_transfers e a pk q tot xs amts pas sas False w2 = Inr (w1, z')"
      by (auto simp: res_simps)
    from "1.IH"(2)[OF _ n False x pre this(2)] k that[of w2] x[unfolded pre(2)] show ?thesis by auto
  qed
  have "moved e (map ai_key (sa # sas)) (map ai_key (pa # pas)) (ucast n # ns) w w1"
    using moved_Cons(1)[OF pre(1) step ns(1)] by simp
  moreover have "\<exists>m. buy_in_amount (overflow_checks e) q ((amt # amts) ! i) tot = Inr m \<and>
      (ucast n # ns) ! i = ucast m" if "i < length (pa # pas)" for i
    using that n ns(2)[of "i - 1"] by (cases i) auto
  ultimately show ?case by blast
qed (auto intro: exI[of _ "[]"])

text \<open>
  The payout loop reads each balance when its turn comes: the amount of asset \<open>i\<close> is computed from
  the pool account's balance after the postings of the assets before it.
\<close>

lemma redeem_payouts_moves:
  "token_law e \<Longrightarrow> ai_key (rd_spl_token a) = spl_token_id e \<Longrightarrow> length xs = length pas \<Longrightarrow> length pas = length tas \<Longrightarrow>
    redeem_payouts e a s amt tot xs pas tas w = Inr w1 \<Longrightarrow>
    \<exists>ns. moved e (map ai_key pas) (map ai_key tas) ns w w1 \<and>
      (\<forall>i < length pas. \<exists>p. buy_out_amount (overflow_checks e) amt p tot = Inr (ns ! i) \<and>
        shifted (balance e w (ai_key (pas ! i))) (flow (map ai_key tas) (take i ns) (ai_key (pas ! i)))
          (flow (map ai_key pas) (take i ns) (ai_key (pas ! i))) (Some p))"
proof (induction e a s amt tot xs pas tas w arbitrary: w1 rule: redeem_payouts.induct)
  case (1 e a s amt tot x xs pa pas ta tas w)
  from "1.prems"(5) obtain t :: token_account and n where
    k: "get_associated_token_address e (ai_key (rd_pool a)) (mint_address x) = ai_key pa"
    and t: "unpack_token_account e w pa = Inr t"
    and n: "buy_out_amount (overflow_checks e) amt (ta_amount t) tot = Inr n"
    by (auto simp: res_simps)
  have pre: "token_law e" "ai_key (rd_spl_token a) = spl_token_id e" "length xs = length pas" "length pas = length tas"
    using "1.prems"(1-4) by auto
  let ?P = "map ai_key pas" and ?T = "map ai_key tas"
  obtain w2 ns where step: "(n = 0 \<and> w2 = w) \<or> token_transfer e (spl_token_id e) (ai_key pa) (ai_key ta)
      (ai_key (rd_pool a)) n [rd_spl_token a, pa, ta, rd_pool a] [pool_seeds s] w = Inr w2"
    and ns: "moved e ?P ?T ns w2 w1"
      "\<And>i. i < length pas \<Longrightarrow> \<exists>p. buy_out_amount (overflow_checks e) amt p tot = Inr (ns ! i) \<and>
        shifted (balance e w2 (?P ! i)) (flow ?T (take i ns) (?P ! i)) (flow ?P (take i ns) (?P ! i)) (Some p)"
  proof (cases "n = 0")
    case True
    with "1.prems"(5) k t n have "redeem_payouts e a s amt tot xs pas tas w = Inr w1" by simp
    from "1.IH"(1)[OF _ t n True pre this] k that[of w] True show ?thesis by auto
  next
    case False
    with "1.prems"(5) k t n obtain w2 where
      x: "token_transfer e (ai_key (rd_spl_token a)) (ai_key pa) (ai_key ta) (ai_key (rd_pool a))
        n [rd_spl_token a, pa, ta, rd_pool a] [pool_seeds s] w = Inr w2"
      and r: "redeem_payouts e a s amt tot xs pas tas w2 = Inr w1"
      by (auto simp: res_simps)
    from "1.IH"(2)[OF _ t n False x pre r] k that[of w2] x[unfolded pre(2)] show ?thesis by auto
  qed
  note mc = moved_Cons[OF pre(1) step ns(1)]
  have "\<exists>p. buy_out_amount (overflow_checks e) amt p tot = Inr ((n # ns) ! i) \<and>
      shifted (balance e w (ai_key ((pa # pas) ! i))) (flow (map ai_key (ta # tas)) (take i (n # ns)) (ai_key ((pa # pas) ! i)))
        (flow (map ai_key (pa # pas)) (take i (n # ns)) (ai_key ((pa # pas) ! i))) (Some p)" if i: "i < length (pa # pas)" for i
  proof (cases i)
    case 0
    then show ?thesis using n balance_unpack[OF t] by auto
  next
    case (Suc j)
    with i ns(2)[of j] obtain p where "buy_out_amount (overflow_checks e) amt p tot = Inr (ns ! j)"
      "shifted (balance e w2 (?P ! j)) (flow ?T (take j ns) (?P ! j)) (flow ?P (take j ns) (?P ! j)) (Some p)" by auto
    with shifted_trans[OF mc(2) this(2)] Suc i show ?thesis by auto
  qed
  then show ?case using mc(1) by auto
qed (auto intro: exI[of _ "[]"])

subsection \<open>A sequence of mints\<close>

definition minted :: "env \<Rightarrow> pubkey \<Rightarrow> pubkey list \<Rightarrow> u64 list \<Rightarrow> world \<Rightarrow> world \<Rightarrow> bool" where
  "minted e mint dsts ns w w' \<longleftrightarrow>
     shifted (mint_supply e w mint) (sum_list (map unat ns)) 0 (mint_supply e w' mint) \<and>
     (\<forall>k. shifted (balance e w k) (flow dsts ns k) 0 (balance e w' k)) \<and>
     (\<forall>k \<in> set dsts. balance e w k \<noteq> None) \<and> same_elsewhere (insert mint (set dsts)) w w'"

lemma minted_Nil [simp]: "minted e mint [] [] w w"
  by (simp add: minted_def)

lemma mintedD:
  assumes "minted e mint dsts ns w w'"
  shows "shifted (mint_supply e w mint) (sum_list (map unat ns)) 0 (mint_supply e w' mint)"
    "shifted (balance e w k) (flow dsts ns k) 0 (balance e w' k)"
    "k \<in> set dsts \<Longrightarrow> balance e w k \<noteq> None" "same_elsewhere (insert mint (set dsts)) w w'"
  using assms by (simp_all add: minted_def)

lemma shifted_None_iff: "shifted b p m b' \<Longrightarrow> b = None \<longleftrightarrow> b' = None"
  by (auto simp: shifted_def split: option.splits)

lemma minted_Cons:
  assumes law: "token_law e"
    and step: "token_mint_to e (spl_token_id e) mint dst auth n infos seeds w = Inr w1"
    and rest: "minted e mint dsts ns w1 w'"
  shows "minted e mint (dst # dsts) (n # ns) w w'"
  unfolding minted_def
proof (intro conjI allI ballI)
  note b = mint_books[OF law step] and r = mintedD[OF rest]
  show "shifted (mint_supply e w mint) (sum_list (map unat (n # ns))) 0 (mint_supply e w' mint)"
    using shifted_trans[OF b(2) r(1)] by simp
  show "shifted (balance e w k) (flow (dst # dsts) (n # ns) k) 0 (balance e w' k)" for k
    using shifted_trans[OF b(1)[of k] r(2)[of k]] by simp
  show "balance e w k \<noteq> None" if "k \<in> set (dst # dsts)" for k
    using that b(3) r(3)[of k] shifted_None_iff[OF b(1)[of k]] by auto
  show "same_elsewhere (insert mint (set (dst # dsts))) w w'"
    by (rule same_elsewhere_trans[OF b(4) r(4)]) auto
qed

lemma deposit_mints_minted:
  assumes "token_law e" "ai_key (dp_spl_token a) = spl_token_id e"
    and "deposit_mints e a pk mk s ratio eff w = Inr w'"
  obtains fee where "unat fee = unat ratio * unat eff div 65536" "fee \<le> eff"
    "minted e mk [ai_key (dp_target_pool_token a), ai_key (dp_signal_provider_pt a),
       ai_key (dp_bonfida_fee_pt a), ai_key (dp_bonfida_bnb_pt a)]
      [eff - fee, fee div 2, fee div 4, fee - fee div 4 - fee div 2] w w'"
proof -
  obtain fee where fee: "unat fee = unat ratio * unat eff div 65536" "fee \<le> eff"
    and eq: "deposit_mints e a pk mk s ratio eff w =
      bind_res (deposit_mint e a pk mk s (dp_target_pool_token a) (eff - fee) w) (\<lambda>w.
      bind_res (deposit_mint e a pk mk s (dp_signal_provider_pt a) (fee div 2) w) (\<lambda>w.
      bind_res (deposit_mint e a pk mk s (dp_bonfida_fee_pt a) (fee div 4) w) (\<lambda>w.
      deposit_mint e a pk mk s (dp_bonfida_bnb_pt a) (fee - fee div 4 - fee div 2) w)))"
    by (rule deposit_mints_eq)
  from assms(3) obtain w1 w2 w3 where m:
    "deposit_mint e a pk mk s (dp_target_pool_token a) (eff - fee) w = Inr w1"
    "deposit_mint e a pk mk s (dp_signal_provider_pt a) (fee div 2) w1 = Inr w2"
    "deposit_mint e a pk mk s (dp_bonfida_fee_pt a) (fee div 4) w2 = Inr w3"
    "deposit_mint e a pk mk s (dp_bonfida_bnb_pt a) (fee - fee div 4 - fee div 2) w3 = Inr w'"
    unfolding eq by (auto simp: res_simps)
  note m = m[unfolded deposit_mint_def assms(2)]
  note minted_Cons[OF assms(1) m(4) minted_Nil]
  note minted_Cons[OF assms(1) m(3) this]
  note minted_Cons[OF assms(1) m(2) this]
  note minted_Cons[OF assms(1) m(1) this]
  then show ?thesis by (rule that[OF fee])
qed

lemma fees_mints_minted:
  assumes "token_law e" "ai_key (cf_spl_token a) = spl_token_id e"
    and "fees_mint e a mk s k1 t1 n1 w = Inr w1" "fees_mint e a mk s k2 t2 n2 w1 = Inr w2"
      "fees_mint e a mk s k3 t3 n3 w2 = Inr w3"
  shows "minted e mk [k1, k2, k3] [n1, n2, n3] w w3"
proof -
  note m = assms(3-5)[unfolded fees_mint_def assms(2)]
  note minted_Cons[OF assms(1) m(3) minted_Nil]
  note minted_Cons[OF assms(1) m(2) this]
  from minted_Cons[OF assms(1) m(1) this] show ?thesis .
qed

subsection \<open>Properties\<close>

text \<open>The asset side of a deposit: what the transfer loop computed, checked and booked.\<close>

lemma deposit_assets_paid:
  assumes law: "token_law e" and spl: "ai_key (dp_spl_token a) = spl_token_id e"
    and len: "length (dp_pool_assets a) = length assets" "length (dp_source_assets a) = length assets"
    and quote: "deposit_quote e w tot (dp_pool_assets a) (dp_source_assets a) [] (- 1) = Inr (ps, quota)"
    and le: "eff \<le> quota"
    and loop: "deposit_transfers e a pk eff tot assets ps (dp_pool_assets a) (dp_source_assets a) True w = Inr (w1, False)"
  obtains qs where "moved e (map ai_key (dp_source_assets a)) (map ai_key (dp_pool_assets a)) qs w w1"
    "\<forall>i < length assets. ai_key (dp_pool_assets a ! i) = get_associated_token_address e pk (mint_address (assets ! i)) \<and>
      (\<exists>b p. balance e w (ai_key (dp_source_assets a ! i)) = Some b \<and> balance e w (ai_key (dp_pool_assets a ! i)) = Some p \<and>
        unat (qs ! i) = unat eff * unat p div unat tot \<and> qs ! i \<le> b)"
    "\<exists>i < length assets. qs ! i \<noteq> 0"
proof -
  have eqlen: "length (dp_pool_assets a) = length (dp_source_assets a)" using len by simp
  from deposit_quote_Inr[OF eqlen quote] have ps: "length ps = length (dp_pool_assets a)"
    "\<And>i. i < length assets \<Longrightarrow> balance e w (ai_key (dp_pool_assets a ! i)) = Some (ps ! i)"
    by (auto simp: balance_token len)
  note chk = deposit_transfers_Inr[OF len(1)[symmetric] ps(1) eqlen loop, unfolded len(1)]
  from deposit_transfers_moves[OF law spl len(1)[symmetric] ps(1) eqlen loop] len(1) obtain qs where
    qs: "moved e (map ai_key (dp_source_assets a)) (map ai_key (dp_pool_assets a)) qs w w1"
    "\<And>i. i < length assets \<Longrightarrow> \<exists>n. buy_in_amount (overflow_checks e) eff (ps ! i) tot = Inr n \<and> qs ! i = ucast n" by auto
  from chk obtain i0 where i0: "i0 < length assets" "buy_in_amount (overflow_checks e) eff (ps ! i0) tot \<noteq> Inr 0" by blast
  have tot: "tot \<noteq> 0" using qs(2)[OF i0(1)] by (auto simp: buy_in_amount)
  have each: "\<exists>n b. buy_in_amount (overflow_checks e) eff (ps ! i) tot = Inr n \<and> unat n = unat (qs ! i) \<and>
      balance e w (ai_key (dp_source_assets a ! i)) = Some b \<and>
      unat (qs ! i) = unat eff * unat (ps ! i) div unat tot \<and> qs ! i \<le> b" if i: "i < length assets" for i
  proof -
    obtain n b where n: "buy_in_amount (overflow_checks e) eff (ps ! i) tot = Inr n"
      "token_balance e w (dp_source_assets a ! i) = Some b" "unat n \<le> unat b"
      "unat (ucast n :: u64) = unat eff * unat (ps ! i) div unat tot"
      using deposit_amount_fits[OF quote eqlen _ tot le, of i] i len by auto
    have "qs ! i = ucast n" using qs(2)[OF i] n(1) by simp
    moreover have "unat (ucast n :: u64) = unat n"
      using n(3) unsigned_less[of b, where ?'a = nat] by (simp add: unat_ucast_down)
    ultimately show ?thesis using n by (auto simp: balance_token word_le_nat_alt)
  qed
  show ?thesis
  proof (rule that[OF qs(1)])
    show "\<exists>i < length assets. qs ! i \<noteq> 0" using each[OF i0(1)] i0 by (auto simp: word_unat_eq_iff)
  qed (use chk each ps(2) in blast)
qed

text \<open>
  C1. Deposit, end to end. With a token program that does what it documents, a successful deposit
  buys some \<open>effective \<le> amt\<close> pool tokens. The pool accounts paid into are the associated accounts of
  the pool for the assets it lists; for every slot \<open>i\<close> the amount \<open>qs ! i\<close> is exactly
  \<open>effective * pool / supply\<close> rounded down, from the balances before the call, at most what the
  source holds, and some amount is not zero. The supply grows by exactly \<open>effective\<close>; the mints are
  all but the fee \<open>fee_ratio * effective / 2^16\<close> for the buyer and the fee in three parts. Every
  balance moves by exactly its postings, also when one account is named several times (a buyer who
  is the signal provider, a pool that lists one mint in two slots and takes the share of each), and no other
  account's data changes.
\<close>

theorem deposit_buys_exact_shares:
  assumes "token_law e" and "process_deposit e pid accounts s amt w = Inr w'"
    and "deposit_parse e accounts w = Inr (a, h, assets)"
  shows "\<exists>supply supply' effective fee qs.
    mint_supply e w (ai_key (dp_mint a)) = Some supply \<and> mint_supply e w' (ai_key (dp_mint a)) = Some supply' \<and>
    unat supply' = unat supply + unat effective \<and> effective \<le> amt \<and>
    unat fee = unat (fee_ratio h) * unat effective div 65536 \<and> fee \<le> effective \<and> length qs = length assets \<and>
    (\<forall>i < length assets.
      ai_key (dp_pool_assets a ! i) = get_associated_token_address e (ai_key (dp_pool a)) (mint_address (assets ! i)) \<and>
      (\<exists>b p. balance e w (ai_key (dp_source_assets a ! i)) = Some b \<and> balance e w (ai_key (dp_pool_assets a ! i)) = Some p \<and>
        unat (qs ! i) = unat effective * unat p div unat supply \<and> qs ! i \<le> b)) \<and>
    (\<exists>i < length assets. qs ! i \<noteq> 0) \<and>
    (\<forall>k \<in> ai_key ` {dp_target_pool_token a, dp_signal_provider_pt a, dp_bonfida_fee_pt a, dp_bonfida_bnb_pt a}. balance e w k \<noteq> None) \<and>
    (\<forall>k b. balance e w k = Some b \<longrightarrow> (\<exists>b'. balance e w' k = Some b' \<and>
      unat b' + flow (map ai_key (dp_source_assets a)) qs k = unat b + flow (map ai_key (dp_pool_assets a)) qs k +
        flow (map ai_key [dp_target_pool_token a, dp_signal_provider_pt a, dp_bonfida_fee_pt a, dp_bonfida_bnb_pt a])
          [effective - fee, fee div 2, fee div 4, fee - fee div 4 - fee div 2] k)) \<and>
    (\<forall>k. k \<notin> ai_key ` set ([dp_mint a, dp_target_pool_token a, dp_signal_provider_pt a, dp_bonfida_fee_pt a,
        dp_bonfida_bnb_pt a] @ dp_source_assets a @ dp_pool_assets a) \<longrightarrow> acc_data (w' k) = acc_data (w k))"
proof -
  obtain tot ps quota w1 where r: "unpack_mint_supply e w (dp_mint a) = Inr tot"
    "deposit_quote e w tot (dp_pool_assets a) (dp_source_assets a) [] (- 1) = Inr (ps, quota)"
    "deposit_transfers e a (ai_key (dp_pool a)) (min amt quota) tot assets ps
       (dp_pool_assets a) (dp_source_assets a) True w = Inr (w1, False)"
    "deposit_mints e a (ai_key (dp_pool a)) (ai_key (dp_mint a)) s (fee_ratio h) (min amt quota) w1 = Inr w'"
    by (rule process_deposit_Inr[OF assms(2)]) (use assms(3) in auto)
  note p = deposit_parse_Inr[OF assms(3)]
  let ?eff = "min amt quota" and ?m = "ai_key (dp_mint a)"
  let ?S = "map ai_key (dp_source_assets a)" and ?P = "map ai_key (dp_pool_assets a)"
  let ?D = "map ai_key [dp_target_pool_token a, dp_signal_provider_pt a, dp_bonfida_fee_pt a, dp_bonfida_bnb_pt a]"
  have l: "length (dp_pool_assets a) = length assets" "length (dp_source_assets a) = length assets" "?eff \<le> quota"
    using p by simp_all
  obtain qs where qs: "moved e ?S ?P qs w w1"
    "\<forall>i < length assets. ai_key (dp_pool_assets a ! i) = get_associated_token_address e (ai_key (dp_pool a)) (mint_address (assets ! i)) \<and>
      (\<exists>b p. balance e w (ai_key (dp_source_assets a ! i)) = Some b \<and> balance e w (ai_key (dp_pool_assets a ! i)) = Some p \<and>
        unat (qs ! i) = unat ?eff * unat p div unat tot \<and> qs ! i \<le> b)"
    "\<exists>i < length assets. qs ! i \<noteq> 0"
    by (rule deposit_assets_paid[OF assms(1) conjunct1[OF p] l(1,2) r(2) l(3) r(3)])
  obtain fee where fee: "unat fee = unat (fee_ratio h) * unat ?eff div 65536" "fee \<le> ?eff"
    and mt: "minted e ?m ?D [?eff - fee, fee div 2, fee div 4, fee - fee div 4 - fee div 2] w1 w'"
    by (rule deposit_mints_minted[OF assms(1) conjunct1[OF p] r(4)]) simp
  have "unat (?eff - fee) + unat fee = unat ?eff" using fee(2) by (simp add: unat_sub word_le_nat_alt)
  then have sum: "sum_list (map unat [?eff - fee, fee div 2, fee div 4, fee - fee div 4 - fee div 2]) = unat ?eff"
    using fee_split_sum[of fee] by simp
  have m: "mint_supply e w ?m = Some tot" using r(1) by (simp add: supply_unpack)
  have m1: "mint_supply e w1 ?m = Some tot" by (rule movedD(2)[OF qs(1) m])
  from mintedD(1)[OF mt, unfolded sum m1] obtain supply' where
    m': "mint_supply e w' ?m = Some supply'" "unat supply' = unat tot + unat ?eff" by (auto simp: shifted_Some)
  have led: "\<forall>k b. balance e w k = Some b \<longrightarrow> (\<exists>b'. balance e w' k = Some b' \<and>
      unat b' + flow ?S qs k = unat b + flow ?P qs k + flow ?D [?eff - fee, fee div 2, fee div 4, fee - fee div 4 - fee div 2] k)"
  proof (intro allI impI)
    fix k b assume "balance e w k = Some b"
    then show "\<exists>b'. balance e w' k = Some b' \<and>
      unat b' + flow ?S qs k = unat b + flow ?P qs k + flow ?D [?eff - fee, fee div 2, fee div 4, fee - fee div 4 - fee div 2] k"
      using shifted_trans[OF movedD(1)[OF qs(1), of k] mintedD(2)[OF mt, of k]] by (simp only: shifted_Some add_0_right add.assoc)
  qed
  have D: "\<forall>k \<in> ai_key ` {dp_target_pool_token a, dp_signal_provider_pt a, dp_bonfida_fee_pt a, dp_bonfida_bnb_pt a}. balance e w k \<noteq> None"
  proof
    fix k assume "k \<in> ai_key ` {dp_target_pool_token a, dp_signal_provider_pt a, dp_bonfida_fee_pt a, dp_bonfida_bnb_pt a}"
    then have "k \<in> set ?D" by auto
    then show "balance e w k \<noteq> None" using mintedD(3)[OF mt] shifted_None_iff[OF movedD(1)[OF qs(1), of k]] by metis
  qed
  have rest: "\<forall>k. k \<notin> ai_key ` set ([dp_mint a, dp_target_pool_token a, dp_signal_provider_pt a,
      dp_bonfida_fee_pt a, dp_bonfida_bnb_pt a] @ dp_source_assets a @ dp_pool_assets a) \<longrightarrow> acc_data (w' k) = acc_data (w k)"
    using same_elsewhereD(3)[OF movedD(3)[OF qs(1)]] same_elsewhereD(3)[OF mintedD(4)[OF mt]] by auto
  have lq: "length qs = length assets" using movedD(4)[OF qs(1)] p by simp
  show ?thesis
    by (rule exI[of _ tot], rule exI[of _ supply'], rule exI[of _ ?eff], rule exI[of _ fee], rule exI[of _ qs])
      (intro conjI m m' fee lq qs(2,3) D led rest min.cobounded1)
qed

lemma redeem_reset_elsewhere: "redeem_reset a h w = Inr w' \<Longrightarrow> same_elsewhere {ai_key (rd_pool a)} w w'"
  by (auto simp: redeem_reset_Inr same_elsewhere_def)

lemma buy_out_amountD:
  assumes "buy_out_amount oc t p s = Inr q" "t \<le> s"
  shows "s \<noteq> 0" "unat q = unat t * unat p div unat s" "q \<le> p"
    "unat p * (unat s - unat t) \<le> (unat p - unat q) * unat s"
proof -
  show s: "s \<noteq> 0" using assms(1) by (auto simp: buy_out_amount split: if_splits)
  show "unat q = unat t * unat p div unat s" by (rule buy_out.share_eq[OF _ assms(1)]) (use s assms(2) in simp)
  show "q \<le> p" using buy_out.share_le_pool[OF _ assms(2,1)] s assms(2) by (simp add: word_le_nat_alt)
  show "unat p * (unat s - unat t) \<le> (unat p - unat q) * unat s"
    by (rule buy_out.payout_no_dilution[OF _ assms(2,1)]) (use s assms(2) in simp)
qed

text \<open>
  C2. Redemption, end to end. With a token program that does what it documents, a successful
  redemption of \<open>amt\<close> tokens from a pool whose account is not its own mint lowers the supply and
  the holder's tokens by exactly \<open>amt\<close>. The accounts paid from are the associated accounts of the
  pool for the assets it lists; slot \<open>i\<close> pays exactly \<open>amt * p / supply\<close> rounded down, at most \<open>p\<close>,
  where \<open>p\<close> is what the account holds when the slot's turn comes, that is its balance before the
  call with the postings of the slots before it: the balance itself where every mint is listed once,
  less than it where the mint is listed again, which then pays out twice. Every single payout leaves the
  asset per remaining token no lower. Every balance moves by exactly its postings, also when one
  account is named several times, and no other account's data changes.
\<close>

theorem redeem_pays_exact_shares:
  assumes "token_law e" and "process_redeem e pid accounts s amt w = Inr w'"
    and "redeem_parse e accounts w = Inr (a, h, assets)" and "ai_key (rd_pool a) \<noteq> ai_key (rd_mint a)"
  shows "\<exists>supply supply' held qs.
    mint_supply e w (ai_key (rd_mint a)) = Some supply \<and> mint_supply e w' (ai_key (rd_mint a)) = Some supply' \<and>
    unat supply' + unat amt = unat supply \<and>
    balance e w (ai_key (rd_source_pool_token a)) = Some held \<and> amt \<le> held \<and> length qs = length assets \<and>
    (\<forall>i < length assets.
      ai_key (rd_pool_assets a ! i) = get_associated_token_address e (ai_key (rd_pool a)) (mint_address (assets ! i)) \<and>
      (\<exists>b p. balance e w (ai_key (rd_pool_assets a ! i)) = Some b \<and>
        unat p + flow (map ai_key (rd_pool_assets a)) (take i qs) (ai_key (rd_pool_assets a ! i)) =
          unat b + flow (map ai_key (rd_target_assets a)) (take i qs) (ai_key (rd_pool_assets a ! i)) \<and>
        unat (qs ! i) = unat amt * unat p div unat supply \<and> qs ! i \<le> p \<and>
        unat p * (unat supply - unat amt) \<le> (unat p - unat (qs ! i)) * unat supply)) \<and>
    (\<forall>k b. k \<noteq> ai_key (rd_pool a) \<and> balance e w k = Some b \<longrightarrow> (\<exists>b'. balance e w' k = Some b' \<and>
      unat b' + flow (map ai_key (rd_pool_assets a)) qs k + flow [ai_key (rd_source_pool_token a)] [amt] k =
        unat b + flow (map ai_key (rd_target_assets a)) qs k)) \<and>
    (\<forall>k. k \<notin> ai_key ` set ([rd_source_pool_token a, rd_mint a, rd_pool a] @ rd_pool_assets a @ rd_target_assets a) \<longrightarrow>
      acc_data (w' k) = acc_data (w k))"
proof -
  obtain tot user w1 w2 where r: "unpack_mint_supply e w (rd_mint a) = Inr tot"
    "unpack_token_account e w (rd_source_pool_token a) = Inr user" "amt \<le> ta_amount user"
    "redeem_payouts e a s amt tot assets (rd_pool_assets a) (rd_target_assets a) w = Inr w1"
    "token_burn e (ai_key (rd_spl_token a)) (ai_key (rd_source_pool_token a)) (ai_key (rd_mint a))
       (ai_key (rd_source_pool_token_owner a)) amt
       [rd_spl_token a, rd_source_pool_token a, rd_mint a, rd_source_pool_token_owner a] w1 = Inr w2"
    "(if amt = tot then redeem_reset a h w2 else Inr w2) = Inr w'"
    by (rule process_redeem_Inr[OF assms(2)]) (use assms(3) in auto)
  note p = redeem_parse_Inr[OF assms(3)]
  have l: "length assets = length (rd_pool_assets a)" "length (rd_pool_assets a) = length (rd_target_assets a)"
    using p by simp_all
  let ?S = "map ai_key (rd_pool_assets a)" and ?T = "map ai_key (rd_target_assets a)"
  let ?u = "ai_key (rd_source_pool_token a)" and ?m = "ai_key (rd_mint a)" and ?pool = "ai_key (rd_pool a)"
  from redeem_payouts_moves[OF assms(1) conjunct1[OF p] l r(4)] obtain qs where qs: "moved e ?S ?T qs w w1"
    and each: "\<And>i. i < length assets \<Longrightarrow> \<exists>p. buy_out_amount (overflow_checks e) amt p tot = Inr (qs ! i) \<and>
        shifted (balance e w (ai_key (rd_pool_assets a ! i))) (flow ?T (take i qs) (ai_key (rd_pool_assets a ! i)))
          (flow ?S (take i qs) (ai_key (rd_pool_assets a ! i))) (Some p)" unfolding l(1) by blast
  note burn = burn_books[OF assms(1) r(5)[unfolded conjunct1[OF p]]]
  have e2: "same_elsewhere {?pool} w2 w'"
    using r(6) redeem_reset_elsewhere[of a h w2 w'] by (cases "amt = tot") auto
  have m: "mint_supply e w ?m = Some tot" using r(1) by (simp add: supply_unpack)
  have "mint_supply e w' ?m = mint_supply e w2 ?m" using same_elsewhereD(2)[OF e2, of ?m e] assms(4) by simp
  with burn(2) movedD(2)[OF qs m] obtain supply' where m': "mint_supply e w' ?m = Some supply'" "unat supply' + unat amt = unat tot"
    by (auto simp: shifted_Some)
  have le: "amt \<le> tot" using m'(2) by (simp add: word_le_nat_alt)
  have assets: "\<forall>i < length assets. ai_key (rd_pool_assets a ! i) = get_associated_token_address e ?pool (mint_address (assets ! i)) \<and>
      (\<exists>b p. balance e w (ai_key (rd_pool_assets a ! i)) = Some b \<and>
        unat p + flow ?S (take i qs) (ai_key (rd_pool_assets a ! i)) = unat b + flow ?T (take i qs) (ai_key (rd_pool_assets a ! i)) \<and>
        unat (qs ! i) = unat amt * unat p div unat tot \<and> qs ! i \<le> p \<and>
        unat p * (unat tot - unat amt) \<le> (unat p - unat (qs ! i)) * unat tot)"
  proof (intro allI impI conjI)
    fix i assume i: "i < length assets"
    from each[OF i] obtain p where p: "buy_out_amount (overflow_checks e) amt p tot = Inr (qs ! i)"
      "shifted (balance e w (ai_key (rd_pool_assets a ! i))) (flow ?T (take i qs) (ai_key (rd_pool_assets a ! i)))
          (flow ?S (take i qs) (ai_key (rd_pool_assets a ! i))) (Some p)" by blast
    show "\<exists>b p. balance e w (ai_key (rd_pool_assets a ! i)) = Some b \<and>
        unat p + flow ?S (take i qs) (ai_key (rd_pool_assets a ! i)) = unat b + flow ?T (take i qs) (ai_key (rd_pool_assets a ! i)) \<and>
        unat (qs ! i) = unat amt * unat p div unat tot \<and> qs ! i \<le> p \<and>
        unat p * (unat tot - unat amt) \<le> (unat p - unat (qs ! i)) * unat tot"
      using shifted_SomeD[OF p(2)] buy_out_amountD[OF p(1) le] by blast
  qed (use redeem_payouts_accounts[OF l r(4)] l(1) in simp)
  have led: "\<forall>k b. k \<noteq> ?pool \<and> balance e w k = Some b \<longrightarrow> (\<exists>b'. balance e w' k = Some b' \<and>
      unat b' + flow ?S qs k + flow [?u] [amt] k = unat b + flow ?T qs k)"
  proof (intro allI impI; elim conjE)
    fix k b assume k: "k \<noteq> ?pool" "balance e w k = Some b"
    have "flow [?u] [amt] k = (if ?u = k then unat amt else 0)" by simp
    with shifted_trans[OF movedD(1)[OF qs, of k] burn(1)[of k]] k same_elsewhereD(1)[OF e2, of k e]
    show "\<exists>b'. balance e w' k = Some b' \<and> unat b' + flow ?S qs k + flow [?u] [amt] k = unat b + flow ?T qs k"
      by (simp only: shifted_Some add_0_right add.assoc) simp
  qed
  have rest: "\<forall>k. k \<notin> ai_key ` set ([rd_source_pool_token a, rd_mint a, rd_pool a] @ rd_pool_assets a @ rd_target_assets a) \<longrightarrow>
      acc_data (w' k) = acc_data (w k)"
    using same_elsewhereD(3)[OF movedD(3)[OF qs]] same_elsewhereD(3)[OF burn(3)] same_elsewhereD(3)[OF e2] by auto
  have lq: "length qs = length assets" using movedD(4)[OF qs] l by simp
  show ?thesis
    by (rule exI[of _ tot], rule exI[of _ supply'], rule exI[of _ "ta_amount user"], rule exI[of _ qs])
      (intro conjI m m' balance_unpack[OF r(2)] r(3) lq assets led rest)
qed

text \<open>
  C3. Fee collection, end to end. With a token program that does what it documents, a successful
  collection on a pool whose account is not its own mint collects exactly the \<open>n \<noteq> 0\<close> whole periods
  \<open>(now - last) / period\<close> that the clock shows since the recorded time. The ratio \<open>f\<close> left to the holders is within
  \<open>n - 1\<close> units below \<open>(65535 - fee_ratio) ^ n / 65536 ^ (n - 1)\<close> and not zero, the tokens minted
  are \<open>(65535 - f) * supply / f\<close> rounded down and cast to 64 bits, and the supply grows by exactly these. Half of them are
  booked on the signal provider's account, a quarter on the Bonfida fee account and the rest on the
  buy-and-burn account, also when two of the three are the same; every other balance is kept, and
  apart from these accounts, the mint and the pool account no data changes.
\<close>

theorem collect_fees_supply:
  assumes "token_law e" and "process_collect_fees e pid accounts s w = Inr w'"
    and "fees_parse e accounts = Inr a" and "ai_key (cf_pool a) \<noteq> ai_key (cf_mint a)"
  shows "\<exists>h now n f supply supply' tokens. read_pool_header w (cf_pool a) = Inr h \<and>
    clock_of e w (cf_clock_sysvar a) = Inr now \<and> fee_collection_period h \<noteq> 0 \<and>
    (overflow_checks e \<longrightarrow> last_fee_collection_timestamp h \<le> now) \<and>
    n = unat (now - last_fee_collection_timestamp h) div unat (fee_collection_period h) \<and> n \<noteq> 0 \<and>
    f \<noteq> 0 \<and> f * 65536 ^ (n - 1) \<le> (65535 - unat (fee_ratio h)) ^ n \<and>
    (65535 - unat (fee_ratio h)) ^ n \<le> (f + (n - 1)) * 65536 ^ (n - 1) \<and>
    unat tokens = ((65535 - f) * unat supply div f) mod 2 ^ 64 \<and>
    mint_supply e w (ai_key (cf_mint a)) = Some supply \<and> mint_supply e w' (ai_key (cf_mint a)) = Some supply' \<and>
    unat supply' = unat supply + unat tokens \<and>
    (\<forall>k \<in> ai_key ` {cf_signal_provider_pt a, cf_bonfida_fee_pt a, cf_bonfida_bnb_pt a}. balance e w k \<noteq> None) \<and>
    (\<forall>k b. k \<noteq> ai_key (cf_pool a) \<and> balance e w k = Some b \<longrightarrow> (\<exists>b'. balance e w' k = Some b' \<and>
      unat b' = unat b + flow (map ai_key [cf_signal_provider_pt a, cf_bonfida_fee_pt a, cf_bonfida_bnb_pt a])
        [tokens div 2, tokens div 4, tokens - tokens div 4 - tokens div 2] k)) \<and>
    (\<forall>k. k \<notin> ai_key ` {cf_mint a, cf_signal_provider_pt a, cf_bonfida_fee_pt a, cf_bonfida_bnb_pt a, cf_pool a} \<longrightarrow>
      acc_data (w' k) = acc_data (w k))"
proof -
  obtain h mk fk bk now n f h' tot tokens w1 where r:
    "fees_checks e pid a s w = Inr (h, mk, fk, bk)" "read_pool_header w (cf_pool a) = Inr h"
    "clock_of e w (cf_clock_sysvar a) = Inr now" "fee_cycles (overflow_checks e) now h = Inr n" "n \<noteq> 0"
    "feeless_ratio_u16 (overflow_checks e) (fee_ratio h) n = Inr f"
    "unpack_mint_supply e w (cf_mint a) = Inr tot" "tokens_to_mint (overflow_checks e) f tot = Inr tokens"
    "fees_mints e a mk s fk bk tokens w = Inr w1"
    "w' = set_data w1 (cf_pool a) (header_bytes h' @ drop HEADER_LEN (data_of w1 (cf_pool a)))"
    by (rule process_collect_fees_Inr[OF assms(2)]) (use assms(3) in auto)
  have spl: "ai_key (cf_spl_token a) = spl_token_id e" using assms(3) by (auto simp: fees_parse_def res_simps)
  have keys: "mk = ai_key (cf_mint a)" "fk = ai_key (cf_bonfida_fee_pt a)" "bk = ai_key (cf_bonfida_bnb_pt a)"
    using r(1) by (auto simp: fees_checks_def res_simps Let_def)
  let ?m = "ai_key (cf_mint a)" and ?N = "[tokens div 2, tokens div 4, tokens - tokens div 4 - tokens div 2]"
  let ?D = "map ai_key [cf_signal_provider_pt a, cf_bonfida_fee_pt a, cf_bonfida_bnb_pt a]"
  have mt: "minted e ?m ?D ?N w w1"
    using r(9) unfolding fees_mints_Inr keys by (auto intro: fees_mints_minted[OF assms(1) spl])
  have e2: "same_elsewhere {ai_key (cf_pool a)} w1 w'" unfolding r(10) by (simp add: same_elsewhere_def)
  have sum: "sum_list (map unat ?N) = unat tokens" using fee_split_sum[of tokens] by simp
  have m: "mint_supply e w ?m = Some tot" using r(7) by (simp add: supply_unpack)
  have "mint_supply e w' ?m = mint_supply e w1 ?m" using same_elsewhereD(2)[OF e2, of ?m e] assms(4) by simp
  with mintedD(1)[OF mt, unfolded sum m] obtain supply' where
    m': "mint_supply e w' ?m = Some supply'" "unat supply' = unat tot + unat tokens" by (auto simp: shifted_Some)
  have led: "\<forall>k b. k \<noteq> ai_key (cf_pool a) \<and> balance e w k = Some b \<longrightarrow>
      (\<exists>b'. balance e w' k = Some b' \<and> unat b' = unat b + flow ?D ?N k)"
  proof (intro allI impI; elim conjE)
    fix k b assume "k \<noteq> ai_key (cf_pool a)" "balance e w k = Some b"
    then show "\<exists>b'. balance e w' k = Some b' \<and> unat b' = unat b + flow ?D ?N k"
      using mintedD(2)[OF mt, of k] same_elsewhereD(1)[OF e2, of k e] by (simp only: shifted_Some add_0_right) simp
  qed
  have rest: "\<forall>k. k \<notin> ai_key ` {cf_mint a, cf_signal_provider_pt a, cf_bonfida_fee_pt a, cf_bonfida_bnb_pt a, cf_pool a} \<longrightarrow>
      acc_data (w' k) = acc_data (w k)"
    using same_elsewhereD(3)[OF e2] same_elsewhereD(3)[OF mintedD(4)[OF mt]] by auto
  have D: "\<forall>k \<in> ai_key ` {cf_signal_provider_pt a, cf_bonfida_fee_pt a, cf_bonfida_bnb_pt a}. balance e w k \<noteq> None"
    using mintedD(3)[OF mt] by auto
  let ?n = "unat (now - last_fee_collection_timestamp h) div unat (fee_collection_period h)"
  have cy: "unat n = ?n" "fee_collection_period h \<noteq> 0" "overflow_checks e \<longrightarrow> last_fee_collection_timestamp h \<le> now"
    using r(4) by (auto simp: fee_cycles_def sub_w_def div_w_def res_simps unat_div_distrib split: if_splits)
  have n0: "?n \<noteq> 0" using r(5) cy(1) by (metis unat_eq_zero)
  note amt = collected_amount[OF r(6) r(5) r(8), unfolded cy(1)]
  show ?thesis
    by (rule exI[of _ h], rule exI[of _ now], rule exI[of _ ?n], rule exI[of _ "unat f"], rule exI[of _ tot],
      rule exI[of _ supply'], rule exI[of _ tokens])
      (intro conjI r(2,3) cy(2,3) n0 amt m m' D led rest refl)
qed

subsection \<open>The laws hold of the demo environment\<close>


lemma demo_unpack_add:
  "demo_token_unpack d = Inr t \<Longrightarrow>
    demo_token_unpack (take 64 d @ le_bytes 8 (from_le (drop 64 d) + (x :: u64))) = Inr (t\<lparr>ta_amount := ta_amount t + x\<rparr>)"
  by (auto simp: demo_token_unpack_def codec_simps drop_take split: if_splits)

lemma demo_balance_add:
  "balance (demo_env oc) w k = Some b \<Longrightarrow> balance (demo_env oc) (demo_add k 64 x w) k = Some (b + x)"
  by (auto simp: balance_def demo_add_def Let_def demo_unpack_add split: sum.splits)

lemma demo_supply_add:
  "mint_supply (demo_env oc) w k = Some s \<Longrightarrow> mint_supply (demo_env oc) (demo_add k 0 x w) k = Some (s + x)"
  by (auto simp: mint_supply_def demo_add_def Let_def demo_mint_unpack_def codec_simps split: if_splits)

lemma demo_add_elsewhere: "same_elsewhere {k} w (demo_add k pos x w)"
  by (simp add: same_elsewhere_def demo_add_def Let_def)

lemma demo_balance_iff: "demo_token_unpack (acc_data (w k)) = Inr t \<Longrightarrow> balance (demo_env oc) w k = Some (ta_amount t)"
  by (simp add: balance_def)

lemma demo_supply_iff: "demo_mint_unpack (acc_data (w k)) = Inr s \<Longrightarrow> mint_supply (demo_env oc) w k = Some s"
  by (simp add: mint_supply_def)

lemma no_wrap:
  assumes "\<not> b + amt < (amt :: u64)"
  shows "unat b + unat amt < 2 ^ 64"
proof (rule ccontr)
  assume c: "\<not> unat b + unat amt < 2 ^ 64"
  have b: "unat b < 2 ^ 64" "unat amt < 2 ^ 64"
    using unsigned_less[of b, where ?'a = nat] unsigned_less[of amt, where ?'a = nat] by simp_all
  have "unat (b + amt) = unat b + unat amt - 2 ^ 64"
    using c b by (simp add: unat_word_ariths(1) mod_if)
  then show False using assms b c by (simp add: word_less_nat_alt)
qed

lemma demo_moves:
  assumes "demo_add k2 p2 y (demo_add k1 p1 x w) = w'" "k1 \<noteq> k2"
  shows "p1 = 64 \<Longrightarrow> balance (demo_env oc) w k1 = Some a \<Longrightarrow> balance (demo_env oc) w' k1 = Some (a + x)"
    "p1 = 0 \<Longrightarrow> mint_supply (demo_env oc) w k1 = Some s \<Longrightarrow> mint_supply (demo_env oc) w' k1 = Some (s + x)"
    "p2 = 64 \<Longrightarrow> balance (demo_env oc) w k2 = Some b \<Longrightarrow> balance (demo_env oc) w' k2 = Some (b + y)"
    "p2 = 0 \<Longrightarrow> mint_supply (demo_env oc) w k2 = Some t \<Longrightarrow> mint_supply (demo_env oc) w' k2 = Some (t + y)"
    "same_elsewhere {k1, k2} w w'"
proof -
  note e = demo_add_elsewhere[of k1 w p1 x] demo_add_elsewhere[of k2 "demo_add k1 p1 x w" p2 y, unfolded assms(1)]
  show "same_elsewhere {k1, k2} w w'" by (rule same_elsewhere_trans[OF e]) auto
  show "p1 = 64 \<Longrightarrow> balance (demo_env oc) w k1 = Some a \<Longrightarrow> balance (demo_env oc) w' k1 = Some (a + x)"
    "p1 = 0 \<Longrightarrow> mint_supply (demo_env oc) w k1 = Some s \<Longrightarrow> mint_supply (demo_env oc) w' k1 = Some (s + x)"
    "p2 = 64 \<Longrightarrow> balance (demo_env oc) w k2 = Some b \<Longrightarrow> balance (demo_env oc) w' k2 = Some (b + y)"
    "p2 = 0 \<Longrightarrow> mint_supply (demo_env oc) w k2 = Some t \<Longrightarrow> mint_supply (demo_env oc) w' k2 = Some (t + y)"
    using same_elsewhereD(1,2)[OF e(1), of k2 "demo_env oc"] same_elsewhereD(1,2)[OF e(2), of k1 "demo_env oc"] assms
      demo_balance_add demo_supply_add by auto
qed

lemma demo_exclusive: "balance (demo_env oc) w k = None \<or> mint_supply (demo_env oc) w k = None"
  by (simp add: balance_def mint_supply_def demo_token_unpack_def demo_mint_unpack_def split: if_splits)

lemma demo_transfer_law:
  assumes "demo_transfer src dst amt w = Inr w'"
  shows "\<exists>a b. balance (demo_env oc) w src = Some a \<and> balance (demo_env oc) w dst = Some b \<and> amt \<le> a \<and>
    same_elsewhere {src, dst} w w' \<and>
    (if src = dst then balance (demo_env oc) w' src = Some a
     else unat b + unat amt < 2 ^ 64 \<and> balance (demo_env oc) w' src = Some (a - amt) \<and>
       balance (demo_env oc) w' dst = Some (b + amt))"
proof (cases "src = dst")
  case True
  with assms show ?thesis unfolding demo_transfer_def
    by (auto simp: not_less demo_balance_iff split: sum.splits if_splits)
next
  case False
  with assms obtain a b where r: "demo_token_unpack (acc_data (w src)) = Inr a" "demo_token_unpack (acc_data (w dst)) = Inr b"
    "\<not> ta_amount a < amt" "\<not> ta_amount b + amt < amt" and m: "demo_add dst 64 amt (demo_add src 64 (- amt) w) = w'"
    unfolding demo_transfer_def by (auto split: sum.splits if_splits)
  from demo_moves(1-4)[where oc = oc, OF m False] demo_moves(5)[OF m False] demo_balance_iff[of w src a oc, OF r(1)]
    demo_balance_iff[of w dst b oc, OF r(2)] r(3) no_wrap[OF r(4)] False
  show ?thesis by (intro exI[of _ "ta_amount a"] exI[of _ "ta_amount b"]) (simp add: not_less)
qed

lemma demo_mint_law:
  assumes "demo_mint_to mint dst amt w = Inr w'"
  shows "\<exists>s b. mint_supply (demo_env oc) w mint = Some s \<and> balance (demo_env oc) w dst = Some b \<and>
    unat s + unat amt < 2 ^ 64 \<and> unat b + unat amt < 2 ^ 64 \<and> mint_supply (demo_env oc) w' mint = Some (s + amt) \<and>
    balance (demo_env oc) w' dst = Some (b + amt) \<and> same_elsewhere {mint, dst} w w'"
proof -
  from assms obtain s b where r: "demo_mint_unpack (acc_data (w mint)) = Inr s" "demo_token_unpack (acc_data (w dst)) = Inr b"
    "\<not> s + amt < amt" "\<not> ta_amount b + amt < amt" and m: "demo_add dst 64 amt (demo_add mint 0 amt w) = w'"
    unfolding demo_mint_to_def by (auto split: sum.splits if_splits)
  have ne: "mint \<noteq> dst" using r(1,2) by (auto simp: demo_mint_unpack_def demo_token_unpack_def split: if_splits)
  from demo_moves(1-4)[where oc = oc, OF m ne] demo_moves(5)[OF m ne] demo_supply_iff[of w mint s oc, OF r(1)] demo_balance_iff[of w dst b oc, OF r(2)] no_wrap[OF r(3)] no_wrap[OF r(4)]
  show ?thesis by (intro exI[of _ s] exI[of _ "ta_amount b"]) simp
qed

lemma demo_burn_law:
  assumes "demo_burn acct mint amt w = Inr w'"
  shows "\<exists>a s. balance (demo_env oc) w acct = Some a \<and> mint_supply (demo_env oc) w mint = Some s \<and> amt \<le> a \<and> amt \<le> s \<and>
    balance (demo_env oc) w' acct = Some (a - amt) \<and> mint_supply (demo_env oc) w' mint = Some (s - amt) \<and>
    same_elsewhere {acct, mint} w w'"
proof -
  from assms obtain a s where r: "demo_token_unpack (acc_data (w acct)) = Inr a" "demo_mint_unpack (acc_data (w mint)) = Inr s"
    "\<not> ta_amount a < amt" "\<not> s < amt" and m: "demo_add mint 0 (- amt) (demo_add acct 64 (- amt) w) = w'"
    unfolding demo_burn_def by (auto split: sum.splits if_splits)
  have ne: "acct \<noteq> mint" using r(1,2) by (auto simp: demo_mint_unpack_def demo_token_unpack_def split: if_splits)
  from demo_moves(1-4)[where oc = oc, OF m ne] demo_moves(5)[OF m ne] demo_balance_iff[of w acct a oc, OF r(1)] demo_supply_iff[of w mint s oc, OF r(2)] r(3,4)
  show ?thesis by (intro exI[of _ "ta_amount a"] exI[of _ s]) (simp add: not_less)
qed

lemma token_law_demo: "token_law (demo_env oc)"
  unfolding token_law_def
proof (intro conjI allI impI)
  show "balance (demo_env oc) w k = None \<or> mint_supply (demo_env oc) w k = None" for w k by (rule demo_exclusive)
next
  fix src dst auth amt infos seeds w w'
  assume "token_transfer (demo_env oc) (spl_token_id (demo_env oc)) src dst auth amt infos seeds w = Inr w'"
  then have "demo_transfer src dst amt w = Inr w'" by (simp add: token_transfer_def invoke_signed_def res_simps)
  then show "\<exists>a b. balance (demo_env oc) w src = Some a \<and> balance (demo_env oc) w dst = Some b \<and> amt \<le> a \<and>
      same_elsewhere {src, dst} w w' \<and>
      (if src = dst then balance (demo_env oc) w' src = Some a
       else unat b + unat amt < 2 ^ 64 \<and> balance (demo_env oc) w' src = Some (a - amt) \<and>
         balance (demo_env oc) w' dst = Some (b + amt))" by (rule demo_transfer_law)
next
  fix mint dst auth amt infos seeds w w'
  assume "token_mint_to (demo_env oc) (spl_token_id (demo_env oc)) mint dst auth amt infos seeds w = Inr w'"
  then have "demo_mint_to mint dst amt w = Inr w'" by (simp add: token_mint_to_def invoke_signed_def res_simps)
  then show "\<exists>s b. mint_supply (demo_env oc) w mint = Some s \<and> balance (demo_env oc) w dst = Some b \<and>
    unat s + unat amt < 2 ^ 64 \<and> unat b + unat amt < 2 ^ 64 \<and> mint_supply (demo_env oc) w' mint = Some (s + amt) \<and>
    balance (demo_env oc) w' dst = Some (b + amt) \<and> same_elsewhere {mint, dst} w w'" by (rule demo_mint_law)
next
  fix acct mint auth amt infos w w'
  assume "token_burn (demo_env oc) (spl_token_id (demo_env oc)) acct mint auth amt infos w = Inr w'"
  then have "demo_burn acct mint amt w = Inr w'" by (simp add: token_burn_def invoke_def invoke_signed_def res_simps)
  then show "\<exists>a s. balance (demo_env oc) w acct = Some a \<and> mint_supply (demo_env oc) w mint = Some s \<and> amt \<le> a \<and> amt \<le> s \<and>
    balance (demo_env oc) w' acct = Some (a - amt) \<and> mint_supply (demo_env oc) w' mint = Some (s - amt) \<and>
    same_elsewhere {acct, mint} w w'" by (rule demo_burn_law)
qed

theorem redeem_pays_exact_shares_witness:
  "\<exists>w'. process_redeem (demo_env True) 7 demo_redeem_accounts 100 250000 demo_holder_world = Inr w' \<and>
    balance (demo_env True) w' 101002 = Some 1500000 \<and> mint_supply (demo_env True) w' 102 = Some 750000"
proof -
  obtain w' where w': "process_redeem (demo_env True) 7 demo_redeem_accounts 100 250000 demo_holder_world = Inr w'"
    using demo_redeem[of 250000] by blast
  have b: "balance (demo_env True) demo_holder_world 101002 = Some 2000000"
    "mint_supply (demo_env True) demo_holder_world 102 = Some 1000000"
    by (simp_all add: balance_def mint_supply_def demo_holder_world_def)
  have k: "ai_key (rd_mint demo_redeem_record) = 102" "ai_key (rd_pool demo_redeem_record) = 101"
    "map ai_key (rd_pool_assets demo_redeem_record) = [101001, 101002]" "ai_key (rd_pool_assets demo_redeem_record ! 1) = 101002"
    "map ai_key (rd_target_assets demo_redeem_record) = [301, 302]" "ai_key (rd_source_pool_token demo_redeem_record) = 200"
    by (simp_all add: demo_redeem_record_def)
  have "ai_key (rd_pool demo_redeem_record) \<noteq> ai_key (rd_mint demo_redeem_record)" unfolding k by simp
  from redeem_pays_exact_shares[OF token_law_demo w' demo_redeem_parse this, unfolded k] show ?thesis
  proof (elim exE conjE, goal_cases)
    case (1 tot tot' held qs)
    obtain q0 q1 where qs: "qs = [q0, q1]" using 1(6) by (auto simp: length_Suc_conv)
    have "(1 :: nat) < length [\<lparr>mint_address = 1\<rparr>, \<lparr>mint_address = 2\<rparr>]" by simp
    from 1(7)[rule_format, OF this, unfolded k(4) qs, THEN conjunct2]
    obtain x and p :: u64 where x: "balance (demo_env True) demo_holder_world 101002 = Some x"
      "unat p + flow [101001, 101002] (take 1 [q0, q1]) 101002 = unat x + flow [301, 302] (take 1 [q0, q1]) 101002"
      "unat ([q0, q1] ! 1) = unat (250000 :: u64) * unat p div unat tot" by blast
    have "unat p = 2000000" using x(1,2) b(1) by simp
    moreover have "unat tot = 1000000" using 1(1) b(2) by simp
    ultimately have "unat q1 = 500000" using x(3) by simp
    then have "balance (demo_env True) w' 101002 = Some 1500000"
      using 1(8)[rule_format, of 101002 2000000] b unfolding qs by (auto simp: word_unat_eq_iff)
    moreover have "tot' = 750000" using 1(1-3) b by (simp add: word_unat_eq_iff)
    ultimately show ?case using w' 1(2) by blast
  qed
qed

theorem deposit_buys_exact_shares_witness:
  "\<exists>w' tot' (effective :: u64). process_deposit (demo_env False) 7 demo_deposit_accounts 100 500000 demo_world = Inr w' \<and>
    effective \<le> 500000 \<and> mint_supply (demo_env False) w' 102 = Some tot' \<and> unat tot' = 1000000 + unat effective"
proof -
  obtain w' where w': "process_deposit (demo_env False) 7 demo_deposit_accounts 100 500000 demo_world = Inr w'"
    using demo_deposit by blast
  have m: "mint_supply (demo_env False) demo_world 102 = Some 1000000" by (simp add: mint_supply_def)
  have k: "ai_key (dp_mint demo_deposit_record) = 102" by (simp add: demo_deposit_record_def)
  from deposit_buys_exact_shares[OF token_law_demo w' demo_deposit_parse, unfolded k] show ?thesis
  proof (elim exE conjE, goal_cases)
    case (1 tot tot' effective fee qs)
    have "unat tot' = 1000000 + unat effective" using 1(1,3) m by simp
    with w' 1(2,4) show ?case by blast
  qed
qed

theorem collect_fees_supply_witness:
  "\<exists>w' tot' tokens f. process_collect_fees (demo_env True) 7 demo_fee_accounts 100 demo_later_world = Inr w' \<and>
    mint_supply (demo_env True) w' 102 = Some tot' \<and> unat tot' = 1000000 + unat (tokens :: u64) \<and>
    f \<noteq> 0 \<and> unat tokens = (65535 - f) * 1000000 div f mod 2 ^ 64"
proof -
  obtain w' where w': "process_collect_fees (demo_env True) 7 demo_fee_accounts 100 demo_later_world = Inr w'"
    using demo_collect_fees by blast
  have m: "mint_supply (demo_env True) demo_later_world 102 = Some 1000000"
    by (simp add: mint_supply_def demo_later_world_def)
  have k: "ai_key (cf_mint demo_fee_record) = 102" "ai_key (cf_pool demo_fee_record) = 101"
    by (simp_all add: demo_fee_record_def)
  have "ai_key (cf_pool demo_fee_record) \<noteq> ai_key (cf_mint demo_fee_record)" unfolding k by simp
  from collect_fees_supply[OF token_law_demo w' demo_fees_parse this, unfolded k] show ?thesis
  proof (elim exE conjE, goal_cases)
    case (1 h now n f tot tot' tokens)
    have tot: "unat tot = 1000000" using 1(11) m by simp
    with w' 1(7,10,12,13) show ?case unfolding tot by blast
  qed
qed

end
