(* ===== verification/Client_Facts.thy ===== *)
theory Client_Facts
  imports Client Token_Facts
begin

text \<open>
  The client's builders and the processor agree: an account list a builder produces is read by the
  handler with every account in its role, the signatures the checks ask for are requested, and the
  packed data selects the handler with the builder's arguments.
\<close>

lemma entrypoint_packed:
  "wf_instruction i \<Longrightarrow> entrypoint e pid accounts (pack_instruction i) w = dispatch e pid accounts i w"
  using unpack_pack_instruction[of i "[]"]
  by (simp add: entrypoint_def process_instruction_def split: sum.splits)

text \<open>
  What is left of the two loops once every account passed is the pool's own for its asset: the
  amounts and the token transfers.
\<close>

fun pay_in :: "env \<Rightarrow> deposit_accounts \<Rightarrow> u64 \<Rightarrow> u64 \<Rightarrow> u64 list \<Rightarrow> account_info list \<Rightarrow> account_info list \<Rightarrow>
    bool \<Rightarrow> world \<Rightarrow> (world \<times> bool) res" where
  "pay_in e a effective tot (amt # amts) (pa # pas) (sa # sas) all_zero w =
     bind_res (buy_in_amount (overflow_checks e) effective amt tot) (\<lambda>amount.
     if amount = 0 then pay_in e a effective tot amts pas sas all_zero w
     else bind_res (token_transfer e (ai_key (dp_spl_token a)) (ai_key sa) (ai_key pa)
         (ai_key (dp_source_owner a)) (ucast amount) [sa, pa, dp_spl_token a, dp_source_owner a] [] w) (\<lambda>w'.
       pay_in e a effective tot amts pas sas False w'))"
| "pay_in e a effective tot _ _ _ all_zero w = Inr (w, all_zero)"

lemma deposit_transfers_pay_in:
  "length xs = length pas \<Longrightarrow> length sas = length pas \<Longrightarrow>
    (\<And>i. i < length pas \<Longrightarrow> ai_key (pas ! i) = get_associated_token_address e pk (mint_address (xs ! i))) \<Longrightarrow>
    deposit_transfers e a pk eff tot xs amts pas sas z w = pay_in e a eff tot amts pas sas z w"
proof (induction e a eff tot amts pas sas z w arbitrary: xs rule: pay_in.induct)
  case (1 e a eff tot amt amts pa pas sa sas z w)
  from "1.prems"(1) obtain y ys where xs: "xs = y # ys" "length ys = length pas" by (cases xs) auto
  have k: "get_associated_token_address e pk (mint_address y) = ai_key pa" using "1.prems"(3)[of 0] xs by simp
  have l: "length ys = length pas" "length sas = length pas" using "1.prems"(2) xs by simp_all
  have ks: "ai_key (pas ! i) = get_associated_token_address e pk (mint_address (ys ! i))" if "i < length pas" for i
    using "1.prems"(3)[of "Suc i"] that xs by simp
  show ?case unfolding xs(1) using k "1.IH"(1)[OF _ _ l ks] "1.IH"(2)[OF _ _ _ l ks]
    by (auto simp: bind_res_def split: sum.splits)
qed (auto simp: length_Suc_conv)

fun pay_out :: "env \<Rightarrow> redeem_accounts \<Rightarrow> bytes32 \<Rightarrow> u64 \<Rightarrow> u64 \<Rightarrow> account_info list \<Rightarrow> account_info list \<Rightarrow>
    world \<Rightarrow> world res" where
  "pay_out e a s amt tot (pa # pas) (ta # tas) w =
     bind_res (unpack_token_account e w pa) (\<lambda>pool_acct.
     bind_res (buy_out_amount (overflow_checks e) amt (ta_amount pool_acct) tot) (\<lambda>amount.
     if amount = 0 then pay_out e a s amt tot pas tas w
     else bind_res (token_transfer e (ai_key (rd_spl_token a)) (ai_key pa) (ai_key ta)
         (ai_key (rd_pool a)) amount [rd_spl_token a, pa, ta, rd_pool a] [pool_seeds s] w) (\<lambda>w'.
       pay_out e a s amt tot pas tas w')))"
| "pay_out e a s amt tot _ _ w = Inr w"

lemma redeem_payouts_pay_out:
  "length xs = length pas \<Longrightarrow> length tas = length pas \<Longrightarrow>
    (\<And>i. i < length pas \<Longrightarrow> ai_key (pas ! i) = get_associated_token_address e (ai_key (rd_pool a)) (mint_address (xs ! i))) \<Longrightarrow>
    redeem_payouts e a s amt tot xs pas tas w = pay_out e a s amt tot pas tas w"
proof (induction e a s amt tot pas tas w arbitrary: xs rule: pay_out.induct)
  case (1 e a s amt tot pa pas ta tas w)
  from "1.prems"(1) obtain y ys where xs: "xs = y # ys" "length ys = length pas" by (cases xs) auto
  have k: "get_associated_token_address e (ai_key (rd_pool a)) (mint_address y) = ai_key pa" using "1.prems"(3)[of 0] xs by simp
  have l: "length ys = length pas" "length tas = length pas" using "1.prems"(2) xs by simp_all
  have ks: "ai_key (pas ! i) = get_associated_token_address e (ai_key (rd_pool a)) (mint_address (ys ! i))" if "i < length pas" for i
    using "1.prems"(3)[of "Suc i"] that xs by simp
  show ?case unfolding xs(1) using k "1.IH"(1)[OF _ _ _ l ks] "1.IH"(2)[OF _ _ _ _ l ks]
    by (auto simp: bind_res_def split: sum.splits)
qed (auto simp: length_Suc_conv)

lemma unpack_balance: "token_balance e w a = Some b \<Longrightarrow> \<exists>t. unpack_token_account e w a = Inr t \<and> ta_amount t = b"
  by (auto simp: token_balance_def unpack_token_account_def try_err_def split: sum.splits)

text \<open>
  C33. A deposit the client builds for a live, unlocked pool of the program, with the derived pool
  and mint, the signal provider's associated account, one source account per stored asset, and for
  each stored asset the pool's associated account, reaches \<open>process_deposit\<close> with the builder's
  arguments, is read with every account in its role, and passes every check of accounts and status: what the
  handler returns is what the quote, the transfers of the computed amounts, the refusal of
  amounts that are all zero, and the mints return.
\<close>

theorem client_deposit_accepted:
  assumes "client_deposit e (spl_token_id e) pid mint pool pool_keys target sp owner source_keys s amt = Inr ix"
    and "create_program_address e (pool_seeds s) pid = Inr pool" and "create_program_address e (mint_seeds s) pid = Inr mint"
    and "acc_owner (w pool) = pid" and "read_pool_header w (handle_of (meta_readonly pool False)) = Inr h"
    and "read_pool_assets w (handle_of (meta_readonly pool False)) h = Inr assets"
    and "pool_keys = map (\<lambda>x. get_associated_token_address e pool (mint_address x)) assets" and "length source_keys = length assets"
    and "sp = get_associated_token_address e (signal_provider h) mint" and "status h = Unlocked"
  shows "entrypoint e pid (handles ix) (ix_data ix) w = process_deposit e pid (handles ix) s amt w \<and>
    (\<exists>a. deposit_parse e (handles ix) w = Inr (a, h, assets) \<and> ai_key (dp_pool a) = pool \<and> ai_key (dp_mint a) = mint \<and>
      ai_key (dp_target_pool_token a) = target \<and> ai_key (dp_source_owner a) = owner \<and> ai_signer (dp_source_owner a) \<and>
      map ai_key (dp_pool_assets a) = pool_keys \<and> map ai_key (dp_source_assets a) = source_keys \<and>
      process_deposit e pid (handles ix) s amt w =
        bind_res (unpack_mint_supply e w (dp_mint a)) (\<lambda>tot.
        bind_res (deposit_quote e w tot (dp_pool_assets a) (dp_source_assets a) [] (- 1)) (\<lambda>(amts, quota).
        bind_res (pay_in e a (min amt quota) tot amts (dp_pool_assets a) (dp_source_assets a) True w) (\<lambda>(w1, all_zero).
        if all_zero then Inl (Error InvalidArgument)
        else deposit_mints e a pool mint s (fee_ratio h) (min amt quota) w1))))"
proof -
  from assms(1) obtain fee bnb where k: "pubkey_from_str e BONFIDA_FEE = Inr fee" "pubkey_from_str e BONFIDA_BNB = Inr bnb"
    by (auto simp: client_deposit_def bonfida_pt_key_def res_simps)
  let ?P = "map handle_of (writable_metas pool_keys)" and ?S = "map handle_of (writable_metas source_keys)"
  let ?a = "\<lparr>dp_spl_token = handle_of (meta_readonly (spl_token_id e) False), dp_mint = handle_of (meta_new mint False),
    dp_target_pool_token = handle_of (meta_new target False), dp_signal_provider_pt = handle_of (meta_new sp False),
    dp_bonfida_fee_pt = handle_of (meta_new (get_associated_token_address e fee mint) False),
    dp_bonfida_bnb_pt = handle_of (meta_new (get_associated_token_address e bnb mint) False),
    dp_pool = handle_of (meta_readonly pool False), dp_pool_assets = ?P,
    dp_source_owner = handle_of (meta_readonly owner True), dp_source_assets = ?S\<rparr>"
  have hs: "handles ix = [dp_spl_token ?a, dp_mint ?a, dp_target_pool_token ?a, dp_signal_provider_pt ?a,
      dp_bonfida_fee_pt ?a, dp_bonfida_bnb_pt ?a, dp_pool ?a] @ ?P @ dp_source_owner ?a # ?S @ []"
    and data: "ix_data ix = pack_instruction (Deposit s amt)"
    using assms(1) k by (auto simp: client_deposit_def bonfida_pt_key_def handles_def)
  have l: "length ?P = length assets" "length ?S = length assets" using assms(7,8) by simp_all
  have parse: "deposit_parse e (handles ix) w = Inr (?a, h, assets)"
    unfolding hs deposit_parse_def using assms(5,6) next_account_infos_append[OF l(1)] next_account_infos_append[OF l(2), of "[]"]
    by simp
  have checks: "deposit_checks e pid ?a h s w = Inr (pool, mint)"
    using assms(2-4,9) k by (simp add: deposit_checks_def bonfida_pt_key_def owner_of_def)
  have loop: "deposit_transfers e ?a pool eff tot assets amts ?P ?S z u = pay_in e ?a eff tot amts ?P ?S z u" for eff tot amts z u
    by (rule deposit_transfers_pay_in) (use assms(7,8) in \<open>simp_all add: writable_metas_def\<close>)
  have run: "process_deposit e pid (handles ix) s amt w =
      bind_res (unpack_mint_supply e w (dp_mint ?a)) (\<lambda>tot.
      bind_res (deposit_quote e w tot ?P ?S [] (- 1)) (\<lambda>(amts, quota).
      bind_res (pay_in e ?a (min amt quota) tot amts ?P ?S True w) (\<lambda>(w1, all_zero).
      if all_zero then Inl (Error InvalidArgument)
      else deposit_mints e ?a pool mint s (fee_ratio h) (min amt quota) w1)))"
    unfolding process_deposit_def parse by (simp add: checks assms(10) loop Let_def del: list.map)
  have "entrypoint e pid (handles ix) (ix_data ix) w = process_deposit e pid (handles ix) s amt w"
    by (simp add: data entrypoint_packed del: pack_instruction.simps)
  then show ?thesis using parse run by (intro conjI exI[of _ ?a]) simp_all
qed

theorem client_deposit_accepted_witness:
  "\<exists>ix a. client_deposit (demo_env False) 6 7 102 101 [101001, 101002] 200 9102 300 [301, 302] 100 500000 = Inr ix \<and>
    deposit_parse (demo_env False) (handles ix) demo_world = Inr (a, demo_header, [\<lparr>mint_address = 1\<rparr>, \<lparr>mint_address = 2\<rparr>]) \<and>
    ai_signer (dp_source_owner a) \<and> map ai_key (dp_source_assets a) = [301, 302]"
proof -
  obtain ix where ix: "client_deposit (demo_env False) (spl_token_id (demo_env False)) 7 102 101 [101001, 101002] 200 9102 300 [301, 302] 100 500000 = Inr ix"
    by (simp add: client_deposit_def bonfida_pt_key_def)
  have h: "read_pool_header demo_world (handle_of (meta_readonly 101 False)) = Inr demo_header"
    by (rule demo_read_header[where mints = "[1, 2]"]) simp
  have x: "read_pool_assets demo_world (handle_of (meta_readonly 101 False)) demo_header = Inr [\<lparr>mint_address = 1\<rparr>, \<lparr>mint_address = 2\<rparr>]"
    by (rule demo_assets) simp
  have "create_program_address (demo_env False) (pool_seeds 100) 7 = Inr 101" "create_program_address (demo_env False) (mint_seeds 100) 7 = Inr 102"
    "acc_owner (demo_world 101) = 7" "status demo_header = Unlocked"
    "[101001, 101002] = map (\<lambda>x. get_associated_token_address (demo_env False) 101 (mint_address x)) [\<lparr>mint_address = 1\<rparr>, \<lparr>mint_address = 2\<rparr>]"
    "length [301, 302 :: pubkey] = length [\<lparr>mint_address = 1\<rparr>, \<lparr>mint_address = 2\<rparr>]"
    "9102 = get_associated_token_address (demo_env False) (signal_provider demo_header) 102"
    by (simp_all add: demo_header_def demo_pool_data)
  note c = this
  from client_deposit_accepted[OF ix c(1-3) h x c(5-7,4)] show ?thesis
  proof (elim exE conjE, goal_cases)
    case (1 a)
    show ?case by (intro exI[of _ ix] exI[of _ a] conjI 1(2,7,9) ix[unfolded demo_env_simps])
  qed
qed

text \<open>
  C34. A redemption the client builds for a live pool of the program, with no order pending, at
  most one fee period passed, the derived pool and mint, at least the amount in the source
  account, and for each stored asset the pool's associated account, reaches \<open>process_redeem\<close>, is read
  with every account in its role, and passes every check of accounts, status, fees and funds: what the handler
  returns is what the payouts of the computed amounts, the burn and the reset of an emptied pool return.
\<close>

theorem client_redeem_accepted:
  assumes "create_program_address e (pool_seeds s) pid = Inr pool" and "create_program_address e (mint_seeds s) pid = Inr mint"
    and "acc_owner (w pool) = pid" and "read_pool_header w (handle_of (meta_new pool False)) = Inr h"
    and "read_pool_assets w (handle_of (meta_new pool False)) h = Inr assets"
    and "pool_keys = map (\<lambda>x. get_associated_token_address e pool (mint_address x)) assets" and "length target_keys = length assets"
    and "status h = Unlocked \<or> status h = Locked" and "clock_of e w (handle_of (meta_readonly clock False)) = Inr now"
    and "last_fee_collection_timestamp h \<le> now" and "now - last_fee_collection_timestamp h \<le> fee_collection_period h"
    and "token_balance e w (handle_of (meta_new source False)) = Some held" and "amt \<le> held"
  shows "let ix = client_redeem (spl_token_id e) clock pid mint pool pool_keys owner source target_keys s amt in
    entrypoint e pid (handles ix) (ix_data ix) w = process_redeem e pid (handles ix) s amt w \<and>
    (\<exists>a. redeem_parse e (handles ix) w = Inr (a, h, assets) \<and> ai_key (rd_pool a) = pool \<and> ai_key (rd_mint a) = mint \<and>
      ai_key (rd_source_pool_token a) = source \<and> ai_key (rd_source_pool_token_owner a) = owner \<and>
      ai_signer (rd_source_pool_token_owner a) \<and>
      map ai_key (rd_pool_assets a) = pool_keys \<and> map ai_key (rd_target_assets a) = target_keys \<and>
      process_redeem e pid (handles ix) s amt w =
        bind_res (unpack_mint_supply e w (rd_mint a)) (\<lambda>tot.
        bind_res (pay_out e a s amt tot (rd_pool_assets a) (rd_target_assets a) w) (\<lambda>w1.
        bind_res (token_burn e (spl_token_id e) source mint owner amt
          [rd_spl_token a, rd_source_pool_token a, rd_mint a, rd_source_pool_token_owner a] w1) (\<lambda>w2.
        if amt = tot then redeem_reset a h w2 else Inr w2))))"
proof -
  let ?ix = "client_redeem (spl_token_id e) clock pid mint pool pool_keys owner source target_keys s amt"
  let ?P = "map handle_of (writable_metas pool_keys)" and ?T = "map handle_of (writable_metas target_keys)"
  let ?a = "\<lparr>rd_spl_token = handle_of (meta_readonly (spl_token_id e) False), rd_clock_sysvar = handle_of (meta_readonly clock False),
    rd_mint = handle_of (meta_new mint False), rd_source_pool_token_owner = handle_of (meta_readonly owner True),
    rd_source_pool_token = handle_of (meta_new source False), rd_pool = handle_of (meta_new pool False),
    rd_pool_assets = ?P, rd_target_assets = ?T\<rparr>"
  have hs: "handles ?ix = [rd_spl_token ?a, rd_clock_sysvar ?a, rd_mint ?a, rd_source_pool_token_owner ?a,
      rd_source_pool_token ?a, rd_pool ?a] @ ?P @ ?T @ []"
    and data: "ix_data ?ix = pack_instruction (Redeem s amt)"
    by (simp_all add: client_redeem_def handles_def)
  have l: "length ?P = length assets" "length ?T = length assets" using assms(6,7) by simp_all
  have parse: "redeem_parse e (handles ?ix) w = Inr (?a, h, assets)"
    unfolding hs redeem_parse_def using assms(4,5) next_account_infos_append[OF l(1)] next_account_infos_append[OF l(2), of "[]"]
    by simp
  have "fees_due (overflow_checks e) now h = Inr False" using assms(10,11) by (simp add: fees_due_def)
  then have checks: "redeem_checks e pid ?a h s w = Inr ()"
    using assms(1-3,8,9) by (auto simp: redeem_checks_Inr owner_of_def)
  have loop: "redeem_payouts e ?a s amt tot assets ?P ?T w = pay_out e ?a s amt tot ?P ?T w" for tot
    by (rule redeem_payouts_pay_out) (use assms(6,7) in \<open>simp_all add: writable_metas_def\<close>)
  obtain t :: token_account where t: "unpack_token_account e w (handle_of (meta_new source False)) = Inr t" "ta_amount t = held"
    using unpack_balance[OF assms(12)] by blast
  have run: "process_redeem e pid (handles ?ix) s amt w =
      bind_res (unpack_mint_supply e w (rd_mint ?a)) (\<lambda>tot. bind_res (pay_out e ?a s amt tot ?P ?T w) (\<lambda>w1.
      bind_res (token_burn e (spl_token_id e) source mint owner amt
        [rd_spl_token ?a, rd_source_pool_token ?a, rd_mint ?a, rd_source_pool_token_owner ?a] w1) (\<lambda>w2.
      if amt = tot then redeem_reset ?a h w2 else Inr w2)))"
    unfolding process_redeem_def parse using assms(13)[folded not_less] by (simp add: checks loop t del: list.map not_less)
  have "entrypoint e pid (handles ?ix) (ix_data ?ix) w = process_redeem e pid (handles ?ix) s amt w"
    by (simp add: data entrypoint_packed del: pack_instruction.simps)
  then show ?thesis using parse run unfolding Let_def by (intro conjI exI[of _ ?a]) simp_all
qed

theorem client_redeem_accepted_witness:
  "\<exists>a. redeem_parse (demo_env True) (handles (client_redeem 6 40 7 102 101 [101001, 101002] 300 200 [301, 302] 100 250000)) demo_holder_world
      = Inr (a, demo_header, [\<lparr>mint_address = 1\<rparr>, \<lparr>mint_address = 2\<rparr>]) \<and>
    ai_signer (rd_source_pool_token_owner a) \<and> map ai_key (rd_target_assets a) = [301, 302]"
proof -
  have h: "read_pool_header demo_holder_world (handle_of (meta_new 101 False)) = Inr demo_header"
    by (rule demo_read_header[where mints = "[1, 2]"]) (simp add: demo_holder_world_def)
  have x: "read_pool_assets demo_holder_world (handle_of (meta_new 101 False)) demo_header = Inr [\<lparr>mint_address = 1\<rparr>, \<lparr>mint_address = 2\<rparr>]"
    by (rule demo_assets) (simp add: demo_holder_world_def)
  have "create_program_address (demo_env True) (pool_seeds 100) 7 = Inr 101" "create_program_address (demo_env True) (mint_seeds 100) 7 = Inr 102"
    "acc_owner (demo_holder_world 101) = 7"
    "[101001, 101002] = map (\<lambda>x. get_associated_token_address (demo_env True) 101 (mint_address x)) [\<lparr>mint_address = 1\<rparr>, \<lparr>mint_address = 2\<rparr>]"
    "length [301, 302 :: pubkey] = length [\<lparr>mint_address = 1\<rparr>, \<lparr>mint_address = 2\<rparr>]"
    "status demo_header = Unlocked \<or> status demo_header = Locked"
    "clock_of (demo_env True) demo_holder_world (handle_of (meta_readonly 40 False)) = Inr 1500000"
    "last_fee_collection_timestamp demo_header \<le> 1500000"
    "1500000 - last_fee_collection_timestamp demo_header \<le> fee_collection_period demo_header"
    "token_balance (demo_env True) demo_holder_world (handle_of (meta_new 200 False)) = Some 1000000" "250000 \<le> (1000000 :: u64)"
    by (simp_all add: demo_header_def demo_pool_data clock_of_def token_balance_def data_of_def demo_holder_world_def codec_simps)
  note c = this
  from client_redeem_accepted[OF c(1-3) h x c(4-11), where owner = 300, unfolded Let_def demo_env_simps] show ?thesis
  proof (elim exE conjE, goal_cases)
    case (1 a)
    show ?case by (intro exI[of _ a] conjI 1(2,7,9))
  qed
qed

text \<open>
  C35. A creation the client builds, with at most 65535 markets and one pool account and one source
  account per deposit amount, reaches \<open>process_create\<close> with its arguments and is read with every
  account in its role, the owner of the deposit signing.
\<close>

theorem client_create_accepted:
  assumes "length markets < 2 ^ 16" and "length pool_keys = length amounts" and "length source_keys = length amounts"
  shows "let ix = client_create (spl_token_id e) clock pid mint pool s pool_keys target owner source_keys serum provider period ratio amounts markets in
    entrypoint e pid (handles ix) (ix_data ix) w = process_create e pid (handles ix) s amounts markets period ratio w \<and>
    (\<exists>a. create_parse e (handles ix) (length amounts) = Inr a \<and> ai_key (cr_pool a) = pool \<and> ai_key (cr_mint a) = mint \<and>
      ai_key (cr_clock_sysvar a) = clock \<and> ai_key (cr_target_pool_token a) = target \<and> ai_key (cr_serum_program a) = serum \<and>
      ai_key (cr_signal_provider a) = provider \<and> ai_key (cr_source_owner a) = owner \<and> ai_signer (cr_source_owner a) \<and>
      map ai_key (cr_pool_assets a) = pool_keys \<and> map ai_key (cr_source_assets a) = source_keys)"
proof -
  let ?ix = "client_create (spl_token_id e) clock pid mint pool s pool_keys target owner source_keys serum provider period ratio amounts markets"
  let ?P = "map handle_of (writable_metas pool_keys)" and ?S = "map handle_of (writable_metas source_keys)"
  let ?a = "\<lparr>cr_spl_token = handle_of (meta_readonly (spl_token_id e) False), cr_clock_sysvar = handle_of (meta_readonly clock False),
    cr_serum_program = handle_of (meta_readonly serum False), cr_signal_provider = handle_of (meta_readonly provider False),
    cr_mint = handle_of (meta_new mint False), cr_target_pool_token = handle_of (meta_new target False),
    cr_pool = handle_of (meta_new pool False), cr_pool_assets = ?P,
    cr_source_owner = handle_of (meta_readonly owner True), cr_source_assets = ?S\<rparr>"
  have hs: "handles ?ix = [cr_spl_token ?a, cr_clock_sysvar ?a, cr_serum_program ?a, cr_signal_provider ?a, cr_mint ?a,
      cr_target_pool_token ?a, cr_pool ?a] @ ?P @ cr_source_owner ?a # ?S @ []"
    and data: "ix_data ?ix = pack_instruction (Create s period ratio amounts markets)"
    by (simp_all add: client_create_def handles_def)
  have l: "length ?P = length amounts" "length ?S = length amounts" using assms(2,3) by simp_all
  have "create_parse e (handles ?ix) (length amounts) = Inr ?a"
    unfolding hs create_parse_def using next_account_infos_append[OF l(1)] next_account_infos_append[OF l(2), of "[]"]
    by simp
  moreover have "entrypoint e pid (handles ?ix) (ix_data ?ix) w = process_create e pid (handles ?ix) s amounts markets period ratio w"
    using assms(1) by (simp add: data entrypoint_packed del: pack_instruction.simps)
  ultimately show ?thesis unfolding Let_def by (intro conjI exI[of _ ?a]) simp_all
qed

theorem client_create_accepted_witness:
  "\<exists>a. create_parse (demo_env False) (handles (client_create 6 40 7 102 101 100 [101001, 101002] 200 300 [301, 302] 8 9 604800 6554 [1000, 500] [55]))
      (length [1000, 500 :: u64]) = Inr a \<and> ai_signer (cr_source_owner a)"
proof -
  have "length [55 :: pubkey] < 2 ^ 16" "length [101001, 101002 :: pubkey] = length [1000, 500 :: u64]"
    "length [301, 302 :: pubkey] = length [1000, 500 :: u64]" by simp_all
  from client_create_accepted[OF this, of "demo_env False" 40 7 102 101 100 200 300 8 9 604800 6554 demo_world]
  show ?thesis unfolding Let_def demo_env_simps by blast
qed

text \<open>
  C36. A fee collection the client builds for a live pool of the program reaches
  \<open>process_collect_fees\<close> and passes its checks: the builder derives the Bonfida accounts as the
  handler does.
\<close>

theorem client_collect_fees_accepted:
  assumes "client_collect_fees e (spl_token_id e) clock pid pool mint sp s = Inr ix"
    and "create_program_address e (pool_seeds s) pid = Inr pool" and "create_program_address e (mint_seeds s) pid = Inr mint"
    and "read_pool_header w (handle_of (meta_new pool False)) = Inr h"
    and "sp = get_associated_token_address e (signal_provider h) mint"
  shows "entrypoint e pid (handles ix) (ix_data ix) w = process_collect_fees e pid (handles ix) s w \<and>
    (\<exists>a fk bk. fees_parse e (handles ix) = Inr a \<and> fees_checks e pid a s w = Inr (h, mint, fk, bk) \<and>
      ai_key (cf_clock_sysvar a) = clock \<and> ai_key (cf_pool a) = pool)"
proof -
  from assms(1) obtain fee bnb where k: "pubkey_from_str e BONFIDA_FEE = Inr fee" "pubkey_from_str e BONFIDA_BNB = Inr bnb"
    by (auto simp: client_collect_fees_def bonfida_pt_key_def res_simps)
  let ?a = "\<lparr>cf_spl_token = handle_of (meta_readonly (spl_token_id e) False), cf_clock_sysvar = handle_of (meta_readonly clock False),
    cf_pool = handle_of (meta_new pool False), cf_mint = handle_of (meta_new mint False), cf_signal_provider_pt = handle_of (meta_new sp False),
    cf_bonfida_fee_pt = handle_of (meta_new (get_associated_token_address e fee mint) False),
    cf_bonfida_bnb_pt = handle_of (meta_new (get_associated_token_address e bnb mint) False)\<rparr>"
  have hs: "handles ix = [cf_spl_token ?a, cf_clock_sysvar ?a, cf_pool ?a, cf_mint ?a, cf_signal_provider_pt ?a,
      cf_bonfida_fee_pt ?a, cf_bonfida_bnb_pt ?a]"
    and data: "ix_data ix = pack_instruction (CollectFees s)"
    using assms(1) k by (auto simp: client_collect_fees_def bonfida_pt_key_def handles_def)
  have "fees_parse e (handles ix) = Inr ?a" unfolding hs fees_parse_def by simp
  moreover have "fees_checks e pid ?a s w = Inr (h, mint, get_associated_token_address e fee mint, get_associated_token_address e bnb mint)"
    using assms(2-5) k by (simp add: fees_checks_def bonfida_pt_key_def check_pool_key_def)
  moreover have "entrypoint e pid (handles ix) (ix_data ix) w = process_collect_fees e pid (handles ix) s w"
    by (simp add: data entrypoint_packed del: pack_instruction.simps)
  ultimately show ?thesis by (intro conjI exI[of _ ?a]) auto
qed

theorem client_collect_fees_accepted_witness:
  "\<exists>ix a fk bk. client_collect_fees (demo_env True) 6 40 7 101 102 9102 100 = Inr ix \<and>
    fees_parse (demo_env True) (handles ix) = Inr a \<and> fees_checks (demo_env True) 7 a 100 demo_later_world = Inr (demo_header, 102, fk, bk)"
proof -
  obtain ix where ix: "client_collect_fees (demo_env True) (spl_token_id (demo_env True)) 40 7 101 102 9102 100 = Inr ix"
    by (simp add: client_collect_fees_def bonfida_pt_key_def)
  have h: "read_pool_header demo_later_world (handle_of (meta_new 101 False)) = Inr demo_header"
    by (rule demo_read_header[where mints = "[1, 2]"]) (simp add: demo_later_world_def)
  have "signal_provider demo_header = 9" by (simp add: demo_header_def)
  with client_collect_fees_accepted[OF ix _ _ h] ix show ?thesis by (fastforce simp: demo_env_simps)
qed

text \<open>
  C37. A settlement and a cancellation the client builds reach their handlers with their arguments;
  the settlement is read with every account, the optional referrer included, in its role, and the
  cancellation succeeds exactly when the pool is the derived address, the given provider is the
  one recorded in it, and the invocation of the given DEX program succeeds.
\<close>

theorem client_serum_calls:
  "(let ix = client_settle_funds pid market oo pool mint cv pv cw pw vs (spl_token_id e) dex ref s pc_index coin_index in
    entrypoint e pid (handles ix) (ix_data ix) w = process_settle e pid (handles ix) s pc_index coin_index w \<and>
    (\<exists>a. settle_parse e (handles ix) = Inr a \<and> map ai_key [st_market a, st_openorders a, st_pool a, st_pool_token_mint a,
        st_coin_vault a, st_pc_vault a, st_pool_coin_wallet a, st_pool_pc_wallet a, st_vault_signer a, st_dex_program a] =
        [market, oo, pool, mint, cv, pv, cw, pw, vs, dex] \<and> map_option ai_key (st_referrer a) = ref)) \<and>
   (let ix = client_cancel_order pid provider market oo bids asks queue pool dex s sd oid in
    (\<exists>w'. entrypoint e pid (handles ix) (ix_data ix) w = Inr w') \<longleftrightarrow>
      create_program_address e (pool_seeds s) pid = Inr pool \<and>
      (\<exists>h. read_pool_header w (handle_of (meta_readonly pool False)) = Inr h \<and> signal_provider h = provider) \<and>
      (\<exists>ix' w'. ix_cancel_order e dex market bids asks oo pool queue sd oid = Inr ix' \<and>
        cpi e ix' (map (\<lambda>i. handles ix ! i) [7, 1, 3, 4, 2, 6, 5]) [pool_seeds s] w = Inr w'))"
proof (intro conjI)
  let ?ix = "client_settle_funds pid market oo pool mint cv pv cw pw vs (spl_token_id e) dex ref s pc_index coin_index"
  have d: "ix_data ?ix = pack_instruction (SettleFunds s pc_index coin_index)" by (simp add: client_settle_funds_def)
  have "entrypoint e pid (handles ?ix) (ix_data ?ix) w = process_settle e pid (handles ?ix) s pc_index coin_index w"
    by (simp add: d entrypoint_packed del: pack_instruction.simps)
  moreover have "\<exists>a. settle_parse e (handles ?ix) = Inr a \<and> map ai_key [st_market a, st_openorders a, st_pool a, st_pool_token_mint a,
        st_coin_vault a, st_pc_vault a, st_pool_coin_wallet a, st_pool_pc_wallet a, st_vault_signer a, st_dex_program a] =
        [market, oo, pool, mint, cv, pv, cw, pw, vs, dex] \<and> map_option ai_key (st_referrer a) = ref"
    by (cases ref) (simp_all add: client_settle_funds_def handles_def settle_parse_def Let_def)
  ultimately show "let ix = ?ix in
    entrypoint e pid (handles ix) (ix_data ix) w = process_settle e pid (handles ix) s pc_index coin_index w \<and>
    (\<exists>a. settle_parse e (handles ix) = Inr a \<and> map ai_key [st_market a, st_openorders a, st_pool a, st_pool_token_mint a,
        st_coin_vault a, st_pc_vault a, st_pool_coin_wallet a, st_pool_pc_wallet a, st_vault_signer a, st_dex_program a] =
        [market, oo, pool, mint, cv, pv, cw, pw, vs, dex] \<and> map_option ai_key (st_referrer a) = ref)"
    by (simp add: Let_def)
next
  let ?ix = "client_cancel_order pid provider market oo bids asks queue pool dex s sd oid"
  have d: "ix_data ?ix = pack_instruction (CancelOrder s sd oid)" by (simp add: client_cancel_order_def)
  have "entrypoint e pid (handles ?ix) (ix_data ?ix) w = process_cancel e pid (handles ?ix) s sd oid w"
    by (simp add: d entrypoint_packed del: pack_instruction.simps)
  then show "let ix = ?ix in
    (\<exists>w'. entrypoint e pid (handles ix) (ix_data ix) w = Inr w') \<longleftrightarrow>
      create_program_address e (pool_seeds s) pid = Inr pool \<and>
      (\<exists>h. read_pool_header w (handle_of (meta_readonly pool False)) = Inr h \<and> signal_provider h = provider) \<and>
      (\<exists>ix' w'. ix_cancel_order e dex market bids asks oo pool queue sd oid = Inr ix' \<and>
        cpi e ix' (map (\<lambda>i. handles ix ! i) [7, 1, 3, 4, 2, 6, 5]) [pool_seeds s] w = Inr w')"
    by (auto simp: Let_def process_cancel_def res_simps invoke_signed_def handles_def client_cancel_order_def)
qed

end
