(* ===== verification/Freeze.thy ===== *)
theory Freeze
  imports Lifecycle
begin

text \<open>
  How a pool is locked by its fees, and that it stays locked: from a state in which a pool is
  frozen (\<open>frozen_at\<close>), whatever calls succeed and whatever other programs do, as long as the clock
  does not run backwards the pool keeps its header up to the status, and its fees can be neither
  collected nor its tokens redeemed.
\<close>

subsection \<open>Later states\<close>

text \<open>Every clock account the program accepts shows the time \<open>t\<close> or a later one.\<close>

definition not_before :: "env \<Rightarrow> u64 \<Rightarrow> world \<Rightarrow> bool" where
  "not_before e t w \<longleftrightarrow> (\<forall>p now. clock_of e w p = Inr now \<longrightarrow> t \<le> now)"

inductive later :: "env \<Rightarrow> pubkey \<Rightarrow> u64 \<Rightarrow> world \<Rightarrow> world \<Rightarrow> bool" for e pid t w where
  here: "not_before e t w \<Longrightarrow> later e pid t w w"
| call: "later e pid t w w1 \<Longrightarrow> pid \<notin> ai_key ` set accounts \<Longrightarrow>
    entrypoint e pid accounts data w1 = Inr w2 \<Longrightarrow> not_before e t w2 \<Longrightarrow> later e pid t w w2"
| others: "later e pid t w w1 \<Longrightarrow> keeps_owned pid w1 w2 \<Longrightarrow> not_before e t w2 \<Longrightarrow> later e pid t w w2"

lemma later_not_before: "later e pid t w w' \<Longrightarrow> not_before e t w'"
  by (induction rule: later.induct) auto

subsection \<open>What a call may do to a frozen pool\<close>

text \<open>The data of one account is kept, or only the status in its header and the asset array change.\<close>

definition status_only :: "bytes \<Rightarrow> bytes \<Rightarrow> bool" where
  "status_only d d' \<longleftrightarrow> d' = d \<or> (\<exists>h st rest. unpack_header_from_slice d = Inr h \<and> status h \<noteq> Uninitialized \<and>
     (st = status h \<or> settle_status (status h) = Inr st) \<and> d' = header_bytes (h\<lparr>status := st\<rparr>) @ rest)"

lemma status_only_header:
  assumes "status_only d d'" "unpack_header_from_slice d = Inr h" "status h \<noteq> Uninitialized"
  shows "\<exists>st. unpack_header_from_slice d' = Inr (h\<lparr>status := st\<rparr>) \<and> st \<noteq> Uninitialized"
proof (cases "d' = d")
  case True
  with assms(2,3) show ?thesis by (intro exI[of _ "status h"]) simp
next
  case False
  with assms(1) obtain h1 st rest where r: "unpack_header_from_slice d = Inr h1" "st = status h1 \<or> settle_status (status h1) = Inr st"
    "d' = header_bytes (h1\<lparr>status := st\<rparr>) @ rest" unfolding status_only_def by blast
  have h1: "h1 = h" using r(1) assms(2) by simp
  have wf: "wf_status (status h)"
    using unpack_header_total[OF unpack_header_len[OF assms(2)]] assms(2) by (auto simp: wf_header_def)
  have "wf_status st \<and> st \<noteq> Uninitialized" using r(2) unfolding h1
  proof
    assume s: "settle_status (status h) = Inr st"
    then show ?thesis using wf word_pred_range by (auto elim!: settle_statusE split: if_splits)
  qed (use wf assms(3) in simp)
  with r(3) h1 show ?thesis by (intro exI[of _ st]) (simp add: unpack_pack_header wf_header_def)
qed

lemma kept_account:
  "keeps_owned pid w w' \<Longrightarrow> acc_owner (w k) = pid \<Longrightarrow> acc_owner (w' k) = pid \<and> acc_data (w' k) = acc_data (w k)"
  by (auto simp: keeps_owned_def split: if_splits)

text \<open>A handler that writes one account, between steps of other programs.\<close>

lemma other_account:
  assumes "keeps_owned pid w w1" "w' = set_data w1 p d" "acc_owner (w k) = pid" "k \<noteq> ai_key p"
  shows "acc_owner (w' k) = pid \<and> acc_data (w' k) = acc_data (w k)"
  using kept_account[OF assms(1,3)] assms(2,4) by simp

lemma create_other:
  assumes "runtime_law e pid" "process_create e pid accounts s amounts markets period ratio w = Inr w'"
    and "acc_owner (w k) = pid" "unpack_header_from_slice (acc_data (w k)) = Inr h" "status h \<noteq> Uninitialized"
  shows "acc_owner (w' k) = pid \<and> acc_data (w' k) = acc_data (w k)"
proof -
  obtain a now w1 w2 assets where r: "create_parse e accounts (length amounts) = Inr a"
    "create_checks e pid a s markets period w = Inr (ai_key (cr_pool a), ai_key (cr_mint a))"
    "create_deposits e a (ai_key (cr_pool a)) amounts (cr_pool_assets a) (cr_source_assets a) w [] = Inr (w1, assets)"
    "token_mint_to e (ai_key (cr_spl_token a)) (ai_key (cr_mint a)) (ai_key (cr_target_pool_token a))
       (ai_key (cr_pool a)) 1000000 [cr_spl_token a, cr_mint a, cr_target_pool_token a, cr_pool a] [pool_seeds s] w1 = Inr w2"
    "create_write a (create_header a s markets now period ratio) markets assets w2 = Inr w'"
    by (rule process_create_Inr[OF assms(2)])
  note spl = conjunct1[OF create_parse_Inr[OF r(1)]]
  have "keeps_owned pid w w1" by (rule create_deposits_keeps[OF assms(1) spl r(3)])
  also have "keeps_owned pid w1 w2" using token_steps(2)[OF assms(1)] r(4) unfolding spl by blast
  finally have k: "keeps_owned pid w w2" .
  from r(2) obtain h0 where "HEADER_LEN \<le> length (data_of w (cr_pool a))"
    "unpack_header_from_slice (take HEADER_LEN (data_of w (cr_pool a))) = Inr h0" "status h0 = Uninitialized"
    by (auto simp: create_checks_Inr)
  then have "unpack_header_from_slice (data_of w (cr_pool a)) = Inr h0" by (metis read_header_prefix)
  then have "k \<noteq> ai_key (cr_pool a)" using assms(4,5) \<open>status h0 = Uninitialized\<close> by (auto simp: data_of_def)
  then show ?thesis using other_account[OF k conjunct2[OF create_write_Inr[OF r(5)]] assms(3)] by simp
qed

lemma settle_status_only:
  assumes "runtime_law e pid" "pid \<notin> ai_key ` set accounts"
    and "process_settle e pid accounts s pci ci w = Inr w'" and "acc_owner (w k) = pid"
  shows "acc_owner (w' k) = pid \<and> status_only (acc_data (w k)) (acc_data (w' k))"
proof -
  from assms(3) obtain a w3 where a: "settle_parse e accounts = Inr a"
    and p: "settle_prepare e pid a s pci ci w = Inr w3" and i: "settle_invoke e a s w3 = Inr w'"
    by (auto simp: process_settle_split res_simps)
  have "st_dex_program a \<in> set accounts" using settle_parse_accounts[OF a] nth_mem[of 10 accounts] by simp
  then have kp: "keeps_owned pid w3 w'" using settle_invoke_keeps[OF assms(1) _ i] assms(2) by auto
  obtain h oo h' d where r: "read_pool_header w (st_pool a) = Inr h" "settle_header oo h = Inr h'"
    "w3 = set_data w (st_pool a) (header_bytes h' @ d)"
    by (rule settle_prepare_Inr[OF p])
  have "acc_owner (w3 k) = pid" using assms(4) r(3) by (cases "k = ai_key (st_pool a)") simp_all
  note k = kept_account[OF kp this]
  show ?thesis
  proof (cases "k = ai_key (st_pool a)")
    case True
    note h' = settle_header_cases[OF r(2)]
    have st: "status h' = status h \<or> settle_status (status h) = Inr (status h')" using h'(2,3) by auto
    have "acc_data (w' k) = header_bytes (h\<lparr>status := status h'\<rparr>) @ d" using k True r(3) h'(1) by simp
    moreover have "unpack_header_from_slice (acc_data (w k)) = Inr h" "status h \<noteq> Uninitialized"
      using r(1) True by (simp_all add: read_pool_header_Inr data_of_def)
    ultimately have "status_only (acc_data (w k)) (acc_data (w' k))" using st unfolding status_only_def by blast
    then show ?thesis using k by blast
  next
    case False
    then have "acc_data (w3 k) = acc_data (w k)" using r(3) by simp
    then show ?thesis using k by (simp add: status_only_def)
  qed
qed

subsection \<open>A frozen pool stays frozen\<close>

text \<open>One call: at a time when the pool is frozen it can only be settled.\<close>

lemma frozen_dispatch:
  assumes "runtime_law e pid" "pid \<notin> ai_key ` set accounts" "dispatch e pid accounts i w = Inr w'"
    and "not_before e t w" "acc_owner (w k) = pid"
    and "unpack_header_from_slice (acc_data (w k)) = Inr h" "status h \<noteq> Uninitialized" "frozen_at n t h"
  shows "acc_owner (w' k) = pid \<and> status_only (acc_data (w k)) (acc_data (w' k))"
proof -
  have pool: "read_pool_header w p = Inr h" if "ai_key p = k" for p
    using that assms(6,7) unpack_header_len[OF assms(6)] by (simp add: read_pool_header_Inr data_of_def)
  have frozen: "frozen_at n now h" if "clock_of e w p = Inr now" for p now
    using assms(4,8) that frozen_at_later unfolding not_before_def by blast
  have kept: "acc_owner (w' k) = pid \<and> status_only (acc_data (w k)) (acc_data (w' k))"
    if "acc_owner (w' k) = pid \<and> acc_data (w' k) = acc_data (w k)" using that by (simp add: status_only_def)
  have keeps: "acc_owner (w' k) = pid \<and> status_only (acc_data (w k)) (acc_data (w' k))" if "keeps_owned pid w w'"
    by (rule kept[OF kept_account[where k = k, OF that assms(5)]])
  show ?thesis
  proof (cases i)
    case (Init s m nb)
    with assms(3) show ?thesis using keeps[OF process_init_keeps[OF assms(1)]] by simp
  next
    case (Create s period ratio amounts markets)
    with assms(3) have "process_create e pid accounts s amounts markets period ratio w = Inr w'" by simp
    then show ?thesis by (rule kept[OF create_other[where k = k and w = w and w' = w', OF assms(1) _ assms(5-7)]])
  next
    case (Deposit s amount)
    with assms(3) show ?thesis using keeps[OF process_deposit_keeps[OF assms(1)]] by simp
  next
    case CreateOrder
    then show ?thesis using assms(3) by (simp add: process_create_order_def)
  next
    case (CancelOrder s sd oid)
    with assms(3) show ?thesis using keeps[OF process_cancel_keeps[OF assms(1,2)]] by simp
  next
    case (SettleFunds s pci ci)
    with assms(3) have "process_settle e pid accounts s pci ci w = Inr w'" by simp
    then show ?thesis by (rule settle_status_only[where k = k and w = w and w' = w', OF assms(1,2) _ assms(5)])
  next
    case (Redeem s amount)
    with assms(3) have ok: "process_redeem e pid accounts s amount w = Inr w'" by simp
    obtain a h1 assets tot w1 w2 now where r: "redeem_parse e accounts w = Inr (a, h1, assets)"
      "clock_of e w (rd_clock_sysvar a) = Inr now"
      "redeem_payouts e a s amount tot assets (rd_pool_assets a) (rd_target_assets a) w = Inr w1"
      "token_burn e (ai_key (rd_spl_token a)) (ai_key (rd_source_pool_token a)) (ai_key (rd_mint a))
         (ai_key (rd_source_pool_token_owner a)) amount
         [rd_spl_token a, rd_source_pool_token a, rd_mint a, rd_source_pool_token_owner a] w1 = Inr w2"
      "(if amount = tot then redeem_reset a h1 w2 else Inr w2) = Inr w'"
      by (rule process_redeem_Inr[OF ok]) (auto simp: redeem_checks_Inr)
    note p = redeem_parse_Inr[OF r(1)]
    have "keeps_owned pid w w1" by (rule redeem_payouts_keeps[OF assms(1) conjunct1[OF p] r(3)])
    also have "keeps_owned pid w1 w2" using token_steps(3)[OF assms(1)] r(4) unfolding conjunct1[OF p] by blast
    finally have kw: "keeps_owned pid w w2" .
    have "k \<noteq> ai_key (rd_pool a)"
    proof
      assume "k = ai_key (rd_pool a)"
      then have "h1 = h" using pool[of "rd_pool a"] p by simp
      with frozen_refuses_redemption[OF frozen[OF r(2)] _ r(2)] r(1) ok show False by blast
    qed
    show ?thesis
    proof (cases "amount = tot")
      case True
      then obtain d where "w' = set_data w2 (rd_pool a) d" using r(5) by (auto simp: redeem_reset_Inr)
      from kept[OF other_account[where k = k, OF kw this assms(5) \<open>k \<noteq> ai_key (rd_pool a)\<close>]] show ?thesis .
    next
      case False
      then have "w' = w2" using r(5) by simp
      with kw show ?thesis using keeps by simp
    qed
  next
    case (CollectFees s)
    with assms(3) have ok: "process_collect_fees e pid accounts s w = Inr w'" by simp
    obtain a h1 mk fk bk now tokens w1 d where r: "fees_parse e accounts = Inr a" "read_pool_header w (cf_pool a) = Inr h1"
      "clock_of e w (cf_clock_sysvar a) = Inr now" "fees_mints e a mk s fk bk tokens w = Inr w1"
      "w' = set_data w1 (cf_pool a) d"
      by (rule process_collect_fees_Inr[OF ok])
    have "ai_key (cf_spl_token a) = spl_token_id e" using r(1) by (auto simp: fees_parse_def res_simps)
    then have kw: "keeps_owned pid w w1" using collect_mints_keep[OF assms(1) _ r(4)] by blast
    have "k \<noteq> ai_key (cf_pool a)"
    proof
      assume "k = ai_key (cf_pool a)"
      then have "read_pool_header w (cf_pool a) = Inr h" using pool by simp
      with frozen_refuses_collection[OF frozen[OF r(3)] r(1) _ r(3)] ok show False by blast
    qed
    then show ?thesis by (rule kept[OF other_account[where k = k, OF kw r(5) assms(5)]])
  qed
qed

lemma frozen_later:
  assumes "runtime_law e pid" "later e pid t w w'" "acc_owner (w k) = pid"
    and "unpack_header_from_slice (acc_data (w k)) = Inr h" "status h \<noteq> Uninitialized" "frozen_at n t h"
  shows "acc_owner (w' k) = pid \<and> (\<exists>st. unpack_header_from_slice (acc_data (w' k)) = Inr (h\<lparr>status := st\<rparr>) \<and> st \<noteq> Uninitialized)"
  using assms(2)
proof (induction rule: later.induct)
  case here
  show ?case using assms(3-5) by (intro conjI exI[of _ "status h"]) simp_all
next
  case (call w1 accounts data w2)
  then obtain st where st: "acc_owner (w1 k) = pid" "unpack_header_from_slice (acc_data (w1 k)) = Inr (h\<lparr>status := st\<rparr>)"
    "st \<noteq> Uninitialized" by blast
  from call.hyps(3) obtain i where "dispatch e pid accounts i w1 = Inr w2"
    by (auto simp: entrypoint_def process_instruction_def res_simps split: sum.splits)
  from frozen_dispatch[OF assms(1) call.hyps(2) this later_not_before[OF call.hyps(1)] st(1,2), of n] st(3) assms(6)
  have "acc_owner (w2 k) = pid" "status_only (acc_data (w1 k)) (acc_data (w2 k))" by auto
  with status_only_header[OF this(2) st(2)] st(3) show ?case by fastforce
next
  case (others w1 w2)
  then show ?case using kept_account[OF others.hyps(2), of k] by auto
qed

text \<open>
  C7. A pool can be locked for ever by its fees. Let \<open>n \<ge> 2\<close> be a number of periods for which the
  exact compounded ratio \<open>(65535 - fee_ratio) ^ n / 65536 ^ (n - 1)\<close> is below one unit (so that the
  rounded one is zero from \<open>n\<close> periods on), and let the fees of a live pool of the program not be
  collected for \<open>n\<close> periods before the time \<open>now\<close>. Then after every sequence of successful calls
  (that do not pass the program itself as an account) and of runs of other programs during which
  the clock never shows less than \<open>now\<close>, the pool is still live with the
  same header up to its status, and both the collection of its fees (division by zero) and the redemption of
  its tokens (fees are due) fail on it, whatever accounts and amounts are passed.
\<close>

theorem fees_freeze_pool:
  assumes "runtime_law e pid" and "owner_of w p = pid" and "read_pool_header w p = Inr h"
    and "2 \<le> n" and "(65535 - unat (fee_ratio h)) ^ n < 65536 ^ (n - 1)"
    and "fee_collection_period h \<noteq> 0" and "last_fee_collection_timestamp h \<le> now"
    and "n * unat (fee_collection_period h) \<le> unat now - unat (last_fee_collection_timestamp h)"
    and "later e pid now w w'"
  shows "owner_of w' p = pid \<and> (\<exists>st. read_pool_header w' p = Inr (h\<lparr>status := st\<rparr>)) \<and>
    (\<forall>accounts a s u. fees_parse e accounts = Inr a \<and> ai_key (cf_pool a) = ai_key p \<longrightarrow>
      process_collect_fees e pid accounts s w' \<noteq> Inr u) \<and>
    (\<forall>accounts a h' assets s amount u. redeem_parse e accounts w' = Inr (a, h', assets) \<and> ai_key (rd_pool a) = ai_key p \<longrightarrow>
      process_redeem e pid accounts s amount w' \<noteq> Inr u)"
proof -
  have f: "frozen_at n now h" using assms(4-8) by (simp add: frozen_at_def)
  have h: "acc_owner (w (ai_key p)) = pid" "unpack_header_from_slice (acc_data (w (ai_key p))) = Inr h" "status h \<noteq> Uninitialized"
    using assms(2,3) by (simp_all add: owner_of_def read_pool_header_Inr data_of_def)
  from frozen_later[OF assms(1,9) h f] obtain st where st: "acc_owner (w' (ai_key p)) = pid"
    "unpack_header_from_slice (acc_data (w' (ai_key p))) = Inr (h\<lparr>status := st\<rparr>)" "st \<noteq> Uninitialized" by blast
  have pool: "read_pool_header w' q = Inr (h\<lparr>status := st\<rparr>)" if "ai_key q = ai_key p" for q
    using that st unpack_header_len[OF st(2)] by (simp add: read_pool_header_Inr data_of_def)
  have late: "frozen_at n now' (h\<lparr>status := st\<rparr>)" if "clock_of e w' q = Inr now'" for q now'
    using f frozen_at_later later_not_before[OF assms(9)] that unfolding not_before_def by simp
  have "process_collect_fees e pid accounts s w' \<noteq> Inr u"
    if a: "fees_parse e accounts = Inr a" "ai_key (cf_pool a) = ai_key p" for accounts a s u
  proof
    assume ok: "process_collect_fees e pid accounts s w' = Inr u"
    obtain now' where "clock_of e w' (cf_clock_sysvar a) = Inr now'"
      by (rule process_collect_fees_Inr[OF ok]) (use a in auto)
    with frozen_refuses_collection[OF late a(1) pool[OF a(2)]] ok show False by blast
  qed
  moreover have "process_redeem e pid accounts s amount w' \<noteq> Inr u"
    if a: "redeem_parse e accounts w' = Inr (a, h', assets)" "ai_key (rd_pool a) = ai_key p" for accounts a h' assets s amount u
  proof
    assume ok: "process_redeem e pid accounts s amount w' = Inr u"
    obtain now' where now': "clock_of e w' (rd_clock_sysvar a) = Inr now'"
      by (rule process_redeem_Inr[OF ok]) (use a in \<open>auto simp: redeem_checks_Inr\<close>)
    have "h' = h\<lparr>status := st\<rparr>" using redeem_parse_Inr[OF a(1)] pool[OF a(2)] by simp
    with frozen_refuses_redemption[OF late[OF now'] _ now'] a(1) ok show False by blast
  qed
  ultimately show ?thesis using st(1) pool[of p] by (simp add: owner_of_def) blast
qed

text \<open>The demo pool with half of everything as its fee, 17 weeks late, and a year after that.\<close>

definition demo_thawless_world :: world where
  "demo_thawless_world = demo_greedy_world(40 := demo_clock 43000000)"

lemma demo_thawless_later: "later (demo_env oc) 7 11281600 demo_greedy_world demo_thawless_world"
proof (rule later.others[OF later.here])
  show "not_before (demo_env oc) 11281600 demo_greedy_world" "not_before (demo_env oc) 11281600 demo_thawless_world"
    by (auto simp: not_before_def clock_of_def data_of_def demo_greedy_world_def demo_thawless_world_def codec_simps
        split: if_splits)
  show "keeps_owned 7 demo_greedy_world demo_thawless_world"
    by (auto simp: keeps_owned_def demo_thawless_world_def demo_greedy_world_def demo_clock_def)
qed

theorem fees_freeze_pool_witness:
  "\<exists>w w' p. read_pool_header w p = Inr demo_greedy_header \<and> later (demo_env False) 7 11281600 w w' \<and> w' \<noteq> w \<and>
    (\<forall>accounts a s u. fees_parse (demo_env False) accounts = Inr a \<and> ai_key (cf_pool a) = ai_key p \<longrightarrow>
      process_collect_fees (demo_env False) 7 accounts s w' \<noteq> Inr u)"
proof -
  have o: "owner_of demo_greedy_world (cf_pool demo_fee_record) = 7"
    by (simp add: owner_of_def demo_greedy_world_def demo_fee_record_def demo_pool_data)
  have r: "2 \<le> (17 :: nat)" "(65535 - unat (fee_ratio demo_greedy_header)) ^ 17 < 65536 ^ (17 - 1)"
    "fee_collection_period demo_greedy_header \<noteq> 0" "last_fee_collection_timestamp demo_greedy_header \<le> 11281600"
    "17 * unat (fee_collection_period demo_greedy_header) \<le>
      unat (11281600 :: u64) - unat (last_fee_collection_timestamp demo_greedy_header)"
    by (simp_all add: demo_greedy_header_def demo_header_def)
  have "acc_data (demo_thawless_world 40) \<noteq> acc_data (demo_greedy_world 40)"
    by (simp add: demo_thawless_world_def demo_greedy_world_def c64.enc_inject)
  then have "demo_thawless_world \<noteq> demo_greedy_world" by metis
  with conjunct1[OF conjunct2[OF conjunct2[OF fees_freeze_pool[OF runtime_law_demo o demo_greedy(1) r demo_thawless_later[of False]]]]]
    demo_greedy(1) demo_thawless_later[of False] show ?thesis by blast
qed

end
