(* ===== verification/Spec2Isabelle.thy ===== *)
theory Spec2Isabelle
  imports Client_Facts Freeze
begin

text \<open>
  Verification library of the bonfida-bot on-chain program (src/program/src).

  \<^bold>\<open>The program.\<close> A Solana program that keeps trading pools. A pool is one account of the program
  (header, list of Serum markets, array of asset mints), a pool token mint, and one token account
  per asset. Anyone buys pool tokens with the proportional share of every asset (\<open>process_deposit\<close>)
  and sells them back (\<open>process_redeem\<close>); fees are minted once per period
  (\<open>process_collect_fees\<close>); Serum orders of the pool are settled and cancelled
  (\<open>process_settle\<close>, \<open>process_cancel\<close>); \<open>process_init\<close> allocates and \<open>process_create\<close> fills the
  pool account. The entrypoint decodes the instruction bytes and calls one handler.

  \<^bold>\<open>Theories, in the order of the code.\<close>
  \<^item> Prelude: words for the machine integers, results with early return and panic (\<open>bind_res\<close> is
    \<open>?\<close>, \<open>unwrap_res\<close> is \<open>unwrap()\<close>), arithmetic in both build profiles (\<open>add_w oc\<close> panics on
    overflow when \<open>oc\<close>, wraps otherwise).
  \<^item> Bytes: Rust slices (get, index, copy_from_slice) and the little-endian codec, with the interface
    \<open>fixed_codec\<close> interpreted on the five widths in use.
  \<^item> Runtime: accounts as a map from keys to owner, lamports and data (two handles of one key share
    the account), the environment record \<open>env\<close> of everything that is not code of the repository, and error.rs.
  \<^item> Pool_State: state.rs (\<open>pack_header_into_slice\<close>, \<open>unpack_header_from_slice\<close>, the status byte,
    asset slots, markets). Utils: utils.rs (\<open>check_pool_key\<close>, \<open>fill_slice\<close>, \<open>pow_fixedpoint_u16\<close>).
    Instruction: the enum, \<open>unpack\<close> and \<open>pack\<close> of instruction.rs; Client: its builders.
  \<^item> Proc_Common, Proc_Init, Proc_Create, Proc_Deposit, Proc_Redeem, Proc_Fees, Proc_Orders: one
    definition per step of each handler of processor.rs (parse the accounts, check, loop, write),
    composed in the order of the source, a record for the accounts of each instruction. Dispatch:
    \<open>process_instruction\<close> and entrypoint.rs.
  \<^item> Shares: the interface \<open>proportional_share\<close> of pricing, interpreted on the buy-in and the
    buy-out amount. Demo: a concrete environment and pool in which the witnesses evaluate.
  \<^item> Deposit_Facts, Redeem_Facts, Fees_Facts, Orders_Facts, Create_Facts, Codec_Facts, Lifecycle,
    Freeze, Token_Facts, Client_Facts: the properties, each followed by its witness.

  \<^bold>\<open>What the properties show.\<close>
  \<^item> Token_Facts: under the documented behaviour of the token program (\<open>token_law\<close>), the exact
    balances and supply after a deposit, a redemption and a fee collection, as a ledger of postings
    (\<open>flow\<close>), so that accounts named several times are covered: a pool that lists one mint in two
    slots takes its share twice from a depositor and pays it out twice on redemption.
  \<^item> Lifecycle: under the ownership rule of the runtime (\<open>runtime_law\<close>), every handler (interface
    \<open>pool_handler\<close>, interpreted on each of them and on the entrypoint) moves the program's accounts along the abstract
    transitions \<open>pool_step\<close>; hence the immutable part of a live pool, what a creation
    leaves in the account, and that in every \<open>reachable\<close> state a pool is unlocked with no order
    pending.
  \<^item> The guards of every successful deposit, redemption, creation, settlement and cancellation;
    what a full redemption resets; the count of pending orders.
  \<^item> Pricing: quotes never overdraw, shares never overflow, redeeming never dilutes, buying and
    selling back is neutral, and how rounding can favour the depositor.
  \<^item> Fees: the fixed-point power \<open>pow_fixedpoint_u16\<close> refines the recursion \<open>powfx\<close> on natural
    numbers, with no overflow and an error of at most \<open>n - 1\<close> units; the timestamp advances by whole periods;
    and from a number of periods on the ratio is zero. Freeze: a pool whose fees were not collected
    for that long keeps its header up to the status in every \<open>later\<close> state, and there neither
    collections nor redemptions succeed.
  \<^item> Formats: round trips in both directions for instructions, headers, asset slots and markets,
    the classification of decoding failures, the bytes that run each handler, the wrap-around of
    slot indices, and the agreement of the client's builders with the processor: what they build
    passes every check, and only the amounts and the token program (\<open>pay_in\<close>, \<open>pay_out\<close>) decide the
    result.

  \<^bold>\<open>Faithfulness.\<close> Every early return, error and panic of the handlers is a branch. Byte offsets
  and slice bounds are those of the source. Offsets that the source computes from lengths
  (\<open>HEADER_LEN + 32 * n\<close>) are natural numbers, since the lengths are bounded by account sizes; sums and
  products of instruction arguments are words of their width. Loops recurse on the lists or
  counters they run over; the two that do not (\<open>read_amounts\<close>, \<open>pow_fixedpoint_u16\<close>) are
  functions with a termination proof, so no fuel is used.

  \<^bold>\<open>Not modelled.\<close> The Solana runtime, the SPL token program and the Serum DEX are parameters of
  the model; the borrow flags of account data, compute limits and the writable flag are not
  tracked; logging is dropped; the commented-out body of \<open>process_create_order\<close> is not code. The
  JavaScript client, the integration tests and the fuzzer are outside.
\<close>

end
